(* ===== verification/Prelude.thy ===== *)
theory Prelude
  imports Main "HOL-Library.Word" "HOL-Library.Sublist"
begin

text \<open>
  The prelude: the Go values every component of the chain uses (byte strings, decimal and
  big-endian number encodings, the string functions of the standard library), handlers that
  may return an error after having written to the store, the key-value store of a module, and
  the interfaces (codec, once-only marker, transition system) whose lemmas the component
  theories reuse through interpretations.
\<close>

section \<open>Collections of facts\<close>

named_theorems handler_simps \<open>how composed handlers evaluate and when they succeed\<close>
named_theorems codec_simps \<open>round trips and lengths of the number encodings\<close>

section \<open>Bytes, addresses and errors\<close>

text \<open>
  A Go \<^verbatim>\<open>string\<close> and a Go \<^verbatim>\<open>[]byte\<close> are both sequences of bytes, so both are
  \<^typ>\<open>char list\<close> here and the conversions between them are the identity.
  \<^verbatim>\<open>int64\<close> values on which the code only compares or divides are \<^typ>\<open>int\<close>;
  \<^verbatim>\<open>uint64\<close>, \<^verbatim>\<open>uint32\<close>, addresses and hashes are words of their width.
\<close>

type_synonym bytes = "char list"
type_synonym address = "160 word"
type_synonym hash = "256 word"
type_synonym uint256 = "256 word"
type_synonym uint64 = "64 word"
type_synonym uint32 = "32 word"

text \<open>
  An error carries the message the Go code builds (without the values it interpolates); a
  panic is an error of its own, because the transaction runner recovers it.
\<close>

datatype err = Err string | Panic string

section \<open>Handlers\<close>

text \<open>
  A handler takes a state and returns an error or a value together with the state it leaves.
  The state is returned on the error branch too: writes made before the error are visible
  there, as they are in the Go code until the transaction that contains them is discarded.
\<close>

type_synonym ('s, 'a) handler = "'s \<Rightarrow> (err + 'a) \<times> 's"

definition okE :: "'a \<Rightarrow> ('s, 'a) handler" where
  "okE x s = (Inr x, s)"

definition failE :: "err \<Rightarrow> ('s, 'a) handler" where
  "failE e s = (Inl e, s)"

definition bindE :: "('s, 'a) handler \<Rightarrow> ('a \<Rightarrow> ('s, 'b) handler) \<Rightarrow> ('s, 'b) handler" where
  "bindE m f s = (case m s of (Inl e, t) \<Rightarrow> (Inl e, t) | (Inr x, t) \<Rightarrow> f x t)"

definition thenE :: "('s, 'a) handler \<Rightarrow> ('s, 'b) handler \<Rightarrow> ('s, 'b) handler" where
  "thenE m n = bindE m (\<lambda>_. n)"

definition requireE :: "bool \<Rightarrow> err \<Rightarrow> ('s, unit) handler" where
  "requireE b e = (if b then okE () else failE e)"

definition liftE :: "err + 'a \<Rightarrow> ('s, 'a) handler" where
  "liftE r s = (r, s)"

definition getsE :: "('s \<Rightarrow> 'a) \<Rightarrow> ('s, 'a) handler" where
  "getsE f s = (Inr (f s), s)"

definition modifyE :: "('s \<Rightarrow> 's) \<Rightarrow> ('s, unit) handler" where
  "modifyE f s = (Inr (), f s)"

definition readE :: "('s \<Rightarrow> err + 'a) \<Rightarrow> ('s, 'a) handler" where
  "readE f s = (f s, s)"

text \<open>The checks that touch no state return \<^typ>\<open>err + 'a\<close>.\<close>

type_synonym 'a result = "err + 'a"

definition require :: "bool \<Rightarrow> err \<Rightarrow> unit result" where
  "require b e = (if b then Inr () else Inl e)"

definition bindR :: "'a result \<Rightarrow> ('a \<Rightarrow> 'b result) \<Rightarrow> 'b result" where
  "bindR r f = (case r of Inl e \<Rightarrow> Inl e | Inr x \<Rightarrow> f x)"

definition thenR :: "'a result \<Rightarrow> 'b result \<Rightarrow> 'b result" where
  "thenR r q = bindR r (\<lambda>_. q)"

definition of_option :: "err \<Rightarrow> 'a option \<Rightarrow> 'a result" where
  "of_option e x = (case x of None \<Rightarrow> Inl e | Some y \<Rightarrow> Inr y)"

lemma okE_eq [handler_simps]: "okE x s = (r, t) \<longleftrightarrow> r = Inr x \<and> t = s"
  by (auto simp: okE_def)

lemma failE_eq [handler_simps]: "failE e s = (r, t) \<longleftrightarrow> r = Inl e \<and> t = s"
  by (auto simp: failE_def)

lemma liftE_eq [handler_simps]: "liftE q s = (r, t) \<longleftrightarrow> r = q \<and> t = s"
  by (auto simp: liftE_def)

lemma getsE_eq [handler_simps]: "getsE f s = (r, t) \<longleftrightarrow> r = Inr (f s) \<and> t = s"
  by (auto simp: getsE_def)

lemma modifyE_eq [handler_simps]: "modifyE f s = (r, t) \<longleftrightarrow> r = Inr () \<and> t = f s"
  by (auto simp: modifyE_def)

lemma readE_eq [handler_simps]: "readE f s = (r, t) \<longleftrightarrow> r = f s \<and> t = s"
  by (auto simp: readE_def)

lemma requireE_ok [handler_simps]: "requireE b e s = (Inr x, t) \<longleftrightarrow> b \<and> t = s"
  by (auto simp: requireE_def okE_def failE_def)

lemma requireE_err [handler_simps]: "requireE b e s = (Inl x, t) \<longleftrightarrow> \<not> b \<and> x = e \<and> t = s"
  by (auto simp: requireE_def okE_def failE_def)

lemma bindE_ok [handler_simps]:
  "bindE m f s = (Inr y, t) \<longleftrightarrow> (\<exists>x u. m s = (Inr x, u) \<and> f x u = (Inr y, t))"
  by (auto simp: bindE_def split: prod.splits sum.splits)

lemma bindE_err [handler_simps]:
  "bindE m f s = (Inl e, t) \<longleftrightarrow>
     m s = (Inl e, t) \<or> (\<exists>x u. m s = (Inr x, u) \<and> f x u = (Inl e, t))"
  by (auto simp: bindE_def split: prod.splits sum.splits)

lemma thenE_ok [handler_simps]:
  "thenE m n s = (Inr y, t) \<longleftrightarrow> (\<exists>x u. m s = (Inr x, u) \<and> n u = (Inr y, t))"
  by (simp add: thenE_def bindE_ok)

lemma thenE_err [handler_simps]:
  "thenE m n s = (Inl e, t) \<longleftrightarrow>
     m s = (Inl e, t) \<or> (\<exists>x u. m s = (Inr x, u) \<and> n u = (Inl e, t))"
  by (simp add: thenE_def bindE_err)

lemma require_ok [handler_simps]: "require b e = Inr x \<longleftrightarrow> b"
  by (simp add: require_def)

lemma require_err [handler_simps]: "require b e = Inl x \<longleftrightarrow> \<not> b \<and> x = e"
  by (auto simp: require_def)

lemma bindR_ok [handler_simps]: "bindR r f = Inr y \<longleftrightarrow> (\<exists>x. r = Inr x \<and> f x = Inr y)"
  by (auto simp: bindR_def split: sum.splits)

lemma thenR_ok [handler_simps]: "thenR r q = Inr y \<longleftrightarrow> (\<exists>x. r = Inr x) \<and> q = Inr y"
  by (auto simp: thenR_def bindR_def split: sum.splits)

lemma of_option_ok [handler_simps]: "of_option e x = Inr y \<longleftrightarrow> x = Some y"
  by (auto simp: of_option_def split: option.splits)

text \<open>Evaluation on the branch that is known.\<close>

lemma run_simps [simp]:
  "okE x s = (Inr x, s)" "failE e s = (Inl e, s)" "liftE r s = (r, s)"
  "getsE f s = (Inr (f s), s)" "modifyE f s = (Inr (), f s)" "readE g s = (g s, s)"
  by (simp_all add: okE_def failE_def liftE_def getsE_def modifyE_def readE_def)

section \<open>Runs of labelled steps\<close>

text \<open>
  A component seen from outside is a relation that says which messages take which state to
  which; a run is a finite sequence of accepted messages. Rejected messages leave no trace in a
  run: the transaction that carried them is discarded.
\<close>

inductive run :: "('l \<Rightarrow> 's \<Rightarrow> 's \<Rightarrow> bool) \<Rightarrow> 's \<Rightarrow> 'l list \<Rightarrow> 's \<Rightarrow> bool"
  for step :: "'l \<Rightarrow> 's \<Rightarrow> 's \<Rightarrow> bool" where
  run_Nil: "run step s [] s"
| run_Cons: "step l s t \<Longrightarrow> run step t ls u \<Longrightarrow> run step s (l # ls) u"

inductive_cases run_NilE: "run step s [] t"
inductive_cases run_ConsE: "run step s (l # ls) t"

lemma run_append:
  "run step s ls t \<Longrightarrow> run step t ms u \<Longrightarrow> run step s (ls @ ms) u"
  by (induction rule: run.induct) (auto intro: run.intros)

lemma run_single: "step l s t \<Longrightarrow> run step s [l] t"
  by (blast intro: run.intros)

lemma run_restrict:
  "run step s ls t \<Longrightarrow> \<forall>l\<in>set ls. P l \<Longrightarrow> run (\<lambda>l s t. step l s t \<and> P l) s ls t"
  by (induction rule: run.induct) (auto intro: run.intros)

text \<open>An invariant of the steps holds along every run.\<close>

locale invariant_system =
  fixes step :: "'l \<Rightarrow> 's \<Rightarrow> 's \<Rightarrow> bool"
    and inv :: "'s \<Rightarrow> bool"
  assumes step_inv: "step l s t \<Longrightarrow> inv s \<Longrightarrow> inv t"
begin

lemma run_inv: "run step s ls t \<Longrightarrow> inv s \<Longrightarrow> inv t"
  by (induction rule: run.induct) (auto dest: step_inv)

end

text \<open>
  The contract of a replay guard: a step that consumes an identifier finds it unmarked and
  leaves it marked, and no step removes a mark. Then no run consumes an identifier twice.
\<close>

locale once_only =
  fixes step :: "'l \<Rightarrow> 's \<Rightarrow> 's \<Rightarrow> bool"
    and marked :: "'s \<Rightarrow> 'k \<Rightarrow> bool"
    and consumes :: "'l \<Rightarrow> 'k option"
  assumes consume_fresh: "step l s t \<Longrightarrow> consumes l = Some k \<Longrightarrow> \<not> marked s k"
    and consume_marks: "step l s t \<Longrightarrow> consumes l = Some k \<Longrightarrow> marked t k"
    and keeps_mark: "step l s t \<Longrightarrow> marked s k \<Longrightarrow> marked t k"

sublocale once_only \<subseteq> kept: invariant_system step "\<lambda>s. marked s k" for k
  by unfold_locales (rule keeps_mark)

context once_only begin

lemma run_not_again: "run step s ls t \<Longrightarrow> marked s k \<Longrightarrow> k \<notin> set (List.map_filter consumes ls)"
proof (induction rule: run.induct)
  case (run_Nil s)
  then show ?case by (simp add: List.map_filter_simps)
next
  case (run_Cons l s t ls u)
  then have "k \<notin> set (List.map_filter consumes ls)" by (blast dest: keeps_mark)
  moreover have "consumes l \<noteq> Some k" using run_Cons consume_fresh by blast
  ultimately show ?case by (auto simp: List.map_filter_simps split: option.split)
qed

lemma run_distinct: "run step s ls t \<Longrightarrow> distinct (List.map_filter consumes ls)"
proof (induction rule: run.induct)
  case (run_Nil s)
  then show ?case by (simp add: List.map_filter_simps)
next
  case (run_Cons l s t ls u)
  then show ?case
    by (auto simp: List.map_filter_simps split: option.split dest: consume_marks run_not_again)
qed

lemma run_consumed_marked:
  "run step s ls t \<Longrightarrow> k \<in> set (List.map_filter consumes ls) \<Longrightarrow> marked t k"
proof (induction rule: run.induct)
  case (run_Nil s)
  then show ?case by (simp add: List.map_filter_simps)
next
  case (run_Cons l s t ls u)
  then show ?case
    by (auto simp: List.map_filter_simps split: option.splits
        dest: consume_marks kept.run_inv)
qed

end

end
