(* ===== verification/Go_Values.thy ===== *)
theory Go_Values
  imports Prelude
begin

text \<open>
  The parts of the Go standard library the components use: \<^verbatim>\<open>math/big\<close> and
  \<^verbatim>\<open>encoding/binary\<close> number encodings, decimal text, \<^verbatim>\<open>encoding/hex\<close>
  and the byte-string functions of \<^verbatim>\<open>strings\<close>; the module key-value store; and the
  codec interface through which the components store numbers.
\<close>

section \<open>Numbers as big-endian bytes\<close>

definition byte_of :: "nat \<Rightarrow> char" where
  "byte_of n = char_of (n mod 256)"

definition nat_of_byte :: "char \<Rightarrow> nat" where
  "nat_of_byte c = of_char c"

lemma nat_of_byte_of [codec_simps]: "nat_of_byte (byte_of n) = n mod 256"
  by (simp add: nat_of_byte_def byte_of_def of_char_of)

lemma byte_of_nat_of_byte [codec_simps]: "byte_of (nat_of_byte c) = c"
  by (simp add: nat_of_byte_def byte_of_def)

lemma nat_of_byte_less [codec_simps]: "nat_of_byte c < 256"
  using nat_of_char_less_256 by (simp add: nat_of_byte_def)

text \<open>\<^verbatim>\<open>new(big.Int).SetBytes\<close>: the unsigned big-endian value.\<close>

definition SetBytes :: "bytes \<Rightarrow> nat" where
  "SetBytes bs = foldl (\<lambda>a c. a * 256 + nat_of_byte c) 0 bs"

lemma SetBytes_Nil [simp]: "SetBytes [] = 0"
  by (simp add: SetBytes_def)

lemma SetBytes_snoc [codec_simps]: "SetBytes (bs @ [c]) = SetBytes bs * 256 + nat_of_byte c"
  by (simp add: SetBytes_def)

text \<open>\<^verbatim>\<open>(*big.Int).Bytes\<close>: the shortest big-endian representation.\<close>

fun Bytes :: "nat \<Rightarrow> bytes" where
  "Bytes n = (if n = 0 then [] else Bytes (n div 256) @ [byte_of n])"

declare Bytes.simps [simp del]

lemma Bytes_0 [simp]: "Bytes 0 = []"
  by (subst Bytes.simps) simp

lemma Bytes_eq_Nil [codec_simps]: "Bytes n = [] \<longleftrightarrow> n = 0"
  by (subst Bytes.simps) simp

lemma SetBytes_Bytes [codec_simps]: "SetBytes (Bytes n) = n"
proof (induction n rule: Bytes.induct)
  case (1 n)
  then show ?case
    by (cases "n = 0") (simp_all add: Bytes.simps [of n] codec_simps)
qed

text \<open>\<^verbatim>\<open>binary.BigEndian.PutUint64\<close> and its kin: a fixed number of bytes.\<close>

fun be_fixed :: "nat \<Rightarrow> nat \<Rightarrow> bytes" where
  "be_fixed 0 n = []"
| "be_fixed (Suc k) n = be_fixed k (n div 256) @ [byte_of n]"

lemma length_be_fixed [simp, codec_simps]: "length (be_fixed k n) = k"
  by (induction k arbitrary: n) auto

lemma SetBytes_be_fixed [codec_simps]: "SetBytes (be_fixed k n) = n mod 256 ^ k"
proof (induction k arbitrary: n)
  case 0
  then show ?case by simp
next
  case (Suc k)
  have "n mod 256 ^ Suc k = (n div 256) mod 256 ^ k * 256 + n mod 256"
    by (simp add: mod_mult2_eq mult.commute)
  then show ?case by (simp add: Suc codec_simps)
qed

lemma be_fixed_inj: "m < 256 ^ k \<Longrightarrow> n < 256 ^ k \<Longrightarrow> be_fixed k m = be_fixed k n \<Longrightarrow> m = n"
  by (metis SetBytes_be_fixed mod_less)

definition PutUint64 :: "uint64 \<Rightarrow> bytes" where
  "PutUint64 w = be_fixed 8 (unat w)"

definition Uint64 :: "bytes \<Rightarrow> uint64" where
  "Uint64 bs = word_of_nat (SetBytes (take 8 bs))"

definition PutUint32 :: "uint32 \<Rightarrow> bytes" where
  "PutUint32 w = be_fixed 4 (unat w)"

definition Uint32 :: "bytes \<Rightarrow> uint32" where
  "Uint32 bs = word_of_nat (SetBytes (take 4 bs))"

lemma length_PutUint [simp, codec_simps]: "length (PutUint64 w) = 8" "length (PutUint32 v) = 4"
  by (simp_all add: PutUint64_def PutUint32_def)

lemma Uint64_PutUint64 [codec_simps]: "Uint64 (PutUint64 w) = w"
proof -
  have "unat w < 256 ^ 8" using unsigned_less [of w] by simp
  then show ?thesis by (simp add: Uint64_def PutUint64_def codec_simps)
qed

lemma Uint32_PutUint32 [codec_simps]: "Uint32 (PutUint32 w) = w"
proof -
  have "unat w < 256 ^ 4" using unsigned_less [of w] by simp
  then show ?thesis by (simp add: Uint32_def PutUint32_def codec_simps)
qed

section \<open>Decimal text\<close>

definition is_digit :: "char \<Rightarrow> bool" where
  "is_digit c \<longleftrightarrow> 48 \<le> nat_of_byte c \<and> nat_of_byte c \<le> 57"

definition digit_char :: "nat \<Rightarrow> char" where
  "digit_char d = byte_of (48 + d mod 10)"

text \<open>\<^verbatim>\<open>strconv.FormatUint(n, 10)\<close> and \<^verbatim>\<open>(*big.Int).String\<close>.\<close>

fun nat_dec :: "nat \<Rightarrow> string" where
  "nat_dec n = (if n < 10 then [digit_char n] else nat_dec (n div 10) @ [digit_char n])"

declare nat_dec.simps [simp del]

definition int_dec :: "int \<Rightarrow> string" where
  "int_dec i = (if i < 0 then CHR ''-'' # nat_dec (nat (- i)) else nat_dec (nat i))"

fun parse_digits :: "nat \<Rightarrow> string \<Rightarrow> nat option" where
  "parse_digits acc [] = Some acc"
| "parse_digits acc (c # cs) =
     (if is_digit c then parse_digits (acc * 10 + (nat_of_byte c - 48)) cs else None)"

definition parse_unsigned :: "string \<Rightarrow> nat option" where
  "parse_unsigned s = (if s = [] then None else parse_digits 0 s)"

text \<open>\<^verbatim>\<open>new(big.Int).SetString(s, 10)\<close>: an optional sign, then one or more digits.\<close>

definition SetString10 :: "string \<Rightarrow> int option" where
  "SetString10 s = (case s of
       [] \<Rightarrow> None
     | c # cs \<Rightarrow>
         if c = CHR ''-'' then map_option (\<lambda>n. - int n) (parse_unsigned cs)
         else if c = CHR ''+'' then map_option int (parse_unsigned cs)
         else map_option int (parse_unsigned s))"

lemma is_digit_digit_char [codec_simps]: "is_digit (digit_char d)"
  by (simp add: is_digit_def digit_char_def codec_simps)

lemma nat_of_byte_digit_char [codec_simps]: "nat_of_byte (digit_char d) = 48 + d mod 10"
  by (simp add: digit_char_def codec_simps)

lemma nat_dec_neq_Nil [simp]: "nat_dec n \<noteq> []"
  by (subst nat_dec.simps) simp

lemma nat_dec_digits: "list_all is_digit (nat_dec n)"
proof (induction n rule: nat_dec.induct)
  case (1 n)
  then show ?case by (cases "n < 10") (simp_all add: nat_dec.simps [of n] codec_simps)
qed

lemma parse_digits_append:
  "parse_digits acc (xs @ ys) = Option.bind (parse_digits acc xs) (\<lambda>a. parse_digits a ys)"
  by (induction xs arbitrary: acc) auto

lemma parse_digits_nat_dec: "parse_digits 0 (nat_dec n) = Some n"
proof (induction n rule: nat_dec.induct)
  case (1 n)
  then show ?case
    by (cases "n < 10") (simp_all add: nat_dec.simps [of n] parse_digits_append codec_simps)
qed

lemma parse_digits_is_digits: "parse_digits acc s = Some n \<Longrightarrow> list_all is_digit s"
  by (induction s arbitrary: acc) (auto split: if_splits)

lemma sign_not_digit [simp]: "\<not> is_digit CHR ''-''" "\<not> is_digit CHR ''+''" "\<not> is_digit CHR 0x00"
  by (simp_all add: is_digit_def nat_of_byte_def)

lemma hd_nat_dec_digit: "is_digit (hd (nat_dec n))"
  using nat_dec_digits [of n] by (cases "nat_dec n") auto

lemma SetString10_digits:
  assumes "s \<noteq> []" "is_digit (hd s)"
  shows "SetString10 s = map_option int (parse_digits 0 s)"
  using assms by (cases s) (auto simp: SetString10_def parse_unsigned_def)

lemma SetString10_nat_dec: "SetString10 (nat_dec n) = Some (int n)"
  using SetString10_digits [OF nat_dec_neq_Nil hd_nat_dec_digit] by (simp add: parse_digits_nat_dec)

lemma SetString10_int_dec [codec_simps]: "SetString10 (int_dec i) = Some i"
proof (cases "i < 0")
  case True
  then show ?thesis
    by (simp add: int_dec_def SetString10_def parse_unsigned_def parse_digits_nat_dec)
next
  case False
  then show ?thesis by (simp add: int_dec_def SetString10_nat_dec)
qed

lemma nat_dec_inj [simp]: "nat_dec m = nat_dec n \<longleftrightarrow> m = n"
  by (metis parse_digits_nat_dec option.inject)

lemma int_dec_inj [simp]: "int_dec i = int_dec j \<longleftrightarrow> i = j"
  by (metis SetString10_int_dec option.inject)

section \<open>Hexadecimal text\<close>

definition hex_val :: "char \<Rightarrow> nat option" where
  "hex_val c = (let n = nat_of_byte c in
     if 48 \<le> n \<and> n \<le> 57 then Some (n - 48)
     else if 97 \<le> n \<and> n \<le> 102 then Some (n - 87)
     else if 65 \<le> n \<and> n \<le> 70 then Some (n - 55)
     else None)"

definition hex_char :: "nat \<Rightarrow> char" where
  "hex_char d = byte_of (if d mod 16 < 10 then 48 + d mod 16 else 87 + d mod 16)"

text \<open>\<^verbatim>\<open>hex.DecodeString\<close> (\<^const>\<open>None\<close> is its error) and \<^verbatim>\<open>hex.EncodeToString\<close>.\<close>

fun hex_decode :: "string \<Rightarrow> bytes option" where
  "hex_decode [] = Some []"
| "hex_decode [_] = None"
| "hex_decode (a # b # cs) =
     (case (hex_val a, hex_val b, hex_decode cs) of
        (Some x, Some y, Some r) \<Rightarrow> Some (byte_of (x * 16 + y) # r)
      | _ \<Rightarrow> None)"

fun hex_encode :: "bytes \<Rightarrow> string" where
  "hex_encode [] = []"
| "hex_encode (c # cs) = hex_char (nat_of_byte c div 16) # hex_char (nat_of_byte c mod 16) # hex_encode cs"

lemma hex_val_hex_char [codec_simps]: "hex_val (hex_char d) = Some (d mod 16)"
proof -
  have "d mod 16 < 16" by simp
  then show ?thesis
    by (auto simp: hex_val_def hex_char_def codec_simps Let_def)
qed

lemma hex_decode_encode [codec_simps]: "hex_decode (hex_encode bs) = Some bs"
proof (induction bs)
  case Nil
  then show ?case by simp
next
  case (Cons c cs)
  have "nat_of_byte c div 16 < 16" using nat_of_byte_less [of c] by simp
  then have "nat_of_byte c div 16 mod 16 * 16 + nat_of_byte c mod 16 mod 16 = nat_of_byte c"
    by simp
  then show ?case using Cons by (simp add: codec_simps)
qed

lemma length_hex_encode [codec_simps]: "length (hex_encode bs) = 2 * length bs"
  by (induction bs) auto

section \<open>Byte-string functions of the strings package\<close>

text \<open>
  \<^verbatim>\<open>strings.TrimSpace\<close> strips the UTF-8 encodings of the white-space code points from both
  ends; the encodings are listed here, ASCII ones first.
\<close>

definition space_runes :: "string list" where
  "space_runes =
     [[CHR 0x09], [CHR 0x0A], [CHR 0x0B], [CHR 0x0C], [CHR 0x0D], [CHR 0x20],
      [CHR 0xC2, CHR 0x85], [CHR 0xC2, CHR 0xA0], [CHR 0xE1, CHR 0x9A, CHR 0x80]]
     @ map (\<lambda>n. [CHR 0xE2, CHR 0x80, byte_of n]) [128..<139]
     @ [[CHR 0xE2, CHR 0x80, CHR 0xA8], [CHR 0xE2, CHR 0x80, CHR 0xA9],
        [CHR 0xE2, CHR 0x80, CHR 0xAF], [CHR 0xE2, CHR 0x81, CHR 0x9F],
        [CHR 0xE3, CHR 0x80, CHR 0x80]]"

definition HasPrefix :: "string \<Rightarrow> string \<Rightarrow> bool" where
  "HasPrefix s p \<longleftrightarrow> take (length p) s = p"

function strip_left :: "string list \<Rightarrow> string \<Rightarrow> string" where
  "strip_left ps s =
     (case find (\<lambda>p. p \<noteq> [] \<and> HasPrefix s p) ps of
        None \<Rightarrow> s
      | Some p \<Rightarrow> strip_left ps (drop (length p) s))"
  by pat_completeness auto
termination
proof (relation "measure (\<lambda>(ps, s). length s)")
  fix ps :: "string list" and s p :: string
  assume "find (\<lambda>p. p \<noteq> [] \<and> HasPrefix s p) ps = Some p"
  then have "p \<noteq> []" "HasPrefix s p" by (auto simp: find_Some_iff)
  then have "s \<noteq> []" by (auto simp: HasPrefix_def)
  with \<open>p \<noteq> []\<close> show "((ps, drop (length p) s), (ps, s)) \<in> measure (\<lambda>(ps, s). length s)"
    by simp
qed simp

declare strip_left.simps [simp del]

definition TrimSpace :: "string \<Rightarrow> string" where
  "TrimSpace s = rev (strip_left (map rev space_runes) (rev (strip_left space_runes s)))"

text \<open>A string of printable ASCII characters without spaces is left as it is.\<close>

definition plain_char :: "char \<Rightarrow> bool" where
  "plain_char c \<longleftrightarrow> 32 < nat_of_byte c \<and> nat_of_byte c < 127"

lemma strip_left_id: "\<forall>p\<in>set ps. p \<noteq> [] \<longrightarrow> \<not> HasPrefix s p \<Longrightarrow> strip_left ps s = s"
proof -
  assume "\<forall>p\<in>set ps. p \<noteq> [] \<longrightarrow> \<not> HasPrefix s p"
  then have "find (\<lambda>p. p \<noteq> [] \<and> HasPrefix s p) ps = None"
    by (auto simp: find_None_iff)
  then show ?thesis by (subst strip_left.simps) simp
qed

lemma space_runes_not_plain: "\<forall>p\<in>set space_runes. p \<noteq> [] \<and> list_all (\<lambda>c. \<not> plain_char c) p"
  by (auto simp: space_runes_def plain_char_def nat_of_byte_def byte_of_def of_char_of)

lemma plain_no_prefix:
  assumes "list_all plain_char s" "p \<noteq> []" "list_all (\<lambda>c. \<not> plain_char c) p"
  shows "\<not> HasPrefix s p"
proof
  assume "HasPrefix s p"
  then have "hd p \<in> set s" using assms(2)
    by (metis HasPrefix_def hd_in_set in_set_takeD)
  then show False using assms by (metis hd_in_set list_all_iff)
qed

lemma TrimSpace_plain: "list_all plain_char s \<Longrightarrow> TrimSpace s = s"
proof -
  assume p: "list_all plain_char s"
  have "strip_left space_runes s = s"
    using space_runes_not_plain plain_no_prefix [OF p] by (auto intro!: strip_left_id)
  moreover have "strip_left (map rev space_runes) (rev s) = rev s"
    using space_runes_not_plain plain_no_prefix [of "rev s"] p
    by (auto intro!: strip_left_id simp: list_all_iff)
  ultimately show ?thesis by (simp add: TrimSpace_def)
qed

definition TrimPrefix :: "string \<Rightarrow> string \<Rightarrow> string" where
  "TrimPrefix s p = (if HasPrefix s p then drop (length p) s else s)"

definition is_ascii :: "string \<Rightarrow> bool" where
  "is_ascii s \<longleftrightarrow> list_all (\<lambda>c. nat_of_byte c < 128) s"

definition lower_char :: "char \<Rightarrow> char" where
  "lower_char c = (if 65 \<le> nat_of_byte c \<and> nat_of_byte c \<le> 90 then byte_of (nat_of_byte c + 32) else c)"

text \<open>
  The case tables of package \<^verbatim>\<open>unicode\<close> beyond ASCII are parameters: what
  \<^verbatim>\<open>strings.ToLower\<close> and \<^verbatim>\<open>strings.EqualFold\<close> do with a string that has a
  byte above 127, and whether every rune of such a string is a lower-case letter, a digit, a
  hyphen or an underscore.
\<close>

record unicode =
  u_ToLower :: "string \<Rightarrow> string"
  u_EqualFold :: "string \<Rightarrow> string \<Rightarrow> bool"
  u_route_runes :: "string \<Rightarrow> bool"

definition ToLower :: "unicode \<Rightarrow> string \<Rightarrow> string" where
  "ToLower u s = (if is_ascii s then map lower_char s else u_ToLower u s)"

definition EqualFold :: "unicode \<Rightarrow> string \<Rightarrow> string \<Rightarrow> bool" where
  "EqualFold u s t =
     (if is_ascii s \<and> is_ascii t then map lower_char s = map lower_char t else u_EqualFold u s t)"

text \<open>\<^verbatim>\<open>strings.Join\<close> with a separator of one byte.\<close>

fun Join :: "string list \<Rightarrow> char \<Rightarrow> string" where
  "Join [] sep = []"
| "Join [x] sep = x"
| "Join (x # y # xs) sep = x @ sep # Join (y # xs) sep"

lemma append_sep_inj:
  assumes "sep \<notin> set x" "sep \<notin> set y" "x @ sep # r = y @ sep # q"
  shows "x = y \<and> r = q"
proof -
  have "takeWhile (\<lambda>c. c \<noteq> sep) (x @ sep # r) = x" "takeWhile (\<lambda>c. c \<noteq> sep) (y @ sep # q) = y"
    using assms(1,2) by (auto simp: takeWhile_append)
  then show ?thesis using assms(3) by (metis append_eq_append_conv list.inject)
qed

lemma Join_inj:
  assumes "length xs = length ys"
    and "list_all (\<lambda>x. sep \<notin> set x) xs" "list_all (\<lambda>y. sep \<notin> set y) ys"
    and "Join xs sep = Join ys sep"
  shows "xs = ys"
  using assms
proof (induction xs sep arbitrary: ys rule: Join.induct)
  case (1 sep)
  then show ?case by simp
next
  case (2 x sep)
  then show ?case by (cases ys rule: remdups_adj.cases) auto
next
  case (3 x x' xs sep)
  then obtain y y' zs where ys: "ys = y # y' # zs"
    by (metis length_Suc_conv length_Cons)
  have "x = y \<and> Join (x' # xs) sep = Join (y' # zs) sep"
    using "3.prems" append_sep_inj [of sep x y] by (simp add: ys)
  then show ?case using "3.IH" [of "y' # zs"] "3.prems" by (simp add: ys)
qed

section \<open>The key-value store of a module\<close>

text \<open>
  \<^verbatim>\<open>ctx.KVStore(key)\<close>: \<^verbatim>\<open>Get\<close> of an absent key is the empty slice.
\<close>

type_synonym kv = "bytes \<rightharpoonup> bytes"

definition kv_get :: "kv \<Rightarrow> bytes \<Rightarrow> bytes" where
  "kv_get m k = (case m k of None \<Rightarrow> [] | Some v \<Rightarrow> v)"

definition kv_has :: "kv \<Rightarrow> bytes \<Rightarrow> bool" where
  "kv_has m k \<longleftrightarrow> m k \<noteq> None"

definition kv_set :: "bytes \<Rightarrow> bytes \<Rightarrow> kv \<Rightarrow> kv" where
  "kv_set k v m = m(k \<mapsto> v)"

definition kv_delete :: "bytes \<Rightarrow> kv \<Rightarrow> kv" where
  "kv_delete k m = m(k := None)"

lemma kv_get_set [simp]: "kv_get (kv_set k v m) j = (if j = k then v else kv_get m j)"
  by (simp add: kv_get_def kv_set_def)

lemma kv_get_delete [simp]: "kv_get (kv_delete k m) j = (if j = k then [] else kv_get m j)"
  by (simp add: kv_get_def kv_delete_def)

lemma kv_has_set [simp]: "kv_has (kv_set k v m) j \<longleftrightarrow> j = k \<or> kv_has m j"
  by (simp add: kv_has_def kv_set_def)

lemma kv_has_delete [simp]: "kv_has (kv_delete k m) j \<longleftrightarrow> j \<noteq> k \<and> kv_has m j"
  by (simp add: kv_has_def kv_delete_def)

text \<open>
  A typed cell of the store: a value written at the cell's key with its encoder is read back by
  its decoder, whatever is written at other keys in between.
\<close>

locale kv_cell =
  fixes enc :: "'a \<Rightarrow> bytes" and dec :: "bytes \<Rightarrow> 'a" and wf :: "'a \<Rightarrow> bool"
  assumes dec_enc: "wf x \<Longrightarrow> dec (enc x) = x"
begin

lemma load_store: "wf x \<Longrightarrow> dec (kv_get (kv_set k (enc x) m) k) = x"
  by (simp add: dec_enc)

lemma load_store_other:
  "wf x \<Longrightarrow> j \<noteq> k \<Longrightarrow> dec (kv_get (kv_set j v (kv_set k (enc x) m)) k) = x"
  by (auto simp: dec_enc)

lemma enc_inj: "wf x \<Longrightarrow> wf y \<Longrightarrow> enc x = enc y \<Longrightarrow> x = y"
  by (metis dec_enc)

end

interpretation u64_cell: kv_cell PutUint64 Uint64 "\<lambda>_. True"
  by unfold_locales (rule Uint64_PutUint64)

interpretation u32_cell: kv_cell PutUint32 Uint32 "\<lambda>_. True"
  by unfold_locales (rule Uint32_PutUint32)

interpretation big_cell: kv_cell Bytes SetBytes "\<lambda>_. True"
  by unfold_locales (rule SetBytes_Bytes)

interpretation dec_cell: kv_cell "\<lambda>i. int_dec i" "\<lambda>s. the (SetString10 s)" "\<lambda>_. True"
  by unfold_locales (simp add: codec_simps)

section \<open>Integer division and the bounded integers of the SDK\<close>

text \<open>Go's integer division truncates towards zero.\<close>

definition go_div :: "int \<Rightarrow> int \<Rightarrow> int" where
  "go_div a b = sgn a * sgn b * (\<bar>a\<bar> div \<bar>b\<bar>)"

lemma go_div_nonneg: "0 \<le> a \<Longrightarrow> 0 < b \<Longrightarrow> go_div a b = a div b"
  by (cases "a = 0") (auto simp: go_div_def)

text \<open>
  An \<^verbatim>\<open>sdkmath.Int\<close> is an integer of at most 256 bits; arithmetic that leaves the range
  panics.
\<close>

definition int_ok :: "int \<Rightarrow> bool" where
  "int_ok i \<longleftrightarrow> \<bar>i\<bar> < 2 ^ 256"

definition sdk_int :: "int \<Rightarrow> int result" where
  "sdk_int i = (if int_ok i then Inr i else Inl (Panic ''Int overflow''))"

lemma sdk_int_ok [handler_simps]: "sdk_int i = Inr j \<longleftrightarrow> int_ok i \<and> j = i"
  by (auto simp: sdk_int_def)

section \<open>Binary search\<close>

text \<open>\<^verbatim>\<open>sort.Search(n, f)\<close>, the loop of the standard library.\<close>

function search_loop :: "nat \<Rightarrow> nat \<Rightarrow> (nat \<Rightarrow> bool) \<Rightarrow> nat" where
  "search_loop i j f =
     (if i < j
      then (let h = (i + j) div 2 in if \<not> f h then search_loop (h + 1) j f else search_loop i h f)
      else i)"
  by pat_completeness auto

termination
  by (relation "measure (\<lambda>(i, j, f). j - i)") auto

declare search_loop.simps [simp del]

definition Search :: "nat \<Rightarrow> (nat \<Rightarrow> bool) \<Rightarrow> nat" where
  "Search n f = search_loop 0 n f"

text \<open>On a monotone predicate the loop finds the first index at which it holds.\<close>

lemma search_loop_correct:
  assumes "\<forall>a b. a \<le> b \<longrightarrow> b < n \<longrightarrow> f a \<longrightarrow> f b"
    and "i \<le> j" "\<forall>k<i. \<not> f k" "\<forall>k\<ge>j. k < n \<longrightarrow> f k" "j \<le> n"
  shows "search_loop i j f \<le> n \<and> (\<forall>k. k < search_loop i j f \<longrightarrow> \<not> f k) \<and>
    (search_loop i j f < n \<longrightarrow> f (search_loop i j f))"
  using assms
proof (induction i j f rule: search_loop.induct)
  case (1 i j f)
  show ?case
  proof (cases "i < j")
    case True
    let ?h = "(i + j) div 2"
    show ?thesis
    proof (cases "f ?h")
      case True
      then have "\<forall>k\<ge>?h. k < n \<longrightarrow> f k" using "1.prems"(1) by blast
      moreover have "search_loop i j f = search_loop i ?h f"
        using True \<open>i < j\<close> by (subst search_loop.simps) (simp add: Let_def)
      moreover have "i \<le> ?h" "?h \<le> n" using \<open>i < j\<close> "1.prems"(5) by linarith+
      ultimately show ?thesis
        using "1.IH"(2) [OF \<open>i < j\<close> refl _ "1.prems"(1) _ "1.prems"(3)] True by simp
    next
      case False
      then have "\<not> f k" if "k < ?h + 1" for k using "1.prems"(1) [rule_format, of k ?h] "1.prems"(5) \<open>i < j\<close> that by linarith
      then have "\<forall>k<?h + 1. \<not> f k" by blast
      moreover have "search_loop i j f = search_loop (?h + 1) j f"
        using False \<open>i < j\<close> by (subst search_loop.simps) (simp add: Let_def)
      moreover have "?h + 1 \<le> j" using \<open>i < j\<close> by linarith
      ultimately show ?thesis
        using "1.IH"(1) [OF \<open>i < j\<close> refl _ "1.prems"(1) _ _ "1.prems"(4,5)] False by simp
    qed
  next
    case False
    then have "search_loop i j f = i" by (subst search_loop.simps) simp
    then show ?thesis using False "1.prems" by auto
  qed
qed

lemma Search_correct:
  assumes "\<And>a b. a \<le> b \<Longrightarrow> b < n \<Longrightarrow> f a \<Longrightarrow> f b"
  shows "Search n f \<le> n" "k < Search n f \<Longrightarrow> \<not> f k" "Search n f < n \<Longrightarrow> f (Search n f)"
proof -
  have "\<forall>a b. a \<le> b \<longrightarrow> b < n \<longrightarrow> f a \<longrightarrow> f b" using assms by blast
  from search_loop_correct [OF this, of 0 n]
  show "Search n f \<le> n" "k < Search n f \<Longrightarrow> \<not> f k" "Search n f < n \<Longrightarrow> f (Search n f)"
    unfolding Search_def by simp_all
qed

end
