(* ===== verification/Bridge_Types.thy ===== *)
theory Bridge_Types
  imports Go_Values
begin

text \<open>
  The data and the pure checks of the bridge module (\<^verbatim>\<open>src/x/bridge/types\<close>): attestations,
  route configurations, control and guardian actions, their identifiers and digests, the
  2-of-3 signature checks, the messages and their \<^verbatim>\<open>ValidateBasic\<close>, the parser of attestation
  identifiers and the genesis state.
\<close>

section \<open>Data\<close>

definition MaxBridgeSigners :: nat where "MaxBridgeSigners = 3"
definition RequiredApprovals :: nat where "RequiredApprovals = 2"
definition maxRouteIDLength :: nat where "maxRouteIDLength = 96"
definition maxDestinationLen :: nat where "maxDestinationLen = 256"

definition DirectionCronosToXitcoin :: string where
  "DirectionCronosToXitcoin = ''cronos_to_xitcoin''"
definition DirectionXitcoinToCronos :: string where
  "DirectionXitcoinToCronos = ''xitcoin_to_cronos''"

definition ControlDomain :: string where
  "ControlDomain = ''xitcoin-bridge-testnet-control-v1''"
definition GuardianPauseDomain :: string where
  "GuardianPauseDomain = ''xitcoin-bridge-testnet-guardian-pause-v1''"
definition SigningDomain :: string where
  "SigningDomain = ''xitcoin-bridge-testnet-attestation-v1''"

definition ActionUpdateRouteConfig :: string where
  "ActionUpdateRouteConfig = ''update_route_config''"
definition ActionPauseRoute :: string where "ActionPauseRoute = ''pause_route''"
definition ActionResumeRoute :: string where "ActionResumeRoute = ''resume_route''"
definition ActionCloseRoute :: string where "ActionCloseRoute = ''close_route''"

record Attestation =
  att_RouteID :: string
  att_Direction :: string
  att_SourceChainID :: string
  att_SourceRef :: string
  att_Nonce :: uint64
  att_Destination :: string
  att_Amount :: string
  att_DeadlineUnix :: int

record RouteConfig =
  cfg_RouteID :: string
  cfg_BridgeSigners :: "string list"
  cfg_Guardian :: string
  cfg_MaxTransferAmount :: string
  cfg_DailyLimit :: string
  cfg_MaxOutstandingAmount :: string
  cfg_Enabled :: bool

record ControlAction =
  ctl_RouteID :: string
  ctl_Action :: string
  ctl_PayloadHash :: string
  ctl_Nonce :: uint64
  ctl_NotBeforeUnix :: int
  ctl_ExpiresUnix :: int

record GuardianPauseAction =
  gpa_RouteID :: string
  gpa_Nonce :: uint64
  gpa_ExpiresUnix :: int

text \<open>\<^verbatim>\<open>RouteState\<close> of the keeper; its only field is the pause flag.\<close>

record RouteState =
  Paused :: bool

section \<open>Code outside the repository\<close>

text \<open>
  Functions of go-ethereum (addresses, hashes, signature recovery), of the Cosmos SDK
  (bech32, \<^verbatim>\<open>sdkmath.NewIntFromString\<close>, \<^verbatim>\<open>sdk.ValidateAuthority\<close>), the hash function
  and the JSON codec are parameters. Every definition that uses one takes the record.
  \<^verbatim>\<open>Sha256\<close> is left open on purpose: the theorems hold for every function in its place.
\<close>

record bridge_env =
  env_unicode :: unicode
  IsHexAddress :: "string \<Rightarrow> bool"
  HexToAddress :: "string \<Rightarrow> address"
  AddressHex :: "address \<Rightarrow> string"
  IsHexHash :: "string \<Rightarrow> bool"
  HashHex :: "bytes \<Rightarrow> string"
  Keccak256Hash :: "bytes \<Rightarrow> bytes"
  Sha256 :: "bytes \<Rightarrow> bytes"
  ValidateSignatureValues :: "nat \<Rightarrow> nat \<Rightarrow> nat \<Rightarrow> bool"
  SigToPub :: "bytes \<Rightarrow> bytes \<Rightarrow> bytes result"
  PubkeyToAddress :: "bytes \<Rightarrow> address"
  AccAddressFromBech32 :: "string \<Rightarrow> bytes result"
  AccString :: "bytes \<Rightarrow> string"
  ValidateAuthority :: "string \<Rightarrow> string \<Rightarrow> unit result"
  ValidateDenom :: "string \<Rightarrow> unit result"
  NewIntFromString :: "string \<Rightarrow> int option"
  MarshalConfig :: "RouteConfig \<Rightarrow> bytes"
  UnmarshalConfig :: "bytes \<Rightarrow> RouteConfig result"
  UnmarshalState :: "bytes \<Rightarrow> RouteState result"

section \<open>Attestations\<close>

definition route_char :: "char \<Rightarrow> bool" where
  "route_char c \<longleftrightarrow> (97 \<le> nat_of_byte c \<and> nat_of_byte c \<le> 122) \<or> is_digit c \<or> c = CHR ''-'' \<or> c = CHR ''_''"

definition validRouteID :: "bridge_env \<Rightarrow> string \<Rightarrow> bool" where
  "validRouteID env routeID =
     (if routeID = [] \<or> maxRouteIDLength < length routeID then False
      else if is_ascii routeID then list_all route_char routeID
      else u_route_runes (env_unicode env) routeID)"

definition normalizeHexReference :: "bridge_env \<Rightarrow> string \<Rightarrow> string" where
  "normalizeHexReference env reference =
     TrimPrefix (ToLower (env_unicode env) (TrimSpace reference)) ''0x''"

definition validHexReference :: "bridge_env \<Rightarrow> string \<Rightarrow> bool" where
  "validHexReference env reference =
     (let normalized = normalizeHexReference env reference in
      if length normalized \<noteq> 64 then False else hex_decode normalized \<noteq> None)"

definition positiveAmount :: "string \<Rightarrow> bool" where
  "positiveAmount value = (case SetString10 value of None \<Rightarrow> False | Some amount \<Rightarrow> 0 < amount)"

definition Attestation_Validate :: "bridge_env \<Rightarrow> Attestation \<Rightarrow> unit result" where
  "Attestation_Validate env a =
     thenR (require (validRouteID env (att_RouteID a)) (Err ''invalid route ID'')) (
     thenR (require (att_Direction a = DirectionCronosToXitcoin \<or> att_Direction a = DirectionXitcoinToCronos)
              (Err ''invalid bridge direction'')) (
     thenR (require (TrimSpace (att_SourceChainID a) \<noteq> []) (Err ''source chain ID is required'')) (
     thenR (require (validHexReference env (att_SourceRef a))
              (Err ''source reference must be a 32-byte hexadecimal transaction identifier'')) (
     thenR (require (att_Nonce a \<noteq> 0) (Err ''nonce must be greater than zero'')) (
     thenR (require (TrimSpace (att_Destination a) \<noteq> [] \<and> length (TrimSpace (att_Destination a)) \<le> maxDestinationLen)
              (Err ''invalid destination'')) (
     thenR (require (positiveAmount (att_Amount a)) (Err ''amount must be a positive integer in atomic units'')) (
     require (0 < att_DeadlineUnix a) (Err ''deadline is required''))))))))"

definition att_fields :: "bridge_env \<Rightarrow> Attestation \<Rightarrow> string list" where
  "att_fields env a =
     [att_RouteID a, att_Direction a, att_SourceChainID a, normalizeHexReference env (att_SourceRef a),
      nat_dec (unat (att_Nonce a)), TrimSpace (att_Destination a), att_Amount a,
      int_dec (att_DeadlineUnix a)]"

definition Attestation_ID :: "bridge_env \<Rightarrow> Attestation \<Rightarrow> bytes result" where
  "Attestation_ID env a =
     thenR (Attestation_Validate env a) (Inr (Sha256 env (Join (att_fields env a) (CHR 0x00))))"

definition ErrAttestationExpired :: err where
  "ErrAttestationExpired = Err ''bridge attestation expired''"

definition ValidateAt :: "bridge_env \<Rightarrow> Attestation \<Rightarrow> int \<Rightarrow> unit result" where
  "ValidateAt env a unixTime =
     thenR (Attestation_Validate env a) (require (unixTime \<le> att_DeadlineUnix a) ErrAttestationExpired)"

fun approvalLoop :: "bridge_env \<Rightarrow> string list \<Rightarrow> string list \<Rightarrow> unit result" where
  "approvalLoop env seen [] = Inr ()"
| "approvalLoop env seen (signerID # rest) =
     (let normalized = ToLower (env_unicode env) (TrimSpace signerID) in
      if normalized = [] \<or> 128 < length normalized then Inl (Err ''invalid signer ID'')
      else if normalized \<in> set seen then Inl (Err ''duplicate signer approval'')
      else approvalLoop env (normalized # seen) rest)"

definition ValidateApprovalSet :: "bridge_env \<Rightarrow> string list \<Rightarrow> unit result" where
  "ValidateApprovalSet env signerIDs =
     thenR (require (RequiredApprovals \<le> length signerIDs \<and> length signerIDs \<le> MaxBridgeSigners)
              (Err ''approval count must be between 2 and 3''))
       (approvalLoop env [] signerIDs)"

section \<open>Signatures\<close>

fun signerLoop :: "bridge_env \<Rightarrow> address list \<Rightarrow> string list \<Rightarrow> address list result" where
  "signerLoop env allowed [] = Inr allowed"
| "signerLoop env allowed (signer # rest) =
     (if \<not> IsHexAddress env (TrimSpace signer) then Inl (Err ''invalid configured bridge signer'')
      else if HexToAddress env signer \<in> set allowed then Inl (Err ''duplicate configured bridge signer'')
      else signerLoop env (allowed @ [HexToAddress env signer]) rest)"

definition configuredSigners :: "bridge_env \<Rightarrow> string list \<Rightarrow> address list result" where
  "configuredSigners env signers =
     thenR (require (length signers = MaxBridgeSigners) (Err ''exactly 3 bridge signers are required''))
       (signerLoop env [] signers)"

definition SignatureLength :: nat where "SignatureLength = 65"

definition recoverSigner :: "bridge_env \<Rightarrow> bytes \<Rightarrow> bytes \<Rightarrow> address result" where
  "recoverSigner env digest signature =
     (if length signature \<noteq> SignatureLength then Inl (Err ''invalid signature length'')
      else let v0 = nat_of_byte (signature ! 64);
               v = (if v0 = 27 \<or> v0 = 28 then v0 - 27 else v0);
               sig = signature[64 := byte_of v] in
        if 1 < v then Inl (Err ''invalid signature recovery ID'')
        else if \<not> ValidateSignatureValues env v (SetBytes (take 32 sig)) (SetBytes (take 32 (drop 32 sig)))
        then Inl (Err ''invalid signature values'')
        else case SigToPub env digest sig of
               Inl e \<Rightarrow> Inl (Err ''recover signer'')
             | Inr pub \<Rightarrow> Inr (PubkeyToAddress env pub))"

text \<open>
  The loop that both \<^verbatim>\<open>VerifyApprovals\<close> and \<^verbatim>\<open>VerifyControlApprovals\<close> run over the
  signatures; \<^verbatim>\<open>seen\<close> holds the same addresses as \<^verbatim>\<open>recovered\<close>.
\<close>

fun recoverLoop ::
  "bridge_env \<Rightarrow> bytes \<Rightarrow> address list \<Rightarrow> address list \<Rightarrow> bytes list \<Rightarrow> address list result" where
  "recoverLoop env digest allowed recovered [] = Inr recovered"
| "recoverLoop env digest allowed recovered (signature # rest) =
     (case recoverSigner env digest signature of
        Inl e \<Rightarrow> Inl e
      | Inr addr \<Rightarrow>
          if addr \<notin> set allowed then Inl (Err ''approval is not from a configured bridge signer'')
          else if addr \<in> set recovered then Inl (Err ''duplicate signer approval'')
          else recoverLoop env digest allowed (recovered @ [addr]) rest)"

definition SigningDigest :: "bridge_env \<Rightarrow> Attestation \<Rightarrow> bytes result" where
  "SigningDigest env attestation =
     bindR (Attestation_ID env attestation) (\<lambda>i. Inr (Keccak256Hash env (SigningDomain @ i)))"

definition VerifyApprovals ::
  "bridge_env \<Rightarrow> Attestation \<Rightarrow> string list \<Rightarrow> bytes list \<Rightarrow> address list result" where
  "VerifyApprovals env attestation bridgeSigners signatures =
     bindR (configuredSigners env bridgeSigners) (\<lambda>allowed.
     thenR (require (RequiredApprovals \<le> length signatures \<and> length signatures \<le> MaxBridgeSigners)
              (Err ''signature count must be between 2 and 3'')) (
     bindR (SigningDigest env attestation) (\<lambda>digest.
       recoverLoop env digest allowed [] signatures)))"

section \<open>Route configuration\<close>

definition RouteConfig_Validate :: "bridge_env \<Rightarrow> RouteConfig \<Rightarrow> unit result" where
  "RouteConfig_Validate env c =
     thenR (require (validRouteID env (cfg_RouteID c)) (Err ''invalid route ID'')) (
     thenR (configuredSigners env (cfg_BridgeSigners c)) (
     thenR (require (IsHexAddress env (TrimSpace (cfg_Guardian c))) (Err ''invalid bridge guardian'')) (
     thenR (require (list_all (\<lambda>signer. HexToAddress env (cfg_Guardian c) \<noteq> HexToAddress env signer)
                       (cfg_BridgeSigners c))
              (Err ''bridge guardian must use a distinct address'')) (
     thenR (require (positiveAmount (cfg_MaxTransferAmount c)) (Err ''max transfer amount must be positive'')) (
     thenR (require (positiveAmount (cfg_DailyLimit c)) (Err ''daily limit must be positive'')) (
     require (positiveAmount (cfg_MaxOutstandingAmount c)) (Err ''max outstanding amount must be positive'')))))))"

definition RouteConfigPayloadHash :: "bridge_env \<Rightarrow> RouteConfig \<Rightarrow> bytes result" where
  "RouteConfigPayloadHash env config =
     thenR (RouteConfig_Validate env config) (Inr (Sha256 env (MarshalConfig env config)))"

section \<open>Control actions and guardian pauses\<close>

definition ControlAction_Validate :: "bridge_env \<Rightarrow> ControlAction \<Rightarrow> unit result" where
  "ControlAction_Validate env a =
     thenR (require (validRouteID env (ctl_RouteID a)) (Err ''invalid route ID'')) (
     thenR (require (ctl_Action a \<in> {ActionUpdateRouteConfig, ActionPauseRoute, ActionResumeRoute, ActionCloseRoute})
              (Err ''invalid bridge control action'')) (
     thenR (require (IsHexHash env (TrimSpace (ctl_PayloadHash a))) (Err ''invalid bridge control payload hash'')) (
     thenR (require (ctl_Nonce a \<noteq> 0) (Err ''bridge control nonce must be positive'')) (
     require (0 < ctl_NotBeforeUnix a \<and> ctl_NotBeforeUnix a < ctl_ExpiresUnix a)
       (Err ''invalid bridge control validity window'')))))"

definition ctl_fields :: "bridge_env \<Rightarrow> ControlAction \<Rightarrow> string list" where
  "ctl_fields env a =
     [ControlDomain, ctl_RouteID a, ctl_Action a,
      ToLower (env_unicode env) (TrimSpace (ctl_PayloadHash a)),
      nat_dec (unat (ctl_Nonce a)), int_dec (ctl_NotBeforeUnix a), int_dec (ctl_ExpiresUnix a)]"

definition ControlAction_ID :: "bridge_env \<Rightarrow> ControlAction \<Rightarrow> bytes result" where
  "ControlAction_ID env a =
     thenR (ControlAction_Validate env a) (Inr (Sha256 env (Join (ctl_fields env a) (CHR 0x00))))"

definition ControlDigest :: "bridge_env \<Rightarrow> ControlAction \<Rightarrow> bytes result" where
  "ControlDigest env action =
     bindR (ControlAction_ID env action) (\<lambda>i. Inr (Keccak256Hash env (ControlDomain @ i)))"

definition VerifyControlApprovals ::
  "bridge_env \<Rightarrow> ControlAction \<Rightarrow> string list \<Rightarrow> bytes list \<Rightarrow> address list result" where
  "VerifyControlApprovals env action bridgeSigners signatures =
     bindR (configuredSigners env bridgeSigners) (\<lambda>allowed.
     thenR (require (RequiredApprovals \<le> length signatures \<and> length signatures \<le> MaxBridgeSigners)
              (Err ''signature count must be between 2 and 3'')) (
     bindR (ControlDigest env action) (\<lambda>digest.
       recoverLoop env digest allowed [] signatures)))"

definition GuardianPauseAction_Validate :: "bridge_env \<Rightarrow> GuardianPauseAction \<Rightarrow> unit result" where
  "GuardianPauseAction_Validate env a =
     thenR (require (validRouteID env (gpa_RouteID a)) (Err ''invalid route ID'')) (
     thenR (require (gpa_Nonce a \<noteq> 0) (Err ''guardian pause nonce must be positive'')) (
     require (0 < gpa_ExpiresUnix a) (Err ''guardian pause expiry must be positive'')))"

definition GuardianPauseAction_ID :: "bridge_env \<Rightarrow> GuardianPauseAction \<Rightarrow> bytes result" where
  "GuardianPauseAction_ID env a =
     thenR (GuardianPauseAction_Validate env a)
       (Inr (Sha256 env (Join [GuardianPauseDomain, gpa_RouteID a, nat_dec (unat (gpa_Nonce a)),
                               int_dec (gpa_ExpiresUnix a)] (CHR 0x00))))"

definition GuardianPauseDigest :: "bridge_env \<Rightarrow> GuardianPauseAction \<Rightarrow> bytes result" where
  "GuardianPauseDigest env action =
     bindR (GuardianPauseAction_ID env action) (\<lambda>i. Inr (Keccak256Hash env (GuardianPauseDomain @ i)))"

definition VerifyGuardianPause ::
  "bridge_env \<Rightarrow> GuardianPauseAction \<Rightarrow> string \<Rightarrow> bytes \<Rightarrow> address result" where
  "VerifyGuardianPause env action guardian signature =
     thenR (require (IsHexAddress env (TrimSpace guardian)) (Err ''invalid bridge guardian'')) (
     bindR (GuardianPauseDigest env action) (\<lambda>digest.
     bindR (recoverSigner env digest signature) (\<lambda>recovered.
     thenR (require (recovered = HexToAddress env guardian)
              (Err ''pause approval is not from the configured guardian''))
       (Inr recovered))))"

section \<open>Messages\<close>

record MsgSubmitAttestation =
  msa_Submitter :: string
  msa_RouteId :: string
  msa_Direction :: string
  msa_SourceChainId :: string
  msa_SourceRef :: string
  msa_Nonce :: uint64
  msa_Destination :: string
  msa_Amount :: string
  msa_DeadlineUnix :: int
  msa_Signatures :: "bytes list"

record MsgInitiateOutboundTransfer =
  mot_Sender :: string
  mot_RouteId :: string
  mot_Destination :: string
  mot_Amount :: string

record MsgInitializeRouteConfig =
  mir_Authority :: string
  mir_RouteId :: string
  mir_BridgeSigners :: "string list"
  mir_Guardian :: string
  mir_MaxTransferAmount :: string
  mir_DailyLimit :: string
  mir_MaxOutstandingAmount :: string

record MsgEmergencyPauseRoute =
  mep_Submitter :: string
  mep_RouteId :: string
  mep_Nonce :: uint64
  mep_ExpiresUnix :: int
  mep_GuardianSignature :: bytes

record MsgResumeRoute =
  mrr_Submitter :: string
  mrr_RouteId :: string
  mrr_Nonce :: uint64
  mrr_NotBeforeUnix :: int
  mrr_ExpiresUnix :: int
  mrr_Signatures :: "bytes list"

record MsgUpdateRouteConfig =
  muc_Submitter :: string
  muc_RouteId :: string
  muc_BridgeSigners :: "string list"
  muc_Guardian :: string
  muc_MaxTransferAmount :: string
  muc_DailyLimit :: string
  muc_MaxOutstandingAmount :: string
  muc_Enabled :: bool
  muc_Nonce :: uint64
  muc_NotBeforeUnix :: int
  muc_ExpiresUnix :: int
  muc_Signatures :: "bytes list"

definition msa_Attestation :: "MsgSubmitAttestation \<Rightarrow> Attestation" where
  "msa_Attestation m =
     \<lparr>att_RouteID = msa_RouteId m, att_Direction = msa_Direction m,
      att_SourceChainID = msa_SourceChainId m, att_SourceRef = msa_SourceRef m,
      att_Nonce = msa_Nonce m, att_Destination = msa_Destination m,
      att_Amount = msa_Amount m, att_DeadlineUnix = msa_DeadlineUnix m\<rparr>"

definition msa_ValidateBasic :: "bridge_env \<Rightarrow> MsgSubmitAttestation \<Rightarrow> unit result" where
  "msa_ValidateBasic env m =
     thenR (AccAddressFromBech32 env (msa_Submitter m)) (Attestation_Validate env (msa_Attestation m))"

definition mot_ValidateBasic :: "bridge_env \<Rightarrow> MsgInitiateOutboundTransfer \<Rightarrow> unit result" where
  "mot_ValidateBasic env m =
     thenR (AccAddressFromBech32 env (mot_Sender m)) (
     thenR (require (validRouteID env (mot_RouteId m)) (Err ''invalid route ID'')) (
     thenR (require (IsHexAddress env (TrimSpace (mot_Destination m)) \<and>
                     HexToAddress env (TrimSpace (mot_Destination m)) \<noteq> 0)
              (Err ''invalid Cronos destination'')) (
     require (positiveAmount (mot_Amount m)) (Err ''amount must be a positive integer in atomic units''))))"

definition mir_RouteConfig :: "MsgInitializeRouteConfig \<Rightarrow> RouteConfig" where
  "mir_RouteConfig m =
     \<lparr>cfg_RouteID = mir_RouteId m, cfg_BridgeSigners = mir_BridgeSigners m, cfg_Guardian = mir_Guardian m,
      cfg_MaxTransferAmount = mir_MaxTransferAmount m, cfg_DailyLimit = mir_DailyLimit m,
      cfg_MaxOutstandingAmount = mir_MaxOutstandingAmount m, cfg_Enabled = False\<rparr>"

definition mir_ValidateBasic :: "bridge_env \<Rightarrow> MsgInitializeRouteConfig \<Rightarrow> unit result" where
  "mir_ValidateBasic env m =
     thenR (AccAddressFromBech32 env (mir_Authority m)) (RouteConfig_Validate env (mir_RouteConfig m))"

definition mep_Action :: "MsgEmergencyPauseRoute \<Rightarrow> GuardianPauseAction" where
  "mep_Action m = \<lparr>gpa_RouteID = mep_RouteId m, gpa_Nonce = mep_Nonce m, gpa_ExpiresUnix = mep_ExpiresUnix m\<rparr>"

definition mep_ValidateBasic :: "bridge_env \<Rightarrow> MsgEmergencyPauseRoute \<Rightarrow> unit result" where
  "mep_ValidateBasic env m =
     thenR (AccAddressFromBech32 env (mep_Submitter m)) (
     thenR (GuardianPauseAction_Validate env (mep_Action m)) (
     require (length (mep_GuardianSignature m) = 65) (Err ''guardian signature must be 65 bytes'')))"

definition validateControlSignatures :: "bytes list \<Rightarrow> unit result" where
  "validateControlSignatures signatures =
     thenR (require (RequiredApprovals \<le> length signatures \<and> length signatures \<le> MaxBridgeSigners)
              (Err ''invalid bridge control signature count''))
       (require (list_all (\<lambda>signature. length signature = 65) signatures)
          (Err ''bridge control signatures must be 65 bytes''))"

definition mrr_Action :: "MsgResumeRoute \<Rightarrow> string \<Rightarrow> ControlAction" where
  "mrr_Action m payloadHash =
     \<lparr>ctl_RouteID = mrr_RouteId m, ctl_Action = ActionResumeRoute, ctl_PayloadHash = payloadHash,
      ctl_Nonce = mrr_Nonce m, ctl_NotBeforeUnix = mrr_NotBeforeUnix m, ctl_ExpiresUnix = mrr_ExpiresUnix m\<rparr>"

definition mrr_ValidateBasic :: "bridge_env \<Rightarrow> MsgResumeRoute \<Rightarrow> unit result" where
  "mrr_ValidateBasic env m =
     thenR (AccAddressFromBech32 env (mrr_Submitter m)) (
     thenR (require (validRouteID env (mrr_RouteId m) \<and> mrr_Nonce m \<noteq> 0 \<and> 0 < mrr_NotBeforeUnix m \<and>
                     mrr_NotBeforeUnix m < mrr_ExpiresUnix m)
              (Err ''invalid route resume action''))
       (validateControlSignatures (mrr_Signatures m)))"

definition muc_RouteConfig :: "MsgUpdateRouteConfig \<Rightarrow> RouteConfig" where
  "muc_RouteConfig m =
     \<lparr>cfg_RouteID = muc_RouteId m, cfg_BridgeSigners = muc_BridgeSigners m, cfg_Guardian = muc_Guardian m,
      cfg_MaxTransferAmount = muc_MaxTransferAmount m, cfg_DailyLimit = muc_DailyLimit m,
      cfg_MaxOutstandingAmount = muc_MaxOutstandingAmount m, cfg_Enabled = muc_Enabled m\<rparr>"

definition muc_Action :: "MsgUpdateRouteConfig \<Rightarrow> string \<Rightarrow> ControlAction" where
  "muc_Action m payloadHash =
     \<lparr>ctl_RouteID = muc_RouteId m, ctl_Action = ActionUpdateRouteConfig, ctl_PayloadHash = payloadHash,
      ctl_Nonce = muc_Nonce m, ctl_NotBeforeUnix = muc_NotBeforeUnix m, ctl_ExpiresUnix = muc_ExpiresUnix m\<rparr>"

definition muc_ValidateBasic :: "bridge_env \<Rightarrow> MsgUpdateRouteConfig \<Rightarrow> unit result" where
  "muc_ValidateBasic env m =
     thenR (AccAddressFromBech32 env (muc_Submitter m)) (
     thenR (RouteConfig_Validate env (muc_RouteConfig m)) (
     thenR (require (muc_Nonce m \<noteq> 0 \<and> 0 < muc_NotBeforeUnix m \<and> muc_NotBeforeUnix m < muc_ExpiresUnix m)
              (Err ''invalid route configuration update action''))
       (validateControlSignatures (muc_Signatures m))))"

section \<open>Identifiers and genesis\<close>

definition ParseAttestationID :: "bridge_env \<Rightarrow> string \<Rightarrow> (bytes \<times> string) result" where
  "ParseAttestationID env value =
     (let normalized = TrimPrefix (ToLower (env_unicode env) (TrimSpace value)) ''0x'' in
      if length normalized \<noteq> 64 then Inl (Err ''attestation ID must contain 32 hexadecimal bytes'')
      else case hex_decode normalized of
             None \<Rightarrow> Inl (Err ''attestation ID must contain 32 hexadecimal bytes'')
           | Some decoded \<Rightarrow> Inr (decoded, ''0x'' @ normalized))"

record GenesisState =
  gen_RouteConfig :: "RouteConfig option"
  gen_Paused :: bool
  gen_OutstandingAmount :: string
  gen_OutboundNonce :: uint64

definition DefaultGenesisState :: GenesisState where
  "DefaultGenesisState =
     \<lparr>gen_RouteConfig = None, gen_Paused = False, gen_OutstandingAmount = [], gen_OutboundNonce = 0\<rparr>"

definition GenesisState_Validate :: "bridge_env \<Rightarrow> GenesisState \<Rightarrow> unit result" where
  "GenesisState_Validate env g = (case gen_RouteConfig g of
       None \<Rightarrow> require (\<not> (gen_Paused g \<or> gen_OutstandingAmount g \<noteq> [] \<or> gen_OutboundNonce g \<noteq> 0))
                 (Err ''bridge state requires a route configuration'')
     | Some config \<Rightarrow>
         thenR (RouteConfig_Validate env config) (
         if gen_OutstandingAmount g = [] then Inr ()
         else case SetString10 (gen_OutstandingAmount g) of
                None \<Rightarrow> Inl (Err ''invalid bridge outstanding amount'')
              | Some outstanding \<Rightarrow>
                  if outstanding < 0 then Inl (Err ''invalid bridge outstanding amount'')
                  else case SetString10 (cfg_MaxOutstandingAmount config) of
                         None \<Rightarrow> Inl (Panic ''nil big.Int'')
                       | Some limit \<Rightarrow>
                           require (outstanding \<le> limit)
                             (Err ''bridge outstanding amount exceeds route limit'')))"

end
