(* ===== verification/Bridge_Keeper.thy ===== *)
theory Bridge_Keeper
  imports Bridge_Types
begin

text \<open>
  The bridge keeper (\<^verbatim>\<open>src/x/bridge/keeper\<close>): the module store with its key prefixes, replay
  markers, route configuration and pause state, daily limits, native settlement against the
  bank, control actions, genesis, and the six message handlers. The bank is code outside the
  repository and is a parameter; what it stores is the type variable \<open>'b\<close>.
\<close>

section \<open>Store keys\<close>

definition KeyProcessedAttestationPrefix :: bytes where "KeyProcessedAttestationPrefix = [CHR 0x01]"
definition routeConfigKey :: bytes where "routeConfigKey = [CHR 0x02]"
definition dailyUsagePrefix :: bytes where "dailyUsagePrefix = [CHR 0x03]"
definition processedControlPrefix :: bytes where "processedControlPrefix = [CHR 0x04]"
definition routeStateKey :: bytes where "routeStateKey = [CHR 0x05]"
definition processedPausePrefix :: bytes where "processedPausePrefix = [CHR 0x06]"
definition KeyOutstandingAmount :: bytes where "KeyOutstandingAmount = [CHR 0x07]"
definition KeyOutboundNonce :: bytes where "KeyOutboundNonce = [CHR 0x08]"
definition ModuleName :: string where "ModuleName = ''bridge''"

definition processedKey :: "bytes \<Rightarrow> bytes" where
  "processedKey i = KeyProcessedAttestationPrefix @ i"

definition processedControlKey :: "bytes \<Rightarrow> bytes" where
  "processedControlKey i = processedControlPrefix @ i"

definition processedPauseKey :: "bytes \<Rightarrow> bytes" where
  "processedPauseKey i = processedPausePrefix @ i"

definition dailyUsageKey :: "bridge_env \<Rightarrow> string \<Rightarrow> int \<Rightarrow> bytes" where
  "dailyUsageKey env routeID unixTime =
     dailyUsagePrefix @ Sha256 env routeID @ be_fixed 8 (nat (go_div unixTime 86400 mod 2 ^ 64))"

section \<open>Keeper, bank and state\<close>

text \<open>
  The bank operations take a module or account, the single coin that the bridge moves
  (denomination and amount) and the bank's state.
\<close>

record 'b bank_ops =
  MintCoins :: "string \<Rightarrow> string \<Rightarrow> int \<Rightarrow> 'b \<Rightarrow> unit result \<times> 'b"
  BurnCoins :: "string \<Rightarrow> string \<Rightarrow> int \<Rightarrow> 'b \<Rightarrow> unit result \<times> 'b"
  SendCoinsFromModuleToAccount :: "string \<Rightarrow> bytes \<Rightarrow> string \<Rightarrow> int \<Rightarrow> 'b \<Rightarrow> unit result \<times> 'b"
  SendCoinsFromAccountToModule :: "bytes \<Rightarrow> string \<Rightarrow> string \<Rightarrow> int \<Rightarrow> 'b \<Rightarrow> unit result \<times> 'b"
  GetSupply :: "string \<Rightarrow> 'b \<Rightarrow> int"

record 'b Keeper =
  bankKeeper :: "'b bank_ops option"
  nativeDenom :: string
  maxSupply :: int
  authority :: string

type_synonym event = "string \<times> (string \<times> string) list"

record 'b bridge_state =
  st_store :: kv
  st_bank :: 'b
  st_events :: "event list"

type_synonym ('b, 'a) bridge_op = "('b bridge_state, 'a) handler"

definition storeE :: "(kv \<Rightarrow> kv) \<Rightarrow> ('b, unit) bridge_op" where
  "storeE f = modifyE (\<lambda>s. s\<lparr>st_store := f (st_store s)\<rparr>)"

definition bankE :: "('b \<Rightarrow> unit result \<times> 'b) \<Rightarrow> ('b, unit) bridge_op" where
  "bankE f s = (case f (st_bank s) of (r, b) \<Rightarrow> (r, s\<lparr>st_bank := b\<rparr>))"

definition emitE :: "event \<Rightarrow> ('b, unit) bridge_op" where
  "emitE e = modifyE (\<lambda>s. s\<lparr>st_events := st_events s @ [e]\<rparr>)"

definition NewSettlementKeeper ::
  "bridge_env \<Rightarrow> 'b bank_ops option \<Rightarrow> string \<Rightarrow> string \<Rightarrow> string \<Rightarrow> 'b Keeper result" where
  "NewSettlementKeeper env bank denom supply auth =
     thenR (require (bank \<noteq> None) (Err ''bridge bank keeper is required'')) (
     thenR (ValidateDenom env denom) (
     case NewIntFromString env supply of
       None \<Rightarrow> Inl (Err ''bridge maximum supply must be positive'')
     | Some limit \<Rightarrow>
         thenR (require (0 < limit) (Err ''bridge maximum supply must be positive'')) (
         case AccAddressFromBech32 env auth of
           Inl e \<Rightarrow> Inl (Err ''bridge authority must be a valid account address'')
         | Inr _ \<Rightarrow> Inr \<lparr>bankKeeper = bank, nativeDenom = denom, maxSupply = limit, authority = auth\<rparr>)))"

section \<open>Replay markers\<close>

definition ErrAttestationAlreadyProcessed :: err where
  "ErrAttestationAlreadyProcessed = Err ''bridge attestation already processed''"

definition IsProcessed :: "kv \<Rightarrow> bytes \<Rightarrow> bool" where
  "IsProcessed m i = kv_has m (processedKey i)"

definition MarkProcessed :: "bytes \<Rightarrow> kv \<Rightarrow> kv" where
  "MarkProcessed i = kv_set (processedKey i) [CHR 0x01]"

definition ConsumeAttestation :: "bridge_env \<Rightarrow> Attestation \<Rightarrow> ('b, bytes) bridge_op" where
  "ConsumeAttestation env attestation =
     bindE (liftE (Attestation_ID env attestation)) (\<lambda>i.
     thenE (readE (\<lambda>s. require (\<not> IsProcessed (st_store s) i) ErrAttestationAlreadyProcessed)) (
     thenE (storeE (MarkProcessed i)) (
     okE i)))"

definition ConsumeAttestationAt :: "bridge_env \<Rightarrow> int \<Rightarrow> Attestation \<Rightarrow> ('b, bytes) bridge_op" where
  "ConsumeAttestationAt env now attestation =
     thenE (liftE (ValidateAt env attestation now)) (ConsumeAttestation env attestation)"

section \<open>Route configuration and state\<close>

definition SetRouteConfig :: "bridge_env \<Rightarrow> RouteConfig \<Rightarrow> ('b, unit) bridge_op" where
  "SetRouteConfig env config =
     thenE (liftE (RouteConfig_Validate env config))
       (storeE (kv_set routeConfigKey (MarshalConfig env config)))"

text \<open>The pair (configuration, found) of the code is an option.\<close>

definition GetRouteConfig :: "bridge_env \<Rightarrow> kv \<Rightarrow> RouteConfig option result" where
  "GetRouteConfig env m =
     (if kv_get m routeConfigKey = [] then Inr None
      else bindR (UnmarshalConfig env (kv_get m routeConfigKey)) (\<lambda>config.
           thenR (RouteConfig_Validate env config) (Inr (Some config))))"

definition MarshalState :: "RouteState \<Rightarrow> bytes" where
  \<open>MarshalState st = (if Paused st then ''{"paused":true}'' else ''{"paused":false}'')\<close>

definition GetRouteState :: "bridge_env \<Rightarrow> kv \<Rightarrow> RouteState result" where
  "GetRouteState env m =
     (if kv_get m routeStateKey = [] then Inr \<lparr>Paused = False\<rparr>
      else UnmarshalState env (kv_get m routeStateKey))"

definition ErrRouteDisabled :: err where "ErrRouteDisabled = Err ''bridge route is disabled''"
definition ErrRoutePaused :: err where "ErrRoutePaused = Err ''bridge route is paused''"
definition ErrRouteAlreadyPaused :: err where "ErrRouteAlreadyPaused = Err ''bridge route is already paused''"
definition ErrRouteNotPaused :: err where "ErrRouteNotPaused = Err ''bridge route is not paused''"

definition RequireRouteAvailable :: "bridge_env \<Rightarrow> kv \<Rightarrow> RouteConfig \<Rightarrow> unit result" where
  "RequireRouteAvailable env m config =
     thenR (RouteConfig_Validate env config) (
     thenR (require (cfg_Enabled config) ErrRouteDisabled) (
     bindR (GetRouteState env m) (\<lambda>state.
     require (\<not> Paused state) ErrRoutePaused)))"

section \<open>Daily limits\<close>

definition ErrTransferLimitExceeded :: err where
  "ErrTransferLimitExceeded = Err ''bridge transfer limit exceeded''"
definition ErrDailyLimitExceeded :: err where
  "ErrDailyLimitExceeded = Err ''bridge daily limit exceeded''"

definition CheckAndRecordLimits ::
  "bridge_env \<Rightarrow> int \<Rightarrow> RouteConfig \<Rightarrow> string \<Rightarrow> ('b, unit) bridge_op" where
  "CheckAndRecordLimits env now config amountText =
     thenE (readE (\<lambda>s. RequireRouteAvailable env (st_store s) config)) (
     bindE (liftE (of_option (Err ''bridge amount must be positive'') (SetString10 amountText))) (\<lambda>amount.
     thenE (requireE (0 < amount) (Err ''bridge amount must be positive'')) (
     bindE (liftE (of_option (Panic ''nil big.Int'') (SetString10 (cfg_MaxTransferAmount config)))) (\<lambda>maxTransfer.
     bindE (liftE (of_option (Panic ''nil big.Int'') (SetString10 (cfg_DailyLimit config)))) (\<lambda>dailyLimit.
     thenE (requireE (amount \<le> maxTransfer) ErrTransferLimitExceeded) (
     bindE (getsE (\<lambda>s. int (SetBytes (kv_get (st_store s) (dailyUsageKey env (cfg_RouteID config) now))) + amount)) (\<lambda>next.
     thenE (requireE (next \<le> dailyLimit) ErrDailyLimitExceeded) (
     storeE (kv_set (dailyUsageKey env (cfg_RouteID config) now) (Bytes (nat next)))))))))))"

definition DailyUsage :: "bridge_env \<Rightarrow> int \<Rightarrow> kv \<Rightarrow> string \<Rightarrow> nat" where
  "DailyUsage env now m routeID = SetBytes (kv_get m (dailyUsageKey env routeID now))"

section \<open>Admission of attestations\<close>

definition ErrAttestationRouteMismatch :: err where
  "ErrAttestationRouteMismatch = Err ''bridge attestation route does not match configuration''"

definition AdmitAttestation ::
  "bridge_env \<Rightarrow> int \<Rightarrow> RouteConfig \<Rightarrow> Attestation \<Rightarrow> bytes list \<Rightarrow> ('b, bytes) bridge_op" where
  "AdmitAttestation env now config attestation signatures =
     thenE (liftE (RouteConfig_Validate env config)) (
     thenE (requireE (att_RouteID attestation = cfg_RouteID config) ErrAttestationRouteMismatch) (
     thenE (readE (\<lambda>s. RequireRouteAvailable env (st_store s) config)) (
     thenE (liftE (ValidateAt env attestation now)) (
     thenE (liftE (VerifyApprovals env attestation (cfg_BridgeSigners config) signatures)) (
     bindE (liftE (Attestation_ID env attestation)) (\<lambda>i.
     thenE (readE (\<lambda>s. require (\<not> IsProcessed (st_store s) i) ErrAttestationAlreadyProcessed)) (
     thenE (CheckAndRecordLimits env now config (att_Amount attestation)) (
     thenE (storeE (MarkProcessed i)) (
     okE i)))))))))"

section \<open>Settlement\<close>

definition ErrSettlementUnavailable :: err where
  "ErrSettlementUnavailable = Err ''bridge settlement is unavailable''"
definition ErrSettlementDirection :: err where
  "ErrSettlementDirection = Err ''bridge attestation is not an inbound Cronos transfer''"
definition ErrOutstandingLimitExceeded :: err where
  "ErrOutstandingLimitExceeded = Err ''bridge outstanding limit exceeded''"
definition ErrInsufficientOutstanding :: err where
  "ErrInsufficientOutstanding = Err ''bridge outstanding amount is insufficient''"
definition ErrMaximumSupplyExceeded :: err where
  "ErrMaximumSupplyExceeded = Err ''XTC maximum supply exceeded''"

definition OutstandingAmount :: "kv \<Rightarrow> int result" where
  "OutstandingAmount m =
     (if kv_get m KeyOutstandingAmount = [] then Inr 0
      else sdk_int (int (SetBytes (kv_get m KeyOutstandingAmount))))"

definition setOutstandingAmount :: "int \<Rightarrow> kv \<Rightarrow> kv" where
  "setOutstandingAmount amount =
     (if amount = 0 then kv_delete KeyOutstandingAmount
      else kv_set KeyOutstandingAmount (Bytes (nat \<bar>amount\<bar>)))"

definition SettleInbound ::
  "bridge_env \<Rightarrow> 'b Keeper \<Rightarrow> RouteConfig \<Rightarrow> Attestation \<Rightarrow> ('b, unit) bridge_op" where
  "SettleInbound env k config attestation =
     bindE (liftE (of_option ErrSettlementUnavailable (bankKeeper k))) (\<lambda>bank.
     thenE (requireE (att_Direction attestation = DirectionCronosToXitcoin) ErrSettlementDirection) (
     bindE (liftE (case AccAddressFromBech32 env (TrimSpace (att_Destination attestation)) of
                     Inl e \<Rightarrow> Inl (Err ''invalid Xitcoin destination'') | Inr a \<Rightarrow> Inr a)) (\<lambda>recipient.
     bindE (liftE (of_option (Err ''bridge amount must be positive'') (NewIntFromString env (att_Amount attestation)))) (\<lambda>amount.
     thenE (requireE (0 < amount) (Err ''bridge amount must be positive'')) (
     bindE (readE (\<lambda>s. bindR (OutstandingAmount (st_store s)) (\<lambda>outstanding. sdk_int (outstanding + amount)))) (\<lambda>nextOutstanding.
     bindE (liftE (of_option (Panic ''nil Int'') (NewIntFromString env (cfg_MaxOutstandingAmount config)))) (\<lambda>outstandingLimit.
     thenE (requireE (nextOutstanding \<le> outstandingLimit) ErrOutstandingLimitExceeded) (
     bindE (readE (\<lambda>s. sdk_int (GetSupply bank (nativeDenom k) (st_bank s) + amount))) (\<lambda>supply.
     thenE (requireE (supply \<le> maxSupply k) ErrMaximumSupplyExceeded) (
     thenE (bankE (MintCoins bank ModuleName (nativeDenom k) amount)) (
     thenE (bankE (SendCoinsFromModuleToAccount bank ModuleName recipient (nativeDenom k) amount)) (
     storeE (setOutstandingAmount nextOutstanding)))))))))))))"

definition nextOutboundNonce :: "('b, uint64) bridge_op" where
  "nextOutboundNonce =
     bindE (getsE (\<lambda>s. let value = kv_get (st_store s) KeyOutboundNonce in
                        (if length value = 8 then Uint64 value else 0) + 1)) (\<lambda>next.
     thenE (storeE (kv_set KeyOutboundNonce (PutUint64 next))) (
     okE next))"

definition outbound_fields ::
  "bridge_env \<Rightarrow> RouteConfig \<Rightarrow> bytes \<Rightarrow> string \<Rightarrow> int \<Rightarrow> uint64 \<Rightarrow> string list" where
  "outbound_fields env config sender destination amount nonce =
     [cfg_RouteID config, AccString env sender,
      ToLower (env_unicode env) (AddressHex env (HexToAddress env destination)),
      int_dec amount, nat_dec (unat nonce)]"

definition KInitiateOutboundTransfer ::
  "bridge_env \<Rightarrow> 'b Keeper \<Rightarrow> int \<Rightarrow> RouteConfig \<Rightarrow> bytes \<Rightarrow> string \<Rightarrow> string \<Rightarrow> ('b, bytes \<times> uint64) bridge_op" where
  "KInitiateOutboundTransfer env k now config sender destination0 amountText =
     bindE (liftE (of_option ErrSettlementUnavailable (bankKeeper k))) (\<lambda>bank.
     thenE (readE (\<lambda>s. RequireRouteAvailable env (st_store s) config)) (
     let destination = TrimSpace destination0 in
     thenE (requireE (IsHexAddress env destination \<and> HexToAddress env destination \<noteq> 0)
              (Err ''invalid Cronos destination'')) (
     bindE (liftE (of_option (Err ''bridge amount must be positive'') (NewIntFromString env amountText))) (\<lambda>amount.
     thenE (requireE (0 < amount) (Err ''bridge amount must be positive'')) (
     thenE (CheckAndRecordLimits env now config amountText) (
     bindE (readE (\<lambda>s. OutstandingAmount (st_store s))) (\<lambda>outstanding.
     thenE (requireE (amount \<le> outstanding) ErrInsufficientOutstanding) (
     thenE (bankE (SendCoinsFromAccountToModule bank sender ModuleName (nativeDenom k) amount)) (
     thenE (bankE (BurnCoins bank ModuleName (nativeDenom k) amount)) (
     bindE nextOutboundNonce (\<lambda>nonce.
     thenE (storeE (setOutstandingAmount (outstanding - amount))) (
     okE (Sha256 env (Join (outbound_fields env config sender destination amount nonce) (CHR 0x00)), nonce)))))))))))))"

section \<open>Control actions\<close>

definition ErrControlActionNotActive :: err where
  "ErrControlActionNotActive = Err ''bridge control action is not active''"
definition ErrControlActionProcessed :: err where
  "ErrControlActionProcessed = Err ''bridge control action already processed''"
definition ErrControlPayloadMismatch :: err where
  "ErrControlPayloadMismatch = Err ''bridge control payload does not match route configuration''"

definition PauseRoute ::
  "bridge_env \<Rightarrow> int \<Rightarrow> RouteConfig \<Rightarrow> GuardianPauseAction \<Rightarrow> bytes \<Rightarrow> ('b, unit) bridge_op" where
  "PauseRoute env now config action signature =
     thenE (liftE (RouteConfig_Validate env config)) (
     thenE (requireE (gpa_RouteID action = cfg_RouteID config)
              (Err ''guardian pause route does not match configuration'')) (
     thenE (liftE (GuardianPauseAction_Validate env action)) (
     thenE (requireE (now < gpa_ExpiresUnix action) (Err ''guardian pause action has expired'')) (
     bindE (liftE (GuardianPauseAction_ID env action)) (\<lambda>i.
     thenE (readE (\<lambda>s. require (\<not> kv_has (st_store s) (processedPauseKey i)) ErrControlActionProcessed)) (
     thenE (liftE (VerifyGuardianPause env action (cfg_Guardian config) signature)) (
     bindE (readE (\<lambda>s. GetRouteState env (st_store s))) (\<lambda>state.
     thenE (requireE (\<not> Paused state) ErrRouteAlreadyPaused) (
     thenE (storeE (kv_set routeStateKey (MarshalState \<lparr>Paused = True\<rparr>))) (
     storeE (kv_set (processedPauseKey i) [CHR 0x01])))))))))))"

definition RouteStatePayloadHash :: "bridge_env \<Rightarrow> RouteConfig \<Rightarrow> RouteState \<Rightarrow> bytes result" where
  \<open>RouteStatePayloadHash env config state =
     thenR (RouteConfig_Validate env config)
       (Inr (Sha256 env (''{"config":'' @ MarshalConfig env config @ '',"state":'' @ MarshalState state @ ''}'')))\<close>

definition KResumeRoute ::
  "bridge_env \<Rightarrow> int \<Rightarrow> RouteConfig \<Rightarrow> ControlAction \<Rightarrow> bytes list \<Rightarrow> ('b, unit) bridge_op" where
  "KResumeRoute env now config action signatures =
     thenE (liftE (RouteConfig_Validate env config)) (
     thenE (requireE (ctl_Action action = ActionResumeRoute \<and> ctl_RouteID action = cfg_RouteID config)
              ErrControlPayloadMismatch) (
     thenE (liftE (ControlAction_Validate env action)) (
     thenE (requireE (ctl_NotBeforeUnix action \<le> now \<and> now < ctl_ExpiresUnix action) ErrControlActionNotActive) (
     bindE (readE (\<lambda>s. GetRouteState env (st_store s))) (\<lambda>state.
     thenE (requireE (Paused state) ErrRouteNotPaused) (
     bindE (liftE (RouteStatePayloadHash env config \<lparr>Paused = False\<rparr>)) (\<lambda>payloadHash.
     thenE (requireE (EqualFold (env_unicode env) (HashHex env payloadHash) (ctl_PayloadHash action))
              ErrControlPayloadMismatch) (
     bindE (liftE (ControlAction_ID env action)) (\<lambda>i.
     thenE (readE (\<lambda>s. require (\<not> kv_has (st_store s) (processedControlKey i)) ErrControlActionProcessed)) (
     thenE (liftE (VerifyControlApprovals env action (cfg_BridgeSigners config) signatures)) (
     thenE (storeE (kv_set routeStateKey (MarshalState \<lparr>Paused = False\<rparr>))) (
     storeE (kv_set (processedControlKey i) [CHR 0x01])))))))))))))"

definition ApplyRouteConfigUpdate ::
  "bridge_env \<Rightarrow> int \<Rightarrow> RouteConfig \<Rightarrow> ControlAction \<Rightarrow> RouteConfig \<Rightarrow> bytes list \<Rightarrow> ('b, unit) bridge_op" where
  "ApplyRouteConfigUpdate env now current action nxt signatures =
     thenE (liftE (RouteConfig_Validate env current)) (
     thenE (liftE (RouteConfig_Validate env nxt)) (
     thenE (requireE (ctl_Action action = ActionUpdateRouteConfig \<and> ctl_RouteID action = cfg_RouteID current \<and>
                      cfg_RouteID nxt = cfg_RouteID current) ErrControlPayloadMismatch) (
     thenE (liftE (ControlAction_Validate env action)) (
     thenE (requireE (ctl_NotBeforeUnix action \<le> now \<and> now < ctl_ExpiresUnix action) ErrControlActionNotActive) (
     bindE (liftE (RouteConfigPayloadHash env nxt)) (\<lambda>payloadHash.
     thenE (requireE (EqualFold (env_unicode env) (HashHex env payloadHash) (ctl_PayloadHash action))
              ErrControlPayloadMismatch) (
     bindE (liftE (ControlAction_ID env action)) (\<lambda>i.
     thenE (readE (\<lambda>s. require (\<not> kv_has (st_store s) (processedControlKey i)) ErrControlActionProcessed)) (
     thenE (liftE (VerifyControlApprovals env action (cfg_BridgeSigners current) signatures)) (
     thenE (SetRouteConfig env nxt) (
     storeE (kv_set (processedControlKey i) [CHR 0x01]))))))))))))"

section \<open>Message server\<close>

definition found_config :: "bridge_env \<Rightarrow> ('b, RouteConfig) bridge_op" where
  "found_config env =
     bindE (readE (\<lambda>s. GetRouteConfig env (st_store s))) (\<lambda>found.
     liftE (of_option ErrRouteDisabled found))"

definition InitializeRouteConfig ::
  "bridge_env \<Rightarrow> 'b Keeper \<Rightarrow> MsgInitializeRouteConfig option \<Rightarrow> ('b, unit) bridge_op" where
  "InitializeRouteConfig env k req =
     bindE (liftE (of_option (Err ''bridge: empty initial route configuration'') req)) (\<lambda>m.
     thenE (liftE (ValidateAuthority env (authority k) (mir_Authority m))) (
     thenE (liftE (mir_ValidateBasic env m)) (
     bindE (readE (\<lambda>s. GetRouteConfig env (st_store s))) (\<lambda>found.
     thenE (requireE (found = None) (Err ''bridge: initial route configuration already exists'')) (
     thenE (SetRouteConfig env (mir_RouteConfig m)) (
     thenE (storeE (kv_set routeStateKey (MarshalState \<lparr>Paused = True\<rparr>))) (
     emitE (''bridge_route_initialized'',
            [(''route_id'', mir_RouteId m), (''enabled'', ''false''), (''paused'', ''true'')]))))))))"

definition EmergencyPauseRoute ::
  "bridge_env \<Rightarrow> int \<Rightarrow> MsgEmergencyPauseRoute option \<Rightarrow> ('b, unit) bridge_op" where
  "EmergencyPauseRoute env now req =
     bindE (liftE (of_option (Err ''bridge: empty emergency pause'') req)) (\<lambda>m.
     thenE (liftE (mep_ValidateBasic env m)) (
     bindE (found_config env) (\<lambda>config.
     thenE (PauseRoute env now config (mep_Action m) (mep_GuardianSignature m)) (
     emitE (''bridge_route_paused'',
            [(''route_id'', cfg_RouteID config), (''nonce'', nat_dec (unat (mep_Nonce m)))])))))"

definition ResumeRoute ::
  "bridge_env \<Rightarrow> int \<Rightarrow> MsgResumeRoute option \<Rightarrow> ('b, unit) bridge_op" where
  "ResumeRoute env now req =
     bindE (liftE (of_option (Err ''bridge: empty route resume'') req)) (\<lambda>m.
     thenE (liftE (mrr_ValidateBasic env m)) (
     bindE (found_config env) (\<lambda>config.
     bindE (liftE (RouteStatePayloadHash env config \<lparr>Paused = False\<rparr>)) (\<lambda>payloadHash.
     thenE (KResumeRoute env now config (mrr_Action m (HashHex env payloadHash)) (mrr_Signatures m)) (
     emitE (''bridge_route_resumed'',
            [(''route_id'', cfg_RouteID config), (''nonce'', nat_dec (unat (mrr_Nonce m)))]))))))"

definition UpdateRouteConfig ::
  "bridge_env \<Rightarrow> int \<Rightarrow> MsgUpdateRouteConfig option \<Rightarrow> ('b, unit) bridge_op" where
  "UpdateRouteConfig env now req =
     bindE (liftE (of_option (Err ''bridge: empty route configuration update'') req)) (\<lambda>m.
     thenE (liftE (muc_ValidateBasic env m)) (
     bindE (found_config env) (\<lambda>current.
     bindE (liftE (RouteConfigPayloadHash env (muc_RouteConfig m))) (\<lambda>payloadHash.
     thenE (ApplyRouteConfigUpdate env now current (muc_Action m (HashHex env payloadHash))
              (muc_RouteConfig m) (muc_Signatures m)) (
     emitE (''bridge_route_config_updated'',
            [(''route_id'', muc_RouteId m),
             (''enabled'', if muc_Enabled m then ''true'' else ''false''),
             (''nonce'', nat_dec (unat (muc_Nonce m)))]))))))"

definition SubmitAttestation ::
  "bridge_env \<Rightarrow> 'b Keeper \<Rightarrow> int \<Rightarrow> MsgSubmitAttestation option \<Rightarrow> ('b, string) bridge_op" where
  "SubmitAttestation env k now req =
     bindE (liftE (of_option (Err ''bridge: empty attestation submission'') req)) (\<lambda>m.
     thenE (liftE (msa_ValidateBasic env m)) (
     bindE (found_config env) (\<lambda>config.
     thenE (requireE (att_Direction (msa_Attestation m) = DirectionCronosToXitcoin) ErrSettlementDirection) (
     bindE (AdmitAttestation env now config (msa_Attestation m) (msa_Signatures m)) (\<lambda>i.
     thenE (SettleInbound env k config (msa_Attestation m)) (
     thenE (emitE (''bridge_inbound_settled'',
              [(''attestation_id'', hex_encode i), (''route_id'', cfg_RouteID config),
               (''destination'', msa_Destination m), (''amount'', msa_Amount m)])) (
     okE (hex_encode i))))))))"

definition InitiateOutboundTransfer ::
  "bridge_env \<Rightarrow> 'b Keeper \<Rightarrow> int \<Rightarrow> MsgInitiateOutboundTransfer option \<Rightarrow> ('b, string \<times> uint64) bridge_op" where
  "InitiateOutboundTransfer env k now req =
     bindE (liftE (of_option (Err ''bridge: empty outbound transfer'') req)) (\<lambda>m.
     thenE (liftE (mot_ValidateBasic env m)) (
     bindE (found_config env) (\<lambda>config.
     thenE (requireE (mot_RouteId m = cfg_RouteID config) ErrAttestationRouteMismatch) (
     bindE (liftE (AccAddressFromBech32 env (mot_Sender m))) (\<lambda>sender.
     bindE (KInitiateOutboundTransfer env k now config sender (mot_Destination m) (mot_Amount m)) (\<lambda>(i, nonce).
     thenE (emitE (''bridge_outbound_burned'',
              [(''request_id'', hex_encode i), (''route_id'', cfg_RouteID config),
               (''sender'', AccString env sender), (''destination'', mot_Destination m),
               (''amount'', mot_Amount m), (''nonce'', nat_dec (unat nonce))])) (
     okE (hex_encode i, nonce))))))))"

section \<open>Queries and genesis\<close>

definition AttestationStatus :: "bridge_env \<Rightarrow> kv \<Rightarrow> string option \<Rightarrow> (string \<times> bool) result" where
  "AttestationStatus env m req =
     bindR (of_option (Err ''bridge attestation status request is required'') req) (\<lambda>attestationId.
     bindR (ParseAttestationID env attestationId) (\<lambda>(i, canonical).
     Inr (canonical, IsProcessed m i)))"

text \<open>An error that the code answers with \<^verbatim>\<open>panic(err)\<close>.\<close>

fun mustR :: "'a result \<Rightarrow> 'a result" where
  "mustR (Inl (Err e)) = Inl (Panic e)"
| "mustR r = r"

definition mustE :: "('b, 'x) bridge_op \<Rightarrow> ('b, 'x) bridge_op" where
  "mustE m s = (case m s of (r, t) \<Rightarrow> (mustR r, t))"

lemma mustR_ok [handler_simps]: "mustR r = Inr x \<longleftrightarrow> r = Inr x"
  by (cases r rule: mustR.cases) auto

lemma mustE_ok [handler_simps]: "mustE m s = (Inr x, t) \<longleftrightarrow> m s = (Inr x, t)"
  by (auto simp: mustE_def mustR_ok split: prod.splits)

definition InitGenesis :: "bridge_env \<Rightarrow> GenesisState \<Rightarrow> ('b, unit) bridge_op" where
  "InitGenesis env g = (case gen_RouteConfig g of
       None \<Rightarrow> okE ()
     | Some config \<Rightarrow>
         thenE (mustE (SetRouteConfig env config)) (
         thenE (if gen_Paused g then storeE (kv_set routeStateKey (MarshalState \<lparr>Paused = True\<rparr>)) else okE ()) (
         thenE (if gen_OutstandingAmount g \<noteq> []
                then bindE (liftE (of_option (Panic ''invalid bridge outstanding amount'')
                                     (NewIntFromString env (gen_OutstandingAmount g)))) (\<lambda>amount.
                     storeE (setOutstandingAmount amount))
                else okE ()) (
         if gen_OutboundNonce g \<noteq> 0 then storeE (kv_set KeyOutboundNonce (PutUint64 (gen_OutboundNonce g)))
         else okE ()))))"

definition ExportGenesis :: "bridge_env \<Rightarrow> kv \<Rightarrow> GenesisState result" where
  "ExportGenesis env m =
     bindR (mustR (GetRouteConfig env m)) (\<lambda>found. case found of
       None \<Rightarrow> Inr DefaultGenesisState
     | Some config \<Rightarrow>
         bindR (mustR (GetRouteState env m)) (\<lambda>state.
         bindR (OutstandingAmount m) (\<lambda>outstanding.
         Inr \<lparr>gen_RouteConfig = Some config, gen_Paused = Paused state,
              gen_OutstandingAmount = int_dec outstanding,
              gen_OutboundNonce =
                (if length (kv_get m KeyOutboundNonce) = 8 then Uint64 (kv_get m KeyOutboundNonce) else 0)\<rparr>)))"

end
