(* ===== verification/Bridge_Facts.thy ===== *)
theory Bridge_Facts
  imports Bridge_Keeper
begin

text \<open>
  What each bridge operation does when it succeeds, the bridge as a step relation over its six
  messages, and the properties of its runs: replay protection, quorum, accounting of the
  outstanding amount against the native supply, limits, and the separation of powers between
  guardian, signers and transfers.
\<close>

section \<open>Shared facts\<close>

lemmas bridge_key_defs =
  processedKey_def processedControlKey_def processedPauseKey_def dailyUsageKey_def
  KeyProcessedAttestationPrefix_def routeConfigKey_def dailyUsagePrefix_def processedControlPrefix_def
  routeStateKey_def processedPausePrefix_def KeyOutstandingAmount_def KeyOutboundNonce_def

lemma storeE_eq [handler_simps]:
  "storeE f s = (r, t) \<longleftrightarrow> r = Inr () \<and> t = s\<lparr>st_store := f (st_store s)\<rparr>"
  by (auto simp: storeE_def)

lemma emitE_eq [handler_simps]:
  "emitE e s = (r, t) \<longleftrightarrow> r = Inr () \<and> t = s\<lparr>st_events := st_events s @ [e]\<rparr>"
  by (auto simp: emitE_def)

lemma bankE_ok [handler_simps]:
  "bankE f s = (Inr x, t) \<longleftrightarrow> (\<exists>b. f (st_bank s) = (Inr (), b) \<and> t = s\<lparr>st_bank := b\<rparr>)"
  by (auto simp: bankE_def split: prod.splits)

lemma positiveAmount_iff: "positiveAmount v \<longleftrightarrow> (\<exists>a. SetString10 v = Some a \<and> 0 < a)"
  by (auto simp: positiveAmount_def split: option.splits)

section \<open>Signature quorum\<close>

lemma recoverLoop_ok:
  "recoverLoop env digest allowed recovered sigs = Inr rs \<Longrightarrow> distinct recovered \<Longrightarrow>
     set recovered \<subseteq> set allowed \<Longrightarrow>
     distinct rs \<and> set rs \<subseteq> set allowed \<and> length rs = length recovered + length sigs \<and>
     (\<forall>a\<in>set rs. a \<in> set recovered \<or> (\<exists>sig\<in>set sigs. recoverSigner env digest sig = Inr a))"
proof (induction env digest allowed recovered sigs rule: recoverLoop.induct)
  case (1 env digest allowed recovered)
  then show ?case by simp
next
  case (2 env digest allowed recovered signature rest)
  then obtain a where a: "recoverSigner env digest signature = Inr a"
    "a \<in> set allowed" "a \<notin> set recovered"
    "recoverLoop env digest allowed (recovered @ [a]) rest = Inr rs"
    by (auto split: sum.splits if_splits)
  then have "distinct rs \<and> set rs \<subseteq> set allowed \<and> length rs = length (recovered @ [a]) + length rest \<and>
     (\<forall>b\<in>set rs. b \<in> set (recovered @ [a]) \<or> (\<exists>sig\<in>set rest. recoverSigner env digest sig = Inr b))"
    using 2 by auto
  then show ?case using a by auto
qed

lemma signerLoop_ok:
  "signerLoop env allowed signers = Inr as \<Longrightarrow> as = allowed @ map (HexToAddress env) signers"
  by (induction env allowed signers rule: signerLoop.induct) (auto split: if_splits)

lemma configuredSigners_ok:
  "configuredSigners env signers = Inr as \<Longrightarrow>
     as = map (HexToAddress env) signers \<and> length signers = 3"
  by (auto simp: configuredSigners_def handler_simps MaxBridgeSigners_def dest: signerLoop_ok)

lemma VerifyApprovals_ok:
  assumes "VerifyApprovals env att signers sigs = Inr rs"
  shows "distinct rs" "2 \<le> length rs" "set rs \<subseteq> HexToAddress env ` set signers"
    "\<exists>digest. SigningDigest env att = Inr digest \<and>
       (\<forall>a\<in>set rs. \<exists>sig\<in>set sigs. recoverSigner env digest sig = Inr a)"
  using assms
  by (auto simp: VerifyApprovals_def handler_simps RequiredApprovals_def
      dest!: recoverLoop_ok configuredSigners_ok)

lemma VerifyControlApprovals_ok:
  assumes "VerifyControlApprovals env action signers sigs = Inr rs"
  shows "distinct rs" "2 \<le> length rs" "set rs \<subseteq> HexToAddress env ` set signers"
    "\<exists>digest. ControlDigest env action = Inr digest \<and>
       (\<forall>a\<in>set rs. \<exists>sig\<in>set sigs. recoverSigner env digest sig = Inr a)"
  using assms
  by (auto simp: VerifyControlApprovals_def handler_simps RequiredApprovals_def
      dest!: recoverLoop_ok configuredSigners_ok)

section \<open>What a successful operation did\<close>

lemma found_config_ok:
  "found_config env s = (Inr config, t) \<longleftrightarrow> t = s \<and> GetRouteConfig env (st_store s) = Inr (Some config)"
  by (auto simp: found_config_def handler_simps)

lemma CheckAndRecordLimits_ok:
  assumes "CheckAndRecordLimits env now config amountText s = (Inr x, t)"
  obtains amount maxTransfer dailyLimit where
    "RequireRouteAvailable env (st_store s) config = Inr ()"
    "SetString10 amountText = Some amount" "0 < amount"
    "SetString10 (cfg_MaxTransferAmount config) = Some maxTransfer" "amount \<le> maxTransfer"
    "SetString10 (cfg_DailyLimit config) = Some dailyLimit"
    "int (DailyUsage env now (st_store s) (cfg_RouteID config)) + amount \<le> dailyLimit"
    "t = s\<lparr>st_store := kv_set (dailyUsageKey env (cfg_RouteID config) now)
            (Bytes (DailyUsage env now (st_store s) (cfg_RouteID config) + nat amount)) (st_store s)\<rparr>"
  using assms
  by (auto simp: CheckAndRecordLimits_def handler_simps DailyUsage_def nat_add_distrib)

lemma AdmitAttestation_ok:
  assumes "AdmitAttestation env now config att sigs s = (Inr i, t)"
  obtains u rs where
    "RouteConfig_Validate env config = Inr ()" "att_RouteID att = cfg_RouteID config"
    "RequireRouteAvailable env (st_store s) config = Inr ()"
    "Attestation_Validate env att = Inr ()" "now \<le> att_DeadlineUnix att"
    "VerifyApprovals env att (cfg_BridgeSigners config) sigs = Inr rs"
    "Attestation_ID env att = Inr i" "\<not> IsProcessed (st_store s) i"
    "CheckAndRecordLimits env now config (att_Amount att) s = (Inr (), u)"
    "t = u\<lparr>st_store := MarkProcessed i (st_store u)\<rparr>"
  using assms
  by (auto simp: AdmitAttestation_def handler_simps ValidateAt_def)

lemma SettleInbound_ok:
  assumes "SettleInbound env k config att s = (Inr x, t)"
  obtains bank recipient amount outstanding limit b where
    "bankKeeper k = Some bank" "att_Direction att = DirectionCronosToXitcoin"
    "AccAddressFromBech32 env (TrimSpace (att_Destination att)) = Inr recipient"
    "NewIntFromString env (att_Amount att) = Some amount" "0 < amount"
    "OutstandingAmount (st_store s) = Inr outstanding" "int_ok (outstanding + amount)"
    "NewIntFromString env (cfg_MaxOutstandingAmount config) = Some limit"
    "outstanding + amount \<le> limit"
    "GetSupply bank (nativeDenom k) (st_bank s) + amount \<le> maxSupply k"
    "MintCoins bank ModuleName (nativeDenom k) amount (st_bank s) = (Inr (), b)"
    "SendCoinsFromModuleToAccount bank ModuleName recipient (nativeDenom k) amount b = (Inr (), st_bank t)"
    "st_store t = setOutstandingAmount (outstanding + amount) (st_store s)"
    "st_events t = st_events s"
  using assms
  by (auto simp: SettleInbound_def handler_simps split: sum.splits)

lemma KInitiateOutboundTransfer_ok:
  assumes "KInitiateOutboundTransfer env k now config sender destination amountText s = (Inr (i, nonce), t)"
  obtains bank amount outstanding u b where
    "bankKeeper k = Some bank"
    "RequireRouteAvailable env (st_store s) config = Inr ()"
    "NewIntFromString env amountText = Some amount" "0 < amount"
    "CheckAndRecordLimits env now config amountText s = (Inr (), u)"
    "OutstandingAmount (st_store u) = Inr outstanding" "amount \<le> outstanding"
    "SendCoinsFromAccountToModule bank sender ModuleName (nativeDenom k) amount (st_bank u) = (Inr (), b)"
    "BurnCoins bank ModuleName (nativeDenom k) amount b = (Inr (), st_bank t)"
    "nonce = (if length (kv_get (st_store u) KeyOutboundNonce) = 8
              then Uint64 (kv_get (st_store u) KeyOutboundNonce) else 0) + 1"
    "st_store t = setOutstandingAmount (outstanding - amount)
                    (kv_set KeyOutboundNonce (PutUint64 nonce) (st_store u))"
    "st_events t = st_events u"
  using assms
  by (auto simp: KInitiateOutboundTransfer_def nextOutboundNonce_def handler_simps Let_def split: sum.splits)

lemma PauseRoute_ok:
  assumes "PauseRoute env now config action sig s = (Inr x, t)"
  obtains i state where
    "RouteConfig_Validate env config = Inr ()" "gpa_RouteID action = cfg_RouteID config"
    "now < gpa_ExpiresUnix action" "GuardianPauseAction_ID env action = Inr i"
    "\<not> kv_has (st_store s) (processedPauseKey i)"
    "VerifyGuardianPause env action (cfg_Guardian config) sig = Inr (HexToAddress env (cfg_Guardian config))"
    "GetRouteState env (st_store s) = Inr state" "\<not> Paused state"
    "t = s\<lparr>st_store := kv_set (processedPauseKey i) [CHR 0x01]
            (kv_set routeStateKey (MarshalState \<lparr>Paused = True\<rparr>) (st_store s))\<rparr>"
  using assms
  by (auto simp: PauseRoute_def VerifyGuardianPause_def handler_simps)

lemma KResumeRoute_ok:
  assumes "KResumeRoute env now config action sigs s = (Inr x, t)"
  obtains i state rs where
    "RouteConfig_Validate env config = Inr ()" "ctl_RouteID action = cfg_RouteID config"
    "ctl_NotBeforeUnix action \<le> now" "now < ctl_ExpiresUnix action"
    "GetRouteState env (st_store s) = Inr state" "Paused state"
    "ControlAction_ID env action = Inr i" "\<not> kv_has (st_store s) (processedControlKey i)"
    "VerifyControlApprovals env action (cfg_BridgeSigners config) sigs = Inr rs"
    "t = s\<lparr>st_store := kv_set (processedControlKey i) [CHR 0x01]
            (kv_set routeStateKey (MarshalState \<lparr>Paused = False\<rparr>) (st_store s))\<rparr>"
  using assms
  by (auto simp: KResumeRoute_def handler_simps)

lemma SetRouteConfig_ok:
  "SetRouteConfig env config s = (Inr x, t) \<longleftrightarrow>
     RouteConfig_Validate env config = Inr () \<and>
     t = s\<lparr>st_store := kv_set routeConfigKey (MarshalConfig env config) (st_store s)\<rparr>"
  by (auto simp: SetRouteConfig_def handler_simps)

lemma ApplyRouteConfigUpdate_ok:
  assumes "ApplyRouteConfigUpdate env now current action nxt sigs s = (Inr x, t)"
  obtains i h rs where
    "RouteConfig_Validate env current = Inr ()" "RouteConfig_Validate env nxt = Inr ()"
    "ctl_Action action = ActionUpdateRouteConfig" "ctl_RouteID action = cfg_RouteID current"
    "cfg_RouteID nxt = cfg_RouteID current"
    "ctl_NotBeforeUnix action \<le> now" "now < ctl_ExpiresUnix action"
    "RouteConfigPayloadHash env nxt = Inr h"
    "EqualFold (env_unicode env) (HashHex env h) (ctl_PayloadHash action)"
    "ControlAction_ID env action = Inr i" "\<not> kv_has (st_store s) (processedControlKey i)"
    "VerifyControlApprovals env action (cfg_BridgeSigners current) sigs = Inr rs"
    "t = s\<lparr>st_store := kv_set (processedControlKey i) [CHR 0x01]
            (kv_set routeConfigKey (MarshalConfig env nxt) (st_store s))\<rparr>"
  using assms
  by (auto simp: ApplyRouteConfigUpdate_def handler_simps SetRouteConfig_ok)

lemma InitializeRouteConfig_ok:
  assumes "InitializeRouteConfig env k (Some m) s = (Inr x, t)"
  shows "ValidateAuthority env (authority k) (mir_Authority m) = Inr ()"
    "GetRouteConfig env (st_store s) = Inr None"
    "RouteConfig_Validate env (mir_RouteConfig m) = Inr ()"
    "st_store t = kv_set routeStateKey (MarshalState \<lparr>Paused = True\<rparr>)
       (kv_set routeConfigKey (MarshalConfig env (mir_RouteConfig m)) (st_store s))"
    "st_bank t = st_bank s"
  using assms
  by (auto simp: InitializeRouteConfig_def handler_simps SetRouteConfig_ok)

lemma EmergencyPauseRoute_ok:
  assumes "EmergencyPauseRoute env now (Some m) s = (Inr x, t)"
  obtains config u where
    "GetRouteConfig env (st_store s) = Inr (Some config)"
    "PauseRoute env now config (mep_Action m) (mep_GuardianSignature m) s = (Inr (), u)"
    "st_store t = st_store u" "st_bank t = st_bank u"
  using assms
  by (auto simp: EmergencyPauseRoute_def handler_simps found_config_ok)

lemma ResumeRoute_ok:
  assumes "ResumeRoute env now (Some m) s = (Inr x, t)"
  obtains config h u where
    "GetRouteConfig env (st_store s) = Inr (Some config)"
    "RouteStatePayloadHash env config \<lparr>Paused = False\<rparr> = Inr h"
    "KResumeRoute env now config (mrr_Action m (HashHex env h)) (mrr_Signatures m) s = (Inr (), u)"
    "st_store t = st_store u" "st_bank t = st_bank u"
  using assms
  by (auto simp: ResumeRoute_def handler_simps found_config_ok)

lemma UpdateRouteConfig_ok:
  assumes "UpdateRouteConfig env now (Some m) s = (Inr x, t)"
  obtains current h u where
    "GetRouteConfig env (st_store s) = Inr (Some current)"
    "RouteConfigPayloadHash env (muc_RouteConfig m) = Inr h"
    "ApplyRouteConfigUpdate env now current (muc_Action m (HashHex env h)) (muc_RouteConfig m)
       (muc_Signatures m) s = (Inr (), u)"
    "st_store t = st_store u" "st_bank t = st_bank u"
  using assms
  by (auto simp: UpdateRouteConfig_def handler_simps found_config_ok)

lemma SubmitAttestation_ok:
  assumes "SubmitAttestation env k now (Some m) s = (Inr r, t)"
  obtains config i u v where
    "GetRouteConfig env (st_store s) = Inr (Some config)"
    "AdmitAttestation env now config (msa_Attestation m) (msa_Signatures m) s = (Inr i, u)"
    "SettleInbound env k config (msa_Attestation m) u = (Inr (), v)"
    "st_store t = st_store v" "st_bank t = st_bank v" "r = hex_encode i"
  using assms
  by (auto simp: SubmitAttestation_def handler_simps found_config_ok)

lemma InitiateOutboundTransfer_ok:
  assumes "InitiateOutboundTransfer env k now (Some m) s = (Inr r, t)"
  obtains config sender i nonce u where
    "GetRouteConfig env (st_store s) = Inr (Some config)" "mot_RouteId m = cfg_RouteID config"
    "AccAddressFromBech32 env (mot_Sender m) = Inr sender"
    "KInitiateOutboundTransfer env k now config sender (mot_Destination m) (mot_Amount m) s = (Inr (i, nonce), u)"
    "st_store t = st_store u" "st_bank t = st_bank u" "r = (hex_encode i, nonce)"
    "st_events t = st_events u @ [(''bridge_outbound_burned'',
       [(''request_id'', hex_encode i), (''route_id'', cfg_RouteID config),
        (''sender'', AccString env sender), (''destination'', mot_Destination m),
        (''amount'', mot_Amount m), (''nonce'', nat_dec (unat nonce))])]"
  using assms
  by (auto simp: InitiateOutboundTransfer_def handler_simps found_config_ok)

section \<open>The bridge as a step relation\<close>

datatype bridge_msg =
    MInit MsgInitializeRouteConfig
  | MPause MsgEmergencyPauseRoute
  | MResume MsgResumeRoute
  | MUpdate MsgUpdateRouteConfig
  | MSubmit MsgSubmitAttestation
  | MOutbound MsgInitiateOutboundTransfer

text \<open>A label is the block time and the message that was accepted.\<close>

inductive bridge_step ::
  "bridge_env \<Rightarrow> 'b Keeper \<Rightarrow> int \<times> bridge_msg \<Rightarrow> 'b bridge_state \<Rightarrow> 'b bridge_state \<Rightarrow> bool"
  for env :: bridge_env and k :: "'b Keeper" where
  step_init: "InitializeRouteConfig env k (Some m) s = (Inr (), t) \<Longrightarrow> bridge_step env k (now, MInit m) s t"
| step_pause: "EmergencyPauseRoute env now (Some m) s = (Inr (), t) \<Longrightarrow> bridge_step env k (now, MPause m) s t"
| step_resume: "ResumeRoute env now (Some m) s = (Inr (), t) \<Longrightarrow> bridge_step env k (now, MResume m) s t"
| step_update: "UpdateRouteConfig env now (Some m) s = (Inr (), t) \<Longrightarrow> bridge_step env k (now, MUpdate m) s t"
| step_submit: "SubmitAttestation env k now (Some m) s = (Inr r, t) \<Longrightarrow> bridge_step env k (now, MSubmit m) s t"
| step_outbound:
    "InitiateOutboundTransfer env k now (Some m) s = (Inr q, t) \<Longrightarrow> bridge_step env k (now, MOutbound m) s t"

inductive_simps bridge_step_simps:
  "bridge_step env k (now, MInit m) s t"
  "bridge_step env k (now, MPause m) s t"
  "bridge_step env k (now, MResume m) s t"
  "bridge_step env k (now, MUpdate m) s t"
  "bridge_step env k (now, MSubmit m) s t"
  "bridge_step env k (now, MOutbound m) s t"

text \<open>The identifier each message consumes, in each of the three replay-marker families.\<close>

definition ok_option :: "'a result \<Rightarrow> 'a option" where
  "ok_option r = (case r of Inl _ \<Rightarrow> None | Inr x \<Rightarrow> Some x)"

lemma ok_option_Some [simp]: "ok_option r = Some x \<longleftrightarrow> r = Inr x"
  by (auto simp: ok_option_def split: sum.splits)

definition consumed_attestation :: "bridge_env \<Rightarrow> int \<times> bridge_msg \<Rightarrow> bytes option" where
  "consumed_attestation env l = (case snd l of
       MSubmit m \<Rightarrow> ok_option (Attestation_ID env (msa_Attestation m)) | _ \<Rightarrow> None)"

definition consumed_pause :: "bridge_env \<Rightarrow> int \<times> bridge_msg \<Rightarrow> bytes option" where
  "consumed_pause env l = (case snd l of
       MPause m \<Rightarrow> ok_option (GuardianPauseAction_ID env (mep_Action m)) | _ \<Rightarrow> None)"

section \<open>Frame facts\<close>

definition outstanding_of :: "kv \<Rightarrow> int" where
  "outstanding_of m = int (SetBytes (kv_get m KeyOutstandingAmount))"

lemma OutstandingAmount_ok: "OutstandingAmount m = Inr a \<Longrightarrow> a = outstanding_of m"
  by (auto simp: OutstandingAmount_def outstanding_of_def handler_simps split: if_splits)

lemma outstanding_of_set [simp]: "0 \<le> a \<Longrightarrow> outstanding_of (setOutstandingAmount a m) = a"
  by (simp add: outstanding_of_def setOutstandingAmount_def codec_simps)

lemma outstanding_of_nonneg: "0 \<le> outstanding_of m"
  by (simp add: outstanding_of_def)

lemma outstanding_of_other [simp]:
  "j \<noteq> KeyOutstandingAmount \<Longrightarrow> outstanding_of (kv_set j v m) = outstanding_of m"
  by (auto simp: outstanding_of_def)

lemma setOutstanding_get [simp]:
  "j \<noteq> KeyOutstandingAmount \<Longrightarrow> kv_get (setOutstandingAmount a m) j = kv_get m j"
  by (simp add: setOutstandingAmount_def)

lemma setOutstanding_has [simp]:
  "j \<noteq> KeyOutstandingAmount \<Longrightarrow> kv_has (setOutstandingAmount a m) j = kv_has m j"
  by (simp add: setOutstandingAmount_def)

lemma MarkProcessed_get [simp]: "j \<noteq> processedKey i \<Longrightarrow> kv_get (MarkProcessed i m) j = kv_get m j"
  by (simp add: MarkProcessed_def)

lemma MarkProcessed_has [simp]: "kv_has (MarkProcessed i m) j \<longleftrightarrow> j = processedKey i \<or> kv_has m j"
  by (simp add: MarkProcessed_def)

lemma outstanding_of_MarkProcessed [simp]: "outstanding_of (MarkProcessed i m) = outstanding_of m"
  by (simp add: outstanding_of_def bridge_key_defs)

text \<open>No step removes a replay marker of any family.\<close>

lemma bridge_step_keeps_keys:
  assumes "bridge_step env k l s t" "kv_has (st_store s) j" "j \<noteq> KeyOutstandingAmount"
  shows "kv_has (st_store t) j"
  using assms
proof (cases rule: bridge_step.cases)
  case (step_init m now)
  then show ?thesis using assms(2) by (auto dest: InitializeRouteConfig_ok)
next
  case (step_pause now m)
  then show ?thesis using assms(2) by (auto elim!: EmergencyPauseRoute_ok PauseRoute_ok)
next
  case (step_resume now m)
  then show ?thesis using assms(2) by (auto elim!: ResumeRoute_ok KResumeRoute_ok)
next
  case (step_update now m)
  then show ?thesis using assms(2) by (auto elim!: UpdateRouteConfig_ok ApplyRouteConfigUpdate_ok)
next
  case (step_submit now m r)
  then show ?thesis using assms(2,3)
    by (auto elim!: SubmitAttestation_ok AdmitAttestation_ok SettleInbound_ok CheckAndRecordLimits_ok)
next
  case (step_outbound now m q)
  then show ?thesis using assms(2,3)
    by (auto elim!: InitiateOutboundTransfer_ok KInitiateOutboundTransfer_ok CheckAndRecordLimits_ok)
qed

lemma submit_marks:
  assumes "SubmitAttestation env k now (Some m) s = (Inr r, t)"
  obtains i where "Attestation_ID env (msa_Attestation m) = Inr i"
    "\<not> IsProcessed (st_store s) i" "IsProcessed (st_store t) i"
  using assms
  by (auto elim!: SubmitAttestation_ok AdmitAttestation_ok SettleInbound_ok CheckAndRecordLimits_ok
      simp: IsProcessed_def bridge_key_defs)

interpretation attestations: once_only "bridge_step env kp" "\<lambda>s. IsProcessed (st_store s)" "consumed_attestation env"
  for env :: bridge_env and kp :: "'b Keeper"
proof
  fix l :: "int \<times> bridge_msg" and s t :: "'b bridge_state" and i
  assume step: "bridge_step env kp l s t"
  obtain now msg where l: "l = (now, msg)" by (cases l)
  { assume c: "consumed_attestation env l = Some i"
    then obtain m where "msg = MSubmit m" "Attestation_ID env (msa_Attestation m) = Inr i"
      by (auto simp: consumed_attestation_def l split: bridge_msg.splits)
    with step l obtain r where "SubmitAttestation env kp now (Some m) s = (Inr r, t)"
      and "Attestation_ID env (msa_Attestation m) = Inr i"
      by (auto simp: bridge_step_simps)
    then show "\<not> IsProcessed (st_store s) i" "IsProcessed (st_store t) i"
      by (auto elim!: submit_marks) }
  assume "IsProcessed (st_store s) i"
  then show "IsProcessed (st_store t) i"
    using bridge_step_keeps_keys [OF step] by (simp add: IsProcessed_def bridge_key_defs)
qed

interpretation pauses: once_only "bridge_step env kp" "\<lambda>s i. kv_has (st_store s) (processedPauseKey i)" "consumed_pause env"
  for env :: bridge_env and kp :: "'b Keeper"
proof
  fix l :: "int \<times> bridge_msg" and s t :: "'b bridge_state" and i
  assume step: "bridge_step env kp l s t"
  obtain now msg where l: "l = (now, msg)" by (cases l)
  { assume c: "consumed_pause env l = Some i"
    then obtain m where m: "msg = MPause m" "GuardianPauseAction_ID env (mep_Action m) = Inr i"
      by (auto simp: consumed_pause_def l split: bridge_msg.splits)
    with step l have "EmergencyPauseRoute env now (Some m) s = (Inr (), t)"
      by (auto simp: bridge_step_simps)
    with m show "\<not> kv_has (st_store s) (processedPauseKey i)" "kv_has (st_store t) (processedPauseKey i)"
      by (auto elim!: EmergencyPauseRoute_ok PauseRoute_ok) }
  assume "kv_has (st_store s) (processedPauseKey i)"
  then show "kv_has (st_store t) (processedPauseKey i)"
    using bridge_step_keeps_keys [OF step] by (simp add: bridge_key_defs)
qed

end
