(* ===== verification/Bridge_Demo.thy ===== *)
theory Bridge_Demo
  imports Bridge_Facts
begin

text \<open>
  A concrete instance of the code outside the repository (one-character addresses, the identity
  in place of the hash functions, a bank that only counts the supply), a configured route, and
  messages the bridge accepts on it. The witnesses of the bridge properties run on it.
\<close>

definition demo_unicode :: unicode where
  "demo_unicode = \<lparr>u_ToLower = (\<lambda>s. s), u_EqualFold = (\<lambda>s t. s = t), u_route_runes = (\<lambda>s. False)\<rparr>"

definition demo_config :: RouteConfig where
  "demo_config =
     \<lparr>cfg_RouteID = ''r1'', cfg_BridgeSigners = [''A'', ''B'', ''C''], cfg_Guardian = ''G'',
      cfg_MaxTransferAmount = ''100'', cfg_DailyLimit = ''150'', cfg_MaxOutstandingAmount = ''1000'',
      cfg_Enabled = True\<rparr>"

definition demo_env :: bridge_env where
  "demo_env =
     \<lparr>env_unicode = demo_unicode, IsHexAddress = (\<lambda>s. length s = 1),
      HexToAddress = (\<lambda>s. word_of_nat (SetBytes s)), AddressHex = (\<lambda>a. Bytes (unat a)),
      IsHexHash = (\<lambda>s. s \<noteq> []), HashHex = (\<lambda>b. b), Keccak256Hash = (\<lambda>b. b), Sha256 = (\<lambda>b. b),
      ValidateSignatureValues = (\<lambda>v r s. True), SigToPub = (\<lambda>d s. Inr (take 1 s)),
      PubkeyToAddress = (\<lambda>p. word_of_nat (SetBytes p)),
      AccAddressFromBech32 = (\<lambda>s. if s = [] then Inl (Err ''empty address'') else Inr s),
      AccString = (\<lambda>a. a),
      ValidateAuthority = (\<lambda>a b. if a = b then Inr () else Inl (Err ''invalid authority'')),
      ValidateDenom = (\<lambda>d. Inr ()), NewIntFromString = SetString10,
      MarshalConfig = (\<lambda>c. ''cfg''), UnmarshalConfig = (\<lambda>b. Inr demo_config),
      UnmarshalState = (\<lambda>b. Inr \<lparr>Paused = (b = MarshalState \<lparr>Paused = True\<rparr>)\<rparr>)\<rparr>"

lemma demo_env_sel [simp]:
  "env_unicode demo_env = demo_unicode"
  "IsHexAddress demo_env s = (length s = 1)"
  "HexToAddress demo_env s = word_of_nat (SetBytes s)"
  "IsHexHash demo_env s = (s \<noteq> [])" "HashHex demo_env b = b" "Keccak256Hash demo_env b = b"
  "Sha256 demo_env b = b" "ValidateSignatureValues demo_env v r q"
  "SigToPub demo_env b s = Inr (take 1 s)" "PubkeyToAddress demo_env b = word_of_nat (SetBytes b)"
  "AccAddressFromBech32 demo_env s = (if s = [] then Inl (Err ''empty address'') else Inr s)"
  "NewIntFromString demo_env = SetString10" "MarshalConfig demo_env c = ''cfg''"
  "UnmarshalConfig demo_env b = Inr demo_config"
  "UnmarshalState demo_env b = Inr \<lparr>Paused = (b = MarshalState \<lparr>Paused = True\<rparr>)\<rparr>"
  "ValidateAuthority demo_env x y = (if x = y then Inr () else Inl (Err ''invalid authority''))"
  by (simp_all add: demo_env_def)

lemma demo_config_sel [simp]:
  "cfg_RouteID demo_config = ''r1''" "cfg_BridgeSigners demo_config = [''A'', ''B'', ''C'']"
  "cfg_Guardian demo_config = ''G''" "cfg_MaxTransferAmount demo_config = ''100''"
  "cfg_DailyLimit demo_config = ''150''" "cfg_MaxOutstandingAmount demo_config = ''1000''"
  "cfg_Enabled demo_config"
  by (simp_all add: demo_config_def)

definition demo_bank :: "int bank_ops" where
  "demo_bank =
     \<lparr>MintCoins = (\<lambda>m d a b. (Inr (), b + a)), BurnCoins = (\<lambda>m d a b. (Inr (), b - a)),
      SendCoinsFromModuleToAccount = (\<lambda>m r d a b. (Inr (), b)),
      SendCoinsFromAccountToModule = (\<lambda>s m d a b. (Inr (), b)), GetSupply = (\<lambda>d b. b)\<rparr>"

definition demo_keeper :: "int Keeper" where
  "demo_keeper = \<lparr>bankKeeper = Some demo_bank, nativeDenom = ''axtc'', maxSupply = 5000, authority = ''gov''\<rparr>"

lemma demo_keeper_sel [simp]:
  "bankKeeper demo_keeper = Some demo_bank" "nativeDenom demo_keeper = ''axtc''"
  "maxSupply demo_keeper = 5000"
  "MintCoins demo_bank m d a b = (Inr (), b + a)" "BurnCoins demo_bank m d a b = (Inr (), b - a)"
  "SendCoinsFromModuleToAccount demo_bank m r d a b = (Inr (), b)"
  "SendCoinsFromAccountToModule demo_bank r m d a b = (Inr (), b)" "GetSupply demo_bank d b = b"
  by (simp_all add: demo_keeper_def demo_bank_def)

definition demo_state :: "int bridge_state" where
  "demo_state = \<lparr>st_store = [routeConfigKey \<mapsto> ''cfg''], st_bank = 100, st_events = []\<rparr>"

lemma demo_state_sel [simp]:
  "st_bank demo_state = 100" "kv_get (st_store demo_state) k = (if k = routeConfigKey then ''cfg'' else [])"
  "kv_has (st_store demo_state) k = (k = routeConfigKey)"
  by (simp_all add: demo_state_def kv_get_def kv_has_def)

definition demo_sig :: "char \<Rightarrow> bytes" where
  "demo_sig c = c # replicate 64 (CHR 0x00)"

definition demo_submit :: MsgSubmitAttestation where
  "demo_submit =
     \<lparr>msa_Submitter = ''bob'', msa_RouteId = ''r1'', msa_Direction = ''cronos_to_xitcoin'',
      msa_SourceChainId = ''25'',
      msa_SourceRef = ''0xABababababababababababababababababababababababababababababababab'', msa_Nonce = 1,
      msa_Destination = ''alice'', msa_Amount = ''60'', msa_DeadlineUnix = 1000,
      msa_Signatures = [demo_sig CHR ''A'', demo_sig CHR ''B'']\<rparr>"

lemmas result_eval = thenR_def bindR_def require_def of_option_def
lemmas text_eval =
  validRouteID_def maxRouteIDLength_def is_ascii_def route_char_def is_digit_def TrimSpace_plain
  plain_char_def nat_of_byte_def SetString10_def parse_unsigned_def positiveAmount_def
lemmas hex_eval =
  validHexReference_def normalizeHexReference_def ToLower_def lower_char_def TrimPrefix_def
  HasPrefix_def hex_val_def Let_def byte_of_def
lemmas sign_eval =
  configuredSigners_def MaxBridgeSigners_def RequiredApprovals_def recoverSigner_def
  SignatureLength_def demo_sig_def SetBytes_def
lemmas handler_eval = thenE_def bindE_def requireE_def storeE_def bankE_def emitE_def getsE_def

lemma demo_config_valid [simp]: "RouteConfig_Validate demo_env demo_config = Inr ()"
  by (simp add: RouteConfig_Validate_def result_eval text_eval sign_eval)

lemma demo_GetRouteConfig [simp]:
  "kv_get m routeConfigKey = ''cfg'' \<Longrightarrow> GetRouteConfig demo_env m = Inr (Some demo_config)"
  by (simp add: GetRouteConfig_def result_eval)

lemma demo_available [simp]: "RequireRouteAvailable demo_env (st_store demo_state) demo_config = Inr ()"
  by (simp add: RequireRouteAvailable_def result_eval GetRouteState_def bridge_key_defs)

lemma demo_att_sel [simp]:
  "att_RouteID (msa_Attestation demo_submit) = ''r1''"
  "att_Direction (msa_Attestation demo_submit) = DirectionCronosToXitcoin"
  "att_Destination (msa_Attestation demo_submit) = ''alice''"
  "att_Amount (msa_Attestation demo_submit) = ''60''"
  "att_DeadlineUnix (msa_Attestation demo_submit) = 1000"
  by (simp_all add: msa_Attestation_def demo_submit_def DirectionCronosToXitcoin_def)

lemma demo_att_valid [simp]: "Attestation_Validate demo_env (msa_Attestation demo_submit) = Inr ()"
  by (simp add: Attestation_Validate_def msa_Attestation_def demo_submit_def result_eval text_eval hex_eval
      DirectionCronosToXitcoin_def maxDestinationLen_def)

definition demo_id :: bytes where
  "demo_id = Join (att_fields demo_env (msa_Attestation demo_submit)) (CHR 0x00)"

lemma demo_att_ID [simp]: "Attestation_ID demo_env (msa_Attestation demo_submit) = Inr demo_id"
  by (simp add: Attestation_ID_def result_eval demo_id_def)

lemma demo_submit_sel [simp]:
  "msa_Signatures demo_submit = [demo_sig CHR ''A'', demo_sig CHR ''B'']" "msa_Submitter demo_submit = ''bob''"
  by (simp_all add: demo_submit_def)

lemma demo_approvals [simp]:
  "VerifyApprovals demo_env (msa_Attestation demo_submit) [''A'', ''B'', ''C''] [demo_sig CHR ''A'', demo_sig CHR ''B'']
     = Inr [65, 66]"
  by (simp add: VerifyApprovals_def SigningDigest_def result_eval sign_eval text_eval hex_eval)

definition demo_day :: bytes where
  "demo_day = dailyUsageKey demo_env ''r1'' 500"

lemma demo_day_key [simp]: "dailyUsageKey demo_env ''r1'' 500 = demo_day"
  by (simp add: demo_day_def)

lemma demo_keys [simp]:
  "demo_day \<noteq> routeConfigKey" "routeConfigKey \<noteq> demo_day" "demo_day \<noteq> KeyOutstandingAmount"
  "KeyOutstandingAmount \<noteq> demo_day" "processedKey i \<noteq> routeConfigKey" "processedKey i \<noteq> demo_day"
  "KeyOutstandingAmount \<noteq> processedKey i" "KeyOutstandingAmount \<noteq> routeConfigKey" "routeConfigKey \<noteq> KeyOutstandingAmount"
  "routeConfigKey \<noteq> processedKey i" "routeStateKey \<noteq> demo_day" "routeStateKey \<noteq> processedKey i"
  "routeStateKey \<noteq> KeyOutstandingAmount" "routeStateKey \<noteq> routeConfigKey" "demo_day \<noteq> processedKey i"
  "processedKey i \<noteq> KeyOutstandingAmount"
  by (simp_all add: demo_day_def bridge_key_defs)

lemma demo_limits:
  "CheckAndRecordLimits demo_env 500 demo_config ''60'' demo_state
     = (Inr (), demo_state\<lparr>st_store := kv_set demo_day (Bytes 60) (st_store demo_state)\<rparr>)"
  by (simp add: CheckAndRecordLimits_def handler_eval text_eval result_eval SetBytes_def)

lemma demo_admit:
  "AdmitAttestation demo_env 500 demo_config (msa_Attestation demo_submit) (msa_Signatures demo_submit) demo_state
     = (Inr demo_id, demo_state\<lparr>st_store := MarkProcessed demo_id (kv_set demo_day (Bytes 60) (st_store demo_state))\<rparr>)"
  by (simp add: AdmitAttestation_def handler_eval result_eval ValidateAt_def IsProcessed_def demo_limits)

definition demo_after :: "int bridge_state" where
  "demo_after =
     \<lparr>st_store = setOutstandingAmount 60 (MarkProcessed demo_id (kv_set demo_day (Bytes 60) (st_store demo_state))),
      st_bank = 160,
      st_events = [(''bridge_inbound_settled'',
        [(''attestation_id'', hex_encode demo_id), (''route_id'', ''r1''), (''destination'', ''alice''),
         (''amount'', ''60'')])]\<rparr>"

lemma demo_settle:
  "SettleInbound demo_env demo_keeper demo_config (msa_Attestation demo_submit)
      (demo_state\<lparr>st_store := MarkProcessed demo_id (kv_set demo_day (Bytes 60) (st_store demo_state))\<rparr>)
     = (Inr (), demo_after\<lparr>st_events := []\<rparr>)"
  by (simp add: SettleInbound_def handler_eval result_eval text_eval OutstandingAmount_def sdk_int_def
      int_ok_def demo_after_def demo_state_def [THEN arg_cong [of _ _ st_events]])

lemma demo_submit_step:
  "SubmitAttestation demo_env demo_keeper 500 (Some demo_submit) demo_state
     = (Inr (hex_encode demo_id), demo_after)"
  by (simp add: SubmitAttestation_def msa_ValidateBasic_def found_config_def handler_eval result_eval
     demo_admit [simplified] demo_settle)
     (simp add: demo_after_def demo_submit_def)

definition demo_outbound :: MsgInitiateOutboundTransfer where
  "demo_outbound = \<lparr>mot_Sender = ''bob'', mot_RouteId = ''r1'', mot_Destination = ''D'', mot_Amount = ''10''\<rparr>"

lemma demo_after_sel [simp]:
  "st_bank demo_after = 160" "kv_get (st_store demo_after) routeConfigKey = ''cfg''"
  "kv_get (st_store demo_after) routeStateKey = []" "kv_get (st_store demo_after) demo_day = Bytes 60"
  "outstanding_of (st_store demo_after) = 60" "IsProcessed (st_store demo_after) demo_id"
  "\<not> kv_has (st_store demo_after) (processedPauseKey i)" "\<not> kv_has (st_store demo_after) (processedControlKey i)"
  by (simp_all add: demo_after_def IsProcessed_def processedPauseKey_def processedPausePrefix_def
      processedKey_def KeyProcessedAttestationPrefix_def demo_day_def bridge_key_defs)

lemma demo_after_limits:
  "CheckAndRecordLimits demo_env 500 demo_config ''10'' demo_after
     = (Inr (), demo_after\<lparr>st_store := kv_set demo_day (Bytes 70) (st_store demo_after)\<rparr>)"
  by (simp add: CheckAndRecordLimits_def RequireRouteAvailable_def GetRouteState_def handler_eval
      text_eval result_eval codec_simps)

lemma demo_after_outstanding:
  "OutstandingAmount (kv_set demo_day v (st_store demo_after)) = Inr 60"
  by (simp add: OutstandingAmount_def demo_after_def setOutstandingAmount_def codec_simps sdk_int_def int_ok_def)

lemma demo_outbound_step:
  "\<exists>r t. InitiateOutboundTransfer demo_env demo_keeper 500 (Some demo_outbound) demo_after = (Inr r, t)"
  by (simp add: InitiateOutboundTransfer_def demo_outbound_def mot_ValidateBasic_def found_config_def
      KInitiateOutboundTransfer_def demo_after_limits RequireRouteAvailable_def GetRouteState_def
      nextOutboundNonce_def demo_after_outstanding handler_eval result_eval text_eval SetBytes_def)

definition demo_pause :: MsgEmergencyPauseRoute where
  "demo_pause = \<lparr>mep_Submitter = ''bob'', mep_RouteId = ''r1'', mep_Nonce = 7, mep_ExpiresUnix = 900,
     mep_GuardianSignature = demo_sig CHR ''G''\<rparr>"

lemma demo_pause_step:
  "\<exists>t. EmergencyPauseRoute demo_env 500 (Some demo_pause) demo_after = (Inr (), t)"
  by (simp add: EmergencyPauseRoute_def demo_pause_def mep_ValidateBasic_def found_config_def
      PauseRoute_def GetRouteState_def GuardianPauseAction_Validate_def GuardianPauseAction_ID_def
      VerifyGuardianPause_def GuardianPauseDigest_def mep_Action_def
      handler_eval result_eval text_eval sign_eval)

definition demo_update :: MsgUpdateRouteConfig where
  "demo_update = \<lparr>muc_Submitter = ''bob'', muc_RouteId = ''r1'', muc_BridgeSigners = [''A'', ''B'', ''C''],
     muc_Guardian = ''G'', muc_MaxTransferAmount = ''100'', muc_DailyLimit = ''150'',
     muc_MaxOutstandingAmount = ''1000'', muc_Enabled = True, muc_Nonce = 3, muc_NotBeforeUnix = 1,
     muc_ExpiresUnix = 900, muc_Signatures = [demo_sig CHR ''A'', demo_sig CHR ''C'']\<rparr>"

lemma demo_update_config [simp]: "muc_RouteConfig demo_update = demo_config"
  by (simp add: muc_RouteConfig_def demo_update_def demo_config_def)

lemma demo_update_step:
  assumes "kv_get (st_store s) routeConfigKey = ''cfg''" "\<And>i. \<not> kv_has (st_store s) (processedControlKey i)"
  shows "\<exists>t. UpdateRouteConfig demo_env 500 (Some demo_update) s = (Inr (), t)"
proof -
  have basic: "muc_ValidateBasic demo_env demo_update = Inr ()"
    by (simp add: muc_ValidateBasic_def result_eval) (simp add: demo_update_def validateControlSignatures_def
        result_eval sign_eval)
  have act: "ControlAction_Validate demo_env (muc_Action demo_update ''cfg'') = Inr ()"
    by (simp add: ControlAction_Validate_def muc_Action_def demo_update_def result_eval text_eval)
  have approvals: "VerifyControlApprovals demo_env (muc_Action demo_update ''cfg'') [''A'', ''B'', ''C'']
      (muc_Signatures demo_update) = Inr [65, 67]"
    by (simp add: VerifyControlApprovals_def ControlDigest_def ControlAction_ID_def act result_eval)
      (simp add: demo_update_def sign_eval text_eval result_eval hex_eval)
  have sel: "ctl_Action (muc_Action demo_update h) = ActionUpdateRouteConfig"
    "ctl_RouteID (muc_Action demo_update h) = ''r1''" "ctl_PayloadHash (muc_Action demo_update h) = h"
    "ctl_NotBeforeUnix (muc_Action demo_update h) = 1" "ctl_ExpiresUnix (muc_Action demo_update h) = 900" for h
    by (simp_all add: muc_Action_def demo_update_def)
  show ?thesis
    using assms by (simp add: UpdateRouteConfig_def ApplyRouteConfigUpdate_def SetRouteConfig_def
        ControlAction_ID_def basic act approvals sel found_config_def RouteConfigPayloadHash_def
        handler_eval result_eval EqualFold_def lower_char_def is_ascii_def nat_of_byte_def)
qed

end
