(* ===== verification/Bridge_Properties.thy ===== *)
theory Bridge_Properties
  imports Bridge_Demo
begin

text \<open>
  The properties of the bridge: replay protection, quorum, accounting against the native supply,
  limits, the powers of the guardian and of the signers, identifiers and genesis. Each is
  followed by an application of it to the concrete instance of \<^verbatim>\<open>Bridge_Demo\<close>.
\<close>

section \<open>Laws of the code outside the repository\<close>

text \<open>
  The documented effect of the bank module on the supply of the native denomination.
\<close>

definition bank_laws :: "'b bank_ops \<Rightarrow> string \<Rightarrow> bool" where
  "bank_laws bank d \<longleftrightarrow>
     (\<forall>m a b b'. MintCoins bank m d a b = (Inr (), b') \<longrightarrow> GetSupply bank d b' = GetSupply bank d b + a) \<and>
     (\<forall>m a b b'. BurnCoins bank m d a b = (Inr (), b') \<longrightarrow> GetSupply bank d b' = GetSupply bank d b - a) \<and>
     (\<forall>m r a b b'. SendCoinsFromModuleToAccount bank m r d a b = (Inr (), b') \<longrightarrow>
        GetSupply bank d b' = GetSupply bank d b) \<and>
     (\<forall>m r a b b'. SendCoinsFromAccountToModule bank r m d a b = (Inr (), b') \<longrightarrow>
        GetSupply bank d b' = GetSupply bank d b)"

text \<open>\<^verbatim>\<open>json.Unmarshal\<close> reads back what \<^verbatim>\<open>json.Marshal\<close> wrote.\<close>

definition state_json :: "bridge_env \<Rightarrow> bool" where
  "state_json env \<longleftrightarrow> (\<forall>p. UnmarshalState env (MarshalState \<lparr>Paused = p\<rparr>) = Inr \<lparr>Paused = p\<rparr>)"

definition config_json :: "bridge_env \<Rightarrow> RouteConfig \<Rightarrow> bool" where
  "config_json env c \<longleftrightarrow> MarshalConfig env c \<noteq> [] \<and> UnmarshalConfig env (MarshalConfig env c) = Inr c"

lemma demo_laws: "bank_laws demo_bank d" "state_json demo_env" "config_json demo_env demo_config"
  by (auto simp: bank_laws_def state_json_def config_json_def MarshalState_def)

lemma bank_laws_supply:
  assumes "bank_laws bank d"
  shows "MintCoins bank m d a b = (Inr (), b') \<Longrightarrow> GetSupply bank d b' = GetSupply bank d b + a"
    "BurnCoins bank m d a b = (Inr (), b') \<Longrightarrow> GetSupply bank d b' = GetSupply bank d b - a"
    "SendCoinsFromModuleToAccount bank m r d a b = (Inr (), b') \<Longrightarrow> GetSupply bank d b' = GetSupply bank d b"
    "SendCoinsFromAccountToModule bank r m d a b = (Inr (), b') \<Longrightarrow> GetSupply bank d b' = GetSupply bank d b"
  using assms unfolding bank_laws_def by blast+

section \<open>Accounting of one transfer\<close>

definition supply_of :: "'b bank_ops \<Rightarrow> 'b Keeper \<Rightarrow> 'b bridge_state \<Rightarrow> int" where
  "supply_of bank k s = GetSupply bank (nativeDenom k) (st_bank s)"

lemma CheckAndRecordLimits_frame:
  assumes "CheckAndRecordLimits env now config amountText s = (Inr x, u)"
  shows "outstanding_of (st_store u) = outstanding_of (st_store s)" "st_bank u = st_bank s"
    "kv_get (st_store u) KeyOutboundNonce = kv_get (st_store s) KeyOutboundNonce"
    "kv_get (st_store u) routeStateKey = kv_get (st_store s) routeStateKey"
  using assms by (auto elim!: CheckAndRecordLimits_ok simp: bridge_key_defs outstanding_of_def)

lemma submit_effect:
  assumes "SubmitAttestation env k now (Some m) s = (Inr r, t)"
    and "bankKeeper k = Some bank" "bank_laws bank (nativeDenom k)"
  obtains config amount limit where
    "GetRouteConfig env (st_store s) = Inr (Some config)"
    "NewIntFromString env (msa_Amount m) = Some amount" "0 < amount"
    "NewIntFromString env (cfg_MaxOutstandingAmount config) = Some limit"
    "outstanding_of (st_store t) = outstanding_of (st_store s) + amount"
    "outstanding_of (st_store t) \<le> limit"
    "supply_of bank k t = supply_of bank k s + amount" "supply_of bank k t \<le> maxSupply k"
proof -
  obtain config i u v where c: "GetRouteConfig env (st_store s) = Inr (Some config)"
    and a: "AdmitAttestation env now config (msa_Attestation m) (msa_Signatures m) s = (Inr i, u)"
    and b: "SettleInbound env k config (msa_Attestation m) u = (Inr (), v)"
    and t: "st_store t = st_store v" "st_bank t = st_bank v"
    using assms(1) by (rule SubmitAttestation_ok)
  have u: "outstanding_of (st_store u) = outstanding_of (st_store s)" "st_bank u = st_bank s"
    using a by (auto elim!: AdmitAttestation_ok dest: CheckAndRecordLimits_frame)
  show thesis
  proof (rule SettleInbound_ok [OF b])
    fix bank' recipient amount outstanding limit b'
    assume *: "bankKeeper k = Some bank'" "NewIntFromString env (att_Amount (msa_Attestation m)) = Some amount"
      "0 < amount" "OutstandingAmount (st_store u) = Inr outstanding"
      "NewIntFromString env (cfg_MaxOutstandingAmount config) = Some limit" "outstanding + amount \<le> limit"
      "GetSupply bank' (nativeDenom k) (st_bank u) + amount \<le> maxSupply k"
      "MintCoins bank' ModuleName (nativeDenom k) amount (st_bank u) = (Inr (), b')"
      "SendCoinsFromModuleToAccount bank' ModuleName recipient (nativeDenom k) amount b' = (Inr (), st_bank v)"
      "st_store v = setOutstandingAmount (outstanding + amount) (st_store u)"
    have "outstanding = outstanding_of (st_store s)" using OutstandingAmount_ok [OF *(4)] u by simp
    moreover from this have "outstanding_of (st_store t) = outstanding + amount"
      using * t outstanding_of_nonneg [of "st_store s"] by simp
    moreover have "supply_of bank k t = supply_of bank k s + amount"
      using * t u assms(2) bank_laws_supply(1,3) [OF assms(3)] by (simp add: supply_of_def)
    ultimately show thesis
      using * u assms(2) by (intro that [OF c]) (auto simp: supply_of_def msa_Attestation_def)
  qed
qed

definition nonce_of :: "kv \<Rightarrow> uint64" where
  "nonce_of m = (if length (kv_get m KeyOutboundNonce) = 8 then Uint64 (kv_get m KeyOutboundNonce) else 0)"

lemma nonce_of_simps [simp]:
  "nonce_of (kv_set KeyOutboundNonce (PutUint64 n) m) = n"
  "nonce_of (setOutstandingAmount a m) = nonce_of m"
  by (simp_all add: nonce_of_def codec_simps bridge_key_defs)

lemma outbound_effect:
  assumes "InitiateOutboundTransfer env k now (Some m) s = (Inr r, t)"
    and "bankKeeper k = Some bank" "bank_laws bank (nativeDenom k)"
  obtains amount where
    "NewIntFromString env (mot_Amount m) = Some amount" "0 < amount"
    "outstanding_of (st_store t) = outstanding_of (st_store s) - amount"
    "amount \<le> outstanding_of (st_store s)"
    "supply_of bank k t = supply_of bank k s - amount"
    "nonce_of (st_store t) = nonce_of (st_store s) + 1" "snd r = nonce_of (st_store t)"
proof -
  obtain config sender i nonce v where
    a: "KInitiateOutboundTransfer env k now config sender (mot_Destination m) (mot_Amount m) s = (Inr (i, nonce), v)"
    and t: "st_store t = st_store v" "st_bank t = st_bank v" "r = (hex_encode i, nonce)"
    using assms(1) by (rule InitiateOutboundTransfer_ok)
  show thesis
  proof (rule KInitiateOutboundTransfer_ok [OF a])
    fix bank' amount outstanding u b
    assume *: "bankKeeper k = Some bank'" "NewIntFromString env (mot_Amount m) = Some amount" "0 < amount"
      "CheckAndRecordLimits env now config (mot_Amount m) s = (Inr (), u)"
      "OutstandingAmount (st_store u) = Inr outstanding" "amount \<le> outstanding"
      "SendCoinsFromAccountToModule bank' sender ModuleName (nativeDenom k) amount (st_bank u) = (Inr (), b)"
      "BurnCoins bank' ModuleName (nativeDenom k) amount b = (Inr (), st_bank v)"
      "nonce = (if length (kv_get (st_store u) KeyOutboundNonce) = 8
                then Uint64 (kv_get (st_store u) KeyOutboundNonce) else 0) + 1"
      "st_store v = setOutstandingAmount (outstanding - amount)
                      (kv_set KeyOutboundNonce (PutUint64 nonce) (st_store u))"
    note frame = CheckAndRecordLimits_frame [OF *(4)]
    have "outstanding = outstanding_of (st_store s)" using OutstandingAmount_ok [OF *(5)] frame by simp
    moreover have "supply_of bank k t = supply_of bank k s - amount"
      using *(1,7,8) t frame assms(2) bank_laws_supply(2,4) [OF assms(3)] by (simp add: supply_of_def)
    moreover have "nonce = nonce_of (st_store s) + 1" using *(9) frame by (simp add: nonce_of_def)
    ultimately show thesis using * t by (intro that) auto
  qed
qed

lemma control_steps_frame:
  "InitializeRouteConfig env k (Some mi) s = (Inr x, t) \<Longrightarrow>
     outstanding_of (st_store t) = outstanding_of (st_store s) \<and> st_bank t = st_bank s"
  "EmergencyPauseRoute env now (Some mp) s = (Inr x, t) \<Longrightarrow>
     outstanding_of (st_store t) = outstanding_of (st_store s) \<and> st_bank t = st_bank s"
  "ResumeRoute env now (Some mr) s = (Inr x, t) \<Longrightarrow>
     outstanding_of (st_store t) = outstanding_of (st_store s) \<and> st_bank t = st_bank s"
  "UpdateRouteConfig env now (Some mu) s = (Inr x, t) \<Longrightarrow>
     outstanding_of (st_store t) = outstanding_of (st_store s) \<and> st_bank t = st_bank s"
  by (auto dest: InitializeRouteConfig_ok elim!: EmergencyPauseRoute_ok PauseRoute_ok ResumeRoute_ok
      KResumeRoute_ok UpdateRouteConfig_ok ApplyRouteConfigUpdate_ok
      simp: outstanding_of_def bridge_key_defs)

lemma bridge_step_conserves:
  assumes "bridge_step env k l s t" "bankKeeper k = Some bank" "bank_laws bank (nativeDenom k)"
  shows "supply_of bank k t - outstanding_of (st_store t) = supply_of bank k s - outstanding_of (st_store s)"
  using assms(1)
proof cases
  case (step_submit now m r)
  then show ?thesis using assms(2,3) by (auto elim!: submit_effect)
next
  case (step_outbound now m r)
  then show ?thesis using assms(2,3) by (auto elim!: outbound_effect)
qed (simp_all add: control_steps_frame supply_of_def)

section \<open>Replay protection\<close>

text \<open>
  C1. Along any sequence of accepted messages, each attestation is settled at most once: the
  identifiers consumed by the accepted submissions are pairwise distinct, none of them was
  processed before the run, and all of them are processed after it.
\<close>

theorem attestation_settled_once:
  assumes "run (bridge_step env k) s ls t"
  shows "distinct (List.map_filter (consumed_attestation env) ls) \<and>
    (\<forall>i. i \<in> set (List.map_filter (consumed_attestation env) ls) \<longrightarrow>
       \<not> IsProcessed (st_store s) i \<and> IsProcessed (st_store t) i)"
  using attestations.run_distinct [OF assms] attestations.run_consumed_marked [OF assms]
    attestations.run_not_again [OF assms] by blast

theorem attestation_settled_once_witness:
  "\<exists>t. run (bridge_step demo_env demo_keeper) demo_state [(500, MSubmit demo_submit), (500, MOutbound demo_outbound)] t \<and>
     \<not> IsProcessed (st_store demo_state) demo_id \<and> IsProcessed (st_store t) demo_id"
proof -
  obtain r t where "InitiateOutboundTransfer demo_env demo_keeper 500 (Some demo_outbound) demo_after = (Inr r, t)"
    using demo_outbound_step by blast
  then have "run (bridge_step demo_env demo_keeper) demo_state [(500, MSubmit demo_submit), (500, MOutbound demo_outbound)] t"
    using demo_submit_step by (auto intro!: run.intros bridge_step.intros)
  then show ?thesis
    using attestation_settled_once [of demo_env demo_keeper demo_state _ t]
    by (fastforce simp: consumed_attestation_def ok_option_def List.map_filter_simps)
qed

section \<open>Supply and outstanding amount\<close>

text \<open>
  C3. The native coins minted by the bridge and not yet burnt back are exactly the recorded
  outstanding amount: along any sequence of accepted messages the supply changes by exactly as
  much as the outstanding amount, whatever the messages are.
\<close>

theorem supply_tracks_outstanding:
  assumes "run (bridge_step env k) s ls t"
    and "bankKeeper k = Some bank" "bank_laws bank (nativeDenom k)"
  shows "supply_of bank k t - supply_of bank k s = outstanding_of (st_store t) - outstanding_of (st_store s)"
  using assms(1)
proof (induction rule: run.induct)
  case (run_Nil s)
  then show ?case by simp
next
  case (run_Cons l s t ls u)
  then show ?case using bridge_step_conserves [OF run_Cons(1) assms(2,3)] by simp
qed

theorem supply_tracks_outstanding_witness:
  "supply_of demo_bank demo_keeper demo_after - supply_of demo_bank demo_keeper demo_state = 60 \<and>
   outstanding_of (st_store demo_after) - outstanding_of (st_store demo_state) = 60"
proof -
  have "run (bridge_step demo_env demo_keeper) demo_state [(500, MSubmit demo_submit)] demo_after"
    using demo_submit_step by (auto intro!: run.intros bridge_step.intros)
  from supply_tracks_outstanding [OF this demo_keeper_sel(1) demo_laws(1)] show ?thesis
    by (simp add: supply_of_def)
qed

section \<open>Quorum\<close>

lemma RequireRouteAvailable_ok:
  "RequireRouteAvailable env m config = Inr () \<longleftrightarrow>
     RouteConfig_Validate env config = Inr () \<and> cfg_Enabled config \<and> GetRouteState env m = Inr \<lparr>Paused = False\<rparr>"
  by (auto simp: RequireRouteAvailable_def handler_simps)

text \<open>
  C2. A submission is accepted only when the stored route is valid, enabled and not paused, the
  attestation names that route and has not expired, and at least two different addresses among
  the three configured signers each signed the digest of this very attestation.
\<close>

theorem submit_requires_quorum:
  assumes "SubmitAttestation env k now (Some m) s = (Inr r, t)"
  shows "\<exists>config digest rs.
    GetRouteConfig env (st_store s) = Inr (Some config) \<and> cfg_Enabled config \<and>
    GetRouteState env (st_store s) = Inr \<lparr>Paused = False\<rparr> \<and>
    msa_RouteId m = cfg_RouteID config \<and> now \<le> msa_DeadlineUnix m \<and>
    SigningDigest env (msa_Attestation m) = Inr digest \<and>
    distinct rs \<and> 2 \<le> length rs \<and> set rs \<subseteq> HexToAddress env ` set (cfg_BridgeSigners config) \<and>
    (\<forall>a\<in>set rs. \<exists>sig\<in>set (msa_Signatures m). recoverSigner env digest sig = Inr a)"
proof -
  obtain config i u where c: "GetRouteConfig env (st_store s) = Inr (Some config)"
    and a: "AdmitAttestation env now config (msa_Attestation m) (msa_Signatures m) s = (Inr i, u)"
    using assms by (rule SubmitAttestation_ok)
  obtain rs where *: "RequireRouteAvailable env (st_store s) config = Inr ()"
    "att_RouteID (msa_Attestation m) = cfg_RouteID config" "now \<le> att_DeadlineUnix (msa_Attestation m)"
    and rs: "VerifyApprovals env (msa_Attestation m) (cfg_BridgeSigners config) (msa_Signatures m) = Inr rs"
    using a by (rule AdmitAttestation_ok)
  obtain digest where "SigningDigest env (msa_Attestation m) = Inr digest"
    "\<forall>a\<in>set rs. \<exists>sig\<in>set (msa_Signatures m). recoverSigner env digest sig = Inr a"
    using VerifyApprovals_ok(4) [OF rs] by blast
  then show ?thesis
    using c * VerifyApprovals_ok(1-3) [OF rs]
    by (intro exI [of _ config] exI [of _ digest] exI [of _ rs])
      (simp add: RequireRouteAvailable_ok msa_Attestation_def)
qed

theorem submit_requires_quorum_witness:
  "\<exists>digest rs. SigningDigest demo_env (msa_Attestation demo_submit) = Inr digest \<and> 2 \<le> length rs \<and> distinct rs \<and>
     (\<forall>a\<in>set rs. \<exists>sig\<in>set (msa_Signatures demo_submit). recoverSigner demo_env digest sig = Inr a)"
  using submit_requires_quorum [OF demo_submit_step] by blast

section \<open>Effects of the two transfers\<close>

text \<open>
  C10. An accepted submission mints exactly the attested amount: the supply and the outstanding
  amount both grow by it, the new outstanding amount respects the route's maximum and the new
  supply respects the keeper's maximum supply.
\<close>

theorem submit_mints_within_caps:
  assumes "SubmitAttestation env k now (Some m) s = (Inr r, t)"
    and "bankKeeper k = Some bank" "bank_laws bank (nativeDenom k)"
  shows "\<exists>config amount limit.
    GetRouteConfig env (st_store s) = Inr (Some config) \<and>
    NewIntFromString env (msa_Amount m) = Some amount \<and> 0 < amount \<and>
    NewIntFromString env (cfg_MaxOutstandingAmount config) = Some limit \<and>
    outstanding_of (st_store t) = outstanding_of (st_store s) + amount \<and>
    outstanding_of (st_store t) \<le> limit \<and>
    supply_of bank k t = supply_of bank k s + amount \<and> supply_of bank k t \<le> maxSupply k"
  using assms by (elim submit_effect) (assumption, assumption, blast)

theorem submit_mints_within_caps_witness:
  "outstanding_of (st_store demo_after) = 60 \<and> supply_of demo_bank demo_keeper demo_after = 160 \<and>
   supply_of demo_bank demo_keeper demo_after \<le> maxSupply demo_keeper"
  using submit_mints_within_caps [OF demo_submit_step demo_keeper_sel(1) demo_laws(1)]
  by (auto simp: supply_of_def)

text \<open>
  C11. An accepted outbound transfer burns exactly the requested amount, which the outstanding
  amount covers, and takes the next outbound nonce.
\<close>

theorem outbound_burns_outstanding:
  assumes "InitiateOutboundTransfer env k now (Some m) s = (Inr r, t)"
    and "bankKeeper k = Some bank" "bank_laws bank (nativeDenom k)"
  shows "\<exists>amount. NewIntFromString env (mot_Amount m) = Some amount \<and> 0 < amount \<and>
    amount \<le> outstanding_of (st_store s) \<and>
    outstanding_of (st_store t) = outstanding_of (st_store s) - amount \<and>
    supply_of bank k t = supply_of bank k s - amount \<and>
    nonce_of (st_store t) = nonce_of (st_store s) + 1 \<and> snd r = nonce_of (st_store t)"
  using assms by (elim outbound_effect) (assumption, assumption, blast)

theorem outbound_burns_outstanding_witness:
  "\<exists>r t. InitiateOutboundTransfer demo_env demo_keeper 500 (Some demo_outbound) demo_after = (Inr r, t) \<and>
     outstanding_of (st_store t) = 50 \<and> supply_of demo_bank demo_keeper t = 150"
proof -
  obtain r t where rt: "InitiateOutboundTransfer demo_env demo_keeper 500 (Some demo_outbound) demo_after = (Inr r, t)"
    using demo_outbound_step by blast
  from outbound_burns_outstanding [OF this demo_keeper_sel(1) demo_laws(1)] rt show ?thesis
    by (auto simp: demo_outbound_def supply_of_def text_eval)
qed

text \<open>
  C12. The two transfers share one daily budget per route: each accepted transfer is at most the
  route's transfer limit, adds its amount to the usage of its day, and leaves that usage within
  the daily limit.
\<close>

theorem transfers_within_daily_limit:
  assumes "SubmitAttestation env k now (Some m) s = (Inr r, t) \<and> amountText = msa_Amount m \<or>
           InitiateOutboundTransfer env k now (Some m') s = (Inr q, t) \<and> amountText = mot_Amount m'"
  shows "\<exists>config amount maxTransfer dailyLimit.
    GetRouteConfig env (st_store s) = Inr (Some config) \<and>
    SetString10 amountText = Some amount \<and> 0 < amount \<and>
    SetString10 (cfg_MaxTransferAmount config) = Some maxTransfer \<and> amount \<le> maxTransfer \<and>
    SetString10 (cfg_DailyLimit config) = Some dailyLimit \<and>
    int (DailyUsage env now (st_store t) (cfg_RouteID config)) =
      int (DailyUsage env now (st_store s) (cfg_RouteID config)) + amount \<and>
    int (DailyUsage env now (st_store t) (cfg_RouteID config)) \<le> dailyLimit"
proof -
  obtain config u where c: "GetRouteConfig env (st_store s) = Inr (Some config)"
    and u: "CheckAndRecordLimits env now config amountText s = (Inr (), u)"
    and t: "DailyUsage env now (st_store t) (cfg_RouteID config) = DailyUsage env now (st_store u) (cfg_RouteID config)"
    using assms
  proof (elim disjE conjE)
    assume "SubmitAttestation env k now (Some m) s = (Inr r, t)" "amountText = msa_Amount m"
    then show thesis
      by (auto elim!: SubmitAttestation_ok AdmitAttestation_ok SettleInbound_ok intro!: that
          simp: DailyUsage_def bridge_key_defs msa_Attestation_def)
  next
    assume "InitiateOutboundTransfer env k now (Some m') s = (Inr q, t)" "amountText = mot_Amount m'"
    then show thesis
      by (auto elim!: InitiateOutboundTransfer_ok KInitiateOutboundTransfer_ok intro!: that
          simp: DailyUsage_def bridge_key_defs)
  qed
  show ?thesis
    using u c t by (elim CheckAndRecordLimits_ok) (fastforce simp: DailyUsage_def codec_simps)
qed

theorem transfers_within_daily_limit_witness:
  "int (DailyUsage demo_env 500 (st_store demo_after) ''r1'') =
     int (DailyUsage demo_env 500 (st_store demo_state) ''r1'') + 60"
  using transfers_within_daily_limit [of demo_env demo_keeper 500 demo_submit demo_state _ demo_after "''60''"]
    demo_submit_step by (auto simp: demo_submit_def text_eval)

section \<open>Guardian and signers\<close>

text \<open>
  C16. The guardian can stop the route and nothing else: an accepted emergency pause carries a
  signature over the pause digest that recovers to the configured guardian, it sets the route
  state to paused and the marker of the consumed action, and it touches no other key and no coin.
\<close>

theorem guardian_can_only_pause:
  assumes "EmergencyPauseRoute env now (Some m) s = (Inr (), t)"
  shows "\<exists>config digest i.
    GetRouteConfig env (st_store s) = Inr (Some config) \<and> mep_RouteId m = cfg_RouteID config \<and>
    now < mep_ExpiresUnix m \<and> GuardianPauseDigest env (mep_Action m) = Inr digest \<and>
    recoverSigner env digest (mep_GuardianSignature m) = Inr (HexToAddress env (cfg_Guardian config)) \<and>
    GuardianPauseAction_ID env (mep_Action m) = Inr i \<and> \<not> kv_has (st_store s) (processedPauseKey i) \<and>
    st_store t = (st_store s)(routeStateKey \<mapsto> MarshalState \<lparr>Paused = True\<rparr>, processedPauseKey i \<mapsto> [CHR 0x01]) \<and>
    st_bank t = st_bank s"
proof -
  obtain config u where c: "GetRouteConfig env (st_store s) = Inr (Some config)"
    and p: "PauseRoute env now config (mep_Action m) (mep_GuardianSignature m) s = (Inr (), u)"
    and t: "st_store t = st_store u" "st_bank t = st_bank u"
    using assms by (rule EmergencyPauseRoute_ok)
  obtain i where *: "gpa_RouteID (mep_Action m) = cfg_RouteID config" "now < gpa_ExpiresUnix (mep_Action m)"
    "GuardianPauseAction_ID env (mep_Action m) = Inr i" "\<not> kv_has (st_store s) (processedPauseKey i)"
    "u = s\<lparr>st_store := kv_set (processedPauseKey i) [CHR 0x01]
            (kv_set routeStateKey (MarshalState \<lparr>Paused = True\<rparr>) (st_store s))\<rparr>"
    and v: "VerifyGuardianPause env (mep_Action m) (cfg_Guardian config) (mep_GuardianSignature m)
              = Inr (HexToAddress env (cfg_Guardian config))"
    using p by (rule PauseRoute_ok)
  obtain digest where "GuardianPauseDigest env (mep_Action m) = Inr digest"
    "recoverSigner env digest (mep_GuardianSignature m) = Inr (HexToAddress env (cfg_Guardian config))"
    using v by (auto simp: VerifyGuardianPause_def handler_simps)
  then show ?thesis
    using c t * by (intro exI [of _ config] exI [of _ digest] exI [of _ i]) (simp add: mep_Action_def kv_set_def)
qed

theorem guardian_can_only_pause_witness:
  "\<exists>t. EmergencyPauseRoute demo_env 500 (Some demo_pause) demo_after = (Inr (), t) \<and> st_bank t = 160"
proof -
  obtain t where "EmergencyPauseRoute demo_env 500 (Some demo_pause) demo_after = (Inr (), t)"
    using demo_pause_step by blast
  with guardian_can_only_pause [OF this] show ?thesis by auto
qed

lemma state_json_get:
  "state_json env \<Longrightarrow> kv_get m routeStateKey = MarshalState \<lparr>Paused = p\<rparr> \<Longrightarrow>
     GetRouteState env m = Inr \<lparr>Paused = p\<rparr>"
  by (simp add: GetRouteState_def state_json_def) (simp add: MarshalState_def)

lemma control_keys [simp]:
  "routeConfigKey \<noteq> processedPauseKey i" "processedControlKey i \<noteq> processedPauseKey j"
  "processedControlKey i \<noteq> routeStateKey" "routeStateKey \<noteq> processedPauseKey i"
  "routeConfigKey \<noteq> routeStateKey"
  by (simp_all add: bridge_key_defs)

lemma paused_after_pause:
  assumes "EmergencyPauseRoute env now (Some m) s = (Inr (), t)" "state_json env"
  shows "GetRouteState env (st_store t) = Inr \<lparr>Paused = True\<rparr>"
  using assms
  by (auto elim!: EmergencyPauseRoute_ok PauseRoute_ok intro!: state_json_get)

text \<open>The messages that move coins, and the one that resumes a paused route.\<close>

definition moves_coins :: "bridge_msg \<Rightarrow> bool" where
  "moves_coins msg = (case msg of MSubmit m \<Rightarrow> True | MOutbound m \<Rightarrow> True | _ \<Rightarrow> False)"

definition resumes :: "bridge_msg \<Rightarrow> bool" where
  "resumes msg = (case msg of MResume m \<Rightarrow> True | _ \<Rightarrow> False)"

lemma paused_kept:
  assumes "bridge_step env k (now, msg) s t" "state_json env"
    and "GetRouteState env (st_store s) = Inr \<lparr>Paused = True\<rparr>" "\<not> resumes msg"
  shows "GetRouteState env (st_store t) = Inr \<lparr>Paused = True\<rparr> \<and> st_bank t = st_bank s \<and>
    outstanding_of (st_store t) = outstanding_of (st_store s) \<and> \<not> moves_coins msg"
  using assms(1)
proof cases
  case (step_init m)
  then show ?thesis
    using InitializeRouteConfig_ok(4) [OF step_init(2)] control_steps_frame(1) [OF step_init(2)] assms(2)
    by (simp add: state_json_get moves_coins_def)
next
  case (step_pause m)
  then show ?thesis using control_steps_frame(2) [OF step_pause(2)] paused_after_pause assms(2) by (simp add: moves_coins_def)
next
  case (step_resume m)
  then show ?thesis using assms(4) by (simp add: resumes_def)
next
  case (step_update m)
  then have "kv_get (st_store t) routeStateKey = kv_get (st_store s) routeStateKey"
    by (auto elim!: UpdateRouteConfig_ok ApplyRouteConfigUpdate_ok simp: bridge_key_defs)
  then have "GetRouteState env (st_store t) = GetRouteState env (st_store s)" by (simp add: GetRouteState_def)
  then show ?thesis
    using step_update assms(3) control_steps_frame(4) [OF step_update(2)] by (simp add: moves_coins_def)
next
  case (step_submit m r)
  then show ?thesis
    using assms(3) by (elim SubmitAttestation_ok AdmitAttestation_ok) (simp add: RequireRouteAvailable_ok)
next
  case (step_outbound m r)
  then show ?thesis using assms(3)
    by (elim InitiateOutboundTransfer_ok KInitiateOutboundTransfer_ok) (simp add: RequireRouteAvailable_ok)
qed

text \<open>
  C17. While the route is paused no coin moves: from a paused state, any sequence of accepted
  messages without a resume message contains no transfer in either direction, and leaves the
  route paused and the bank and the outstanding amount as they were.
\<close>

theorem paused_route_moves_nothing:
  assumes "run (bridge_step env k) s ls t" "state_json env"
    and "GetRouteState env (st_store s) = Inr \<lparr>Paused = True\<rparr>"
    and "list_all (\<lambda>l. \<not> resumes (snd l)) ls"
  shows "GetRouteState env (st_store t) = Inr \<lparr>Paused = True\<rparr> \<and> st_bank t = st_bank s \<and>
    outstanding_of (st_store t) = outstanding_of (st_store s) \<and>
    list_all (\<lambda>l. \<not> moves_coins (snd l)) ls"
  using assms(1,3,4)
proof (induction rule: run.induct)
  case (run_Nil s)
  then show ?case by simp
next
  case (run_Cons l s t ls u)
  obtain now msg where l: "l = (now, msg)" by (cases l)
  have step: "GetRouteState env (st_store t) = Inr \<lparr>Paused = True\<rparr> \<and> st_bank t = st_bank s \<and>
    outstanding_of (st_store t) = outstanding_of (st_store s) \<and> \<not> moves_coins msg"
    using paused_kept [OF run_Cons(1) [unfolded l] assms(2) run_Cons(4)] run_Cons(5) by (simp add: l)
  then show ?case using run_Cons.IH run_Cons(5) by (auto simp: l)
qed

theorem paused_route_moves_nothing_witness:
  "\<exists>s t. run (bridge_step demo_env demo_keeper) s [(500, MUpdate demo_update)] t \<and>
     GetRouteState demo_env (st_store s) = Inr \<lparr>Paused = True\<rparr> \<and>
     GetRouteState demo_env (st_store t) = Inr \<lparr>Paused = True\<rparr> \<and> st_bank t = 160"
proof -
  obtain s where s: "EmergencyPauseRoute demo_env 500 (Some demo_pause) demo_after = (Inr (), s)"
    using demo_pause_step by blast
  then have keys: "kv_get (st_store s) routeConfigKey = ''cfg''" "\<And>i. \<not> kv_has (st_store s) (processedControlKey i)"
    by (auto elim!: EmergencyPauseRoute_ok PauseRoute_ok)
  obtain t where "run (bridge_step demo_env demo_keeper) s [(500, MUpdate demo_update)] t"
    using demo_update_step [OF keys] by (blast intro: run.intros step_update)
  note r = this
  have paused: "GetRouteState demo_env (st_store s) = Inr \<lparr>Paused = True\<rparr>" "st_bank s = 160"
    using paused_after_pause [OF s demo_laws(2)] control_steps_frame(2) [OF s] by simp_all
  have "list_all (\<lambda>l. \<not> resumes (snd l)) [(500 :: int, MUpdate demo_update)]" by (simp add: resumes_def)
  from paused_route_moves_nothing [OF r demo_laws(2) paused(1) this] r paused
  show ?thesis by (intro exI [of _ s] exI [of _ t]) simp
qed

text \<open>
  \<open>signed_control env now s t action sigs\<close>: the store of \<open>s\<close> holds a route configuration with the
  action's route; \<open>now\<close> is inside the action's window; the action's identifier is unused in \<open>s\<close> and
  marked in \<open>t\<close>; and at least two different addresses among the configured signers signed the
  action's digest.
\<close>

definition signed_control ::
  "bridge_env \<Rightarrow> int \<Rightarrow> 'b bridge_state \<Rightarrow> 'b bridge_state \<Rightarrow> ControlAction \<Rightarrow> bytes list \<Rightarrow> bool" where
  "signed_control env now s t action sigs \<longleftrightarrow> (\<exists>config i digest rs.
     GetRouteConfig env (st_store s) = Inr (Some config) \<and> ctl_RouteID action = cfg_RouteID config \<and>
     ctl_NotBeforeUnix action \<le> now \<and> now < ctl_ExpiresUnix action \<and>
     ControlAction_ID env action = Inr i \<and> \<not> kv_has (st_store s) (processedControlKey i) \<and>
     kv_has (st_store t) (processedControlKey i) \<and>
     ControlDigest env action = Inr digest \<and> distinct rs \<and> 2 \<le> length rs \<and>
     set rs \<subseteq> HexToAddress env ` set (cfg_BridgeSigners config) \<and>
     (\<forall>a\<in>set rs. \<exists>sig\<in>set sigs. recoverSigner env digest sig = Inr a))"

lemma signed_controlI:
  assumes "GetRouteConfig env (st_store s) = Inr (Some config)" "ctl_RouteID action = cfg_RouteID config"
    "ctl_NotBeforeUnix action \<le> now" "now < ctl_ExpiresUnix action"
    "ControlAction_ID env action = Inr i" "\<not> kv_has (st_store s) (processedControlKey i)"
    "kv_has (st_store t) (processedControlKey i)"
    and rs: "VerifyControlApprovals env action (cfg_BridgeSigners config) sigs = Inr rs"
  shows "signed_control env now s t action sigs"
  using assms(1-7) VerifyControlApprovals_ok [OF rs] unfolding signed_control_def by blast

lemma control_keys_distinct [simp]: "routeConfigKey \<noteq> processedControlKey i" "routeStateKey \<noteq> processedControlKey i"
  by (simp_all add: bridge_key_defs)

text \<open>
  C18. The stored configuration and the unpaused state are under the control of the signers. An
  accepted configuration update was signed by two different configured signers over the update
  action that carries the message's own route, nonce and window and the payload hash of the
  message's configuration, and exactly that configuration is stored. An accepted resume was signed
  by two of them over the resume action with the message's route, nonce and window and the payload
  hash of the unpaused state, and the unpaused state is stored. In both cases the signers are those
  configured before, the block time is inside the message's window, and the action identifier was
  unused and is marked afterwards.
\<close>

theorem control_requires_quorum:
  "(UpdateRouteConfig env now (Some m) s = (Inr (), t) \<longrightarrow>
      (\<exists>h. RouteConfigPayloadHash env (muc_RouteConfig m) = Inr h \<and>
         kv_get (st_store t) routeConfigKey = MarshalConfig env (muc_RouteConfig m) \<and>
         signed_control env now s t
           \<lparr>ctl_RouteID = muc_RouteId m, ctl_Action = ActionUpdateRouteConfig, ctl_PayloadHash = HashHex env h,
            ctl_Nonce = muc_Nonce m, ctl_NotBeforeUnix = muc_NotBeforeUnix m, ctl_ExpiresUnix = muc_ExpiresUnix m\<rparr>
           (muc_Signatures m))) \<and>
   (ResumeRoute env now (Some m') s = (Inr (), t) \<longrightarrow>
      (\<exists>config h. GetRouteConfig env (st_store s) = Inr (Some config) \<and>
         RouteStatePayloadHash env config \<lparr>Paused = False\<rparr> = Inr h \<and>
         kv_get (st_store t) routeStateKey = MarshalState \<lparr>Paused = False\<rparr> \<and>
         signed_control env now s t
           \<lparr>ctl_RouteID = mrr_RouteId m', ctl_Action = ActionResumeRoute, ctl_PayloadHash = HashHex env h,
            ctl_Nonce = mrr_Nonce m', ctl_NotBeforeUnix = mrr_NotBeforeUnix m', ctl_ExpiresUnix = mrr_ExpiresUnix m'\<rparr>
           (mrr_Signatures m')))"
proof (intro conjI impI)
  assume "UpdateRouteConfig env now (Some m) s = (Inr (), t)"
  then obtain config h u where c: "GetRouteConfig env (st_store s) = Inr (Some config)"
    and h: "RouteConfigPayloadHash env (muc_RouteConfig m) = Inr h" and t: "st_store t = st_store u"
    and up: "ApplyRouteConfigUpdate env now config (muc_Action m (HashHex env h)) (muc_RouteConfig m) (muc_Signatures m) s = (Inr (), u)"
    by (rule UpdateRouteConfig_ok)
  have "signed_control env now s t (muc_Action m (HashHex env h)) (muc_Signatures m)"
    using up t by (elim ApplyRouteConfigUpdate_ok) (rule signed_controlI [OF c], (assumption | simp)+)
  moreover have "kv_get (st_store t) routeConfigKey = MarshalConfig env (muc_RouteConfig m)"
    using up t by (elim ApplyRouteConfigUpdate_ok) simp
  ultimately show "\<exists>h. RouteConfigPayloadHash env (muc_RouteConfig m) = Inr h \<and>
         kv_get (st_store t) routeConfigKey = MarshalConfig env (muc_RouteConfig m) \<and>
         signed_control env now s t
           \<lparr>ctl_RouteID = muc_RouteId m, ctl_Action = ActionUpdateRouteConfig, ctl_PayloadHash = HashHex env h,
            ctl_Nonce = muc_Nonce m, ctl_NotBeforeUnix = muc_NotBeforeUnix m, ctl_ExpiresUnix = muc_ExpiresUnix m\<rparr>
           (muc_Signatures m)"
    unfolding muc_Action_def [symmetric] using h by blast
next
  assume "ResumeRoute env now (Some m') s = (Inr (), t)"
  then obtain config h u where c: "GetRouteConfig env (st_store s) = Inr (Some config)"
    and h: "RouteStatePayloadHash env config \<lparr>Paused = False\<rparr> = Inr h" and t: "st_store t = st_store u"
    and res: "KResumeRoute env now config (mrr_Action m' (HashHex env h)) (mrr_Signatures m') s = (Inr (), u)"
    by (rule ResumeRoute_ok)
  have "signed_control env now s t (mrr_Action m' (HashHex env h)) (mrr_Signatures m')"
    using res t by (elim KResumeRoute_ok) (rule signed_controlI [OF c], (assumption | simp)+)
  moreover have "kv_get (st_store t) routeStateKey = MarshalState \<lparr>Paused = False\<rparr>"
    using res t by (elim KResumeRoute_ok) simp
  ultimately show "\<exists>config h. GetRouteConfig env (st_store s) = Inr (Some config) \<and>
         RouteStatePayloadHash env config \<lparr>Paused = False\<rparr> = Inr h \<and>
         kv_get (st_store t) routeStateKey = MarshalState \<lparr>Paused = False\<rparr> \<and>
         signed_control env now s t
           \<lparr>ctl_RouteID = mrr_RouteId m', ctl_Action = ActionResumeRoute, ctl_PayloadHash = HashHex env h,
            ctl_Nonce = mrr_Nonce m', ctl_NotBeforeUnix = mrr_NotBeforeUnix m', ctl_ExpiresUnix = mrr_ExpiresUnix m'\<rparr>
           (mrr_Signatures m')"
    unfolding mrr_Action_def [symmetric] using c h by blast
qed

theorem control_requires_quorum_witness:
  "\<exists>t. UpdateRouteConfig demo_env 500 (Some demo_update) demo_after = (Inr (), t) \<and>
     kv_get (st_store t) routeConfigKey = MarshalConfig demo_env demo_config \<and>
     signed_control demo_env 500 demo_after t
       \<lparr>ctl_RouteID = ''r1'', ctl_Action = ActionUpdateRouteConfig, ctl_PayloadHash = ''cfg'', ctl_Nonce = 3,
        ctl_NotBeforeUnix = 1, ctl_ExpiresUnix = 900\<rparr> [demo_sig CHR ''A'', demo_sig CHR ''C'']"
proof -
  obtain t where t: "UpdateRouteConfig demo_env 500 (Some demo_update) demo_after = (Inr (), t)"
    using demo_update_step [of demo_after] by auto
  have m: "muc_RouteId demo_update = ''r1''" "muc_Nonce demo_update = 3" "muc_NotBeforeUnix demo_update = 1"
    "muc_ExpiresUnix demo_update = 900" "muc_Signatures demo_update = [demo_sig CHR ''A'', demo_sig CHR ''C'']"
    by (simp_all add: demo_update_def)
  show ?thesis
    using control_requires_quorum [of demo_env 500 demo_update demo_after t undefined] t
    by (intro exI [of _ t]) (simp add: m RouteConfigPayloadHash_def result_eval)
qed

section \<open>Identifiers\<close>

lemma hex_decode_no_nul: "hex_decode s = Some r \<Longrightarrow> CHR 0x00 \<notin> set s"
  by (induction s arbitrary: r rule: hex_decode.induct)
    (auto simp: hex_val_def nat_of_byte_def Let_def split: option.splits if_splits)

lemma digits_no_nul: "list_all is_digit s \<Longrightarrow> CHR 0x00 \<notin> set s"
  by (auto simp: list_all_iff dest: bspec)

lemma nat_dec_no_nul [simp]: "CHR 0x00 \<notin> set (nat_dec n)"
  by (rule digits_no_nul [OF nat_dec_digits])

lemma int_dec_no_nul [simp]: "CHR 0x00 \<notin> set (int_dec i)"
  by (simp add: int_dec_def)

lemma SetString10_no_nul: "SetString10 s = Some a \<Longrightarrow> CHR 0x00 \<notin> set s"
  by (auto simp: SetString10_def parse_unsigned_def split: list.splits if_splits
      dest!: parse_digits_is_digits digits_no_nul)

lemma valid_att_fields_no_nul:
  assumes "Attestation_Validate env a = Inr ()" "\<And>s. u_route_runes (env_unicode env) s \<Longrightarrow> CHR 0x00 \<notin> set s"
    and "CHR 0x00 \<notin> set (att_SourceChainID a)" "CHR 0x00 \<notin> set (TrimSpace (att_Destination a))"
  shows "list_all (\<lambda>x. CHR 0x00 \<notin> set x) (att_fields env a)"
proof -
  have v: "validRouteID env (att_RouteID a)" "positiveAmount (att_Amount a)"
    "att_Direction a = DirectionCronosToXitcoin \<or> att_Direction a = DirectionXitcoinToCronos"
    "validHexReference env (att_SourceRef a)"
    using assms(1) by (auto simp: Attestation_Validate_def handler_simps)
  have "CHR 0x00 \<notin> set (att_RouteID a)"
    using v(1) assms(2)
    by (auto simp: validRouteID_def list_all_iff route_char_def nat_of_byte_def split: if_splits dest!: bspec)
  moreover have "CHR 0x00 \<notin> set (att_Amount a)"
    using v(2) by (auto simp: positiveAmount_iff dest: SetString10_no_nul)
  moreover have "CHR 0x00 \<notin> set (att_Direction a)"
    using v(3) by (auto simp: DirectionCronosToXitcoin_def DirectionXitcoinToCronos_def)
  moreover have "CHR 0x00 \<notin> set (normalizeHexReference env (att_SourceRef a))"
    using v(4) by (auto simp: validHexReference_def Let_def split: if_splits dest: hex_decode_no_nul)
  ultimately show ?thesis using assms(3,4) by (simp add: att_fields_def)
qed

text \<open>
  C19. The identifier hashes an unambiguous encoding. Take two valid attestations whose source chain
  and trimmed destination contain no NUL byte. They have the same hashed text only when they agree
  on the route, the direction, the source chain, the source reference up to the normalisation the
  code applies (surrounding space, letter case, \<open>0x\<close> prefix), the nonce, the destination up to
  surrounding space, the amount and the deadline. The hypothesis on the Unicode tables is that a
  NUL byte is neither a lower-case letter nor a digit.
\<close>

theorem attestation_encoding_injective:
  assumes "Attestation_Validate env a = Inr ()" "Attestation_Validate env b = Inr ()"
    and "\<And>s. u_route_runes (env_unicode env) s \<Longrightarrow> CHR 0x00 \<notin> set s"
    and "CHR 0x00 \<notin> set (att_SourceChainID a)" "CHR 0x00 \<notin> set (att_SourceChainID b)"
    and "CHR 0x00 \<notin> set (TrimSpace (att_Destination a))" "CHR 0x00 \<notin> set (TrimSpace (att_Destination b))"
    and "Join (att_fields env a) (CHR 0x00) = Join (att_fields env b) (CHR 0x00)"
  shows "att_RouteID a = att_RouteID b \<and> att_Direction a = att_Direction b \<and>
    att_SourceChainID a = att_SourceChainID b \<and>
    normalizeHexReference env (att_SourceRef a) = normalizeHexReference env (att_SourceRef b) \<and>
    att_Nonce a = att_Nonce b \<and> TrimSpace (att_Destination a) = TrimSpace (att_Destination b) \<and>
    att_Amount a = att_Amount b \<and> att_DeadlineUnix a = att_DeadlineUnix b"
proof -
  have "att_fields env a = att_fields env b"
    using assms by (intro Join_inj [of _ _ "CHR 0x00"] valid_att_fields_no_nul) (simp_all add: att_fields_def)
  then show ?thesis by (simp add: att_fields_def word_unat_eq_iff)
qed

definition demo_same :: Attestation where
  "demo_same = (msa_Attestation demo_submit)
     \<lparr>att_SourceRef := ''0xabababababababababababababababababababababababababababababababab''\<rparr>"

theorem attestation_encoding_injective_witness:
  "att_SourceRef (msa_Attestation demo_submit) \<noteq> att_SourceRef demo_same \<and>
   normalizeHexReference demo_env (att_SourceRef (msa_Attestation demo_submit)) =
     normalizeHexReference demo_env (att_SourceRef demo_same)"
proof -
  have same: "normalizeHexReference demo_env (att_SourceRef (msa_Attestation demo_submit)) =
     normalizeHexReference demo_env (att_SourceRef demo_same)"
    by (simp add: demo_same_def msa_Attestation_def demo_submit_def text_eval hex_eval) code_simp
  have valid: "Attestation_Validate demo_env demo_same = Inr ()"
    using demo_att_valid same
    by (simp add: Attestation_Validate_def demo_same_def validHexReference_def)
  have fields: "att_fields demo_env (msa_Attestation demo_submit) = att_fields demo_env demo_same"
    using same by (simp add: att_fields_def demo_same_def)
  have "att_SourceRef (msa_Attestation demo_submit) \<noteq> att_SourceRef demo_same"
    by (simp add: demo_same_def msa_Attestation_def demo_submit_def)
  moreover have "CHR 0x00 \<notin> set r" if "u_route_runes (env_unicode demo_env) r" for r
    using that by (simp add: demo_env_def demo_unicode_def)
  ultimately show ?thesis
    using attestation_encoding_injective [OF demo_att_valid valid] fields
    by (simp add: demo_same_def msa_Attestation_def demo_submit_def text_eval)
qed

section \<open>Genesis\<close>

lemma int_dec_neq_Nil [simp]: "int_dec i \<noteq> []"
  by (simp add: int_dec_def)

lemma OutstandingAmount_set:
  "0 \<le> a \<Longrightarrow> int_ok a \<Longrightarrow> OutstandingAmount (setOutstandingAmount a m) = Inr a"
  by (auto simp: OutstandingAmount_def setOutstandingAmount_def sdk_int_def codec_simps)

lemma OutstandingAmount_range: "OutstandingAmount m = Inr a \<Longrightarrow> 0 \<le> a \<and> int_ok a"
  by (auto simp: OutstandingAmount_def sdk_int_def int_ok_def split: if_splits)

lemma ExportGenesis_ok:
  assumes "ExportGenesis env m = Inr g" "gen_RouteConfig g = Some config"
  obtains state outstanding where "GetRouteConfig env m = Inr (Some config)"
    "RouteConfig_Validate env config = Inr ()" "GetRouteState env m = Inr state"
    "OutstandingAmount m = Inr outstanding"
    "g = \<lparr>gen_RouteConfig = Some config, gen_Paused = Paused state,
          gen_OutstandingAmount = int_dec outstanding, gen_OutboundNonce = nonce_of m\<rparr>"
  using assms
  by (auto simp: ExportGenesis_def DefaultGenesisState_def GetRouteConfig_def nonce_of_def handler_simps
      split: option.splits if_splits)

definition restored :: "bridge_env \<Rightarrow> RouteConfig \<Rightarrow> bool \<Rightarrow> int \<Rightarrow> uint64 \<Rightarrow> kv" where
  "restored env config paused outstanding nonce =
     (let m1 = kv_set routeConfigKey (MarshalConfig env config) Map.empty;
          m2 = (if paused then kv_set routeStateKey (MarshalState \<lparr>Paused = True\<rparr>) m1 else m1);
          m3 = setOutstandingAmount outstanding m2
      in if nonce = 0 then m3 else kv_set KeyOutboundNonce (PutUint64 nonce) m3)"

lemma restored_reads:
  assumes "config_json env config" "state_json env" "RouteConfig_Validate env config = Inr ()"
    and "0 \<le> a" "int_ok a"
  shows "GetRouteConfig env (restored env config p a n) = Inr (Some config)"
    "GetRouteState env (restored env config p a n) = Inr \<lparr>Paused = p\<rparr>"
    "OutstandingAmount (restored env config p a n) = Inr a"
    "nonce_of (restored env config p a n) = n"
proof -
  have keys: "kv_get (restored env config p a n) routeConfigKey = MarshalConfig env config"
    "kv_get (restored env config p a n) routeStateKey = (if p then MarshalState \<lparr>Paused = True\<rparr> else [])"
    "kv_get (restored env config p a n) KeyOutboundNonce = (if n = 0 then [] else PutUint64 n)"
    "kv_get (restored env config p a n) KeyOutstandingAmount =
       kv_get (setOutstandingAmount a Map.empty) KeyOutstandingAmount"
    by (simp_all add: restored_def setOutstandingAmount_def bridge_key_defs Let_def kv_get_def [of Map.empty])
  show "GetRouteConfig env (restored env config p a n) = Inr (Some config)"
    using assms(1,3) by (simp add: GetRouteConfig_def keys config_json_def result_eval)
  show "GetRouteState env (restored env config p a n) = Inr \<lparr>Paused = p\<rparr>"
    using state_json_get [OF assms(2), of _ p] keys(2) by (cases p) (simp_all add: GetRouteState_def)
  show "OutstandingAmount (restored env config p a n) = Inr a"
    using OutstandingAmount_set [OF assms(4,5), of Map.empty] by (simp add: OutstandingAmount_def keys split: if_splits)
  show "nonce_of (restored env config p a n) = n"
    by (simp add: nonce_of_def keys codec_simps)
qed

text \<open>
  C36. Exporting the genesis state of a configured bridge and initialising an empty module store
  from it succeeds and gives a store with the same configuration, pause state, outstanding
  amount and outbound nonce, so that it exports the same genesis state again.
\<close>

theorem genesis_export_init_round_trip:
  assumes "ExportGenesis env m = Inr g" "gen_RouteConfig g = Some config"
    and "config_json env config" "state_json env"
    and "\<And>i. 0 \<le> i \<Longrightarrow> int_ok i \<Longrightarrow> NewIntFromString env (int_dec i) = Some i"
  shows "\<exists>t. InitGenesis env g \<lparr>st_store = Map.empty, st_bank = b, st_events = []\<rparr> = (Inr (), t) \<and>
    ExportGenesis env (st_store t) = Inr g \<and> GetRouteConfig env (st_store t) = GetRouteConfig env m \<and>
    GetRouteState env (st_store t) = GetRouteState env m \<and>
    OutstandingAmount (st_store t) = OutstandingAmount m \<and> nonce_of (st_store t) = nonce_of m"
proof -
  obtain state a where e: "GetRouteConfig env m = Inr (Some config)" "RouteConfig_Validate env config = Inr ()"
    "GetRouteState env m = Inr state" "OutstandingAmount m = Inr a"
    and g: "g = \<lparr>gen_RouteConfig = Some config, gen_Paused = Paused state, gen_OutstandingAmount = int_dec a,
          gen_OutboundNonce = nonce_of m\<rparr>"
    using assms(1,2) by (rule ExportGenesis_ok)
  have a: "0 \<le> a" "int_ok a" using OutstandingAmount_range [OF e(4)] by auto
  note reads = restored_reads [OF assms(3,4) e(2) a, of "Paused state" "nonce_of m"]
  have "InitGenesis env g \<lparr>st_store = Map.empty, st_bank = b, st_events = []\<rparr>
     = (Inr (), \<lparr>st_store = restored env config (Paused state) a (nonce_of m), st_bank = b, st_events = []\<rparr>)"
    using e(2) a by (simp add: InitGenesis_def mustE_def SetRouteConfig_def g assms(5) restored_def handler_eval result_eval Let_def)
  moreover have "ExportGenesis env (restored env config (Paused state) a (nonce_of m)) = Inr g"
    using reads by (simp add: ExportGenesis_def g result_eval flip: nonce_of_def)
  ultimately show ?thesis using reads e(1,3,4) by (cases state) auto
qed

theorem genesis_export_init_round_trip_witness:
  "\<exists>g t. ExportGenesis demo_env (st_store demo_after) = Inr g \<and>
     InitGenesis demo_env g \<lparr>st_store = Map.empty, st_bank = 160 :: int, st_events = []\<rparr> = (Inr (), t) \<and>
     ExportGenesis demo_env (st_store t) = Inr g"
proof -
  have o: "OutstandingAmount (st_store demo_after) = Inr 60"
    by (simp add: demo_after_def OutstandingAmount_set int_ok_def)
  obtain g where g: "ExportGenesis demo_env (st_store demo_after) = Inr g" "gen_RouteConfig g = Some demo_config"
    by (simp add: ExportGenesis_def GetRouteState_def result_eval o)
  from genesis_export_init_round_trip [OF g demo_laws(3,2), of "160 :: int"] show ?thesis
    using g(1) by (simp add: codec_simps) blast
qed

text \<open>
  C37. The replay markers and the daily usage are not part of the genesis state: after a chain
  restarts from an exported genesis state, no attestation, control action or pause counts as
  processed and no daily usage is left, whatever had been settled before.
\<close>

theorem genesis_forgets_replay_markers:
  assumes "InitGenesis env g \<lparr>st_store = Map.empty, st_bank = b, st_events = []\<rparr> = (Inr (), t)"
  shows "\<not> IsProcessed (st_store t) i \<and> \<not> kv_has (st_store t) (processedControlKey i) \<and>
    \<not> kv_has (st_store t) (processedPauseKey i) \<and> DailyUsage env now (st_store t) r = 0"
  using assms
  by (auto simp: InitGenesis_def SetRouteConfig_ok handler_simps IsProcessed_def DailyUsage_def bridge_key_defs
      setOutstandingAmount_def kv_has_def [of Map.empty] kv_get_def [of Map.empty] split: option.splits if_splits)

theorem genesis_forgets_replay_markers_witness:
  "IsProcessed (st_store demo_after) demo_id \<and>
   (\<exists>g t. ExportGenesis demo_env (st_store demo_after) = Inr g \<and>
     InitGenesis demo_env g \<lparr>st_store = Map.empty, st_bank = 160 :: int, st_events = []\<rparr> = (Inr (), t) \<and>
     \<not> IsProcessed (st_store t) demo_id)"
proof -
  define g where "g = \<lparr>gen_RouteConfig = Some demo_config, gen_Paused = False, gen_OutstandingAmount = int_dec 60,
    gen_OutboundNonce = 0\<rparr>"
  have "OutstandingAmount (st_store demo_after) = Inr 60"
    by (simp add: demo_after_def OutstandingAmount_set int_ok_def)
  moreover have "kv_get (st_store demo_after) KeyOutboundNonce = []"
    by (simp add: demo_after_def bridge_key_defs demo_day_def)
  ultimately have e: "ExportGenesis demo_env (st_store demo_after) = Inr g"
    by (simp add: ExportGenesis_def GetRouteState_def result_eval g_def)
  obtain t where t: "InitGenesis demo_env g \<lparr>st_store = Map.empty, st_bank = 160 :: int, st_events = []\<rparr> = (Inr (), t)"
    by (simp add: InitGenesis_def mustE_def SetRouteConfig_def g_def handler_eval result_eval codec_simps)
  from genesis_forgets_replay_markers [OF t] e t show ?thesis by (intro conjI exI) auto
qed

end
