(* ===== verification/Snapshot_Store.thy ===== *)
theory Snapshot_Store
  imports Prelude "HOL-Library.List_Lexorder" "HOL-Library.Char_ord"
begin

text \<open>
  The nested cache stores behind precompile calls: \<^verbatim>\<open>x/vm/store/snapshotkv\<close> (one stack of
  cache layers) and \<^verbatim>\<open>x/vm/store/snapshotmulti\<close> (one such stack per module store). The cache
  layer itself is the Cosmos SDK's, so it is a parameter. The contract of a snapshotter is a
  locale, interpreted on both stores.
\<close>

section \<open>The contract of a snapshotter\<close>

text \<open>
  \<^verbatim>\<open>saved s i\<close> is the state that snapshot \<^verbatim>\<open>i\<close> captured. A write changes only what no live
  snapshot captured.
\<close>

locale snapshotter =
  fixes wf :: "'s \<Rightarrow> bool"
    and snap :: "'s \<Rightarrow> (int \<times> 's) result"
    and revert :: "int \<Rightarrow> 's \<Rightarrow> 's result"
    and live :: "'s \<Rightarrow> nat"
    and saved :: "'s \<Rightarrow> nat \<Rightarrow> 's"
  assumes snap_total: "wf s \<Longrightarrow> \<exists>i t. snap s = Inr (i, t)"
    and snap_wf: "wf s \<Longrightarrow> snap s = Inr (i, t) \<Longrightarrow> wf t"
    and snap_id: "wf s \<Longrightarrow> snap s = Inr (i, t) \<Longrightarrow> i = int (live s) \<and> live t = Suc (live s)"
    and snap_saved: "wf s \<Longrightarrow> snap s = Inr (i, t) \<Longrightarrow> saved t (live s) = s"
    and snap_keeps: "wf s \<Longrightarrow> snap s = Inr (i, t) \<Longrightarrow> n < live s \<Longrightarrow> saved t n = saved s n"
    and saved_wf: "wf s \<Longrightarrow> n < live s \<Longrightarrow> wf (saved s n) \<and> live (saved s n) = n"
    and saved_saved: "wf s \<Longrightarrow> n < live s \<Longrightarrow> m < n \<Longrightarrow> saved (saved s n) m = saved s m"
    and revert_ok: "wf s \<Longrightarrow> n < live s \<Longrightarrow> revert (int n) s = Inr (saved s n)"
    and revert_bad: "wf s \<Longrightarrow> revert i s = Inr t \<Longrightarrow> 0 \<le> i \<and> nat i < live s"
begin

definition writes :: "'s \<Rightarrow> 's \<Rightarrow> bool" where
  "writes s t \<longleftrightarrow> wf t \<and> live t = live s \<and> (\<forall>n<live s. saved t n = saved s n)"

text \<open>
  What a client does after snapshot \<^verbatim>\<open>b\<close>: write, take further snapshots, revert to one of those.
\<close>

inductive above :: "int \<Rightarrow> 's \<Rightarrow> 's \<Rightarrow> bool" for b where
  above_refl: "above b s s"
| above_write: "above b s t \<Longrightarrow> writes t u \<Longrightarrow> above b s u"
| above_snap: "above b s t \<Longrightarrow> snap t = Inr (i, u) \<Longrightarrow> above b s u"
| above_revert: "above b s t \<Longrightarrow> b < i \<Longrightarrow> revert i t = Inr u \<Longrightarrow> above b s u"

lemma above_keeps:
  assumes "above b t u" "wf t" "0 \<le> b" "nat b < live t"
  shows "wf u \<and> nat b < live u \<and> saved u (nat b) = saved t (nat b)"
  using assms
proof (induction rule: above.induct)
  case (above_refl s)
  then show ?case by simp
next
  case (above_write s t u)
  then show ?case by (simp add: writes_def)
next
  case (above_snap s t i u)
  then show ?case using snap_wf snap_id snap_keeps by (metis less_Suc_eq)
next
  case (above_revert s t i u)
  then have t: "wf t" "nat b < live t" "saved t (nat b) = saved s (nat b)" by auto
  have i: "0 \<le> i" "nat i < live t" using revert_bad [OF t(1) above_revert(3)] by auto
  then have "u = saved t (nat i)" using revert_ok [OF t(1) i(2)] above_revert(3) by simp
  moreover have "nat b < nat i" using above_revert i by simp
  ultimately show ?case
    using saved_wf [OF t(1) i(2)] saved_saved [OF t(1) i(2)] t(3) by simp
qed

text \<open>Reverting gives back the captured state itself, whatever was done in between.\<close>

lemma revert_restores:
  assumes "wf s" "snap s = Inr (i, t)" "above i t u"
  shows "revert i u = Inr s"
proof -
  have t: "wf t" "live t = Suc (live s)" "saved t (live s) = s" "i = int (live s)"
    using snap_wf [OF assms(1,2)] snap_id [OF assms(1,2)] snap_saved [OF assms(1,2)] by auto
  then have "wf u \<and> live s < live u \<and> saved u (live s) = s" using above_keeps [OF assms(3)] by simp
  then show ?thesis using revert_ok [of u "live s"] t by simp
qed

lemma revert_invalid: "wf s \<Longrightarrow> i < 0 \<or> live s \<le> nat i \<Longrightarrow> \<exists>e. revert i s = Inl e"
  using revert_bad by (metis linorder_not_less sumE)

end

section \<open>One stack of cache layers\<close>

text \<open>
  The cache layer of the SDK: what \<^verbatim>\<open>CacheWrap()\<close> returns, a layer's reads through its parent,
  and the parent after the layer's \<^verbatim>\<open>Write()\<close>.
\<close>

record 'l cache_wrap =
  CacheWrap :: "'l"
  Read :: "'l \<Rightarrow> (bytes \<Rightarrow> bytes option) \<Rightarrow> bytes \<Rightarrow> bytes option"
  WriteTo :: "'l \<Rightarrow> 'l \<Rightarrow> 'l"

text \<open>
  \<^verbatim>\<open>underStore\<close> is the store that \<^verbatim>\<open>initialStore.Write()\<close> flushes into.
\<close>

record 'l KVStore =
  underStore :: 'l
  initialStore :: 'l
  cacheStores :: "'l list"

definition NewKVStore :: "'l \<Rightarrow> 'l \<Rightarrow> 'l KVStore" where
  "NewKVStore parent store = \<lparr>underStore = parent, initialStore = store, cacheStores = []\<rparr>"

definition CurrentStore :: "'l KVStore \<Rightarrow> 'l" where
  "CurrentStore cs =
     (if cacheStores cs = [] then initialStore cs else cacheStores cs ! (length (cacheStores cs) - 1))"

text \<open>What a caller of \<^verbatim>\<open>CurrentStore()\<close> does to the layer it got.\<close>

definition update_current :: "('l \<Rightarrow> 'l) \<Rightarrow> 'l KVStore \<Rightarrow> 'l KVStore" where
  "update_current f cs =
     (if cacheStores cs = [] then cs\<lparr>initialStore := f (initialStore cs)\<rparr>
      else cs\<lparr>cacheStores := (cacheStores cs)[length (cacheStores cs) - 1 := f (CurrentStore cs)]\<rparr>)"

text \<open>
  The loop of \<^verbatim>\<open>Commit\<close>: the top layer is written into the one below it, and so on down to
  the initial store.
\<close>

fun write_down :: "'l cache_wrap \<Rightarrow> 'l \<Rightarrow> 'l list \<Rightarrow> 'l" where
  "write_down cw base [] = base"
| "write_down cw base (l # ls) = WriteTo cw (write_down cw l ls) base"

definition KVCommit :: "'l cache_wrap \<Rightarrow> 'l KVStore \<Rightarrow> 'l KVStore" where
  "KVCommit cw cs =
     \<lparr>underStore = WriteTo cw (write_down cw (initialStore cs) (cacheStores cs)) (underStore cs),
      initialStore = CacheWrap cw, cacheStores = []\<rparr>"

definition KVSnapshot :: "'l cache_wrap \<Rightarrow> 'l KVStore \<Rightarrow> int \<times> 'l KVStore" where
  "KVSnapshot cw cs =
     (let cs' = cs\<lparr>cacheStores := cacheStores cs @ [CacheWrap cw]\<rparr>
      in (int (length (cacheStores cs')) - 1, cs'))"

definition KVRevertToSnapshot :: "int \<Rightarrow> 'l KVStore \<Rightarrow> 'l KVStore result" where
  "KVRevertToSnapshot target cs =
     (if target < 0 \<or> int (length (cacheStores cs)) \<le> target
      then Inl (Panic ''snapshot index out of bound'')
      else Inr (cs\<lparr>cacheStores := take (nat target) (cacheStores cs)\<rparr>))"

definition kv_saved :: "'l KVStore \<Rightarrow> nat \<Rightarrow> 'l KVStore" where
  "kv_saved cs n = cs\<lparr>cacheStores := take n (cacheStores cs)\<rparr>"

interpretation kv_snap: snapshotter "\<lambda>_. True" "\<lambda>cs. Inr (KVSnapshot cw cs)" KVRevertToSnapshot
    "\<lambda>cs. length (cacheStores cs)" kv_saved for cw :: "'l cache_wrap"
  by unfold_locales
    (auto simp: KVSnapshot_def KVRevertToSnapshot_def kv_saved_def Let_def min_def split: if_splits)

lemma update_current_writes: "kv_snap.writes cs (update_current f cs)"
  by (auto simp: kv_snap.writes_def update_current_def kv_saved_def)

text \<open>What a read at the top of the stack sees.\<close>

fun read_through :: "'l cache_wrap \<Rightarrow> (bytes \<Rightarrow> bytes option) \<Rightarrow> 'l list \<Rightarrow> bytes \<Rightarrow> bytes option" where
  "read_through cw base [] = base"
| "read_through cw base (l # ls) = read_through cw (Read cw l base) ls"

definition kv_view :: "'l cache_wrap \<Rightarrow> (bytes \<Rightarrow> bytes option) \<Rightarrow> 'l KVStore \<Rightarrow> bytes \<Rightarrow> bytes option" where
  "kv_view cw base cs = read_through cw base (underStore cs # initialStore cs # cacheStores cs)"

text \<open>
  The documented behaviour of a cache layer: a fresh layer reads as its parent, and writing a
  layer into its parent makes the parent read as the layer did.
\<close>

definition cache_laws :: "'l cache_wrap \<Rightarrow> bool" where
  "cache_laws cw \<longleftrightarrow> (\<forall>f. Read cw (CacheWrap cw) f = f) \<and>
     (\<forall>c p f. Read cw (WriteTo cw c p) f = Read cw c (Read cw p f))"

lemma cache_laws_read:
  assumes "cache_laws cw"
  shows "Read cw (CacheWrap cw) f = f" "Read cw (WriteTo cw c p) f = Read cw c (Read cw p f)"
  using assms by (simp_all add: cache_laws_def)

lemma read_write_down:
  "cache_laws cw \<Longrightarrow> Read cw (write_down cw l ls) f = read_through cw (Read cw l f) ls"
  by (induction ls arbitrary: l f) (simp_all add: cache_laws_read)

lemma read_through_append:
  "read_through cw f (ls @ ms) = read_through cw (read_through cw f ls) ms"
  by (induction ls arbitrary: f) simp_all

lemma KVCommit_view: "cache_laws cw \<Longrightarrow> kv_view cw base (KVCommit cw cs) = kv_view cw base cs"
  by (simp add: kv_view_def KVCommit_def cache_laws_read read_write_down)

lemma KVSnapshot_view:
  "cache_laws cw \<Longrightarrow> KVSnapshot cw cs = (i, cs') \<Longrightarrow> kv_view cw base cs' = kv_view cw base cs"
  by (auto simp: kv_view_def KVSnapshot_def Let_def read_through_append cache_laws_read)

section \<open>One stack per module store\<close>

text \<open>
  Store keys are identified by their names. \<^verbatim>\<open>GetKVStore\<close> and \<^verbatim>\<open>GetObjKVStore\<close> of the SDK
  multi-store are the argument \<^verbatim>\<open>cms\<close>, which gives for each key the store and its parent.
\<close>

record 'l MultiStore =
  stores :: "string \<rightharpoonup> 'l KVStore"
  storeKeys :: "string list"
  head :: int

definition InitialHead :: int where "InitialHead = 0"

definition SortedKVStoreKeys :: "string list \<Rightarrow> string list" where
  "SortedKVStoreKeys names = sort names"

fun register_stores :: "(string \<Rightarrow> 'l \<times> 'l) \<Rightarrow> string list \<Rightarrow> (string \<rightharpoonup> 'l KVStore) \<Rightarrow> (string \<rightharpoonup> 'l KVStore)" where
  "register_stores cms [] m = m"
| "register_stores cms (k # ks) m =
     register_stores cms ks (m(k \<mapsto> NewKVStore (fst (cms k)) (snd (cms k))))"

definition NewMultiStore :: "(string \<Rightarrow> 'l \<times> 'l) \<Rightarrow> string list \<Rightarrow> 'l MultiStore" where
  "NewMultiStore cms keys =
     (let ks = SortedKVStoreKeys keys
      in \<lparr>stores = register_stores cms ks Map.empty, storeKeys = ks, head = InitialHead\<rparr>)"

text \<open>The three loops over the ordered keys; a key without a store is a nil dereference.\<close>

fun each_store ::
  "('l KVStore \<Rightarrow> 'l KVStore result) \<Rightarrow> string list \<Rightarrow> (string \<rightharpoonup> 'l KVStore) \<Rightarrow> (string \<rightharpoonup> 'l KVStore) result" where
  "each_store f [] m = Inr m"
| "each_store f (k # ks) m = (case m k of
       None \<Rightarrow> Inl (Panic ''nil pointer dereference'')
     | Some st \<Rightarrow> (case f st of Inl e \<Rightarrow> Inl e | Inr st' \<Rightarrow> each_store f ks (m(k \<mapsto> st'))))"

definition MSnapshot :: "'l cache_wrap \<Rightarrow> 'l MultiStore \<Rightarrow> (int \<times> 'l MultiStore) result" where
  "MSnapshot cw s =
     bindR (each_store (\<lambda>st. Inr (snd (KVSnapshot cw st))) (storeKeys s) (stores s)) (\<lambda>m.
     let s' = s\<lparr>stores := m, head := head s + 1\<rparr> in Inr (head s' - 1, s'))"

definition MRevertToSnapshot :: "int \<Rightarrow> 'l MultiStore \<Rightarrow> 'l MultiStore result" where
  "MRevertToSnapshot target s =
     bindR (each_store (KVRevertToSnapshot target) (storeKeys s) (stores s)) (\<lambda>m.
     Inr (s\<lparr>stores := m, head := target\<rparr>))"

definition MWrite :: "'l cache_wrap \<Rightarrow> 'l MultiStore \<Rightarrow> 'l MultiStore result" where
  "MWrite cw s =
     bindR (each_store (\<lambda>st. Inr (KVCommit cw st)) (storeKeys s) (stores s)) (\<lambda>m.
     Inr (s\<lparr>stores := m, head := InitialHead\<rparr>))"

definition CacheMultiStore :: "'l cache_wrap \<Rightarrow> 'l MultiStore \<Rightarrow> 'l MultiStore result" where
  "CacheMultiStore cw s = bindR (MSnapshot cw s) (\<lambda>(i, s'). Inr s')"

definition GetKVStore :: "'l MultiStore \<Rightarrow> string \<Rightarrow> 'l result" where
  "GetKVStore s key = (case stores s key of
       None \<Rightarrow> Inl (Panic ''kv store has not been registered in stores'')
     | Some st \<Rightarrow> Inr (CurrentStore st))"

definition LatestVersion :: "'l MultiStore \<Rightarrow> int" where
  "LatestVersion s = head s"

text \<open>A write by a caller of \<^verbatim>\<open>GetKVStore(key)\<close>.\<close>

definition update_store :: "string \<Rightarrow> ('l \<Rightarrow> 'l) \<Rightarrow> 'l MultiStore \<Rightarrow> 'l MultiStore" where
  "update_store key f s = (case stores s key of
       None \<Rightarrow> s | Some st \<Rightarrow> s\<lparr>stores := (stores s)(key \<mapsto> update_current f st)\<rparr>)"

text \<open>
  Well-formedness: the registered stores are those of the ordered key list, and every stack has
  as many layers as the head counts.
\<close>

definition ms_wf :: "'l MultiStore \<Rightarrow> bool" where
  "ms_wf s \<longleftrightarrow> distinct (storeKeys s) \<and> storeKeys s \<noteq> [] \<and> (\<forall>k. stores s k \<noteq> None \<longleftrightarrow> k \<in> set (storeKeys s)) \<and> 0 \<le> head s \<and>
     (\<forall>k st. stores s k = Some st \<longrightarrow> length (cacheStores st) = nat (head s))"

definition ms_saved :: "'l MultiStore \<Rightarrow> nat \<Rightarrow> 'l MultiStore" where
  "ms_saved s n = s\<lparr>stores := (\<lambda>k. map_option (\<lambda>st. kv_saved st n) (stores s k)), head := int n\<rparr>"

lemma each_store_map:
  assumes "distinct ks" "set ks \<subseteq> dom m" "\<And>k st. k \<in> set ks \<Longrightarrow> m k = Some st \<Longrightarrow> f st = Inr (g st)"
  shows "each_store f ks m = Inr (\<lambda>k. if k \<in> set ks then map_option g (m k) else m k)"
  using assms
proof (induction ks arbitrary: m)
  case Nil
  then show ?case by simp
next
  case (Cons k ks)
  then obtain st where st: "m k = Some st" by auto
  then have "f st = Inr (g st)" using Cons.prems(3) [OF _ st] by simp
  moreover have "each_store f ks (m(k \<mapsto> g st))
     = Inr (\<lambda>j. if j \<in> set ks then map_option g ((m(k \<mapsto> g st)) j) else (m(k \<mapsto> g st)) j)"
    using Cons.prems by (intro Cons.IH) (auto split: if_splits)
  ultimately show ?case using Cons.prems(1) st by (auto simp: fun_eq_iff)
qed

lemma each_store_all:
  assumes "distinct ks" "\<forall>k. m k \<noteq> None \<longleftrightarrow> k \<in> set ks" "\<And>k st. m k = Some st \<Longrightarrow> f st = Inr (g st)"
  shows "each_store f ks m = Inr (\<lambda>k. map_option g (m k))"
proof -
  have "each_store f ks m = Inr (\<lambda>k. if k \<in> set ks then map_option g (m k) else m k)"
    using assms by (intro each_store_map) auto
  moreover have "(\<lambda>k. if k \<in> set ks then map_option g (m k) else m k) = (\<lambda>k. map_option g (m k))"
    using assms(2) by (metis option.map_disc_iff)
  ultimately show ?thesis by simp
qed

lemma MSnapshot_eq:
  assumes "ms_wf s"
  shows "MSnapshot cw s = Inr (head s, s\<lparr>stores := (\<lambda>k. map_option (\<lambda>st. snd (KVSnapshot cw st)) (stores s k)),
     head := head s + 1\<rparr>)"
  using assms each_store_all [of "storeKeys s" "stores s" "\<lambda>st. Inr (snd (KVSnapshot cw st))"]
  by (simp add: MSnapshot_def ms_wf_def bindR_def)

lemma MRevert_ok:
  assumes "ms_wf s" "0 \<le> i" "i < head s"
  shows "MRevertToSnapshot i s = Inr (ms_saved s (nat i))"
proof -
  have "each_store (KVRevertToSnapshot i) (storeKeys s) (stores s)
     = Inr (\<lambda>k. map_option (\<lambda>st. kv_saved st (nat i)) (stores s k))"
    using assms by (intro each_store_all) (auto simp: ms_wf_def KVRevertToSnapshot_def kv_saved_def)
  then show ?thesis using assms(2) by (simp add: MRevertToSnapshot_def ms_saved_def bindR_def)
qed

lemma MRevert_bad:
  assumes "ms_wf s" "MRevertToSnapshot i s = Inr t"
  shows "0 \<le> i \<and> i < head s"
proof -
  obtain k ks where k: "storeKeys s = k # ks" using assms(1) by (cases "storeKeys s") (auto simp: ms_wf_def)
  then have "stores s k \<noteq> None" using assms(1) by (simp add: ms_wf_def)
  then obtain st where st: "stores s k = Some st" by auto
  then have "int (length (cacheStores st)) = head s" using assms(1) by (auto simp: ms_wf_def)
  then show ?thesis
    using assms(2) k st by (auto simp: MRevertToSnapshot_def bindR_def KVRevertToSnapshot_def split: if_splits)
qed

lemma ms_saved_props:
  assumes "ms_wf s" "int n \<le> head s"
  shows "ms_wf (ms_saved s n)" "nat (head (ms_saved s n)) = n"
    "m \<le> n \<Longrightarrow> ms_saved (ms_saved s n) m = ms_saved s m"
  using assms
  by (auto simp: ms_wf_def ms_saved_def kv_saved_def min_def fun_eq_iff option.map_comp comp_def)

interpretation ms_snap: snapshotter ms_wf "MSnapshot cw" MRevertToSnapshot "\<lambda>s. nat (head s)" ms_saved
  for cw :: "'l cache_wrap"
proof
  fix s t :: "'l MultiStore" and i n m
  assume wf: "ms_wf s"
  show "\<exists>i t. MSnapshot cw s = Inr (i, t)" using MSnapshot_eq [OF wf] by blast
  have h: "0 \<le> head s" using wf by (simp add: ms_wf_def)
  have kv: "length (cacheStores (snd (KVSnapshot cw st))) = Suc (length (cacheStores st))"
    "j \<le> length (cacheStores st) \<Longrightarrow> kv_saved (snd (KVSnapshot cw st)) j = kv_saved st j"
    "kv_saved st (length (cacheStores st)) = st" for st :: "'l KVStore" and j
    by (simp_all add: KVSnapshot_def kv_saved_def Let_def)
  { assume "MSnapshot cw s = Inr (i, t)"
    then have i: "i = head s" and t: "t = s\<lparr>stores := (\<lambda>k. map_option (\<lambda>st. snd (KVSnapshot cw st)) (stores s k)),
       head := head s + 1\<rparr>"
      using MSnapshot_eq [OF wf, of cw] by auto
    show "ms_wf t" using wf kv(1) by (auto simp: t ms_wf_def nat_add_distrib)
    show "i = int (nat (head s)) \<and> nat (head t) = Suc (nat (head s))" using h by (simp add: i t)
    have keep: "ms_saved t j = ms_saved s j" if "j \<le> nat (head s)" for j
    proof -
      have "map_option (\<lambda>st. kv_saved (snd (KVSnapshot cw st)) j) (stores s k)
          = map_option (\<lambda>st. kv_saved st j) (stores s k)" for k
        using wf that kv(2) [of j] by (cases "stores s k") (auto simp: ms_wf_def)
      then show ?thesis by (simp add: t ms_saved_def option.map_comp comp_def)
    qed
    show "ms_saved t (nat (head s)) = s"
    proof -
      have "map_option (\<lambda>st. kv_saved st (nat (head s))) (stores s k) = stores s k" for k
        using wf by (cases "stores s k") (auto simp: ms_wf_def kv_saved_def)
      then show ?thesis using h keep [of "nat (head s)"] by (simp add: ms_saved_def)
    qed
    assume "n < nat (head s)"
    then show "ms_saved t n = ms_saved s n" using keep by simp }
  { assume "n < nat (head s)"
    then have n: "int n \<le> head s" by simp
    show "ms_wf (ms_saved s n) \<and> nat (head (ms_saved s n)) = n" using ms_saved_props [OF wf n] by simp
    show "MRevertToSnapshot (int n) s = Inr (ms_saved s n)"
      using MRevert_ok [OF wf, of "int n"] \<open>n < nat (head s)\<close> by simp
    assume "m < n"
    then show "ms_saved (ms_saved s n) m = ms_saved s m" using ms_saved_props [OF wf n] by simp }
  assume "MRevertToSnapshot i s = Inr t"
  from MRevert_bad [OF wf this] show "0 \<le> i \<and> nat i < nat (head s)" by auto
qed

lemma update_store_writes: "ms_wf s \<Longrightarrow> ms_snap.writes s (update_store key f s)"
proof -
  assume wf: "ms_wf s"
  have len: "length (cacheStores (update_current f st)) = length (cacheStores st)"
    "n < length (cacheStores st) \<Longrightarrow> kv_saved (update_current f st) n = kv_saved st n" for st :: "'a KVStore" and n
    by (auto simp: update_current_def kv_saved_def)
  have "ms_wf (update_store key f s)"
    using wf len(1) by (auto simp: update_store_def ms_wf_def split: option.splits)
  moreover have "ms_saved (update_store key f s) n = ms_saved s n" if "n < nat (head s)" for n
    using wf that len(2) by (auto simp: update_store_def ms_saved_def ms_wf_def fun_eq_iff split: option.splits)
  moreover have "head (update_store key f s) = head s" by (simp add: update_store_def split: option.splits)
  ultimately show ?thesis by (simp add: ms_snap.writes_def)
qed

lemma NewMultiStore_wf:
  assumes "distinct keys" "keys \<noteq> []"
  shows "ms_wf (NewMultiStore cms keys)"
proof -
  have reg: "register_stores cms ks m k = (if k \<in> set ks then Some (NewKVStore (fst (cms k)) (snd (cms k))) else m k)"
    for ks m k by (induction ks arbitrary: m) auto
  have "sort keys \<noteq> []" using assms(2) by (metis length_0_conv length_sort)
  then show ?thesis
    using assms(1) by (simp add: NewMultiStore_def ms_wf_def SortedKVStoreKeys_def reg InitialHead_def
        NewKVStore_def Let_def)
qed

section \<open>Properties\<close>

text \<open>
  What happens to the multi-store between a snapshot \<^verbatim>\<open>b\<close> and the revert to it: writes through
  \<^verbatim>\<open>GetKVStore\<close>, further snapshots, and reverts to those.
\<close>

inductive ms_use :: "'l cache_wrap \<Rightarrow> int \<Rightarrow> 'l MultiStore \<Rightarrow> 'l MultiStore \<Rightarrow> bool"
  for cw :: "'l cache_wrap" and b :: int where
  use_refl: "ms_use cw b s s"
| use_write: "ms_use cw b s t \<Longrightarrow> ms_use cw b s (update_store key f t)"
| use_snapshot: "ms_use cw b s t \<Longrightarrow> MSnapshot cw t = Inr (i, u) \<Longrightarrow> ms_use cw b s u"
| use_revert: "ms_use cw b s t \<Longrightarrow> b < i \<Longrightarrow> MRevertToSnapshot i t = Inr u \<Longrightarrow> ms_use cw b s u"

lemma ms_use_above:
  assumes "ms_use cw b s t" "ms_wf s" "0 \<le> b" "b < head s"
  shows "ms_snap.above cw b s t \<and> ms_wf t"
  using assms
proof (induction rule: ms_use.induct)
  case (use_refl s)
  then show ?case by (simp add: ms_snap.above_refl)
next
  case (use_write s t key f)
  then show ?case using update_store_writes ms_snap.above_write by (metis ms_snap.writes_def)
next
  case (use_snapshot s t i u)
  then show ?case using ms_snap.above_snap ms_snap.snap_wf by metis
next
  case (use_revert s t i u)
  then have "ms_snap.above cw b s u" using ms_snap.above_revert by metis
  then show ?case using ms_snap.above_keeps [of cw b s u] use_revert by (simp add: nat_less_iff)
qed

lemma ms_use_restores:
  assumes "ms_wf s" "MSnapshot cw s = Inr (i, t)" "ms_use cw i t u"
  shows "MRevertToSnapshot i u = Inr s"
proof -
  have "ms_wf t" "i = int (nat (head s))" "nat (head t) = Suc (nat (head s))"
    using ms_snap.snap_wf [OF assms(1,2)] ms_snap.snap_id [OF assms(1,2)] by auto
  then have "ms_wf t" "0 \<le> i" "i < head t" by (simp_all add: nat_eq_iff split: if_splits)
  then have "ms_snap.above cw i t u" using ms_use_above [OF assms(3)] by simp
  then show ?thesis using ms_snap.revert_restores [OF assms(1,2)] by blast
qed

text \<open>
  C27. Reverting the multi-store to a snapshot gives back exactly the state in which the snapshot
  was taken, in every module store, whatever was written, snapshotted and reverted in between.
\<close>

theorem multi_store_revert_restores:
  assumes "ms_wf s" "MSnapshot cw s = Inr (i, t)" "ms_use cw i t u"
  shows "MRevertToSnapshot i u = Inr s"
  using assms by (rule ms_use_restores)

text \<open>A concrete cache layer: the map of the written keys, None for a deleted one.\<close>

definition map_cache :: "(bytes \<rightharpoonup> bytes option) cache_wrap" where
  "map_cache =
     \<lparr>CacheWrap = Map.empty, Read = (\<lambda>l p k. case l k of None \<Rightarrow> p k | Some v \<Rightarrow> v), WriteTo = (\<lambda>c p. p ++ c)\<rparr>"

lemma map_cache_laws: "cache_laws map_cache"
  by (auto simp: cache_laws_def map_cache_def fun_eq_iff map_add_def split: option.splits)

definition demo_stores :: "(bytes \<rightharpoonup> bytes option) MultiStore" where
  "demo_stores = NewMultiStore (\<lambda>k. (Map.empty, Map.empty)) [''evm'', ''bank'']"

lemma demo_stores_wf: "ms_wf demo_stores"
  by (simp add: demo_stores_def NewMultiStore_wf)

theorem multi_store_revert_restores_witness:
  "\<exists>i t. MSnapshot map_cache demo_stores = Inr (i, t) \<and>
     MRevertToSnapshot i (update_store ''bank'' (\<lambda>l. l(''k'' \<mapsto> Some ''v'')) t) = Inr demo_stores"
proof -
  obtain i t where t: "MSnapshot map_cache demo_stores = Inr (i, t)"
    using ms_snap.snap_total [OF demo_stores_wf] by blast
  have "ms_use map_cache i t (update_store ''bank'' (\<lambda>l. l(''k'' \<mapsto> Some ''v'')) t)"
    by (intro ms_use.intros)
  from multi_store_revert_restores [OF demo_stores_wf t this] t show ?thesis by blast
qed

end
