(* ===== verification/Access_List.thy ===== *)
theory Access_List
  imports Prelude
begin

text \<open>
  \<^verbatim>\<open>x/vm/statedb/access_list.go\<close> and \<^verbatim>\<open>transient_storage.go\<close>: the per-transaction access list
  with its index-linked slot sets, the set of warm addresses and slots it stands for, the exact
  inverses the journal relies on, and transient storage as a total map.
\<close>

section \<open>Access list\<close>

record accessList =
  addresses :: "address \<rightharpoonup> int"
  slots :: "hash set list"

definition newAccessList :: accessList where
  "newAccessList = \<lparr>addresses = Map.empty, slots = []\<rparr>"

definition ContainsAddress :: "accessList \<Rightarrow> address \<Rightarrow> bool" where
  "ContainsAddress al a \<longleftrightarrow> addresses al a \<noteq> None"

definition Contains :: "accessList \<Rightarrow> address \<Rightarrow> hash \<Rightarrow> bool \<times> bool" where
  "Contains al a slot = (case addresses al a of
       None \<Rightarrow> (False, False)
     | Some idx \<Rightarrow> if idx = -1 then (True, False) else (True, slot \<in> slots al ! nat idx))"

definition AddAddress :: "address \<Rightarrow> accessList \<Rightarrow> bool \<times> accessList" where
  "AddAddress a al = (case addresses al a of
       Some _ \<Rightarrow> (False, al)
     | None \<Rightarrow> (True, al\<lparr>addresses := (addresses al)(a \<mapsto> -1)\<rparr>))"

definition AddSlot :: "address \<Rightarrow> hash \<Rightarrow> accessList \<Rightarrow> (bool \<times> bool) \<times> accessList" where
  "AddSlot a slot al =
     (if addresses al a = None \<or> addresses al a = Some (-1)
      then ((addresses al a = None, True),
            al\<lparr>addresses := (addresses al)(a \<mapsto> int (length (slots al))), slots := slots al @ [{slot}]\<rparr>)
      else let idx = nat (the (addresses al a)) in
        if slot \<notin> slots al ! idx
        then ((False, True), al\<lparr>slots := (slots al)[idx := insert slot (slots al ! idx)]\<rparr>)
        else ((False, False), al))"

definition DeleteSlot :: "address \<Rightarrow> hash \<Rightarrow> accessList \<Rightarrow> accessList result" where
  "DeleteSlot a slot al = (case addresses al a of
       None \<Rightarrow> Inl (Panic ''reverting slot change, address not present in list'')
     | Some idx \<Rightarrow>
         if idx < 0 \<or> int (length (slots al)) \<le> idx then Inl (Panic ''index out of range'')
         else let slotmap = slots al ! nat idx - {slot} in
           if slotmap = {}
           then Inr (al\<lparr>addresses := (addresses al)(a \<mapsto> -1), slots := take (nat idx) (slots al)\<rparr>)
           else Inr (al\<lparr>slots := (slots al)[nat idx := slotmap]\<rparr>))"

definition DeleteAddress :: "address \<Rightarrow> accessList \<Rightarrow> accessList" where
  "DeleteAddress a al = al\<lparr>addresses := (addresses al)(a := None)\<rparr>"

text \<open>
  Well-formedness: an index is \<^verbatim>\<open>-1\<close> or points to a slot set that is not empty, and no two
  addresses share one.
\<close>

definition al_wf :: "accessList \<Rightarrow> bool" where
  "al_wf al \<longleftrightarrow>
     (\<forall>a i. addresses al a = Some i \<longrightarrow> i = -1 \<or> 0 \<le> i \<and> nat i < length (slots al) \<and> slots al ! nat i \<noteq> {}) \<and>
     (\<forall>a b i. addresses al a = Some i \<longrightarrow> addresses al b = Some i \<longrightarrow> i \<noteq> -1 \<longrightarrow> a = b)"

text \<open>The specification: the set of warm addresses and the set of warm slots.\<close>

definition warm_addresses :: "accessList \<Rightarrow> address set" where
  "warm_addresses al = {a. ContainsAddress al a}"

definition warm_slots :: "accessList \<Rightarrow> (address \<times> hash) set" where
  "warm_slots al = {(a, k). snd (Contains al a k)}"

lemma al_wf_index:
  "al_wf al \<Longrightarrow> addresses al a = Some i \<Longrightarrow> i \<noteq> -1 \<Longrightarrow>
     0 \<le> i \<and> nat i < length (slots al) \<and> slots al ! nat i \<noteq> {}"
  by (auto simp: al_wf_def)

lemma al_wf_inj:
  "al_wf al \<Longrightarrow> addresses al a = Some i \<Longrightarrow> addresses al b = Some j \<Longrightarrow> i \<noteq> -1 \<Longrightarrow> j \<noteq> -1 \<Longrightarrow>
     nat i = nat j \<longleftrightarrow> a = b"
  using al_wf_index [of al a i] al_wf_index [of al b j] by (auto simp: al_wf_def)

lemma newAccessList_wf: "al_wf newAccessList"
  by (simp add: al_wf_def newAccessList_def)

lemma AddAddress_wf: "al_wf al \<Longrightarrow> al_wf (snd (AddAddress a al))"
  by (auto simp: al_wf_def AddAddress_def split: option.splits)

lemma AddSlot_wf:
  assumes "al_wf al"
  shows "al_wf (snd (AddSlot a slot al))"
proof (cases "addresses al a = None \<or> addresses al a = Some (-1)")
  case True
  then show ?thesis
    using assms unfolding AddSlot_def al_wf_def by (auto simp: nth_append split: if_splits) force+
next
  case False
  then obtain i where i: "addresses al a = Some i" "i \<noteq> -1" by auto
  have "al_wf (al\<lparr>slots := (slots al)[nat i := insert slot (slots al ! nat i)]\<rparr>)"
    using assms al_wf_index [OF assms i] unfolding al_wf_def by (auto simp: nth_list_update)
  then show ?thesis using assms i False by (simp add: AddSlot_def Let_def)
qed

lemma AddAddress_spec:
  "warm_addresses (snd (AddAddress a al)) = insert a (warm_addresses al)"
  "al_wf al \<Longrightarrow> warm_slots (snd (AddAddress a al)) = warm_slots al"
  "fst (AddAddress a al) \<longleftrightarrow> a \<notin> warm_addresses al"
  by (auto simp: warm_addresses_def warm_slots_def AddAddress_def ContainsAddress_def Contains_def
      split: option.splits if_splits)

lemma AddSlot_spec:
  assumes "al_wf al"
  shows "warm_addresses (snd (AddSlot a k al)) = insert a (warm_addresses al)"
    "warm_slots (snd (AddSlot a k al)) = insert (a, k) (warm_slots al)"
    "fst (AddSlot a k al) = (a \<notin> warm_addresses al, (a, k) \<notin> warm_slots al)"
proof -
  show "warm_addresses (snd (AddSlot a k al)) = insert a (warm_addresses al)"
    by (auto simp: warm_addresses_def ContainsAddress_def AddSlot_def Let_def split: if_splits)
  show "fst (AddSlot a k al) = (a \<notin> warm_addresses al, (a, k) \<notin> warm_slots al)"
    by (auto simp: warm_addresses_def warm_slots_def ContainsAddress_def Contains_def AddSlot_def Let_def)
  have "snd (Contains (snd (AddSlot a k al)) b j) \<longleftrightarrow> (b, j) = (a, k) \<or> snd (Contains al b j)" for b j
  proof (cases "addresses al a = None \<or> addresses al a = Some (-1)")
    case True
    then show ?thesis using al_wf_index [OF assms, of b]
      by (auto simp: Contains_def AddSlot_def nth_append split: option.splits)
  next
    case False
    then obtain i where i: "addresses al a = Some i" "i \<noteq> -1" by auto
    show ?thesis
    proof (cases "addresses al b")
      case None
      then show ?thesis using i by (auto simp: Contains_def AddSlot_def Let_def)
    next
      case (Some n)
      then show ?thesis
        using i al_wf_index [OF assms i] al_wf_inj [OF assms i(1) Some i(2)]
        by (auto simp: Contains_def AddSlot_def Let_def nth_list_update)
    qed
  qed
  then show "warm_slots (snd (AddSlot a k al)) = insert (a, k) (warm_slots al)"
    by (auto simp: warm_slots_def)
qed

text \<open>The inverses used by the journal are exact.\<close>

lemma DeleteAddress_AddAddress:
  "addresses al a = None \<Longrightarrow> DeleteAddress a (snd (AddAddress a al)) = al"
  by (simp add: DeleteAddress_def AddAddress_def fun_upd_idem)

lemma DeleteSlot_AddSlot:
  assumes "al_wf al" "AddSlot a k al = ((ac, True), al')"
  shows "DeleteSlot a k al' = Inr (if ac then al\<lparr>addresses := (addresses al)(a \<mapsto> -1)\<rparr> else al)"
proof (cases "addresses al a = None \<or> addresses al a = Some (-1)")
  case True
  then show ?thesis
    using assms(2) by (auto simp: AddSlot_def DeleteSlot_def fun_upd_idem)
next
  case False
  then obtain i where i: "addresses al a = Some i" "i \<noteq> -1" by auto
  then have al': "ac = False" "k \<notin> slots al ! nat i"
    "al' = al\<lparr>slots := (slots al)[nat i := insert k (slots al ! nat i)]\<rparr>"
    using assms(2) False by (auto simp: AddSlot_def Let_def split: if_splits)
  then show ?thesis using i al_wf_index [OF assms(1) i] by (auto simp: DeleteSlot_def Let_def)
qed

section \<open>Transient storage\<close>

type_synonym Storage = "hash \<rightharpoonup> hash"
type_synonym transientStorage = "address \<rightharpoonup> Storage"

definition newTransientStorage :: transientStorage where
  "newTransientStorage = Map.empty"

definition TSet :: "address \<Rightarrow> hash \<Rightarrow> hash \<Rightarrow> transientStorage \<Rightarrow> transientStorage" where
  "TSet addr key val t =
     (if val = 0
      then (case t addr of
              None \<Rightarrow> t
            | Some storage \<Rightarrow>
                let storage' = storage(key := None) in
                if storage' = Map.empty then t(addr := None) else t(addr \<mapsto> storage'))
      else (case t addr of
              None \<Rightarrow> t(addr \<mapsto> [key \<mapsto> val])
            | Some storage \<Rightarrow> t(addr \<mapsto> storage(key \<mapsto> val))))"

definition TGet :: "transientStorage \<Rightarrow> address \<Rightarrow> hash \<Rightarrow> hash" where
  "TGet t addr key = (case t addr of
       Some val \<Rightarrow> (case val key of Some v \<Rightarrow> v | None \<Rightarrow> 0)
     | None \<Rightarrow> 0)"

definition transient_wf :: "transientStorage \<Rightarrow> bool" where
  "transient_wf t \<longleftrightarrow> (\<forall>a m. t a = Some m \<longrightarrow> m \<noteq> Map.empty \<and> (\<forall>k. m k \<noteq> Some 0))"

lemma TGet_TSet: "TGet (TSet a k v t) b j = (if b = a \<and> j = k then v else TGet t b j)"
proof -
  have "(m(k := None)) j = None" if "m(k := None) = Map.empty" for m :: Storage
    using that by simp
  then show ?thesis
    by (auto simp: TGet_def TSet_def Let_def fun_upd_def split: option.splits if_splits) (metis option.simps(3))+
qed

lemma TSet_wf: "transient_wf t \<Longrightarrow> transient_wf (TSet a k v t)"
  by (auto simp: transient_wf_def TSet_def Let_def fun_upd_def split: option.splits if_splits)
    (metis option.distinct(1))+

end
