(* ===== verification/StateDB.thy ===== *)
theory StateDB
  imports Go_Values Snapshot_Store Access_List
begin

text \<open>
  \<^verbatim>\<open>x/vm/statedb\<close>: state objects, the journal, snapshots and reverts, and the commit to the
  keeper. The read methods of the \<^verbatim>\<open>Keeper\<close> interface at the transaction's context are the
  parameter \<^verbatim>\<open>reader\<close>, its write methods the parameter \<^verbatim>\<open>writer\<close>; a pointer to a state object
  is its address in the live set.
\<close>

section \<open>Accounts, state objects and the keeper interface\<close>

text \<open>
  Nil pointers are \<^const>\<open>None\<close>. A code hash is a 32-byte value. A balance that wraps is a
  256-bit word.
\<close>

record Account =
  acc_Nonce :: uint64
  acc_Balance :: "uint256 option"
  acc_CodeHash :: "hash option"
  acc_lockedBalance :: "int option"

record reader =
  KGetAccount :: "address \<Rightarrow> Account option"
  KGetState :: "address \<Rightarrow> hash \<Rightarrow> hash"
  KGetCode :: "hash \<Rightarrow> bytes option"
  KForEachStorage :: "address \<Rightarrow> (hash \<times> hash) list"
  Keccak256 :: "bytes \<Rightarrow> hash"

definition EmptyCodeHash :: "reader \<Rightarrow> hash" where
  "EmptyCodeHash rd = Keccak256 rd []"

definition IsEmptyCodeHash :: "reader \<Rightarrow> hash \<Rightarrow> bool" where
  "IsEmptyCodeHash rd h \<longleftrightarrow> h = EmptyCodeHash rd"

text \<open>
  The fields \<^verbatim>\<open>so_Nonce\<close> to \<^verbatim>\<open>so_lockedBalance\<close> are the embedded account, whose balance and code
  hash \<^verbatim>\<open>newObject\<close> makes non-nil.
\<close>

record stateObject =
  so_address :: address
  so_Nonce :: uint64
  so_Balance :: uint256
  so_CodeHash :: hash
  so_lockedBalance :: "int option"
  so_code :: "bytes option"
  originStorage :: Storage
  dirtyStorage :: Storage
  overrideStorage :: "Storage option"
  dirtyCode :: bool
  selfDestructed :: bool
  newContract :: bool

definition NewEmptyAccount :: "reader \<Rightarrow> Account" where
  "NewEmptyAccount rd =
     \<lparr>acc_Nonce = 0, acc_Balance = Some 0, acc_CodeHash = Some (EmptyCodeHash rd), acc_lockedBalance = None\<rparr>"

definition NewAccount :: "uint64 \<Rightarrow> uint256 \<Rightarrow> int option \<Rightarrow> hash \<Rightarrow> Account" where
  "NewAccount nonce balance lockedBalance codeHash =
     \<lparr>acc_Nonce = nonce, acc_Balance = Some balance, acc_CodeHash = Some codeHash, acc_lockedBalance = lockedBalance\<rparr>"

definition newObject :: "reader \<Rightarrow> address \<Rightarrow> Account \<Rightarrow> stateObject" where
  "newObject rd addr account =
     \<lparr>so_address = addr, so_Nonce = acc_Nonce account,
      so_Balance = (case acc_Balance account of None \<Rightarrow> 0 | Some b \<Rightarrow> b),
      so_CodeHash = (case acc_CodeHash account of None \<Rightarrow> EmptyCodeHash rd | Some h \<Rightarrow> h),
      so_lockedBalance = acc_lockedBalance account, so_code = None,
      originStorage = Map.empty, dirtyStorage = Map.empty, overrideStorage = None,
      dirtyCode = False, selfDestructed = False, newContract = False\<rparr>"

definition so_account :: "stateObject \<Rightarrow> Account" where
  "so_account obj = NewAccount (so_Nonce obj) (so_Balance obj) (so_lockedBalance obj) (so_CodeHash obj)"

definition so_empty :: "reader \<Rightarrow> stateObject \<Rightarrow> bool" where
  "so_empty rd obj \<longleftrightarrow> so_Nonce obj = 0 \<and> so_Balance obj = 0 \<and> IsEmptyCodeHash rd (so_CodeHash obj)"

definition markSelfDestructed :: "stateObject \<Rightarrow> stateObject" where
  "markSelfDestructed obj = obj\<lparr>selfDestructed := True\<rparr>"

definition setBalance :: "uint256 \<Rightarrow> stateObject \<Rightarrow> stateObject" where
  "setBalance amount obj = obj\<lparr>so_Balance := amount\<rparr>"

definition setNonce :: "uint64 \<Rightarrow> stateObject \<Rightarrow> stateObject" where
  "setNonce nonce obj = obj\<lparr>so_Nonce := nonce\<rparr>"

definition setCode :: "hash \<Rightarrow> bytes option \<Rightarrow> stateObject \<Rightarrow> stateObject" where
  "setCode codeHash code obj = obj\<lparr>so_code := code, so_CodeHash := codeHash, dirtyCode := True\<rparr>"

definition setState :: "hash \<Rightarrow> hash \<Rightarrow> stateObject \<Rightarrow> stateObject" where
  "setState key val obj = obj\<lparr>dirtyStorage := (dirtyStorage obj)(key \<mapsto> val)\<rparr>"

definition so_SetStorage :: "Storage \<Rightarrow> stateObject \<Rightarrow> stateObject" where
  "so_SetStorage storage obj =
     obj\<lparr>overrideStorage := Some storage, originStorage := Map.empty, dirtyStorage := Map.empty\<rparr>"

text \<open>Reads of an object fill its caches, so they return the object too.\<close>

definition so_Code :: "reader \<Rightarrow> stateObject \<Rightarrow> bytes option \<times> stateObject" where
  "so_Code rd obj =
     (if so_code obj \<noteq> None then (so_code obj, obj)
      else if IsEmptyCodeHash rd (so_CodeHash obj) then (None, obj)
      else let code = KGetCode rd (so_CodeHash obj) in (code, obj\<lparr>so_code := code\<rparr>))"

definition so_GetCommittedState :: "reader \<Rightarrow> hash \<Rightarrow> stateObject \<Rightarrow> hash \<times> stateObject" where
  "so_GetCommittedState rd key obj = (case overrideStorage obj of
       Some storage \<Rightarrow> (case storage key of Some v \<Rightarrow> (v, obj) | None \<Rightarrow> (0, obj))
     | None \<Rightarrow> (case originStorage obj key of
           Some v \<Rightarrow> (v, obj)
         | None \<Rightarrow> let v = KGetState rd (so_address obj) key in
                   (v, obj\<lparr>originStorage := (originStorage obj)(key \<mapsto> v)\<rparr>)))"

definition so_GetState :: "reader \<Rightarrow> hash \<Rightarrow> stateObject \<Rightarrow> hash \<times> stateObject" where
  "so_GetState rd key obj = (case dirtyStorage obj key of
       Some v \<Rightarrow> (v, obj) | None \<Rightarrow> so_GetCommittedState rd key obj)"

section \<open>Journal\<close>

type_synonym event = "string \<times> (string \<times> string) list"

datatype JournalEntry =
    createObjectChange address
  | selfDestructChange address
  | balanceChange address uint256
  | nonceChange address uint64
  | storageChange address hash hash
  | transientStorageChange address hash hash
  | codeChange address "bytes option" hash
  | refundChange uint64
  | addLogChange
  | accessListAddAccountChange address
  | accessListAddSlotChange address hash
  | precompileCallChange int "event list" int
  | createContractChange address

fun Dirtied :: "JournalEntry \<Rightarrow> address option" where
  "Dirtied (createObjectChange a) = Some a"
| "Dirtied (selfDestructChange a) = Some a"
| "Dirtied (balanceChange a prev) = Some a"
| "Dirtied (nonceChange a prev) = Some a"
| "Dirtied (storageChange a k prev) = Some a"
| "Dirtied (codeChange a prevcode prevhash) = Some a"
| "Dirtied (transientStorageChange a k prev) = None"
| "Dirtied (refundChange prev) = None"
| "Dirtied addLogChange = None"
| "Dirtied (accessListAddAccountChange a) = None"
| "Dirtied (accessListAddSlotChange a k) = None"
| "Dirtied (precompileCallChange i evs n) = None"
| "Dirtied (createContractChange a) = None"

record journal =
  entries :: "JournalEntry list"
  dirties :: "address \<rightharpoonup> int"

definition newJournal :: journal where
  "newJournal = \<lparr>entries = [], dirties = Map.empty\<rparr>"

definition sortedDirties :: "journal \<Rightarrow> address list" where
  "sortedDirties j = sorted_list_of_set (dom (dirties j))"

text \<open>A missing count is zero, as in a Go map.\<close>

definition count_of :: "(address \<rightharpoonup> int) \<Rightarrow> address \<Rightarrow> int" where
  "count_of m a = (case m a of None \<Rightarrow> 0 | Some n \<Rightarrow> n)"

definition append_entry :: "JournalEntry \<Rightarrow> journal \<Rightarrow> journal" where
  "append_entry e j =
     j\<lparr>entries := entries j @ [e],
       dirties := (case Dirtied e of None \<Rightarrow> dirties j | Some a \<Rightarrow> (dirties j)(a \<mapsto> count_of (dirties j) a + 1))\<rparr>"

definition undirty :: "JournalEntry \<Rightarrow> (address \<rightharpoonup> int) \<Rightarrow> (address \<rightharpoonup> int)" where
  "undirty e m = (case Dirtied e of
       None \<Rightarrow> m
     | Some a \<Rightarrow> let n = count_of m a - 1 in if n = 0 then m(a := None) else m(a \<mapsto> n))"

section \<open>The state database\<close>

record Log =
  log_Address :: address
  log_Topics :: "hash list"
  log_Data :: bytes
  log_TxIndex :: nat
  log_Index :: nat

record revision =
  rev_id :: nat
  journalIndex :: nat

text \<open>
  \<^verbatim>\<open>cache\<close> is the cached context of precompile calls: \<^const>\<open>None\<close> while \<^verbatim>\<open>writeCache\<close> is nil,
  otherwise the snapshot multi-store and the events of its event manager.
\<close>

record 'l StateDB =
  cacheCtx :: "('l MultiStore \<times> event list) option"
  st_transient :: transientStorage
  jrnl :: journal
  validRevisions :: "revision list"
  nextRevisionID :: nat
  stateObjects :: "address \<rightharpoonup> stateObject"
  TxIndex :: nat
  refund :: uint64
  logs :: "Log list"
  accList :: accessList
  precompileCallsCounter :: "8 word"
  processedEventsCount :: int

type_synonym ('l, 'a) sdb = "('l StateDB, 'a) handler"

definition NewStateDB :: "nat \<Rightarrow> int \<Rightarrow> 'l StateDB" where
  "NewStateDB txIndex eventCount =
     \<lparr>cacheCtx = None, st_transient = newTransientStorage, jrnl = newJournal, validRevisions = [],
      nextRevisionID = 0, stateObjects = Map.empty, TxIndex = txIndex, refund = 0, logs = [],
      accList = newAccessList, precompileCallsCounter = 0, processedEventsCount = eventCount\<rparr>"

definition journalE :: "JournalEntry \<Rightarrow> ('l, unit) sdb" where
  "journalE e = modifyE (\<lambda>s. s\<lparr>jrnl := append_entry e (jrnl s)\<rparr>)"

definition setStateObject :: "stateObject \<Rightarrow> ('l, unit) sdb" where
  "setStateObject obj = modifyE (\<lambda>s. s\<lparr>stateObjects := (stateObjects s)(so_address obj \<mapsto> obj)\<rparr>)"

definition getStateObject :: "reader \<Rightarrow> address \<Rightarrow> ('l, stateObject option) sdb" where
  "getStateObject rd addr s = (case stateObjects s addr of
       Some obj \<Rightarrow> okE (Some obj) s
     | None \<Rightarrow> (case KGetAccount rd addr of
           None \<Rightarrow> okE None s
         | Some account \<Rightarrow>
             let obj = newObject rd addr account in
             thenE (setStateObject obj) (okE (Some obj)) s))"

definition createObject :: "reader \<Rightarrow> address \<Rightarrow> ('l, stateObject) sdb" where
  "createObject rd addr =
     (let obj = newObject rd addr \<lparr>acc_Nonce = 0, acc_Balance = None, acc_CodeHash = None, acc_lockedBalance = None\<rparr> in
      thenE (journalE (createObjectChange addr)) (
      thenE (setStateObject obj) (
      okE obj)))"

definition getOrNewStateObject :: "reader \<Rightarrow> address \<Rightarrow> ('l, stateObject) sdb" where
  "getOrNewStateObject rd addr =
     bindE (getStateObject rd addr) (\<lambda>found. case found of
       Some obj \<Rightarrow> okE obj | None \<Rightarrow> createObject rd addr)"

definition nilDeref :: err where "nilDeref = Panic ''nil pointer dereference''"

text \<open>The object a method is called on; calling one on nil panics.\<close>

definition theObject :: "reader \<Rightarrow> address \<Rightarrow> ('l, stateObject) sdb" where
  "theObject rd addr = bindE (getStateObject rd addr) (\<lambda>found. liftE (of_option nilDeref found))"

section \<open>Methods of a state object that write to the journal\<close>

definition so_SetBalance :: "uint256 \<Rightarrow> stateObject \<Rightarrow> ('l, uint256) sdb" where
  "so_SetBalance amount obj =
     thenE (journalE (balanceChange (so_address obj) (so_Balance obj))) (
     thenE (setStateObject (setBalance amount obj)) (
     okE (so_Balance obj)))"

definition so_AddBalance :: "uint256 \<Rightarrow> stateObject \<Rightarrow> ('l, uint256) sdb" where
  "so_AddBalance amount obj =
     (if amount = 0 then okE (so_Balance obj) else so_SetBalance (so_Balance obj + amount) obj)"

definition so_SubBalance :: "uint256 \<Rightarrow> stateObject \<Rightarrow> ('l, uint256) sdb" where
  "so_SubBalance amount obj =
     (if amount = 0 then okE (so_Balance obj)
      else if so_Balance obj < amount then failE (Panic ''state balance underflow'')
      else so_SetBalance (so_Balance obj - amount) obj)"

definition so_SetNonce :: "uint64 \<Rightarrow> stateObject \<Rightarrow> ('l, unit) sdb" where
  "so_SetNonce nonce obj =
     thenE (journalE (nonceChange (so_address obj) (so_Nonce obj))) (setStateObject (setNonce nonce obj))"

definition so_SetCode :: "reader \<Rightarrow> hash \<Rightarrow> bytes option \<Rightarrow> stateObject \<Rightarrow> ('l, unit) sdb" where
  "so_SetCode rd codeHash code obj =
     (let (prevcode, obj') = so_Code rd obj in
      thenE (journalE (codeChange (so_address obj') prevcode (so_CodeHash obj')))
        (setStateObject (setCode codeHash code obj')))"

definition so_SetState :: "reader \<Rightarrow> hash \<Rightarrow> hash \<Rightarrow> stateObject \<Rightarrow> ('l, hash) sdb" where
  "so_SetState rd key val obj =
     (let (prev, obj') = so_GetState rd key obj in
      thenE (setStateObject obj') (
      if prev = val then okE prev
      else thenE (journalE (storageChange (so_address obj') key prev)) (
           thenE (setStateObject (setState key val obj')) (
           okE prev))))"

section \<open>Queries\<close>

definition readObject :: "reader \<Rightarrow> address \<Rightarrow> 'a \<Rightarrow> (stateObject \<Rightarrow> 'a \<times> stateObject) \<Rightarrow> ('l, 'a) sdb" where
  "readObject rd addr dflt f =
     bindE (getStateObject rd addr) (\<lambda>found. case found of
       None \<Rightarrow> okE dflt
     | Some obj \<Rightarrow> (let (v, obj') = f obj in thenE (setStateObject obj') (okE v)))"

definition Exist :: "reader \<Rightarrow> address \<Rightarrow> ('l, bool) sdb" where
  "Exist rd addr = bindE (getStateObject rd addr) (\<lambda>found. okE (found \<noteq> None))"

definition Empty :: "reader \<Rightarrow> address \<Rightarrow> ('l, bool) sdb" where
  "Empty rd addr = bindE (getStateObject rd addr) (\<lambda>found.
     okE (case found of None \<Rightarrow> True | Some so \<Rightarrow> so_empty rd so))"

definition GetBalance :: "reader \<Rightarrow> address \<Rightarrow> ('l, uint256) sdb" where
  "GetBalance rd addr = readObject rd addr 0 (\<lambda>obj. (so_Balance obj, obj))"

definition GetNonce :: "reader \<Rightarrow> address \<Rightarrow> ('l, uint64) sdb" where
  "GetNonce rd addr = readObject rd addr 0 (\<lambda>obj. (so_Nonce obj, obj))"

definition GetCode :: "reader \<Rightarrow> address \<Rightarrow> ('l, bytes option) sdb" where
  "GetCode rd addr = readObject rd addr None (so_Code rd)"

definition GetCodeSize :: "reader \<Rightarrow> address \<Rightarrow> ('l, nat) sdb" where
  "GetCodeSize rd addr = readObject rd addr 0 (\<lambda>obj.
     case so_Code rd obj of (code, obj') \<Rightarrow> ((case code of None \<Rightarrow> 0 | Some c \<Rightarrow> length c), obj'))"

definition GetCodeHash :: "reader \<Rightarrow> address \<Rightarrow> ('l, hash) sdb" where
  "GetCodeHash rd addr = readObject rd addr 0 (\<lambda>obj. (so_CodeHash obj, obj))"

definition GetState :: "reader \<Rightarrow> address \<Rightarrow> hash \<Rightarrow> ('l, hash) sdb" where
  "GetState rd addr key = readObject rd addr 0 (so_GetState rd key)"

definition GetCommittedState :: "reader \<Rightarrow> address \<Rightarrow> hash \<Rightarrow> ('l, hash) sdb" where
  "GetCommittedState rd addr key = readObject rd addr 0 (so_GetCommittedState rd key)"

definition GetStateAndCommittedState :: "reader \<Rightarrow> address \<Rightarrow> hash \<Rightarrow> ('l, hash \<times> hash) sdb" where
  "GetStateAndCommittedState rd addr key = readObject rd addr (0, 0) (\<lambda>obj.
     case so_GetState rd key obj of (v, obj') \<Rightarrow>
     case so_GetCommittedState rd key obj' of (c, obj'') \<Rightarrow> ((v, c), obj''))"

definition HasSelfDestructed :: "reader \<Rightarrow> address \<Rightarrow> ('l, bool) sdb" where
  "HasSelfDestructed rd addr = readObject rd addr False (\<lambda>obj. (selfDestructed obj, obj))"

definition IsNewContract :: "reader \<Rightarrow> address \<Rightarrow> ('l, bool) sdb" where
  "IsNewContract rd addr = readObject rd addr False (\<lambda>obj. (newContract obj, obj))"

definition IsStorageEmpty :: "reader \<Rightarrow> address \<Rightarrow> bool" where
  "IsStorageEmpty rd addr \<longleftrightarrow> KForEachStorage rd addr = []"

definition GetRefund :: "'l StateDB \<Rightarrow> uint64" where "GetRefund s = refund s"

definition GetTransientState :: "'l StateDB \<Rightarrow> address \<Rightarrow> hash \<Rightarrow> hash" where
  "GetTransientState s addr key = TGet (st_transient s) addr key"

definition AddressInAccessList :: "'l StateDB \<Rightarrow> address \<Rightarrow> bool" where
  "AddressInAccessList s addr = ContainsAddress (accList s) addr"

definition SlotInAccessList :: "'l StateDB \<Rightarrow> address \<Rightarrow> hash \<Rightarrow> bool \<times> bool" where
  "SlotInAccessList s addr slot = Contains (accList s) addr slot"

definition IsEventProcessed :: "'l StateDB \<Rightarrow> int \<Rightarrow> bool" where
  "IsEventProcessed s idx \<longleftrightarrow> idx < processedEventsCount s"

section \<open>Setters\<close>

definition CreateAccount :: "reader \<Rightarrow> address \<Rightarrow> ('l, unit) sdb" where
  "CreateAccount rd addr = thenE (createObject rd addr) (okE ())"

definition CreateContract :: "reader \<Rightarrow> address \<Rightarrow> ('l, unit) sdb" where
  "CreateContract rd addr =
     bindE (theObject rd addr) (\<lambda>obj.
     if newContract obj then okE ()
     else thenE (setStateObject (obj\<lparr>newContract := True\<rparr>)) (journalE (createContractChange addr)))"

definition AddBalance :: "reader \<Rightarrow> address \<Rightarrow> uint256 \<Rightarrow> ('l, uint256) sdb" where
  "AddBalance rd addr amount = bindE (getOrNewStateObject rd addr) (so_AddBalance amount)"

definition SubBalance :: "reader \<Rightarrow> address \<Rightarrow> uint256 \<Rightarrow> ('l, uint256) sdb" where
  "SubBalance rd addr amount = bindE (getOrNewStateObject rd addr) (\<lambda>obj.
     if amount = 0 then okE (so_Balance obj) else so_SubBalance amount obj)"

definition SetBalance :: "reader \<Rightarrow> address \<Rightarrow> uint256 \<Rightarrow> ('l, unit) sdb" where
  "SetBalance rd addr amount = bindE (getOrNewStateObject rd addr) (\<lambda>obj. thenE (so_SetBalance amount obj) (okE ()))"

definition SetNonce :: "reader \<Rightarrow> address \<Rightarrow> uint64 \<Rightarrow> ('l, unit) sdb" where
  "SetNonce rd addr nonce = bindE (getOrNewStateObject rd addr) (so_SetNonce nonce)"

definition SetCode :: "reader \<Rightarrow> address \<Rightarrow> bytes option \<Rightarrow> ('l, bytes option) sdb" where
  "SetCode rd addr code = bindE (getOrNewStateObject rd addr) (\<lambda>obj.
     thenE (so_SetCode rd (Keccak256 rd (case code of None \<Rightarrow> [] | Some c \<Rightarrow> c)) code obj) (okE (so_code obj)))"

definition SetState :: "reader \<Rightarrow> address \<Rightarrow> hash \<Rightarrow> hash \<Rightarrow> ('l, hash) sdb" where
  "SetState rd addr key val = bindE (getOrNewStateObject rd addr) (so_SetState rd key val)"

definition SetStorage :: "reader \<Rightarrow> address \<Rightarrow> Storage \<Rightarrow> ('l, unit) sdb" where
  "SetStorage rd addr storage = bindE (getOrNewStateObject rd addr) (\<lambda>obj. setStateObject (so_SetStorage storage obj))"

definition SelfDestruct :: "reader \<Rightarrow> address \<Rightarrow> ('l, unit) sdb" where
  "SelfDestruct rd addr =
     bindE (getStateObject rd addr) (\<lambda>found. case found of
       None \<Rightarrow> okE ()
     | Some obj \<Rightarrow> thenE (journalE (selfDestructChange addr)) (setStateObject (markSelfDestructed obj)))"

definition setTransientState :: "address \<Rightarrow> hash \<Rightarrow> hash \<Rightarrow> ('l, unit) sdb" where
  "setTransientState addr key val = modifyE (\<lambda>s. s\<lparr>st_transient := TSet addr key val (st_transient s)\<rparr>)"

definition SetTransientState :: "address \<Rightarrow> hash \<Rightarrow> hash \<Rightarrow> ('l, unit) sdb" where
  "SetTransientState addr key val =
     bindE (getsE (\<lambda>s. GetTransientState s addr key)) (\<lambda>prev.
     if prev = val then okE ()
     else thenE (journalE (transientStorageChange addr key prev)) (setTransientState addr key val))"

definition AddLog :: "Log \<Rightarrow> ('l, unit) sdb" where
  "AddLog log =
     thenE (journalE addLogChange)
       (modifyE (\<lambda>s. s\<lparr>logs := logs s @ [log\<lparr>log_TxIndex := TxIndex s, log_Index := length (logs s)\<rparr>]\<rparr>))"

definition AddRefund :: "uint64 \<Rightarrow> ('l, unit) sdb" where
  "AddRefund gas =
     bindE (getsE refund) (\<lambda>prev.
     thenE (journalE (refundChange prev)) (modifyE (\<lambda>s. s\<lparr>refund := refund s + gas\<rparr>)))"

definition SubRefund :: "uint64 \<Rightarrow> ('l, unit) sdb" where
  "SubRefund gas =
     bindE (getsE refund) (\<lambda>prev.
     thenE (journalE (refundChange prev)) (
     thenE (requireE (gas \<le> prev) (Panic ''Refund counter below zero'')) (
     modifyE (\<lambda>s. s\<lparr>refund := refund s - gas\<rparr>))))"

definition AddAddressToAccessList :: "address \<Rightarrow> ('l, unit) sdb" where
  "AddAddressToAccessList addr s =
     (case AddAddress addr (accList s) of (added, al) \<Rightarrow>
      (if added then journalE (accessListAddAccountChange addr) else okE ()) (s\<lparr>accList := al\<rparr>))"

definition AddSlotToAccessList :: "address \<Rightarrow> hash \<Rightarrow> ('l, unit) sdb" where
  "AddSlotToAccessList addr slot s =
     (case AddSlot addr slot (accList s) of ((addrMod, slotMod), al) \<Rightarrow>
      thenE (if addrMod then journalE (accessListAddAccountChange addr) else okE ())
        (if slotMod then journalE (accessListAddSlotChange addr slot) else okE ()) (s\<lparr>accList := al\<rparr>))"

record rules =
  IsEIP2929 :: bool
  IsEIP4762 :: bool
  IsShanghai :: bool

fun prepare_list :: "(address \<times> hash list) list \<Rightarrow> accessList \<Rightarrow> accessList" where
  "prepare_list [] al = al"
| "prepare_list ((a, keys) # rest) al =
     prepare_list rest (fold (\<lambda>k al. snd (AddSlot a k al)) keys (snd (AddAddress a al)))"

definition prepare_access ::
  "rules \<Rightarrow> address \<Rightarrow> address \<Rightarrow> address option \<Rightarrow> address list \<Rightarrow> (address \<times> hash list) list \<Rightarrow> accessList" where
  "prepare_access rls sender coinbase dst precompiles lst =
     (let al1 = snd (AddAddress sender newAccessList);
          al2 = (case dst of None \<Rightarrow> al1 | Some d \<Rightarrow> snd (AddAddress d al1));
          al3 = fold (\<lambda>a al. snd (AddAddress a al)) precompiles al2;
          al4 = prepare_list lst al3
      in if IsShanghai rls then snd (AddAddress coinbase al4) else al4)"

definition Prepare ::
  "rules \<Rightarrow> address \<Rightarrow> address \<Rightarrow> address option \<Rightarrow> address list \<Rightarrow> (address \<times> hash list) list \<Rightarrow> ('l, unit) sdb" where
  "Prepare rls sender coinbase dst precompiles lst =
     thenE (requireE (\<not> (IsEIP2929 rls \<and> IsEIP4762 rls)) (Panic ''eip2929 and eip4762 are both activated'')) (
     thenE (if IsEIP2929 rls
            then modifyE (\<lambda>s. s\<lparr>accList := prepare_access rls sender coinbase dst precompiles lst\<rparr>) else okE ())
       (modifyE (\<lambda>s. s\<lparr>st_transient := newTransientStorage\<rparr>)))"

section \<open>Precompile calls\<close>

definition MaxPrecompileCalls :: "8 word" where "MaxPrecompileCalls = 20"

text \<open>
  What \<^verbatim>\<open>ctx.CacheContext()\<close> gives at the transaction's context: the module stores with their
  parents, their keys, and the events of the new context; \<^const>\<open>None\<close> when the context has no
  multi-store.
\<close>

type_synonym 'l ctx_stores = "((string \<Rightarrow> 'l \<times> 'l) \<times> string list \<times> event list) option"

definition cache :: "'l ctx_stores \<Rightarrow> ('l, unit) sdb" where
  "cache cc = (case cc of
       None \<Rightarrow> failE (Err ''ctx has no multi store'')
     | Some (cms, keys, evs) \<Rightarrow> modifyE (\<lambda>s. s\<lparr>cacheCtx := Some (NewMultiStore cms keys, evs)\<rparr>))"

definition GetCacheContext :: "'l ctx_stores \<Rightarrow> ('l, unit) sdb" where
  "GetCacheContext cc s = (if cacheCtx s = None then cache cc s else okE () s)"

definition MultiStoreSnapshot :: "'l cache_wrap \<Rightarrow> ('l, int) sdb" where
  "MultiStoreSnapshot cw s = (case cacheCtx s of
       None \<Rightarrow> (Inl nilDeref, s)
     | Some (m, evs) \<Rightarrow> (case MSnapshot cw m of
           Inl e \<Rightarrow> (Inl e, s) | Inr (i, m') \<Rightarrow> (Inr i, s\<lparr>cacheCtx := Some (m', evs)\<rparr>)))"

definition RevertMultiStore :: "int \<Rightarrow> ('l, unit) sdb" where
  "RevertMultiStore snapshot s = (case cacheCtx s of
       None \<Rightarrow> (Inl nilDeref, s)
     | Some (m, evs) \<Rightarrow> (case MRevertToSnapshot snapshot m of
           Inl e \<Rightarrow> (Inl e, s) | Inr m' \<Rightarrow> (Inr (), s\<lparr>cacheCtx := Some (m', evs)\<rparr>)))"

definition AddPrecompileFn :: "int \<Rightarrow> ('l, unit) sdb" where
  "AddPrecompileFn snapshot s = (case cacheCtx s of
       None \<Rightarrow> (Inl nilDeref, s)
     | Some (m, prevEvents) \<Rightarrow>
         thenE (journalE (precompileCallChange snapshot prevEvents (processedEventsCount s))) (
         thenE (modifyE (\<lambda>s. s\<lparr>precompileCallsCounter := precompileCallsCounter s + 1\<rparr>)) (
         readE (\<lambda>s. require (precompileCallsCounter s \<le> MaxPrecompileCalls)
                       (Err ''max calls to precompiles reached'')))) s)"

definition MarkEventProcessed :: "int \<Rightarrow> ('l, unit) sdb" where
  "MarkEventProcessed idx =
     thenE (readE (\<lambda>s. require (idx = processedEventsCount s) (Panic ''balance events must be processed sequentially'')))
       (modifyE (\<lambda>s. s\<lparr>processedEventsCount := processedEventsCount s + 1\<rparr>))"

section \<open>Snapshots and reverts\<close>

fun Revert :: "reader \<Rightarrow> JournalEntry \<Rightarrow> ('l, unit) sdb" where
  "Revert rd (createContractChange a) =
     bindE (theObject rd a) (\<lambda>obj. setStateObject (obj\<lparr>newContract := False\<rparr>))"
| "Revert rd (precompileCallChange snapshot prevEvents prevCount) =
     thenE (RevertMultiStore snapshot)
       (modifyE (\<lambda>s. s\<lparr>cacheCtx := map_option (\<lambda>(m, _). (m, prevEvents)) (cacheCtx s),
                       processedEventsCount := prevCount\<rparr>))"
| "Revert rd (createObjectChange a) = modifyE (\<lambda>s. s\<lparr>stateObjects := (stateObjects s)(a := None)\<rparr>)"
| "Revert rd (selfDestructChange a) =
     bindE (getStateObject rd a) (\<lambda>found. case found of
       None \<Rightarrow> okE () | Some obj \<Rightarrow> setStateObject (obj\<lparr>selfDestructed := False\<rparr>))"
| "Revert rd (balanceChange a prev) = bindE (theObject rd a) (\<lambda>obj. setStateObject (setBalance prev obj))"
| "Revert rd (nonceChange a prev) = bindE (theObject rd a) (\<lambda>obj. setStateObject (setNonce prev obj))"
| "Revert rd (codeChange a prevcode prevhash) =
     bindE (theObject rd a) (\<lambda>obj. setStateObject (setCode prevhash prevcode obj))"
| "Revert rd (storageChange a key prev) = bindE (theObject rd a) (\<lambda>obj. setStateObject (setState key prev obj))"
| "Revert rd (transientStorageChange a key prev) = setTransientState a key prev"
| "Revert rd (refundChange prev) = modifyE (\<lambda>s. s\<lparr>refund := prev\<rparr>)"
| "Revert rd addLogChange =
     thenE (readE (\<lambda>s. require (logs s \<noteq> []) (Panic ''slice bounds out of range'')))
       (modifyE (\<lambda>s. s\<lparr>logs := butlast (logs s)\<rparr>))"
| "Revert rd (accessListAddAccountChange a) = modifyE (\<lambda>s. s\<lparr>accList := DeleteAddress a (accList s)\<rparr>)"
| "Revert rd (accessListAddSlotChange a slot) =
     bindE (readE (\<lambda>s. DeleteSlot a slot (accList s))) (\<lambda>al. modifyE (\<lambda>s. s\<lparr>accList := al\<rparr>))"

text \<open>The loop of \<^verbatim>\<open>journal.Revert\<close> over the entries to undo, last one first.\<close>

fun revert_loop :: "reader \<Rightarrow> JournalEntry list \<Rightarrow> ('l, unit) sdb" where
  "revert_loop rd [] = okE ()"
| "revert_loop rd (e # es) =
     thenE (Revert rd e) (
     thenE (modifyE (\<lambda>s. s\<lparr>jrnl := (jrnl s)\<lparr>dirties := undirty e (dirties (jrnl s))\<rparr>\<rparr>)) (
     revert_loop rd es))"

definition journal_Revert :: "reader \<Rightarrow> nat \<Rightarrow> ('l, unit) sdb" where
  "journal_Revert rd snapshot s =
     thenE (revert_loop rd (rev (drop snapshot (entries (jrnl s)))))
       (modifyE (\<lambda>s. s\<lparr>jrnl := (jrnl s)\<lparr>entries := take snapshot (entries (jrnl s))\<rparr>\<rparr>)) s"

definition Snapshot :: "('l, nat) sdb" where
  "Snapshot s =
     (Inr (nextRevisionID s),
      s\<lparr>nextRevisionID := nextRevisionID s + 1,
        validRevisions := validRevisions s @ [\<lparr>rev_id = nextRevisionID s, journalIndex = length (entries (jrnl s))\<rparr>]\<rparr>)"

definition RevertToSnapshot :: "reader \<Rightarrow> nat \<Rightarrow> ('l, unit) sdb" where
  "RevertToSnapshot rd revid s =
     (let idx = Search (length (validRevisions s)) (\<lambda>i. revid \<le> rev_id (validRevisions s ! i)) in
      if idx = length (validRevisions s) \<or> rev_id (validRevisions s ! idx) \<noteq> revid
      then (Inl (Panic ''revision id cannot be reverted''), s)
      else thenE (journal_Revert rd (journalIndex (validRevisions s ! idx)))
             (modifyE (\<lambda>s. s\<lparr>validRevisions := take idx (validRevisions s)\<rparr>)) s)"

section \<open>End of transaction\<close>

fun finalise_loop :: "reader \<Rightarrow> bool \<Rightarrow> address list \<Rightarrow> (address \<rightharpoonup> stateObject) \<Rightarrow> (address \<rightharpoonup> stateObject)" where
  "finalise_loop rd deleteEmpty [] m = m"
| "finalise_loop rd deleteEmpty (a # as) m = finalise_loop rd deleteEmpty as (case m a of
       None \<Rightarrow> m
     | Some obj \<Rightarrow>
         if selfDestructed obj \<or> deleteEmpty \<and> so_empty rd obj then m(so_address obj := None) else m)"

definition Finalise :: "reader \<Rightarrow> bool \<Rightarrow> ('l, unit) sdb" where
  "Finalise rd deleteEmptyObjects =
     modifyE (\<lambda>s. s\<lparr>stateObjects :=
       finalise_loop rd deleteEmptyObjects (sortedDirties (jrnl s)) (stateObjects s)\<rparr>)"

text \<open>\<^verbatim>\<open>ethtypes.EthBurnLog\<close> is the argument \<^verbatim>\<open>burnLog\<close>; the code collects, sorts, then logs.\<close>

definition burnt_accounts :: "'l StateDB \<Rightarrow> (address \<times> uint256) list" where
  "burnt_accounts s = List.map_filter (\<lambda>a. case stateObjects s a of
       None \<Rightarrow> None
     | Some obj \<Rightarrow> if selfDestructed obj \<and> so_Balance obj \<noteq> 0 then Some (so_address obj, so_Balance obj) else None)
     (sortedDirties (jrnl s))"

fun emit_logs :: "(address \<Rightarrow> uint256 \<Rightarrow> Log) \<Rightarrow> (address \<times> uint256) list \<Rightarrow> ('l, unit) sdb" where
  "emit_logs burnLog [] = okE ()"
| "emit_logs burnLog ((a, b) # rest) = thenE (AddLog (burnLog a b)) (emit_logs burnLog rest)"

definition EmitLogsForBurnAccounts :: "(address \<Rightarrow> uint256 \<Rightarrow> Log) \<Rightarrow> ('l, unit) sdb" where
  "EmitLogsForBurnAccounts burnLog s = emit_logs burnLog (burnt_accounts s) s"

text \<open>The write methods of the keeper at a context.\<close>

record 'c writer =
  KSetAccount :: "address \<Rightarrow> Account \<Rightarrow> 'c \<Rightarrow> unit result \<times> 'c"
  KDeleteState :: "address \<Rightarrow> hash \<Rightarrow> 'c \<Rightarrow> 'c"
  KSetState :: "address \<Rightarrow> hash \<Rightarrow> bytes \<Rightarrow> 'c \<Rightarrow> 'c"
  KDeleteCode :: "hash \<Rightarrow> 'c \<Rightarrow> 'c"
  KSetCode :: "hash \<Rightarrow> bytes \<Rightarrow> 'c \<Rightarrow> 'c"
  KDeleteAccount :: "address \<Rightarrow> 'c \<Rightarrow> unit result \<times> 'c"

definition SortedKeys :: "Storage \<Rightarrow> hash list" where
  "SortedKeys m = sorted_list_of_set (dom m)"

definition HashBytes :: "hash \<Rightarrow> bytes" where
  "HashBytes h = be_fixed 32 (unat h)"

fun commit_storage :: "'c writer \<Rightarrow> stateObject \<Rightarrow> hash list \<Rightarrow> ('c, unit) handler" where
  "commit_storage wr obj [] = okE ()"
| "commit_storage wr obj (key # keys) =
     (let valueBytes = HashBytes (case dirtyStorage obj key of None \<Rightarrow> 0 | Some v \<Rightarrow> v) in
      thenE (modifyE (if length valueBytes = 0 then KDeleteState wr (so_address obj) key
                      else KSetState wr (so_address obj) key valueBytes))
        (commit_storage wr obj keys))"

definition commit_object :: "'c writer \<Rightarrow> stateObject \<Rightarrow> ('c, unit) handler" where
  "commit_object wr obj =
     (if selfDestructed obj
      then thenE (case so_code obj of
               Some code \<Rightarrow> if dirtyCode obj \<and> length code > 0
                 then thenE (modifyE (KSetCode wr (so_CodeHash obj) code))
                        (KSetAccount wr (so_address obj) (so_account obj))
                 else okE ()
             | None \<Rightarrow> okE ())
             (KDeleteAccount wr (so_address obj))
      else thenE (case so_code obj of
               Some code \<Rightarrow> if dirtyCode obj
                 then modifyE (if length code = 0 then KDeleteCode wr (so_CodeHash obj)
                               else KSetCode wr (so_CodeHash obj) code)
                 else okE ()
             | None \<Rightarrow> okE ()) (
           thenE (KSetAccount wr (so_address obj) (so_account obj))
             (commit_storage wr obj (SortedKeys (dirtyStorage obj)))))"

fun commit_loop :: "'c writer \<Rightarrow> (address \<rightharpoonup> stateObject) \<Rightarrow> address list \<Rightarrow> ('c, unit) handler" where
  "commit_loop wr objs [] = okE ()"
| "commit_loop wr objs (a # as) = (case objs a of
       None \<Rightarrow> failE nilDeref
     | Some obj \<Rightarrow> thenE (commit_object wr obj) (commit_loop wr objs as))"

definition commitWithCtx :: "'c writer \<Rightarrow> 'l StateDB \<Rightarrow> ('c, unit) handler" where
  "commitWithCtx wr s = commit_loop wr (stateObjects s) (sortedDirties (jrnl s))"

definition FlushToCacheCtx :: "('l MultiStore \<times> event list) writer \<Rightarrow> ('l, unit) sdb" where
  "FlushToCacheCtx wr s = (case cacheCtx s of
       None \<Rightarrow> (Inl nilDeref, s)
     | Some c \<Rightarrow> (case commitWithCtx wr s c of
           (Inl e, c') \<Rightarrow> (Inl e, s\<lparr>cacheCtx := Some c'\<rparr>)
         | (Inr _, c') \<Rightarrow> (Inr (), s\<lparr>cacheCtx := Some c', processedEventsCount := int (length (snd c'))\<rparr>)))"

text \<open>
  \<^verbatim>\<open>sync\<close> is the transaction's context after its multi-store received the flushed layers and
  its event manager the cached events.
\<close>

definition Commit ::
  "'l cache_wrap \<Rightarrow> ('l MultiStore \<Rightarrow> event list \<Rightarrow> 'c \<Rightarrow> 'c) \<Rightarrow> 'c writer \<Rightarrow> 'l StateDB \<Rightarrow> ('c, unit) handler" where
  "Commit cw sync wr s c = (case cacheCtx s of
       None \<Rightarrow> commitWithCtx wr s c
     | Some (m, evs) \<Rightarrow> (case MWrite cw m of
           Inl e \<Rightarrow> (Inl e, c) | Inr m' \<Rightarrow> commitWithCtx wr s (sync m' evs c)))"

end
