(* ===== verification/StateDB_Spec.thy ===== *)
theory StateDB_Spec
  imports StateDB
begin

text \<open>
  The abstract specification of the state database: what its queries can observe, as a plain
  value without caches or journal, the abstract undo of each journal entry, and the refinement:
  the code's \<^verbatim>\<open>Revert\<close> of an entry implements the abstract undo.
\<close>

section \<open>What can be observed\<close>

record obj_view =
  v_nonce :: uint64
  v_balance :: uint256
  v_codehash :: hash
  v_locked :: "int option"
  v_code :: "bytes option"
  v_state :: "hash \<Rightarrow> hash"
  v_committed :: "hash \<Rightarrow> hash"
  v_destructed :: bool
  v_new :: bool

definition view_obj :: "reader \<Rightarrow> stateObject \<Rightarrow> obj_view" where
  "view_obj rd obj =
     \<lparr>v_nonce = so_Nonce obj, v_balance = so_Balance obj, v_codehash = so_CodeHash obj,
      v_locked = so_lockedBalance obj, v_code = fst (so_Code rd obj),
      v_state = (\<lambda>k. fst (so_GetState rd k obj)), v_committed = (\<lambda>k. fst (so_GetCommittedState rd k obj)),
      v_destructed = selfDestructed obj, v_new = newContract obj\<rparr>"

record 'l world =
  w_acct :: "address \<Rightarrow> obj_view option"
  w_transient :: "address \<Rightarrow> hash \<Rightarrow> hash"
  w_refund :: uint64
  w_logs :: "Log list"
  w_access :: accessList
  w_cache :: "('l MultiStore \<times> event list) option"
  w_processed :: int

text \<open>An account that is not live is read from the keeper; a cache context that is not open is the one \<^verbatim>\<open>cache\<close> would open.\<close>

definition fresh_cache :: "'l ctx_stores \<Rightarrow> ('l MultiStore \<times> event list) option" where
  "fresh_cache cc = map_option (\<lambda>(cms, keys, evs). (NewMultiStore cms keys, evs)) cc"

definition loaded :: "reader \<Rightarrow> address \<Rightarrow> obj_view option" where
  "loaded rd a = map_option (\<lambda>acct. view_obj rd (newObject rd a acct)) (KGetAccount rd a)"

definition world_of :: "reader \<Rightarrow> 'l ctx_stores \<Rightarrow> 'l StateDB \<Rightarrow> 'l world" where
  "world_of rd cc s =
     \<lparr>w_acct = (\<lambda>a. case stateObjects s a of Some obj \<Rightarrow> Some (view_obj rd obj) | None \<Rightarrow> loaded rd a),
      w_transient = TGet (st_transient s), w_refund = refund s, w_logs = logs s, w_access = accList s,
      w_cache = (case cacheCtx s of None \<Rightarrow> fresh_cache cc | Some c \<Rightarrow> Some c),
      w_processed = processedEventsCount s\<rparr>"

section \<open>Undoing an entry\<close>

definition on_acct :: "address \<Rightarrow> (obj_view \<Rightarrow> obj_view) \<Rightarrow> 'l world \<Rightarrow> 'l world option" where
  "on_acct a f w = map_option (\<lambda>v. w\<lparr>w_acct := (w_acct w)(a \<mapsto> f v)\<rparr>) (w_acct w a)"

definition code_after :: "reader \<Rightarrow> bytes option \<Rightarrow> hash \<Rightarrow> bytes option" where
  "code_after rd code h =
     (if code \<noteq> None then code else if IsEmptyCodeHash rd h then None else KGetCode rd h)"

fun undo :: "reader \<Rightarrow> JournalEntry \<Rightarrow> 'l world \<Rightarrow> 'l world option" where
  "undo rd (createObjectChange a) w = Some (w\<lparr>w_acct := (w_acct w)(a := loaded rd a)\<rparr>)"
| "undo rd (selfDestructChange a) w = on_acct a (\<lambda>v. v\<lparr>v_destructed := False\<rparr>) w"
| "undo rd (balanceChange a prev) w = on_acct a (\<lambda>v. v\<lparr>v_balance := prev\<rparr>) w"
| "undo rd (nonceChange a prev) w = on_acct a (\<lambda>v. v\<lparr>v_nonce := prev\<rparr>) w"
| "undo rd (storageChange a k prev) w = on_acct a (\<lambda>v. v\<lparr>v_state := (v_state v)(k := prev)\<rparr>) w"
| "undo rd (codeChange a code h) w = on_acct a (\<lambda>v. v\<lparr>v_codehash := h, v_code := code_after rd code h\<rparr>) w"
| "undo rd (createContractChange a) w = on_acct a (\<lambda>v. v\<lparr>v_new := False\<rparr>) w"
| "undo rd (transientStorageChange a k prev) w =
     Some (w\<lparr>w_transient := (w_transient w)(a := (w_transient w a)(k := prev))\<rparr>)"
| "undo rd (refundChange prev) w = Some (w\<lparr>w_refund := prev\<rparr>)"
| "undo rd addLogChange w = (if w_logs w = [] then None else Some (w\<lparr>w_logs := butlast (w_logs w)\<rparr>))"
| "undo rd (accessListAddAccountChange a) w = Some (w\<lparr>w_access := DeleteAddress a (w_access w)\<rparr>)"
| "undo rd (accessListAddSlotChange a k) w = (case DeleteSlot a k (w_access w) of
       Inl e \<Rightarrow> None | Inr al \<Rightarrow> Some (w\<lparr>w_access := al\<rparr>))"
| "undo rd (precompileCallChange i evs n) w = (case w_cache w of
       None \<Rightarrow> None
     | Some (m, _) \<Rightarrow> (case MRevertToSnapshot i m of
           Inl e \<Rightarrow> None | Inr m' \<Rightarrow> Some (w\<lparr>w_cache := Some (m', evs), w_processed := n\<rparr>)))"

fun is_precompile :: "JournalEntry \<Rightarrow> bool" where
  "is_precompile (precompileCallChange i evs n) = True"
| "is_precompile _ = False"

section \<open>Views of objects\<close>

lemmas obj_eval = so_Code_def so_GetState_def so_GetCommittedState_def setBalance_def setNonce_def
  setCode_def setState_def markSelfDestructed_def code_after_def

lemma view_obj_set [simp]:
  "view_obj rd (setBalance b obj) = (view_obj rd obj)\<lparr>v_balance := b\<rparr>"
  "view_obj rd (setNonce n obj) = (view_obj rd obj)\<lparr>v_nonce := n\<rparr>"
  "view_obj rd (setCode h c obj) = (view_obj rd obj)\<lparr>v_codehash := h, v_code := code_after rd c h\<rparr>"
  "view_obj rd (setState k v obj) = (view_obj rd obj)\<lparr>v_state := (v_state (view_obj rd obj))(k := v)\<rparr>"
  "view_obj rd (obj\<lparr>selfDestructed := x\<rparr>) = (view_obj rd obj)\<lparr>v_destructed := x\<rparr>"
  "view_obj rd (obj\<lparr>newContract := y\<rparr>) = (view_obj rd obj)\<lparr>v_new := y\<rparr>"
  "view_obj rd (markSelfDestructed obj) = (view_obj rd obj)\<lparr>v_destructed := True\<rparr>"
  by (auto simp: view_obj_def obj_eval Let_def fun_eq_iff split: option.splits)

lemma view_obj_cached [simp]:
  "view_obj rd (snd (so_Code rd obj)) = view_obj rd obj"
  "view_obj rd (snd (so_GetCommittedState rd k obj)) = view_obj rd obj"
  "view_obj rd (snd (so_GetState rd k obj)) = view_obj rd obj"
proof -
  show "view_obj rd (snd (so_Code rd obj)) = view_obj rd obj"
    by (auto simp: view_obj_def obj_eval Let_def fun_eq_iff split: option.split)
  show committed: "view_obj rd (snd (so_GetCommittedState rd k obj)) = view_obj rd obj"
  proof (cases "overrideStorage obj = None \<and> originStorage obj k = None")
    case True
    then show ?thesis by (auto simp: view_obj_def obj_eval Let_def fun_eq_iff split: option.split)
  next
    case False
    then have "snd (so_GetCommittedState rd k obj) = obj"
      by (auto simp: so_GetCommittedState_def split: option.split)
    then show ?thesis by simp
  qed
  show "view_obj rd (snd (so_GetState rd k obj)) = view_obj rd obj"
    using committed by (cases "dirtyStorage obj k") (simp_all add: so_GetState_def)
qed

lemma so_address_set [simp]:
  "so_address (setBalance b obj) = so_address obj" "so_address (setNonce n obj) = so_address obj"
  "so_address (setCode h c obj) = so_address obj" "so_address (setState k v obj) = so_address obj"
  "so_address (markSelfDestructed obj) = so_address obj"
  "so_address (snd (so_Code rd obj)) = so_address obj"
  "so_address (snd (so_GetCommittedState rd k obj)) = so_address obj"
  "so_address (snd (so_GetState rd k obj)) = so_address obj"
  "so_address (newObject rd a acct) = a"
  by (auto simp: obj_eval newObject_def Let_def split: option.splits)

lemma so_CodeHash_cached [simp]: "so_CodeHash (snd (so_Code rd obj)) = so_CodeHash obj"
  by (auto simp: obj_eval Let_def)

section \<open>Reverting an entry refines its undo\<close>

text \<open>Every live object is filed under its own address.\<close>

definition addressed :: "'l StateDB \<Rightarrow> bool" where
  "addressed s \<longleftrightarrow> (\<forall>a obj. stateObjects s a = Some obj \<longrightarrow> so_address obj = a)"

text \<open>Nothing but objects, lists, counters and the cache context differs.\<close>

definition same_history :: "'l StateDB \<Rightarrow> 'l StateDB \<Rightarrow> bool" where
  "same_history s t \<longleftrightarrow> jrnl t = jrnl s \<and> validRevisions t = validRevisions s \<and>
     nextRevisionID t = nextRevisionID s \<and> (cacheCtx s \<noteq> None \<longrightarrow> cacheCtx t \<noteq> None)"

lemma getStateObject_spec:
  assumes "addressed s"
  obtains t where "getStateObject rd a s = (Inr (stateObjects t a), t)" "world_of rd cc t = world_of rd cc s"
    "addressed t" "same_history s t" "w_acct (world_of rd cc s) a = map_option (view_obj rd) (stateObjects t a)"
    "cacheCtx t = cacheCtx s"
proof (cases "stateObjects s a")
  case (Some obj)
  then show ?thesis
    by (intro that [of s]) (simp_all add: getStateObject_def same_history_def assms world_of_def handler_simps)
next
  case None
  show ?thesis
  proof (cases "KGetAccount rd a")
    case None
    then show ?thesis using \<open>stateObjects s a = None\<close>
      by (intro that [of s]) (simp_all add: getStateObject_def same_history_def assms world_of_def loaded_def)
  next
    case (Some acct)
    let ?t = "s\<lparr>stateObjects := (stateObjects s)(a \<mapsto> newObject rd a acct)\<rparr>"
    show ?thesis using \<open>stateObjects s a = None\<close> Some assms
      by (intro that [of ?t])
        (auto simp: getStateObject_def setStateObject_def same_history_def world_of_def loaded_def
          addressed_def Let_def fun_eq_iff thenE_def bindE_def)
  qed
qed

lemma world_put [simp]:
  "world_of rd cc (s\<lparr>stateObjects := (stateObjects s)(a \<mapsto> obj)\<rparr>) =
     (world_of rd cc s)\<lparr>w_acct := (w_acct (world_of rd cc s))(a \<mapsto> view_obj rd obj)\<rparr>"
  by (auto simp: world_of_def fun_eq_iff)

lemma addressed_put: "addressed s \<Longrightarrow> so_address obj = a \<Longrightarrow> addressed (s\<lparr>stateObjects := (stateObjects s)(a \<mapsto> obj)\<rparr>)"
  by (auto simp: addressed_def)

lemma same_history_trans: "same_history s t \<Longrightarrow> same_history t u \<Longrightarrow> same_history s u"
  by (auto simp: same_history_def)

lemma same_history_put [simp]: "same_history s (s\<lparr>stateObjects := m\<rparr>)"
  by (simp add: same_history_def)

text \<open>Reverting an entry of one account: the object is there, and the change is written to it.\<close>

lemma revert_on_object:
  assumes "addressed s" "on_acct a f (world_of rd cc s) = Some w"
    and "\<And>obj. so_address (g obj) = so_address obj" "\<And>obj. view_obj rd (g obj) = f (view_obj rd obj)"
  shows "\<exists>t. bindE (theObject rd a) (\<lambda>obj. setStateObject (g obj)) s = (Inr (), t) \<and>
    world_of rd cc t = w \<and> addressed t \<and> same_history s t"
proof -
  obtain t where t: "getStateObject rd a s = (Inr (stateObjects t a), t)" "world_of rd cc t = world_of rd cc s"
    "addressed t" "same_history s t" "w_acct (world_of rd cc s) a = map_option (view_obj rd) (stateObjects t a)"
    using getStateObject_spec [OF assms(1)] by metis
  obtain obj where obj: "stateObjects t a = Some obj"
    and w: "w = (world_of rd cc s)\<lparr>w_acct := (w_acct (world_of rd cc s))(a \<mapsto> f (view_obj rd obj))\<rparr>"
    using assms(2) t(5) by (auto simp: on_acct_def)
  have "so_address obj = a" using t(3) obj by (simp add: addressed_def)
  then show ?thesis
    using t obj w assms(3,4) addressed_put [OF t(3), of "g obj" a] same_history_trans [OF t(4) same_history_put]
    by (intro exI [of _ "t\<lparr>stateObjects := (stateObjects t)(a \<mapsto> g obj)\<rparr>"])
      (simp add: theObject_def setStateObject_def bindE_def of_option_def liftE_def modifyE_def)
qed

lemma Revert_refines:
  assumes "addressed s" "undo rd e (world_of rd cc s) = Some w" "is_precompile e \<Longrightarrow> cacheCtx s \<noteq> None"
  shows "\<exists>t. Revert rd e s = (Inr (), t) \<and> world_of rd cc t = w \<and> addressed t \<and> same_history s t"
proof (cases e)
  case (selfDestructChange a)
  obtain t where t: "getStateObject rd a s = (Inr (stateObjects t a), t)" "world_of rd cc t = world_of rd cc s"
    "addressed t" "same_history s t" "w_acct (world_of rd cc s) a = map_option (view_obj rd) (stateObjects t a)"
    using getStateObject_spec [OF assms(1)] by metis
  then obtain obj where obj: "stateObjects t a = Some obj"
    using assms(2) selfDestructChange by (auto simp: on_acct_def)
  then have "so_address obj = a" using t(3) by (simp add: addressed_def)
  then show ?thesis
    using t obj assms(2) addressed_put [OF t(3), of "obj\<lparr>selfDestructed := False\<rparr>" a]
      same_history_trans [OF t(4) same_history_put]
    by (simp add: selfDestructChange on_acct_def setStateObject_def bindE_def modifyE_def)
next
  case (balanceChange a prev)
  then show ?thesis using assms(2) revert_on_object [OF assms(1), of a _ rd cc w "setBalance prev"] by simp
next
  case (nonceChange a prev)
  then show ?thesis using assms(2) revert_on_object [OF assms(1), of a _ rd cc w "setNonce prev"] by simp
next
  case (storageChange a k prev)
  then show ?thesis using assms(2) revert_on_object [OF assms(1), of a _ rd cc w "setState k prev"] by simp
next
  case (codeChange a c h)
  then show ?thesis using assms(2) revert_on_object [OF assms(1), of a _ rd cc w "setCode h c"] by simp
next
  case (createContractChange a)
  then show ?thesis
    using assms(2) revert_on_object [OF assms(1), of a _ rd cc w "\<lambda>obj. obj\<lparr>newContract := False\<rparr>"] by simp
next
  case (precompileCallChange i evs n)
  then obtain m evs' where c: "cacheCtx s = Some (m, evs')" using assms(3) by auto
  then obtain m' where "MRevertToSnapshot i m = Inr m'"
    "w = (world_of rd cc s)\<lparr>w_cache := Some (m', evs), w_processed := n\<rparr>"
    using assms(2) precompileCallChange by (auto simp: world_of_def split: sum.splits)
  then show ?thesis
    using c assms(1) precompileCallChange
    by (simp add: RevertMultiStore_def thenE_def bindE_def modifyE_def world_of_def addressed_def same_history_def)
next
  case (createObjectChange a)
  then show ?thesis
    using assms(1,2) by (auto simp: modifyE_def world_of_def addressed_def same_history_def fun_eq_iff)
next
  case (accessListAddSlotChange a k)
  then show ?thesis
    using assms(1,2) by (auto simp: bindE_def readE_def modifyE_def world_of_def addressed_def same_history_def
        split: sum.splits)
next
  case addLogChange
  then show ?thesis
    using assms(1,2) by (auto simp: thenE_def bindE_def readE_def require_def modifyE_def world_of_def addressed_def
        same_history_def split: if_splits)
qed (use assms(1,2) in \<open>auto simp: setTransientState_def modifyE_def world_of_def addressed_def same_history_def
       TGet_TSet fun_eq_iff\<close>)

section \<open>Rewinding the journal\<close>

text \<open>The stores and lists an abstract state carries are well-formed.\<close>

definition world_wf :: "'l world \<Rightarrow> bool" where
  "world_wf w \<longleftrightarrow> al_wf (w_access w) \<and> (\<forall>m evs. w_cache w = Some (m, evs) \<longrightarrow> ms_wf m)"

text \<open>
  \<^verbatim>\<open>rewinds rd es w v\<close>: undoing the entries \<^verbatim>\<open>es\<close> in this order leads from \<^verbatim>\<open>w\<close> to \<^verbatim>\<open>v\<close> through
  well-formed states.
\<close>

fun rewinds :: "reader \<Rightarrow> JournalEntry list \<Rightarrow> 'l world \<Rightarrow> 'l world \<Rightarrow> bool" where
  "rewinds rd [] w v \<longleftrightarrow> world_wf w \<and> v = w"
| "rewinds rd (e # es) w v \<longleftrightarrow> world_wf w \<and> (\<exists>u. undo rd e w = Some u \<and> rewinds rd es u v)"

lemma rewinds_append:
  "rewinds rd (xs @ ys) w v \<longleftrightarrow> (\<exists>u. rewinds rd xs w u \<and> rewinds rd ys u v)"
proof (induction xs arbitrary: w)
  case Nil
  then show ?case by (cases ys) auto
qed auto

lemma rewinds_wf: "rewinds rd es w v \<Longrightarrow> world_wf w \<and> world_wf v"
  by (induction es arbitrary: w) auto

lemma rewinds_det: "rewinds rd es w v \<Longrightarrow> rewinds rd es w v' \<Longrightarrow> v = v'"
  by (induction es arbitrary: w) auto

lemma revert_loop_refines:
  assumes "addressed s" "rewinds rd es (world_of rd cc s) w"
    and "\<exists>e\<in>set es. is_precompile e \<Longrightarrow> cacheCtx s \<noteq> None"
  shows "\<exists>t. revert_loop rd es s = (Inr (), t) \<and> world_of rd cc t = w \<and> addressed t \<and>
    validRevisions t = validRevisions s \<and> nextRevisionID t = nextRevisionID s \<and>
    entries (jrnl t) = entries (jrnl s) \<and> dirties (jrnl t) = fold undirty es (dirties (jrnl s)) \<and>
    (cacheCtx s \<noteq> None \<longrightarrow> cacheCtx t \<noteq> None)"
  using assms
proof (induction es arbitrary: s)
  case Nil
  then show ?case by simp
next
  case (Cons e es)
  obtain u where u: "undo rd e (world_of rd cc s) = Some u" "rewinds rd es u w"
    using Cons.prems(2) by auto
  obtain t where t: "Revert rd e s = (Inr (), t)" "world_of rd cc t = u" "addressed t" "same_history s t"
    using Revert_refines [OF Cons.prems(1) u(1)] Cons.prems(3) by auto
  define t' where "t' = t\<lparr>jrnl := (jrnl t)\<lparr>dirties := undirty e (dirties (jrnl t))\<rparr>\<rparr>"
  have t': "world_of rd cc t' = u" "addressed t'" "validRevisions t' = validRevisions s"
    "nextRevisionID t' = nextRevisionID s" "entries (jrnl t') = entries (jrnl s)"
    "dirties (jrnl t') = undirty e (dirties (jrnl s))" "cacheCtx s \<noteq> None \<longrightarrow> cacheCtx t' \<noteq> None"
    using t by (simp_all add: t'_def world_of_def addressed_def same_history_def)
  have "\<exists>e\<in>set es. is_precompile e \<Longrightarrow> cacheCtx t' \<noteq> None" using Cons.prems(3) t'(7) by auto
  from Cons.IH [OF t'(2) _ this] u(2) t' obtain v where
    "revert_loop rd es t' = (Inr (), v)" "world_of rd cc v = w" "addressed v"
    "validRevisions v = validRevisions s" "nextRevisionID v = nextRevisionID s"
    "entries (jrnl v) = entries (jrnl s)" "dirties (jrnl v) = fold undirty es (dirties (jrnl t'))"
    "cacheCtx t' \<noteq> None \<longrightarrow> cacheCtx v \<noteq> None" by auto
  moreover have "revert_loop rd (e # es) s = revert_loop rd es t'"
    using t(1) by (simp add: thenE_def bindE_def modifyE_def t'_def)
  ultimately show ?case using t'(6,7) by auto
qed

end
