(* ===== verification/StateDB_Runs.thy ===== *)
theory StateDB_Runs
  imports StateDB_Spec
begin

text \<open>
  Every operation of the EVM on the state database leaves a journal suffix that undoes it; hence
  along any run, reverting to a live snapshot restores what could be observed when the snapshot
  was taken.
\<close>

section \<open>Dirty counters\<close>

definition dirty_counts :: "JournalEntry list \<Rightarrow> (address \<rightharpoonup> int)" where
  "dirty_counts es = fold (\<lambda>e m. case Dirtied e of None \<Rightarrow> m | Some a \<Rightarrow> m(a \<mapsto> count_of m a + 1)) es Map.empty"

lemma dirty_counts_snoc:
  "dirty_counts (es @ [e]) = (case Dirtied e of
     None \<Rightarrow> dirty_counts es | Some a \<Rightarrow> (dirty_counts es)(a \<mapsto> count_of (dirty_counts es) a + 1))"
  by (simp add: dirty_counts_def split: option.split)

lemma dirty_counts_pos: "dirty_counts es a = Some n \<Longrightarrow> 0 < n"
proof (induction es arbitrary: n rule: rev_induct)
  case Nil
  then show ?case by (simp add: dirty_counts_def)
next
  case (snoc e es)
  then show ?case by (auto simp: dirty_counts_snoc count_of_def split: option.splits if_splits)
qed

lemma undirty_snoc: "undirty e (dirty_counts (es @ [e])) = dirty_counts es"
  using dirty_counts_pos [of es]
  by (auto simp: dirty_counts_snoc undirty_def count_of_def Let_def fun_upd_idem split: option.splits)

lemma undirty_fold: "fold undirty (rev fs) (dirty_counts (es @ fs)) = dirty_counts es"
proof (induction fs rule: rev_induct)
  case (snoc f fs)
  then show ?case using undirty_snoc [of f "es @ fs"] by simp
qed simp

section \<open>One operation\<close>

definition sdb_pre :: "reader \<Rightarrow> 'l ctx_stores \<Rightarrow> 'l StateDB \<Rightarrow> bool" where
  "sdb_pre rd cc s \<longleftrightarrow> addressed s \<and> world_wf (world_of rd cc s) \<and>
     dirties (jrnl s) = dirty_counts (entries (jrnl s))"

text \<open>\<^verbatim>\<open>t\<close> extends the journal of \<^verbatim>\<open>s\<close> by entries that undo what changed.\<close>

definition ext :: "reader \<Rightarrow> 'l ctx_stores \<Rightarrow> 'l StateDB \<Rightarrow> 'l StateDB \<Rightarrow> bool" where
  "ext rd cc s t \<longleftrightarrow> sdb_pre rd cc t \<and> validRevisions t = validRevisions s \<and> nextRevisionID t = nextRevisionID s \<and>
     (cacheCtx s \<noteq> None \<longrightarrow> cacheCtx t \<noteq> None) \<and>
     (\<exists>es. entries (jrnl t) = entries (jrnl s) @ es \<and> rewinds rd (rev es) (world_of rd cc t) (world_of rd cc s) \<and>
        ((\<exists>e\<in>set es. is_precompile e) \<longrightarrow> cacheCtx t \<noteq> None))"

lemma ext_refl: "sdb_pre rd cc s \<Longrightarrow> ext rd cc s s"
  by (auto simp: ext_def sdb_pre_def intro!: exI [of _ "[]"])

lemma ext_trans:
  assumes "ext rd cc s t" "ext rd cc t u"
  shows "ext rd cc s u"
proof -
  obtain es where es: "entries (jrnl t) = entries (jrnl s) @ es"
    "rewinds rd (rev es) (world_of rd cc t) (world_of rd cc s)" "(\<exists>e\<in>set es. is_precompile e) \<longrightarrow> cacheCtx t \<noteq> None"
    using assms(1) by (auto simp: ext_def)
  obtain fs where fs: "entries (jrnl u) = entries (jrnl t) @ fs"
    "rewinds rd (rev fs) (world_of rd cc u) (world_of rd cc t)" "(\<exists>e\<in>set fs. is_precompile e) \<longrightarrow> cacheCtx u \<noteq> None"
    using assms(2) by (auto simp: ext_def)
  have "rewinds rd (rev (es @ fs)) (world_of rd cc u) (world_of rd cc s)"
    using es(2) fs(2) by (auto simp: rewinds_append)
  then show ?thesis
    using assms es fs unfolding ext_def by (intro conjI exI [of _ "es @ fs"]) auto
qed

text \<open>A change of caches only.\<close>

lemma ext_same:
  assumes "sdb_pre rd cc s" "addressed t" "world_of rd cc t = world_of rd cc s" "same_history s t"
  shows "ext rd cc s t"
  using assms by (auto simp: ext_def sdb_pre_def same_history_def intro!: exI [of _ "[]"])

text \<open>A journaled change.\<close>

lemma ext_entry:
  assumes "sdb_pre rd cc s" "addressed t" "world_wf (world_of rd cc t)" "jrnl t = append_entry e (jrnl s)"
    and "undo rd e (world_of rd cc t) = Some (world_of rd cc s)"
    and "validRevisions t = validRevisions s" "nextRevisionID t = nextRevisionID s"
    and "cacheCtx s \<noteq> None \<or> is_precompile e \<Longrightarrow> cacheCtx t \<noteq> None"
  shows "ext rd cc s t"
  using assms
  by (auto simp: ext_def sdb_pre_def append_entry_def dirty_counts_snoc intro!: exI [of _ "[e]"]
      split: option.split)

lemma world_append [simp]: "world_of rd cc (s\<lparr>jrnl := j\<rparr>) = world_of rd cc s"
  by (simp add: world_of_def)

lemma world_wf_acct [simp]: "world_wf (w\<lparr>w_acct := f\<rparr>) = world_wf w"
  by (simp add: world_wf_def)

lemma ext_object:
  fixes s :: "'l StateDB"
  assumes "sdb_pre rd cc s" "stateObjects s a = Some obj" "so_address obj' = a"
    and "\<And>w :: 'l world. undo rd e w = on_acct a f w" "f (view_obj rd obj') = view_obj rd obj" "\<not> is_precompile e"
  shows "ext rd cc s (s\<lparr>jrnl := append_entry e (jrnl s), stateObjects := (stateObjects s)(a \<mapsto> obj')\<rparr>)"
proof (rule ext_entry [OF assms(1)])
  let ?t = "s\<lparr>jrnl := append_entry e (jrnl s), stateObjects := (stateObjects s)(a \<mapsto> obj')\<rparr>"
  have w: "world_of rd cc ?t = (world_of rd cc s)\<lparr>w_acct := (w_acct (world_of rd cc s))(a \<mapsto> view_obj rd obj')\<rparr>"
    using world_put [of rd cc "s\<lparr>jrnl := append_entry e (jrnl s)\<rparr>" a obj'] by simp
  have "w_acct (world_of rd cc s) a = Some (view_obj rd obj)" using assms(2) by (simp add: world_of_def)
  then show "undo rd e (world_of rd cc ?t) = Some (world_of rd cc s)"
    using w assms(4,5) by (simp add: on_acct_def fun_upd_idem)
  show "world_wf (world_of rd cc ?t)" using assms(1) w by (simp add: sdb_pre_def)
  show "addressed ?t" using assms(1,3) by (auto simp: sdb_pre_def addressed_def)
qed (use assms(6) in auto)

text \<open>Loading or creating an object.\<close>

lemma load_ext:
  assumes "sdb_pre rd cc s"
  obtains t where "getStateObject rd a s = (Inr (stateObjects t a), t)" "ext rd cc s t" "sdb_pre rd cc t"
    "world_of rd cc t = world_of rd cc s"
    "w_acct (world_of rd cc s) a = map_option (view_obj rd) (stateObjects t a)"
proof -
  have "addressed s" using assms by (simp add: sdb_pre_def)
  then obtain t where t: "getStateObject rd a s = (Inr (stateObjects t a), t)" "world_of rd cc t = world_of rd cc s"
    "addressed t" "same_history s t" "w_acct (world_of rd cc s) a = map_option (view_obj rd) (stateObjects t a)"
    using getStateObject_spec by metis
  then have "ext rd cc s t" using ext_same [OF assms t(3,2,4)] by simp
  then show ?thesis using t that by (simp add: ext_def)
qed

lemma create_ext:
  assumes "sdb_pre rd cc s" "w_acct (world_of rd cc s) a = None"
  obtains obj t where "createObject rd a s = (Inr obj, t)" "ext rd cc s t" "stateObjects t a = Some obj"
    "so_address obj = a"
proof -
  have none: "stateObjects s a = None" "loaded rd a = None"
    using assms(2) by (auto simp: world_of_def split: option.splits)
  define obj where "obj = newObject rd a \<lparr>acc_Nonce = 0, acc_Balance = None, acc_CodeHash = None, acc_lockedBalance = None\<rparr>"
  define t where "t = s\<lparr>jrnl := append_entry (createObjectChange a) (jrnl s), stateObjects := (stateObjects s)(a \<mapsto> obj)\<rparr>"
  have a: "so_address obj = a" by (simp add: obj_def)
  have w: "world_of rd cc t = (world_of rd cc s)\<lparr>w_acct := (w_acct (world_of rd cc s))(a \<mapsto> view_obj rd obj)\<rparr>"
    using world_put [of rd cc "s\<lparr>jrnl := append_entry (createObjectChange a) (jrnl s)\<rparr>" a obj] by (simp add: t_def)
  have "ext rd cc s t"
    using assms w a none by (intro ext_entry [OF assms(1), of t "createObjectChange a"])
      (auto simp: t_def sdb_pre_def addressed_def fun_upd_idem)
  moreover have "createObject rd a s = (Inr obj, t)"
    using a by (simp add: createObject_def Let_def flip: obj_def)
      (simp add: journalE_def setStateObject_def thenE_def bindE_def modifyE_def okE_def t_def)
  ultimately show ?thesis using a that by (simp add: t_def)
qed

lemma getOrNew_ext:
  assumes "sdb_pre rd cc s"
  obtains obj t where "getOrNewStateObject rd a s = (Inr obj, t)" "ext rd cc s t" "sdb_pre rd cc t"
    "stateObjects t a = Some obj" "so_address obj = a"
proof -
  obtain t where t: "getStateObject rd a s = (Inr (stateObjects t a), t)" "ext rd cc s t" "sdb_pre rd cc t"
    "world_of rd cc t = world_of rd cc s"
    "w_acct (world_of rd cc s) a = map_option (view_obj rd) (stateObjects t a)"
    using load_ext [OF assms] by metis
  show ?thesis
  proof (cases "stateObjects t a")
    case (Some obj)
    then have "so_address obj = a" using t(3) by (simp add: sdb_pre_def addressed_def)
    then show ?thesis using t Some that [of obj t] by (simp add: getOrNewStateObject_def bindE_def okE_def)
  next
    case None
    then have "w_acct (world_of rd cc t) a = None" using t by simp
    then obtain obj u where u: "createObject rd a t = (Inr obj, u)" "ext rd cc t u" "stateObjects u a = Some obj"
      "so_address obj = a" using create_ext [OF t(3)] by metis
    have "getOrNewStateObject rd a s = (Inr obj, u)"
      using t(1) None u(1) by (simp add: getOrNewStateObject_def bindE_def)
    then show ?thesis using that [of obj u] u ext_trans [OF t(2) u(2)] by (simp add: ext_def)
  qed
qed

section \<open>The operations of the EVM\<close>

text \<open>
  A precompile call opens the cache context, takes a snapshot of the multi-store, journals the
  call, and then writes to the current layer of the module stores, leaving new events.
\<close>

definition PrecompileCall ::
  "'l cache_wrap \<Rightarrow> 'l ctx_stores \<Rightarrow> (string \<times> ('l \<Rightarrow> 'l)) list \<Rightarrow> event list \<Rightarrow> int \<Rightarrow> ('l, unit) sdb" where
  "PrecompileCall cw cc ws evs count =
     thenE (GetCacheContext cc) (
     bindE (MultiStoreSnapshot cw) (\<lambda>snapshot.
     thenE (AddPrecompileFn snapshot)
       (modifyE (\<lambda>s. s\<lparr>cacheCtx := map_option (\<lambda>(m, _). (fold (\<lambda>(k, f). update_store k f) ws m, evs)) (cacheCtx s),
                       processedEventsCount := count\<rparr>))))"

datatype 'l sdb_op =
    OpExist address | OpEmpty address | OpGetBalance address | OpGetNonce address | OpGetCode address
  | OpGetCodeSize address | OpGetCodeHash address | OpGetState address hash | OpGetCommitted address hash
  | OpGetBoth address hash | OpHasSelfDestructed address | OpIsNewContract address
  | OpCreateAccount address | OpCreateContract address | OpAddBalance address uint256
  | OpSubBalance address uint256 | OpSetBalance address uint256 | OpSetNonce address uint64
  | OpSetCode address "bytes option" | OpSetState address hash hash | OpSelfDestruct address
  | OpSetTransient address hash hash | OpAddLog Log | OpAddRefund uint64 | OpSubRefund uint64
  | OpAddAddress address | OpAddSlot address hash
  | OpPrecompile "(string \<times> ('l \<Rightarrow> 'l)) list" "event list" int
  | OpSnapshot | OpRevert nat

definition quiet :: "('l, 'a) sdb \<Rightarrow> ('l, unit) sdb" where
  "quiet m = thenE m (okE ())"

fun exec_op :: "reader \<Rightarrow> 'l cache_wrap \<Rightarrow> 'l ctx_stores \<Rightarrow> 'l sdb_op \<Rightarrow> ('l, unit) sdb" where
  "exec_op rd cw cc (OpExist a) = quiet (Exist rd a)"
| "exec_op rd cw cc (OpEmpty a) = quiet (Empty rd a)"
| "exec_op rd cw cc (OpGetBalance a) = quiet (GetBalance rd a)"
| "exec_op rd cw cc (OpGetNonce a) = quiet (GetNonce rd a)"
| "exec_op rd cw cc (OpGetCode a) = quiet (GetCode rd a)"
| "exec_op rd cw cc (OpGetCodeSize a) = quiet (GetCodeSize rd a)"
| "exec_op rd cw cc (OpGetCodeHash a) = quiet (GetCodeHash rd a)"
| "exec_op rd cw cc (OpGetState a k) = quiet (GetState rd a k)"
| "exec_op rd cw cc (OpGetCommitted a k) = quiet (GetCommittedState rd a k)"
| "exec_op rd cw cc (OpGetBoth a k) = quiet (GetStateAndCommittedState rd a k)"
| "exec_op rd cw cc (OpHasSelfDestructed a) = quiet (HasSelfDestructed rd a)"
| "exec_op rd cw cc (OpIsNewContract a) = quiet (IsNewContract rd a)"
| "exec_op rd cw cc (OpCreateAccount a) = CreateAccount rd a"
| "exec_op rd cw cc (OpCreateContract a) = CreateContract rd a"
| "exec_op rd cw cc (OpAddBalance a x) = quiet (AddBalance rd a x)"
| "exec_op rd cw cc (OpSubBalance a x) = quiet (SubBalance rd a x)"
| "exec_op rd cw cc (OpSetBalance a x) = SetBalance rd a x"
| "exec_op rd cw cc (OpSetNonce a n) = SetNonce rd a n"
| "exec_op rd cw cc (OpSetCode a c) = quiet (SetCode rd a c)"
| "exec_op rd cw cc (OpSetState a k v) = quiet (SetState rd a k v)"
| "exec_op rd cw cc (OpSelfDestruct a) = SelfDestruct rd a"
| "exec_op rd cw cc (OpSetTransient a k v) = SetTransientState a k v"
| "exec_op rd cw cc (OpAddLog l) = AddLog l"
| "exec_op rd cw cc (OpAddRefund g) = AddRefund g"
| "exec_op rd cw cc (OpSubRefund g) = SubRefund g"
| "exec_op rd cw cc (OpAddAddress a) = AddAddressToAccessList a"
| "exec_op rd cw cc (OpAddSlot a k) = AddSlotToAccessList a k"
| "exec_op rd cw cc (OpPrecompile ws evs n) = PrecompileCall cw cc ws evs n"
| "exec_op rd cw cc OpSnapshot = quiet Snapshot"
| "exec_op rd cw cc (OpRevert i) = RevertToSnapshot rd i"

text \<open>
  The uses the code is written for: an account is created only where none exists, and an account
  is not destructed twice.
\<close>

fun allowed :: "reader \<Rightarrow> 'l sdb_op \<Rightarrow> 'l StateDB \<Rightarrow> bool" where
  "allowed rd (OpCreateAccount a) s \<longleftrightarrow> stateObjects s a = None \<and> KGetAccount rd a = None"
| "allowed rd (OpSelfDestruct a) s \<longleftrightarrow> (case stateObjects s a of None \<Rightarrow> True | Some obj \<Rightarrow> \<not> selfDestructed obj)"
| "allowed rd _ s \<longleftrightarrow> True"

lemma quiet_ok: "quiet m s = (Inr (), t) \<longleftrightarrow> (\<exists>x. m s = (Inr x, t))"
  by (auto simp: quiet_def thenE_def bindE_def okE_def split: prod.splits sum.splits)

lemma read_ext:
  assumes "sdb_pre rd cc s" "readObject rd a d f s = (r, t)"
    and "\<And>obj. so_address (snd (f obj)) = so_address obj" "\<And>obj. view_obj rd (snd (f obj)) = view_obj rd obj"
  shows "ext rd cc s t"
proof -
  obtain u where u: "getStateObject rd a s = (Inr (stateObjects u a), u)" "ext rd cc s u" "sdb_pre rd cc u"
    using load_ext [OF assms(1)] by metis
  show ?thesis
  proof (cases "stateObjects u a")
    case None
    then show ?thesis using u assms(2) by (simp add: readObject_def bindE_def okE_def)
  next
    case (Some obj)
    have a: "so_address obj = a" using Some u(3) by (simp add: sdb_pre_def addressed_def)
    define v where "v = u\<lparr>stateObjects := (stateObjects u)(a \<mapsto> snd (f obj))\<rparr>"
    have "t = v" using u(1) Some assms(2,3) a
      by (simp add: readObject_def bindE_def thenE_def setStateObject_def modifyE_def okE_def v_def split: prod.splits)
        (metis snd_conv)
    moreover have "w_acct (world_of rd cc u) a = Some (view_obj rd obj)" using Some by (simp add: world_of_def)
    then have "world_of rd cc v = world_of rd cc u" using assms(4) by (simp add: v_def fun_upd_idem)
    then have "ext rd cc u v"
      using u(3) a assms(3) by (intro ext_same) (auto simp: v_def sdb_pre_def addressed_put)
    ultimately show ?thesis using ext_trans [OF u(2)] by simp
  qed
qed

lemma load_only_ext:
  assumes "sdb_pre rd cc s" "bindE (getStateObject rd a) (\<lambda>found. okE (g found)) s = (Inr x, t)"
  shows "ext rd cc s t"
proof -
  obtain u where "getStateObject rd a s = (Inr (stateObjects u a), u)" "ext rd cc s u"
    using load_ext [OF assms(1)] by metis
  then show ?thesis using assms(2) by (simp add: bindE_def okE_def)
qed

lemma query_ext:
  assumes "sdb_pre rd cc s"
  shows "Exist rd a s = (Inr x1, t) \<Longrightarrow> ext rd cc s t" "Empty rd a s = (Inr x2, t) \<Longrightarrow> ext rd cc s t"
    "GetBalance rd a s = (Inr x3, t) \<Longrightarrow> ext rd cc s t" "GetNonce rd a s = (Inr x4, t) \<Longrightarrow> ext rd cc s t"
    "GetCode rd a s = (Inr x5, t) \<Longrightarrow> ext rd cc s t" "GetCodeSize rd a s = (Inr x6, t) \<Longrightarrow> ext rd cc s t"
    "GetCodeHash rd a s = (Inr x7, t) \<Longrightarrow> ext rd cc s t" "GetState rd a k s = (Inr x8, t) \<Longrightarrow> ext rd cc s t"
    "GetCommittedState rd a k s = (Inr x9, t) \<Longrightarrow> ext rd cc s t"
    "GetStateAndCommittedState rd a k s = (Inr x10, t) \<Longrightarrow> ext rd cc s t"
    "HasSelfDestructed rd a s = (Inr x11, t) \<Longrightarrow> ext rd cc s t"
    "IsNewContract rd a s = (Inr x12, t) \<Longrightarrow> ext rd cc s t"
proof -
  have both: "so_address (snd (case so_GetState rd k obj of (v, obj') \<Rightarrow>
       case so_GetCommittedState rd k obj' of (c, obj'') \<Rightarrow> ((v, c), obj''))) = so_address obj"
    "view_obj rd (snd (case so_GetState rd k obj of (v, obj') \<Rightarrow>
       case so_GetCommittedState rd k obj' of (c, obj'') \<Rightarrow> ((v, c), obj''))) = view_obj rd obj" for obj
    using so_address_set(7,8) view_obj_cached(2,3) by (simp_all add: case_prod_beta)
  have size: "snd (case so_Code rd obj of (code, obj') \<Rightarrow> (h code, obj')) = snd (so_Code rd obj)" for obj and h :: "bytes option \<Rightarrow> nat"
    by (simp add: case_prod_beta)
  note r = read_ext [OF assms]
  show "Exist rd a s = (Inr x1, t) \<Longrightarrow> ext rd cc s t" "Empty rd a s = (Inr x2, t) \<Longrightarrow> ext rd cc s t"
    using load_only_ext [OF assms] by (auto simp: Exist_def Empty_def)
  show "GetBalance rd a s = (Inr x3, t) \<Longrightarrow> ext rd cc s t" "GetNonce rd a s = (Inr x4, t) \<Longrightarrow> ext rd cc s t"
    "GetCode rd a s = (Inr x5, t) \<Longrightarrow> ext rd cc s t"
    "GetCodeHash rd a s = (Inr x7, t) \<Longrightarrow> ext rd cc s t" "GetState rd a k s = (Inr x8, t) \<Longrightarrow> ext rd cc s t"
    "GetCommittedState rd a k s = (Inr x9, t) \<Longrightarrow> ext rd cc s t"
    "HasSelfDestructed rd a s = (Inr x11, t) \<Longrightarrow> ext rd cc s t"
    "IsNewContract rd a s = (Inr x12, t) \<Longrightarrow> ext rd cc s t"
    unfolding GetBalance_def GetNonce_def GetCode_def GetCodeHash_def GetState_def
      GetCommittedState_def HasSelfDestructed_def IsNewContract_def by - (rule r, assumption, simp, simp)+
  show "GetCodeSize rd a s = (Inr x6, t) \<Longrightarrow> ext rd cc s t"
    unfolding GetCodeSize_def by (rule r, assumption) (simp_all add: size)
  show "GetStateAndCommittedState rd a k s = (Inr x10, t) \<Longrightarrow> ext rd cc s t"
    unfolding GetStateAndCommittedState_def by (rule r, assumption) (simp_all only: both)
qed

section \<open>Setters are journaled\<close>

lemma SetBalance_obj_ext:
  assumes "sdb_pre rd cc t" "stateObjects t a = Some obj" "so_address obj = a"
    and "so_SetBalance x obj t = (r, u)"
  shows "ext rd cc t u"
proof -
  have u: "u = t\<lparr>jrnl := append_entry (balanceChange a (so_Balance obj)) (jrnl t),
      stateObjects := (stateObjects t)(a \<mapsto> setBalance x obj)\<rparr>"
    using assms(3,4)
    by (auto simp: so_SetBalance_def journalE_def setStateObject_def thenE_def bindE_def modifyE_def okE_def)
  show ?thesis unfolding u
    using assms by (intro ext_object [OF assms(1,2), where f = "\<lambda>v. v\<lparr>v_balance := so_Balance obj\<rparr>"])
      (simp_all, simp add: view_obj_def)
qed

lemma balance_ext:
  assumes "sdb_pre rd cc s"
  shows "AddBalance rd a x s = (Inr r1, t) \<Longrightarrow> ext rd cc s t"
    "SubBalance rd a x s = (Inr r2, t) \<Longrightarrow> ext rd cc s t"
    "SetBalance rd a x s = (Inr r3, t) \<Longrightarrow> ext rd cc s t"
proof -
  obtain obj u where u: "getOrNewStateObject rd a s = (Inr obj, u)" "ext rd cc s u" "sdb_pre rd cc u"
    "stateObjects u a = Some obj" "so_address obj = a"
    using getOrNew_ext [OF assms] by metis
  note set = ext_trans [OF u(2) SetBalance_obj_ext [OF u(3-5)]]
  show "AddBalance rd a x s = (Inr r1, t) \<Longrightarrow> ext rd cc s t"
    using u(1,2) set
    by (auto simp: AddBalance_def so_AddBalance_def bindE_def okE_def split: if_splits)
  show "SubBalance rd a x s = (Inr r2, t) \<Longrightarrow> ext rd cc s t"
    using u(1,2) set
    by (auto simp: SubBalance_def so_SubBalance_def bindE_def okE_def failE_def split: if_splits)
  show "SetBalance rd a x s = (Inr r3, t) \<Longrightarrow> ext rd cc s t"
    using u(1,2) set
    by (auto simp: SetBalance_def thenE_def bindE_def okE_def split: prod.splits sum.splits)
qed

lemma SetNonce_ext:
  assumes "sdb_pre rd cc s" "SetNonce rd a n s = (Inr r, t)"
  shows "ext rd cc s t"
proof -
  obtain obj u where u: "getOrNewStateObject rd a s = (Inr obj, u)" "ext rd cc s u" "sdb_pre rd cc u"
    "stateObjects u a = Some obj" "so_address obj = a"
    using getOrNew_ext [OF assms(1)] by metis
  have t: "t = u\<lparr>jrnl := append_entry (nonceChange a (so_Nonce obj)) (jrnl u),
      stateObjects := (stateObjects u)(a \<mapsto> setNonce n obj)\<rparr>"
    using assms(2) u(1,5)
    by (auto simp: SetNonce_def so_SetNonce_def journalE_def setStateObject_def thenE_def bindE_def modifyE_def)
  have "ext rd cc u t" unfolding t
    using u by (intro ext_object [OF u(3,4), where f = "\<lambda>v. v\<lparr>v_nonce := so_Nonce obj\<rparr>"])
      (simp_all, simp add: view_obj_def)
  then show ?thesis using ext_trans [OF u(2)] by simp
qed

lemma code_after_cached: "code_after rd (fst (so_Code rd obj)) (so_CodeHash obj) = fst (so_Code rd obj)"
  by (auto simp: code_after_def so_Code_def Let_def)

lemma SetCode_ext:
  assumes "sdb_pre rd cc s" "SetCode rd a c s = (Inr r, t)"
  shows "ext rd cc s t"
proof -
  obtain obj u where u: "getOrNewStateObject rd a s = (Inr obj, u)" "ext rd cc s u" "sdb_pre rd cc u"
    "stateObjects u a = Some obj" "so_address obj = a"
    using getOrNew_ext [OF assms(1)] by metis
  define h where "h = Keccak256 rd (case c of None \<Rightarrow> [] | Some c \<Rightarrow> c)"
  have t: "t = u\<lparr>jrnl := append_entry (codeChange a (fst (so_Code rd obj)) (so_CodeHash obj)) (jrnl u),
      stateObjects := (stateObjects u)(a \<mapsto> setCode h c (snd (so_Code rd obj)))\<rparr>"
    using assms(2) u(1,5) so_address_set(6) [of rd obj]
    by (auto simp: SetCode_def so_SetCode_def journalE_def setStateObject_def thenE_def bindE_def modifyE_def okE_def
        h_def case_prod_beta)
  have "ext rd cc u t" unfolding t
    using u by (intro ext_object [OF u(3,4),
        where f = "\<lambda>v. v\<lparr>v_codehash := so_CodeHash obj, v_code := code_after rd (fst (so_Code rd obj)) (so_CodeHash obj)\<rparr>"])
      (simp_all add: code_after_cached, simp add: view_obj_def)
  then show ?thesis using ext_trans [OF u(2)] by simp
qed

lemma SetState_ext:
  assumes "sdb_pre rd cc s" "SetState rd a k v s = (Inr r, t)"
  shows "ext rd cc s t"
proof -
  obtain obj u where u: "getOrNewStateObject rd a s = (Inr obj, u)" "ext rd cc s u" "sdb_pre rd cc u"
    "stateObjects u a = Some obj" "so_address obj = a"
    using getOrNew_ext [OF assms(1)] by metis
  define prev obj' where "prev = fst (so_GetState rd k obj)" and "obj' = snd (so_GetState rd k obj)"
  define w where "w = u\<lparr>stateObjects := (stateObjects u)(a \<mapsto> obj')\<rparr>"
  have a': "so_address obj' = a" using u(5) by (simp add: obj'_def)
  have view: "view_obj rd obj' = view_obj rd obj" by (simp add: obj'_def)
  have "w_acct (world_of rd cc u) a = Some (view_obj rd obj)" using u(4) by (simp add: world_of_def)
  then have "world_of rd cc w = world_of rd cc u" using view by (simp add: w_def fun_upd_idem)
  then have w: "ext rd cc u w"
    using u(3) a' by (intro ext_same) (auto simp: w_def sdb_pre_def addressed_put)
  have t: "t = (if prev = v then w else w\<lparr>jrnl := append_entry (storageChange a k prev) (jrnl w),
      stateObjects := (stateObjects w)(a \<mapsto> setState k v obj')\<rparr>)"
    using assms(2) u(1) a'
    by (auto simp: SetState_def so_SetState_def journalE_def setStateObject_def thenE_def bindE_def modifyE_def okE_def
        w_def case_prod_beta split: if_splits simp flip: prev_def obj'_def)
  have "ext rd cc w (w\<lparr>jrnl := append_entry (storageChange a k prev) (jrnl w),
      stateObjects := (stateObjects w)(a \<mapsto> setState k v obj')\<rparr>)"
    using w a' view
    by (intro ext_object [of rd cc w a obj' _ _ "\<lambda>x. x\<lparr>v_state := (v_state x)(k := prev)\<rparr>"])
      (auto simp: ext_def w_def prev_def, simp add: view_obj_def fun_upd_idem)
  then show ?thesis using t w ext_trans [OF u(2)] ext_trans by metis
qed

lemma CreateContract_ext:
  assumes "sdb_pre rd cc s" "CreateContract rd a s = (Inr r, t)"
  shows "ext rd cc s t"
proof -
  obtain u where u: "getStateObject rd a s = (Inr (stateObjects u a), u)" "ext rd cc s u" "sdb_pre rd cc u"
    using load_ext [OF assms(1)] by metis
  then obtain obj where obj: "stateObjects u a = Some obj"
    using assms(2) by (cases "stateObjects u a")
      (auto simp: CreateContract_def theObject_def bindE_def liftE_def of_option_def)
  then have a: "so_address obj = a" using u(3) by (simp add: sdb_pre_def addressed_def)
  have t: "t = (if newContract obj then u else u\<lparr>jrnl := append_entry (createContractChange a) (jrnl u),
      stateObjects := (stateObjects u)(a \<mapsto> obj\<lparr>newContract := True\<rparr>)\<rparr>)"
    using assms(2) u(1) obj a
    by (auto simp: CreateContract_def theObject_def bindE_def liftE_def of_option_def journalE_def
        setStateObject_def thenE_def modifyE_def okE_def split: if_splits)
  have "ext rd cc u (u\<lparr>jrnl := append_entry (createContractChange a) (jrnl u),
      stateObjects := (stateObjects u)(a \<mapsto> obj\<lparr>newContract := True\<rparr>)\<rparr>)" if "\<not> newContract obj"
    using a that by (intro ext_object [OF u(3) obj, where f = "\<lambda>v. v\<lparr>v_new := False\<rparr>"])
      (simp_all, simp add: view_obj_def)
  then show ?thesis using t u(2) ext_trans [OF u(2)] by (cases "newContract obj") simp_all
qed

lemma SelfDestruct_ext:
  assumes "sdb_pre rd cc s" "SelfDestruct rd a s = (Inr r, t)"
    and "allowed rd (OpSelfDestruct a) s"
  shows "ext rd cc s t"
proof -
  obtain u where u: "getStateObject rd a s = (Inr (stateObjects u a), u)" "ext rd cc s u" "sdb_pre rd cc u"
    using load_ext [OF assms(1)] by metis
  show ?thesis
  proof (cases "stateObjects u a")
    case None
    then show ?thesis using u assms(2) by (simp add: SelfDestruct_def bindE_def okE_def)
  next
    case (Some obj)
    then have a: "so_address obj = a" using u(3) by (simp add: sdb_pre_def addressed_def)
    have fresh: "\<not> selfDestructed obj"
      using assms(3) u(1) Some
      by (auto simp: getStateObject_def okE_def thenE_def bindE_def setStateObject_def modifyE_def Let_def newObject_def
          split: option.splits)
    have t: "t = u\<lparr>jrnl := append_entry (selfDestructChange a) (jrnl u),
      stateObjects := (stateObjects u)(a \<mapsto> markSelfDestructed obj)\<rparr>"
      using assms(2) u(1) Some a
      by (simp add: SelfDestruct_def bindE_def journalE_def setStateObject_def thenE_def modifyE_def)
    have "ext rd cc u t" unfolding t
      using a fresh by (intro ext_object [OF u(3) Some, where f = "\<lambda>v. v\<lparr>v_destructed := False\<rparr>"])
        (simp_all, simp add: view_obj_def)
    then show ?thesis using ext_trans [OF u(2)] by simp
  qed
qed

lemma CreateAccount_ext:
  assumes "sdb_pre rd cc s" "CreateAccount rd a s = (Inr r, t)" "allowed rd (OpCreateAccount a) s"
  shows "ext rd cc s t"
proof -
  have "w_acct (world_of rd cc s) a = None" using assms(3) by (simp add: world_of_def loaded_def)
  then obtain obj u where "createObject rd a s = (Inr obj, u)" "ext rd cc s u"
    using create_ext [OF assms(1)] by metis
  then show ?thesis using assms(2) by (simp add: CreateAccount_def thenE_def bindE_def okE_def)
qed

lemma small_ext:
  assumes "sdb_pre rd cc s"
  shows "SetTransientState a k v s = (Inr r1, t) \<Longrightarrow> ext rd cc s t"
    "AddLog l s = (Inr r2, t) \<Longrightarrow> ext rd cc s t"
    "AddRefund g s = (Inr r3, t) \<Longrightarrow> ext rd cc s t"
    "SubRefund g s = (Inr r4, t) \<Longrightarrow> ext rd cc s t"
    "AddAddressToAccessList a s = (Inr r5, t) \<Longrightarrow> ext rd cc s t"
proof -
  note e = ext_entry [OF assms] and r = ext_refl [OF assms]
  have pre: "addressed s" "world_wf (world_of rd cc s)" using assms by (auto simp: sdb_pre_def)
  show "ext rd cc s t" if st: "SetTransientState a k v s = (Inr r1, t)"
  proof (cases "GetTransientState s a k = v")
    case True
    then show ?thesis using r st by (simp add: SetTransientState_def bindE_def getsE_def okE_def)
  next
    case False
    then have "t = s\<lparr>jrnl := append_entry (transientStorageChange a k (GetTransientState s a k)) (jrnl s),
       st_transient := TSet a k v (st_transient s)\<rparr>"
      using st by (simp add: SetTransientState_def bindE_def thenE_def getsE_def journalE_def modifyE_def setTransientState_def)
    then show ?thesis
      using pre by (intro e [of t "transientStorageChange a k (GetTransientState s a k)"])
        (auto simp: addressed_def world_of_def world_wf_def TGet_TSet GetTransientState_def fun_eq_iff)
  qed
  show "ext rd cc s t" if "AddLog l s = (Inr r2, t)"
    using pre that by (intro e [of t addLogChange])
      (auto simp: AddLog_def thenE_def bindE_def journalE_def modifyE_def addressed_def world_of_def world_wf_def)
  show "ext rd cc s t" if "AddRefund g s = (Inr r3, t)"
    using pre that by (intro e [of t "refundChange (refund s)"])
      (auto simp: AddRefund_def thenE_def bindE_def getsE_def journalE_def modifyE_def addressed_def world_of_def world_wf_def)
  show "ext rd cc s t" if "SubRefund g s = (Inr r4, t)"
    using pre that by (intro e [of t "refundChange (refund s)"])
      (auto simp: SubRefund_def thenE_def bindE_def getsE_def journalE_def modifyE_def requireE_def okE_def failE_def
        addressed_def world_of_def world_wf_def split: if_splits)
  show "ext rd cc s t" if st: "AddAddressToAccessList a s = (Inr r5, t)"
  proof (cases "addresses (accList s) a")
    case (Some i)
    then show ?thesis using r st by (simp add: AddAddressToAccessList_def AddAddress_def okE_def)
  next
    case None
    then have t: "t = s\<lparr>accList := snd (AddAddress a (accList s)), jrnl := append_entry (accessListAddAccountChange a) (jrnl s)\<rparr>"
      using st by (auto simp: AddAddressToAccessList_def AddAddress_def journalE_def modifyE_def)
    then show ?thesis
      using pre AddAddress_wf [of "accList s" a] DeleteAddress_AddAddress [OF None]
      by (intro e [of t "accessListAddAccountChange a"])
        (auto simp: addressed_def world_of_def world_wf_def)
  qed
qed

lemma AddSlot_cases:
  assumes "AddSlot a k al = ((ac, sc), al')"
  shows "\<not> sc \<Longrightarrow> \<not> ac \<and> al' = al" "ac \<longleftrightarrow> addresses al a = None"
  using assms by (auto simp: AddSlot_def Let_def split: if_splits)

lemma AddSlotToAccessList_ext:
  assumes "sdb_pre rd cc s" "AddSlotToAccessList a k s = (Inr r, t)"
  shows "ext rd cc s t"
proof -
  obtain ac sc al where al: "AddSlot a k (accList s) = ((ac, sc), al)" by (metis surj_pair)
  note c = AddSlot_cases [OF al]
  have pre: "addressed s" "world_wf (world_of rd cc s)" "al_wf (accList s)"
    using assms(1) by (auto simp: sdb_pre_def world_wf_def world_of_def)
  have wf: "al_wf al" using AddSlot_wf [OF pre(3), of a k] al by simp
  define u where "u = (if ac then s\<lparr>accList := snd (AddAddress a (accList s)),
      jrnl := append_entry (accessListAddAccountChange a) (jrnl s)\<rparr> else s)"
  have su: "ext rd cc s u"
  proof (cases ac)
    case True
    then have "AddAddressToAccessList a s = (Inr (), u)"
      using c(2) by (simp add: AddAddressToAccessList_def AddAddress_def journalE_def modifyE_def u_def)
    then show ?thesis using small_ext(5) [OF assms(1)] by blast
  qed (simp add: u_def ext_refl [OF assms(1)])
  show ?thesis
  proof (cases sc)
    case False
    then have "t = s" using c(1) assms(2) al by (simp add: AddSlotToAccessList_def thenE_def bindE_def okE_def)
    then show ?thesis using ext_refl [OF assms(1)] by simp
  next
    case True
    have t: "t = u\<lparr>accList := al, jrnl := append_entry (accessListAddSlotChange a k) (jrnl u)\<rparr>"
      using assms(2) al True
      by (auto simp: AddSlotToAccessList_def thenE_def bindE_def okE_def journalE_def modifyE_def u_def)
    have "DeleteSlot a k al = Inr (accList u)"
      using DeleteSlot_AddSlot [OF pre(3)] al True c(2)
      by (auto simp: u_def AddAddress_def)
    moreover have "sdb_pre rd cc u" using su by (simp add: ext_def)
    ultimately have "ext rd cc u t"
      using wf by (intro ext_entry [of rd cc u t "accessListAddSlotChange a k"])
        (auto simp: t sdb_pre_def addressed_def world_of_def world_wf_def)
    then show ?thesis using ext_trans [OF su] by simp
  qed
qed

lemma fold_update_store:
  assumes "ms_wf m" "MSnapshot cw m = Inr (i, m')"
  shows "MRevertToSnapshot i (fold (\<lambda>(k, f). update_store k f) ws m') = Inr m"
    "ms_wf (fold (\<lambda>(k, f). update_store k f) ws m')"
proof -
  have use: "ms_use cw i m' (fold (\<lambda>(k, f). update_store k f) ws m')"
    by (induction ws rule: rev_induct) (auto intro: ms_use.intros)
  show "MRevertToSnapshot i (fold (\<lambda>(k, f). update_store k f) ws m') = Inr m"
    using ms_use_restores [OF assms use] .
  have "ms_wf m'" using ms_snap.snap_wf [OF assms] .
  then show "ms_wf (fold (\<lambda>(k, f). update_store k f) ws m')"
    by (induction ws rule: rev_induct) (auto dest: update_store_writes simp: ms_snap.writes_def)
qed

lemma PrecompileCall_ext:
  assumes "sdb_pre rd cc s" "PrecompileCall cw cc ws evs n s = (Inr r, t)"
  shows "ext rd cc s t"
proof -
  obtain m evs0 where m: "w_cache (world_of rd cc s) = Some (m, evs0)"
    and open_ctx: "GetCacheContext cc s = (Inr (), s\<lparr>cacheCtx := Some (m, evs0)\<rparr>)"
    using assms(2) that
    by (cases "cacheCtx s"; cases cc)
      (auto simp: PrecompileCall_def GetCacheContext_def cache_def thenE_def bindE_def failE_def modifyE_def okE_def
        world_of_def fresh_cache_def)
  have wf: "ms_wf m" using assms(1) m by (auto simp: sdb_pre_def world_wf_def)
  obtain i m' where snap: "MSnapshot cw m = Inr (i, m')" using ms_snap.snap_total [OF wf] by blast
  let ?m = "fold (\<lambda>(k, f). update_store k f) ws m'"
  have t: "t = s\<lparr>cacheCtx := Some (?m, evs), processedEventsCount := n,
      precompileCallsCounter := precompileCallsCounter s + 1,
      jrnl := append_entry (precompileCallChange i evs0 (processedEventsCount s)) (jrnl s)\<rparr>"
    using assms(2) open_ctx snap
    by (auto simp: PrecompileCall_def thenE_def bindE_def MultiStoreSnapshot_def AddPrecompileFn_def journalE_def
        modifyE_def readE_def require_def split: if_splits)
  show ?thesis
    using assms(1) m fold_update_store [OF wf snap, of ws]
    by (intro ext_entry [of rd cc s t "precompileCallChange i evs0 (processedEventsCount s)"])
      (auto simp: t sdb_pre_def addressed_def world_of_def world_wf_def)
qed

lemma op_ext:
  assumes "sdb_pre rd cc s" "exec_op rd cw cc op s = (Inr (), t)" "allowed rd op s"
    and "op \<noteq> OpSnapshot" "\<And>i. op \<noteq> OpRevert i"
  shows "ext rd cc s t"
proof -
  note rules = query_ext [OF assms(1)] balance_ext [OF assms(1)] SetNonce_ext [OF assms(1)]
    SetCode_ext [OF assms(1)] SetState_ext [OF assms(1)] CreateContract_ext [OF assms(1)]
    SelfDestruct_ext [OF assms(1)] CreateAccount_ext [OF assms(1)] small_ext [OF assms(1)]
    AddSlotToAccessList_ext [OF assms(1)] PrecompileCall_ext [OF assms(1)]
  show ?thesis
    by (insert assms(2-5), cases op; simp only: exec_op.simps quiet_ok; (elim exE)?; (erule rules)?) auto
qed

end
