(* ===== verification/StateDB_Properties.thy ===== *)
theory StateDB_Properties
  imports StateDB_Runs
begin

text \<open>
  Snapshots and reverts of the state database along runs of EVM operations, and further
  properties of its operations and of the commit.
\<close>

section \<open>The invariant\<close>

definition revisions_ok :: "'l StateDB \<Rightarrow> bool" where
  "revisions_ok s \<longleftrightarrow>
     sorted_wrt (\<lambda>r q. rev_id r < rev_id q \<and> journalIndex r \<le> journalIndex q) (validRevisions s) \<and>
     (\<forall>r\<in>set (validRevisions s). rev_id r < nextRevisionID s \<and> journalIndex r \<le> length (entries (jrnl s)))"

text \<open>
  The whole journal can be undone, the dirty counters count its entries, and the revisions are
  ordered by identifier and by journal position.
\<close>

definition sdb_ok :: "reader \<Rightarrow> 'l ctx_stores \<Rightarrow> 'l StateDB \<Rightarrow> bool" where
  "sdb_ok rd cc s \<longleftrightarrow> sdb_pre rd cc s \<and> revisions_ok s \<and>
     (\<exists>w. rewinds rd (rev (entries (jrnl s))) (world_of rd cc s) w) \<and>
     ((\<exists>e\<in>set (entries (jrnl s)). is_precompile e) \<longrightarrow> cacheCtx s \<noteq> None)"

lemma ext_ok:
  assumes "sdb_ok rd cc s" "ext rd cc s t"
  shows "sdb_ok rd cc t"
proof -
  obtain es where es: "entries (jrnl t) = entries (jrnl s) @ es"
    "rewinds rd (rev es) (world_of rd cc t) (world_of rd cc s)" "(\<exists>e\<in>set es. is_precompile e) \<longrightarrow> cacheCtx t \<noteq> None"
    using assms(2) by (auto simp: ext_def)
  obtain w where "rewinds rd (rev (entries (jrnl s))) (world_of rd cc s) w"
    using assms(1) by (auto simp: sdb_ok_def)
  then have "rewinds rd (rev (entries (jrnl t))) (world_of rd cc t) w" using es by (auto simp: rewinds_append)
  then show ?thesis
    using assms es by (auto simp: sdb_ok_def ext_def revisions_ok_def)
qed

lemma Search_revision:
  assumes "revisions_ok s" "n < length (validRevisions s)"
  shows "Search (length (validRevisions s)) (\<lambda>i. rev_id (validRevisions s ! n) \<le> rev_id (validRevisions s ! i)) = n"
    (is "Search ?len ?f = n")
proof -
  have sorted: "i < j \<Longrightarrow> j < ?len \<Longrightarrow> rev_id (validRevisions s ! i) < rev_id (validRevisions s ! j)" for i j
    using assms(1) by (auto simp: revisions_ok_def dest: sorted_wrt_nth_less)
  have mono: "a \<le> b \<Longrightarrow> b < ?len \<Longrightarrow> ?f a \<Longrightarrow> ?f b" for a b
    using sorted [of a b] by (cases "a = b") auto
  have "\<not> Search ?len ?f < n" using Search_correct(3) [of ?len ?f] mono sorted [of "Search ?len ?f" n] assms(2)
    by (meson linorder_not_le order.strict_trans)
  moreover have "\<not> n < Search ?len ?f" using Search_correct(2) [of ?len ?f n] mono by blast
  ultimately show ?thesis by simp
qed

lemma Search_missing:
  assumes "revisions_ok s" "revid \<notin> rev_id ` set (validRevisions s)"
  shows "RevertToSnapshot rd revid s = (Inl (Panic ''revision id cannot be reverted''), s)"
proof -
  let ?n = "Search (length (validRevisions s)) (\<lambda>i. revid \<le> rev_id (validRevisions s ! i))"
  have "?n = length (validRevisions s) \<or> rev_id (validRevisions s ! ?n) \<noteq> revid"
  proof (cases "?n < length (validRevisions s)")
    case True
    then show ?thesis using assms(2) by (metis image_eqI nth_mem)
  next
    case False
    have "i < j \<Longrightarrow> j < length (validRevisions s) \<Longrightarrow> rev_id (validRevisions s ! i) < rev_id (validRevisions s ! j)" for i j
      using assms(1) by (auto simp: revisions_ok_def dest: sorted_wrt_nth_less)
    then have "?n \<le> length (validRevisions s)"
      by (intro Search_correct(1)) (metis le_neq_implies_less less_imp_le order.trans)
    then show ?thesis using False by simp
  qed
  then show ?thesis by (simp add: RevertToSnapshot_def Let_def)
qed

text \<open>Reverting to the \<^verbatim>\<open>n\<close>-th valid revision.\<close>

lemma revert_to_revision:
  assumes "sdb_ok rd cc s" "n < length (validRevisions s)"
    and w: "rewinds rd (rev (drop (journalIndex (validRevisions s ! n)) (entries (jrnl s)))) (world_of rd cc s) w"
  shows "\<exists>t. RevertToSnapshot rd (rev_id (validRevisions s ! n)) s = (Inr (), t) \<and> world_of rd cc t = w \<and>
    validRevisions t = take n (validRevisions s) \<and> nextRevisionID t = nextRevisionID s \<and>
    jrnl t = \<lparr>entries = take (journalIndex (validRevisions s ! n)) (entries (jrnl s)),
              dirties = dirty_counts (take (journalIndex (validRevisions s ! n)) (entries (jrnl s)))\<rparr> \<and>
    sdb_ok rd cc t"
proof -
  let ?j = "journalIndex (validRevisions s ! n)"
  let ?es = "drop ?j (entries (jrnl s))"
  have pre: "addressed s" "dirties (jrnl s) = dirty_counts (entries (jrnl s))" "revisions_ok s"
    using assms(1) by (auto simp: sdb_ok_def sdb_pre_def)
  have "\<exists>e\<in>set (rev ?es). is_precompile e \<Longrightarrow> cacheCtx s \<noteq> None"
    using assms(1) by (auto simp: sdb_ok_def dest: in_set_dropD)
  from revert_loop_refines [OF pre(1) w this] obtain u where
    u: "revert_loop rd (rev ?es) s = (Inr (), u)" "world_of rd cc u = w" "addressed u"
    "validRevisions u = validRevisions s" "nextRevisionID u = nextRevisionID s"
    "entries (jrnl u) = entries (jrnl s)" "dirties (jrnl u) = fold undirty (rev ?es) (dirties (jrnl s))"
    "cacheCtx s \<noteq> None \<longrightarrow> cacheCtx u \<noteq> None" by auto
  have d: "dirties (jrnl u) = dirty_counts (take ?j (entries (jrnl s)))"
    using u(7) pre(2) undirty_fold [of ?es "take ?j (entries (jrnl s))"] by simp
  define t where "t = u\<lparr>jrnl := (jrnl u)\<lparr>entries := take ?j (entries (jrnl u))\<rparr>, validRevisions := take n (validRevisions u)\<rparr>"
  have jt: "jrnl t = \<lparr>entries = take ?j (entries (jrnl s)), dirties = dirty_counts (take ?j (entries (jrnl s)))\<rparr>"
    using u(6) d by (simp add: t_def)
  have run: "RevertToSnapshot rd (rev_id (validRevisions s ! n)) s = (Inr (), t)"
    using Search_revision [OF pre(3) assms(2)] assms(2) u(1)
    by (simp add: RevertToSnapshot_def journal_Revert_def thenE_def bindE_def modifyE_def t_def)
  have wt: "world_of rd cc t = w" using u(2) by (simp add: t_def world_of_def)
  obtain v where "rewinds rd (rev (entries (jrnl s))) (world_of rd cc s) v" using assms(1) by (auto simp: sdb_ok_def)
  then have "rewinds rd (rev ?es @ rev (take ?j (entries (jrnl s)))) (world_of rd cc s) v"
    by (simp flip: rev_append)
  then obtain w' where "rewinds rd (rev ?es) (world_of rd cc s) w'"
    and rest': "rewinds rd (rev (take ?j (entries (jrnl s)))) w' v"
    by (auto simp only: rewinds_append)
  then have "w' = w" using w by (blast dest: rewinds_det)
  with rest' have rest: "rewinds rd (rev (take ?j (entries (jrnl s)))) w v" by simp
  have rev_ok: "revisions_ok t"
  proof -
    have "journalIndex r \<le> ?j" if r: "r \<in> set (take n (validRevisions s))" for r
    proof -
      obtain i where "i < n" "r = validRevisions s ! i" using r assms(2) by (auto simp: in_set_conv_nth)
      then show ?thesis using pre(3) assms(2) sorted_wrt_nth_less by (fastforce simp: revisions_ok_def)
    qed
    moreover have "sorted_wrt (\<lambda>r q. rev_id r < rev_id q \<and> journalIndex r \<le> journalIndex q) (take n (validRevisions s))"
      using pre(3) by (simp add: revisions_ok_def sorted_wrt_take)
    moreover have "?j \<le> length (entries (jrnl s))" using pre(3) assms(2) by (simp add: revisions_ok_def)
    ultimately show ?thesis
      using pre(3) u(4-6) by (auto simp: revisions_ok_def jt t_def dest: in_set_takeD)
  qed
  have "(\<exists>e\<in>set (entries (jrnl t)). is_precompile e) \<longrightarrow> cacheCtx t \<noteq> None"
    using assms(1) u(6,8) by (auto simp: jt sdb_ok_def t_def dest: in_set_takeD)
  moreover have "sdb_pre rd cc t"
    using u(3) rewinds_wf [OF rest] by (simp add: sdb_pre_def wt jt, simp add: t_def addressed_def)
  ultimately have "sdb_ok rd cc t" using rest rev_ok by (auto simp: sdb_ok_def jt wt)
  then show ?thesis using run wt jt u(4,5) by (auto simp: t_def)
qed

lemma Snapshot_ok:
  assumes "sdb_ok rd cc s" "Snapshot s = (Inr i, t)"
  shows "sdb_ok rd cc t \<and> world_of rd cc t = world_of rd cc s"
proof -
  have t: "t = s\<lparr>nextRevisionID := nextRevisionID s + 1,
        validRevisions := validRevisions s @ [\<lparr>rev_id = nextRevisionID s, journalIndex = length (entries (jrnl s))\<rparr>]\<rparr>"
    using assms(2) by (auto simp: Snapshot_def)
  have w: "world_of rd cc t = world_of rd cc s" by (simp add: t world_of_def)
  have "revisions_ok t"
    using assms(1) by (fastforce simp: sdb_ok_def revisions_ok_def t sorted_wrt_append)
  then show ?thesis
    using assms(1) w by (auto simp: sdb_ok_def sdb_pre_def t addressed_def)
qed

section \<open>Runs\<close>

definition sdb_step :: "reader \<Rightarrow> 'l cache_wrap \<Rightarrow> 'l ctx_stores \<Rightarrow> 'l sdb_op \<Rightarrow> 'l StateDB \<Rightarrow> 'l StateDB \<Rightarrow> bool" where
  "sdb_step rd cw cc op s t \<longleftrightarrow> allowed rd op s \<and> exec_op rd cw cc op s = (Inr (), t)"

text \<open>
  What a revision taken at state \<^verbatim>\<open>b\<close> promises later: as long as its identifier is valid, the
  journal still starts with the journal of \<^verbatim>\<open>b\<close> and can be undone down to what \<^verbatim>\<open>b\<close> showed.
\<close>

definition keeps_revision :: "reader \<Rightarrow> 'l ctx_stores \<Rightarrow> 'l StateDB \<Rightarrow> 'l StateDB \<Rightarrow> bool" where
  "keeps_revision rd cc b s \<longleftrightarrow> nextRevisionID b < nextRevisionID s \<and>
     (nextRevisionID b \<in> rev_id ` set (validRevisions s) \<longrightarrow>
        (\<exists>later es. validRevisions s = validRevisions b @
             \<lparr>rev_id = nextRevisionID b, journalIndex = length (entries (jrnl b))\<rparr> # later \<and>
           entries (jrnl s) = entries (jrnl b) @ es \<and>
           rewinds rd (rev es) (world_of rd cc s) (world_of rd cc b)))"

lemma keeps_revision_ext:
  assumes "keeps_revision rd cc b s" "ext rd cc s t"
  shows "keeps_revision rd cc b t"
proof -
  obtain fs where fs: "entries (jrnl t) = entries (jrnl s) @ fs"
    "rewinds rd (rev fs) (world_of rd cc t) (world_of rd cc s)"
    "validRevisions t = validRevisions s" "nextRevisionID t = nextRevisionID s"
    using assms(2) by (auto simp: ext_def)
  { fix later es
    assume *: "entries (jrnl s) = entries (jrnl b) @ es" "rewinds rd (rev es) (world_of rd cc s) (world_of rd cc b)"
    have "entries (jrnl t) = entries (jrnl b) @ (es @ fs)"
      "rewinds rd (rev (es @ fs)) (world_of rd cc t) (world_of rd cc b)"
      using * fs by (auto simp: rewinds_append) }
  then show ?thesis using assms(1) fs(3,4) unfolding keeps_revision_def by metis
qed

lemma keeps_revision_snapshot:
  assumes "keeps_revision rd cc b s" "Snapshot s = (Inr i, t)"
  shows "keeps_revision rd cc b t"
proof -
  have t: "t = s\<lparr>nextRevisionID := nextRevisionID s + 1,
        validRevisions := validRevisions s @ [\<lparr>rev_id = nextRevisionID s, journalIndex = length (entries (jrnl s))\<rparr>]\<rparr>"
    using assms(2) by (auto simp: Snapshot_def)
  have "world_of rd cc t = world_of rd cc s" by (simp add: t world_of_def)
  then show ?thesis using assms(1) by (auto simp: keeps_revision_def t)
qed

lemma RevertToSnapshot_ok:
  assumes "sdb_ok rd cc s" "RevertToSnapshot rd i s = (Inr (), t)"
  obtains n where "n < length (validRevisions s)" "i = rev_id (validRevisions s ! n)"
    "rewinds rd (rev (drop (journalIndex (validRevisions s ! n)) (entries (jrnl s)))) (world_of rd cc s) (world_of rd cc t)"
    "validRevisions t = take n (validRevisions s)" "nextRevisionID t = nextRevisionID s"
    "entries (jrnl t) = take (journalIndex (validRevisions s ! n)) (entries (jrnl s))" "sdb_ok rd cc t"
proof -
  have "i \<in> rev_id ` set (validRevisions s)"
    using assms Search_missing [of s i rd] by (auto simp: sdb_ok_def)
  then obtain n where n: "n < length (validRevisions s)" "i = rev_id (validRevisions s ! n)"
    by (metis imageE in_set_conv_nth)
  let ?j = "journalIndex (validRevisions s ! n)"
  obtain v where v: "rewinds rd (rev (entries (jrnl s))) (world_of rd cc s) v"
    using assms(1) by (auto simp: sdb_ok_def)
  have "rev (entries (jrnl s)) = rev (drop ?j (entries (jrnl s))) @ rev (take ?j (entries (jrnl s)))"
    by (simp flip: rev_append)
  then obtain w where w: "rewinds rd (rev (drop ?j (entries (jrnl s)))) (world_of rd cc s) w"
    using v by (metis rewinds_append)
  obtain t' where t': "RevertToSnapshot rd i s = (Inr (), t')" "world_of rd cc t' = w"
    "validRevisions t' = take n (validRevisions s)" "nextRevisionID t' = nextRevisionID s"
    "entries (jrnl t') = take ?j (entries (jrnl s))" "sdb_ok rd cc t'"
    using revert_to_revision [OF assms(1) n(1) w] n(2) by auto
  moreover have "t' = t" using t'(1) assms(2) by simp
  ultimately show ?thesis using that n w by blast
qed

lemma keeps_revision_revert:
  assumes "sdb_ok rd cc s" "keeps_revision rd cc b s" "RevertToSnapshot rd i s = (Inr (), t)"
  shows "keeps_revision rd cc b t"
proof -
  obtain n where n: "n < length (validRevisions s)" "i = rev_id (validRevisions s ! n)"
    and w: "rewinds rd (rev (drop (journalIndex (validRevisions s ! n)) (entries (jrnl s)))) (world_of rd cc s) (world_of rd cc t)"
    and t: "validRevisions t = take n (validRevisions s)" "nextRevisionID t = nextRevisionID s"
    "entries (jrnl t) = take (journalIndex (validRevisions s ! n)) (entries (jrnl s))"
    using RevertToSnapshot_ok [OF assms(1,3)] by metis
  let ?j = "journalIndex (validRevisions s ! n)"
  have next_id: "nextRevisionID b < nextRevisionID t" using assms(2) t(2) by (simp add: keeps_revision_def)
  have "\<exists>later es. validRevisions t = validRevisions b @
             \<lparr>rev_id = nextRevisionID b, journalIndex = length (entries (jrnl b))\<rparr> # later \<and>
           entries (jrnl t) = entries (jrnl b) @ es \<and> rewinds rd (rev es) (world_of rd cc t) (world_of rd cc b)"
    if live: "nextRevisionID b \<in> rev_id ` set (validRevisions t)"
  proof -
    have "nextRevisionID b \<in> rev_id ` set (validRevisions s)" using live t(1) by (auto dest: in_set_takeD)
    then obtain later es where s: "validRevisions s = validRevisions b @
             \<lparr>rev_id = nextRevisionID b, journalIndex = length (entries (jrnl b))\<rparr> # later"
      "entries (jrnl s) = entries (jrnl b) @ es" "rewinds rd (rev es) (world_of rd cc s) (world_of rd cc b)"
      using assms(2) by (auto simp: keeps_revision_def)
    have srt: "sorted_wrt (\<lambda>r q. rev_id r < rev_id q \<and> journalIndex r \<le> journalIndex q) (validRevisions s)"
      using assms(1) by (simp add: sdb_ok_def revisions_ok_def)
    have n': "length (validRevisions b) < n"
    proof (rule ccontr)
      assume "\<not> length (validRevisions b) < n"
      then have "set (validRevisions t) \<subseteq> set (validRevisions b)" using t(1) s(1) by (auto dest: in_set_takeD)
      then show False using live srt s(1) by (auto simp: sorted_wrt_append)
    qed
    have "length (entries (jrnl b)) \<le> ?j"
      using sorted_wrt_nth_less [OF srt n' n(1)] s(1) by (simp add: nth_append)
    then obtain m where m: "?j = length (entries (jrnl b)) + m" using le_Suc_ex by blast
    have e: "entries (jrnl t) = entries (jrnl b) @ take m es" "drop ?j (entries (jrnl s)) = drop m es"
      using t(3) s(2) m by simp_all
    have "rewinds rd (rev (drop m es) @ rev (take m es)) (world_of rd cc s) (world_of rd cc b)"
      using s(3) by (simp flip: rev_append)
    then have "rewinds rd (rev (take m es)) (world_of rd cc t) (world_of rd cc b)"
      using w e(2) rewinds_det by (metis rewinds_append)
    moreover obtain k where "n = Suc (length (validRevisions b) + k)" using n' less_imp_Suc_add by blast
    then have "validRevisions t = validRevisions b @
             \<lparr>rev_id = nextRevisionID b, journalIndex = length (entries (jrnl b))\<rparr> # take k later"
      using t(1) s(1) by simp
    ultimately show ?thesis using e(1) by blast
  qed
  then show ?thesis using next_id by (simp add: keeps_revision_def)
qed

lemma step_ok:
  assumes "sdb_step rd cw cc op s t" "sdb_ok rd cc s"
  shows "sdb_ok rd cc t"
proof (cases op)
  case OpSnapshot
  then obtain i where "Snapshot s = (Inr i, t)" using assms(1) by (auto simp: sdb_step_def quiet_ok)
  then show ?thesis using assms Snapshot_ok by blast
next
  case (OpRevert i)
  then have "RevertToSnapshot rd i s = (Inr (), t)" using assms(1) by (simp add: sdb_step_def)
  then show ?thesis using RevertToSnapshot_ok [OF assms(2)] by metis
qed (use assms ext_ok [OF assms(2)] op_ext [of rd cc s cw op t] in \<open>auto simp: sdb_step_def sdb_ok_def\<close>)

lemma step_keeps:
  assumes "sdb_step rd cw cc op s t" "sdb_ok rd cc s" "keeps_revision rd cc b s"
  shows "keeps_revision rd cc b t"
proof (cases op)
  case OpSnapshot
  then obtain i where "Snapshot s = (Inr i, t)" using assms(1) by (auto simp: sdb_step_def quiet_ok)
  then show ?thesis using assms keeps_revision_snapshot by blast
next
  case (OpRevert i)
  then show ?thesis using assms keeps_revision_revert [OF assms(2,3)] by (simp add: sdb_step_def)
qed (use assms keeps_revision_ext [OF assms(3)] op_ext [of rd cc s cw op t] in
      \<open>auto simp: sdb_step_def sdb_ok_def\<close>)

interpretation sdb_run: invariant_system "sdb_step rd cw cc" "sdb_ok rd cc"
  for rd :: reader and cw :: "'l cache_wrap" and cc :: "'l ctx_stores"
  by unfold_locales (rule step_ok)

interpretation sdb_keep: invariant_system "sdb_step rd cw cc" "\<lambda>s. sdb_ok rd cc s \<and> keeps_revision rd cc b s"
  for rd :: reader and cw :: "'l cache_wrap" and cc :: "'l ctx_stores" and b :: "'l StateDB"
  by unfold_locales (auto intro: step_ok step_keeps)

text \<open>The module stores of the transaction's context are registered under distinct names.\<close>

definition ctx_ok :: "'l ctx_stores \<Rightarrow> bool" where
  "ctx_ok cc = (case cc of None \<Rightarrow> True | Some (cms, keys, evs) \<Rightarrow> distinct keys \<and> keys \<noteq> [])"

lemma New_ok: "ctx_ok cc \<Longrightarrow> sdb_ok rd cc (NewStateDB txIndex n)"
  using newAccessList_wf
  by (auto simp: sdb_ok_def sdb_pre_def revisions_ok_def NewStateDB_def newJournal_def addressed_def
      dirty_counts_def world_wf_def world_of_def fresh_cache_def ctx_ok_def intro: NewMultiStore_wf)

section \<open>Properties\<close>

lemma sdb_step_eq: "(\<lambda>op s t. allowed rd op s \<and> exec_op rd cw cc op s = (Inr (), t)) = sdb_step rd cw cc"
  by (intro ext) (simp add: sdb_step_def)

text \<open>
  C4. Reverting to a snapshot restores everything the EVM can observe. Take any run of EVM
  operations, nested snapshots, reverts and precompile calls from a new state database in which
  every operation is one the code is written for: an account is created only where none exists,
  as the comment on \<^verbatim>\<open>CreateAccount\<close> asks, and no account is self-destructed a second time, where
  the journal is wrong. If a snapshot is taken and its identifier is still valid after more such
  operations, then reverting to it succeeds and gives back every balance, nonce, code, storage slot,
  flag, transient slot, log, refund, access list entry and module store as it was, with the journal,
  dirty counters and older snapshots. The operations the keeper calls outside an EVM execution
  (\<^verbatim>\<open>Prepare\<close>, \<^verbatim>\<open>SetStorage\<close>, \<^verbatim>\<open>Finalise\<close>) are not journalled and not part of such a run.
\<close>

theorem snapshot_revert_restores:
  assumes "ctx_ok cc"
    and "run (\<lambda>op s t. allowed rd op s \<and> exec_op rd cw cc op s = (Inr (), t)) (NewStateDB txIndex n) ops0 s"
    and "Snapshot s = (Inr i, s1)"
    and "run (\<lambda>op s t. allowed rd op s \<and> exec_op rd cw cc op s = (Inr (), t)) s1 ops s2"
    and "i \<in> rev_id ` set (validRevisions s2)"
  shows "\<exists>t. RevertToSnapshot rd i s2 = (Inr (), t) \<and> world_of rd cc t = world_of rd cc s \<and>
    jrnl t = jrnl s \<and> validRevisions t = validRevisions s"
proof -
  have s: "sdb_ok rd cc s" using sdb_run.run_inv [OF assms(2) [unfolded sdb_step_eq] New_ok [OF assms(1)]] .
  have s1: "s1 = s\<lparr>nextRevisionID := nextRevisionID s + 1,
        validRevisions := validRevisions s @ [\<lparr>rev_id = nextRevisionID s, journalIndex = length (entries (jrnl s))\<rparr>]\<rparr>"
    and i: "i = nextRevisionID s" using assms(3) by (auto simp: Snapshot_def)
  have w1: "world_of rd cc s1 = world_of rd cc s" using Snapshot_ok [OF s assms(3)] by simp
  have "keeps_revision rd cc s s1"
    using w1 s by (auto simp: keeps_revision_def s1 sdb_ok_def sdb_pre_def)
  then have k: "sdb_ok rd cc s2 \<and> keeps_revision rd cc s s2"
    using sdb_keep.run_inv [OF assms(4) [unfolded sdb_step_eq]] Snapshot_ok [OF s assms(3)] by blast
  then obtain later es where s2: "validRevisions s2 = validRevisions s @
             \<lparr>rev_id = nextRevisionID s, journalIndex = length (entries (jrnl s))\<rparr> # later"
      "entries (jrnl s2) = entries (jrnl s) @ es" "rewinds rd (rev es) (world_of rd cc s2) (world_of rd cc s)"
    using assms(5) i by (auto simp: keeps_revision_def)
  let ?n = "length (validRevisions s)"
  have "?n < length (validRevisions s2)" "validRevisions s2 ! ?n = \<lparr>rev_id = i, journalIndex = length (entries (jrnl s))\<rparr>"
    using s2(1) i by simp_all
  then obtain t where "RevertToSnapshot rd i s2 = (Inr (), t)" "world_of rd cc t = world_of rd cc s"
    "validRevisions t = take ?n (validRevisions s2)"
    "jrnl t = \<lparr>entries = entries (jrnl s), dirties = dirty_counts (entries (jrnl s))\<rparr>"
    using revert_to_revision [of rd cc s2 ?n "world_of rd cc s"] k s2 by auto
  moreover have "dirties (jrnl s) = dirty_counts (entries (jrnl s))" using s by (simp add: sdb_ok_def sdb_pre_def)
  ultimately show ?thesis using s2(1) by (intro exI [of _ t]) (auto intro: journal.equality)
qed

text \<open>A keeper with one funded account, and a run on it.\<close>

definition demo_rd :: reader where
  "demo_rd = \<lparr>KGetAccount = (\<lambda>a. if a = 1 then Some (NewAccount 0 10 None 0) else None),
     KGetState = (\<lambda>a k. 0), KGetCode = (\<lambda>h. None), KForEachStorage = (\<lambda>a. []), Keccak256 = (\<lambda>b. 0)\<rparr>"

definition demo_sdb :: "(bytes \<rightharpoonup> bytes option) StateDB" where
  "demo_sdb = snd (Snapshot (NewStateDB 0 0))"

lemmas sdb_eval = quiet_def thenE_def bindE_def okE_def modifyE_def requireE_def failE_def getsE_def readE_def
  liftE_def journalE_def setStateObject_def Let_def

lemma demo_add_step: "\<exists>t. sdb_step demo_rd map_cache None (OpAddBalance 1 5) demo_sdb t \<and>
    validRevisions t = [\<lparr>rev_id = 0, journalIndex = 0\<rparr>]"
  by (simp add: sdb_step_def AddBalance_def getOrNewStateObject_def getStateObject_def so_AddBalance_def
      so_SetBalance_def sdb_eval demo_sdb_def demo_rd_def Snapshot_def NewStateDB_def newObject_def NewAccount_def
      newJournal_def)

theorem snapshot_revert_restores_witness:
  "\<exists>t u. exec_op demo_rd map_cache None (OpAddBalance 1 5) demo_sdb = (Inr (), t) \<and>
     RevertToSnapshot demo_rd 0 t = (Inr (), u) \<and>
     world_of demo_rd None u = world_of demo_rd None (NewStateDB 0 0 :: (bytes \<rightharpoonup> bytes option) StateDB)"
proof -
  obtain t where t: "exec_op demo_rd map_cache None (OpAddBalance 1 5) demo_sdb = (Inr (), t)"
    "validRevisions t = [\<lparr>rev_id = 0, journalIndex = 0\<rparr>]" using demo_add_step by (auto simp: sdb_step_def)
  let ?step = "\<lambda>op s t. allowed demo_rd op s \<and> exec_op demo_rd map_cache None op s = (Inr (), t)"
  have new: "run ?step (NewStateDB 0 0) [] (NewStateDB 0 0)" by (rule run_Nil)
  have one: "run ?step demo_sdb [OpAddBalance 1 5] t" using t(1) by (auto intro: run.intros)
  have snap: "Snapshot (NewStateDB 0 0) = (Inr 0, demo_sdb)" by (simp add: demo_sdb_def Snapshot_def NewStateDB_def)
  have ctx: "ctx_ok (None :: (bytes \<rightharpoonup> bytes option) ctx_stores)" by (simp add: ctx_ok_def)
  have valid: "0 \<in> rev_id ` set (validRevisions t)" using t(2) by simp
  from snapshot_revert_restores [OF ctx new snap one valid] t(1) show ?thesis by blast
qed

text \<open>
  C38. A second self-destruct breaks the restoration: \<^verbatim>\<open>SelfDestruct\<close> journals a change even when
  the account is already destructed, and the revert of that entry clears the flag, so reverting
  to a snapshot taken between the two leaves the account alive.
\<close>

theorem second_self_destruct_revert_revives:
  assumes "sdb_ok rd cc s" "stateObjects s a = Some obj" "selfDestructed obj"
    and "Snapshot s = (Inr i, s1)" "SelfDestruct rd a s1 = (Inr (), s2)"
  shows "\<exists>t. RevertToSnapshot rd i s2 = (Inr (), t) \<and>
    fst (HasSelfDestructed rd a s) = Inr True \<and> fst (HasSelfDestructed rd a t) = Inr False"
proof -
  have s1: "i = nextRevisionID s" "s1 = s\<lparr>nextRevisionID := nextRevisionID s + 1,
        validRevisions := validRevisions s @ [\<lparr>rev_id = nextRevisionID s, journalIndex = length (entries (jrnl s))\<rparr>]\<rparr>"
    using assms(4) by (auto simp: Snapshot_def)
  have adr: "so_address obj = a" using assms(1,2) by (simp add: sdb_ok_def sdb_pre_def addressed_def)
  have s2: "s2 = s1\<lparr>jrnl := append_entry (selfDestructChange a) (jrnl s),
      stateObjects := (stateObjects s)(a \<mapsto> markSelfDestructed obj)\<rparr>"
    using assms(2,5) adr
    by (simp add: s1 SelfDestruct_def getStateObject_def sdb_eval)
  have ok: "revisions_ok s2"
    using Snapshot_ok [OF assms(1,4)] by (auto simp: s2 sdb_ok_def revisions_ok_def append_entry_def s1)
  let ?n = "length (validRevisions s)"
  have n: "?n < length (validRevisions s2)" "validRevisions s2 ! ?n = \<lparr>rev_id = i, journalIndex = length (entries (jrnl s))\<rparr>"
    by (simp_all add: s2 s1)
  have "Search (length (validRevisions s2)) (\<lambda>j. i \<le> rev_id (validRevisions s2 ! j)) = ?n"
    using Search_revision [OF ok n(1)] n(2) by simp
  then obtain t where t: "RevertToSnapshot rd i s2 = (Inr (), t)"
    "stateObjects t a = Some ((markSelfDestructed obj)\<lparr>selfDestructed := False\<rparr>)"
    using n adr
    by (simp add: RevertToSnapshot_def journal_Revert_def sdb_eval)
      (simp add: s2 append_entry_def getStateObject_def sdb_eval)
  then have "fst (HasSelfDestructed rd a t) = Inr False"
    by (simp add: HasSelfDestructed_def readObject_def getStateObject_def sdb_eval)
  moreover have "fst (HasSelfDestructed rd a s) = Inr True"
    using assms(2,3) by (simp add: HasSelfDestructed_def readObject_def getStateObject_def sdb_eval)
  ultimately show ?thesis using t(1) by blast
qed

definition demo_destructed :: "(bytes \<rightharpoonup> bytes option) StateDB" where
  "demo_destructed = snd (SelfDestruct demo_rd 1 (NewStateDB 0 0))"

lemma demo_destruct_step: "sdb_step demo_rd map_cache None (OpSelfDestruct 1) (NewStateDB 0 0) demo_destructed"
  and demo_destructed_obj: "\<exists>obj. stateObjects demo_destructed 1 = Some obj \<and> selfDestructed obj \<and> so_address obj = 1"
  by (simp_all add: sdb_step_def demo_destructed_def SelfDestruct_def getStateObject_def sdb_eval demo_rd_def
      NewStateDB_def markSelfDestructed_def newObject_def)

theorem second_self_destruct_revert_revives_witness:
  "\<exists>(s :: (bytes \<rightharpoonup> bytes option) StateDB) (t :: (bytes \<rightharpoonup> bytes option) StateDB).
     fst (HasSelfDestructed demo_rd 1 s) = Inr True \<and> fst (HasSelfDestructed demo_rd 1 t) = Inr False"
proof -
  have ok: "sdb_ok demo_rd None demo_destructed"
    using step_ok [OF demo_destruct_step] New_ok [of None demo_rd 0 0] by (simp add: ctx_ok_def)
  obtain obj where obj: "stateObjects demo_destructed 1 = Some obj" "selfDestructed obj" "so_address obj = 1"
    using demo_destructed_obj by blast
  define s1 where "s1 = snd (Snapshot demo_destructed)"
  have s1: "Snapshot demo_destructed = (Inr (nextRevisionID demo_destructed), s1)"
    by (simp add: s1_def Snapshot_def)
  have "stateObjects s1 1 = Some obj" using obj(1) by (simp add: s1_def Snapshot_def)
  then obtain s2 where "SelfDestruct demo_rd 1 s1 = (Inr (), s2)"
    by (simp add: SelfDestruct_def getStateObject_def sdb_eval)
  from second_self_destruct_revert_revives [OF ok obj(1,2) s1 this] show ?thesis by blast
qed

section \<open>Balances and the access list\<close>

definition balance_of :: "reader \<Rightarrow> 'l ctx_stores \<Rightarrow> 'l StateDB \<Rightarrow> address \<Rightarrow> uint256" where
  "balance_of rd cc s a = (case w_acct (world_of rd cc s) a of None \<Rightarrow> 0 | Some v \<Rightarrow> v_balance v)"

lemma GetBalance_balance_of:
  assumes "sdb_pre rd cc s"
  shows "fst (GetBalance rd a s) = Inr (balance_of rd cc s a)"
proof -
  obtain t where t: "getStateObject rd a s = (Inr (stateObjects t a), t)"
    "w_acct (world_of rd cc s) a = map_option (view_obj rd) (stateObjects t a)"
    using load_ext [OF assms] by metis
  then show ?thesis
    by (cases "stateObjects t a")
      (simp_all add: GetBalance_def readObject_def sdb_eval balance_of_def view_obj_def)
qed

lemma getOrNew_balance:
  assumes "sdb_pre rd cc s" "getOrNewStateObject rd a s = (Inr obj, t)"
  shows "so_Balance obj = balance_of rd cc s a" "balance_of rd cc t b = balance_of rd cc s b"
proof -
  obtain u where u: "getStateObject rd a s = (Inr (stateObjects u a), u)" "world_of rd cc u = world_of rd cc s"
    "w_acct (world_of rd cc s) a = map_option (view_obj rd) (stateObjects u a)"
    using load_ext [OF assms(1)] by metis
  have "so_Balance obj = balance_of rd cc s a \<and> balance_of rd cc t b = balance_of rd cc s b"
  proof (cases "stateObjects u a")
    case (Some obj')
    then show ?thesis using u assms(2) by (simp add: getOrNewStateObject_def sdb_eval balance_of_def view_obj_def)
  next
    case None
    then have "t = u\<lparr>jrnl := append_entry (createObjectChange a) (jrnl u), stateObjects := (stateObjects u)(a \<mapsto> obj)\<rparr>"
      and b: "so_Balance obj = 0"
      using u(1) assms(2) by (auto simp: getOrNewStateObject_def createObject_def sdb_eval newObject_def)
    then have "world_of rd cc t = (world_of rd cc s)\<lparr>w_acct := (w_acct (world_of rd cc s))(a \<mapsto> view_obj rd obj)\<rparr>"
      using u(2) world_put [of rd cc "u\<lparr>jrnl := append_entry (createObjectChange a) (jrnl u)\<rparr>" a obj] by simp
    then show ?thesis using u(3) None b by (simp add: balance_of_def view_obj_def)
  qed
  then show "so_Balance obj = balance_of rd cc s a" "balance_of rd cc t b = balance_of rd cc s b" by auto
qed

lemma SetBalance_obj_effect:
  assumes "so_SetBalance x obj s = (Inr r, t)" "so_address obj = a"
  shows "balance_of rd cc t = (balance_of rd cc s)(a := x)"
proof -
  have t: "t = s\<lparr>jrnl := append_entry (balanceChange a (so_Balance obj)) (jrnl s),
      stateObjects := (stateObjects s)(a \<mapsto> setBalance x obj)\<rparr>"
    using assms by (auto simp: so_SetBalance_def sdb_eval)
  have "world_of rd cc t = (world_of rd cc s)\<lparr>w_acct := (w_acct (world_of rd cc s))(a \<mapsto> view_obj rd (setBalance x obj))\<rparr>"
    using world_put [of rd cc "s\<lparr>jrnl := append_entry (balanceChange a (so_Balance obj)) (jrnl s)\<rparr>" a "setBalance x obj"]
    by (simp add: t del: view_obj_set)
  then show ?thesis by (auto simp: balance_of_def fun_eq_iff)
qed

text \<open>
  C29. Adding to a balance adds modulo \<^verbatim>\<open>2^256\<close> and subtracting panics exactly when the balance is
  smaller; no other account's balance changes, and an absent account counts as zero.
\<close>

theorem add_sub_balance_effect:
  assumes "sdb_pre rd cc s"
  shows "(\<exists>prev t. AddBalance rd a x s = (Inr prev, t) \<and>
      balance_of rd cc t = (balance_of rd cc s)(a := balance_of rd cc s a + x)) \<and>
    (if balance_of rd cc s a < x
     then \<exists>t. SubBalance rd a x s = (Inl (Panic ''state balance underflow''), t)
     else \<exists>prev t. SubBalance rd a x s = (Inr prev, t) \<and>
        balance_of rd cc t = (balance_of rd cc s)(a := balance_of rd cc s a - x))"
proof -
  obtain obj u where u: "getOrNewStateObject rd a s = (Inr obj, u)" "so_address obj = a"
    using getOrNew_ext [OF assms] by metis
  note b = getOrNew_balance [OF assms u(1)]
  have bal: "balance_of rd cc u = balance_of rd cc s" using b(2) by blast
  have set: "\<exists>prev t. so_SetBalance y obj u = (Inr prev, t) \<and> balance_of rd cc t = (balance_of rd cc s)(a := y)" for y
    using SetBalance_obj_effect [of y obj u _ _ a rd cc] u(2) bal
    by (auto simp: so_SetBalance_def sdb_eval)
  have "\<exists>prev t. AddBalance rd a x s = (Inr prev, t) \<and>
      balance_of rd cc t = (balance_of rd cc s)(a := balance_of rd cc s a + x)"
    using u(1) b(1) bal set [of "balance_of rd cc s a + x"]
    by (cases "x = 0") (auto simp: AddBalance_def so_AddBalance_def bindE_def okE_def)
  moreover have "if balance_of rd cc s a < x
     then \<exists>t. SubBalance rd a x s = (Inl (Panic ''state balance underflow''), t)
     else \<exists>prev t. SubBalance rd a x s = (Inr prev, t) \<and>
        balance_of rd cc t = (balance_of rd cc s)(a := balance_of rd cc s a - x)"
    using u(1) b(1) bal set [of "balance_of rd cc s a - x"]
    by (cases "x = 0") (auto simp: SubBalance_def so_SubBalance_def bindE_def okE_def failE_def)
  ultimately show ?thesis by blast
qed

theorem add_sub_balance_effect_witness:
  "\<exists>prev (t :: (bytes \<rightharpoonup> bytes option) StateDB). AddBalance demo_rd 1 5 (NewStateDB 0 0) = (Inr prev, t) \<and>
     balance_of demo_rd None t 1 = 15"
proof -
  have "sdb_ok demo_rd None (NewStateDB 0 0 :: (bytes \<rightharpoonup> bytes option) StateDB)"
    by (rule New_ok) (simp add: ctx_ok_def)
  then have "sdb_pre demo_rd None (NewStateDB 0 0 :: (bytes \<rightharpoonup> bytes option) StateDB)"
    by (simp add: sdb_ok_def)
  then obtain prev and t :: "(bytes \<rightharpoonup> bytes option) StateDB"
    where t: "AddBalance demo_rd 1 5 (NewStateDB 0 0) = (Inr prev, t)"
      and b: "balance_of demo_rd None t = (balance_of demo_rd None (NewStateDB 0 0 :: (bytes \<rightharpoonup> bytes option) StateDB))
        (1 := balance_of demo_rd None (NewStateDB 0 0 :: (bytes \<rightharpoonup> bytes option) StateDB) 1 + 5)"
    using add_sub_balance_effect [of demo_rd None "NewStateDB 0 0" 1 5] by blast
  have "balance_of demo_rd None (NewStateDB 0 0 :: (bytes \<rightharpoonup> bytes option) StateDB) 1 = 10"
    by (simp add: balance_of_def world_of_def NewStateDB_def loaded_def demo_rd_def view_obj_def newObject_def
        NewAccount_def)
  with t b show ?thesis by auto
qed

text \<open>
  C28. The access list with its index-linked slot sets behaves as a pair of sets: adding an address
  or a slot adds exactly that element, reports truthfully whether it was new, and the deletions
  used by the journal give back the list as it was before the addition.
\<close>

theorem access_list_refines_sets:
  assumes "al_wf al"
  shows "warm_addresses (snd (AddAddress a al)) = insert a (warm_addresses al) \<and>
    warm_slots (snd (AddAddress a al)) = warm_slots al \<and>
    fst (AddAddress a al) = (a \<notin> warm_addresses al) \<and>
    warm_addresses (snd (AddSlot a k al)) = insert a (warm_addresses al) \<and>
    warm_slots (snd (AddSlot a k al)) = insert (a, k) (warm_slots al) \<and>
    fst (AddSlot a k al) = (a \<notin> warm_addresses al, (a, k) \<notin> warm_slots al) \<and>
    (if a \<in> warm_addresses al then True else DeleteAddress a (snd (AddAddress a al)) = al) \<and>
    (if (a, k) \<in> warm_slots al \<or> a \<notin> warm_addresses al then True
     else DeleteSlot a k (snd (AddSlot a k al)) = Inr al)"
proof -
  have "DeleteAddress a (snd (AddAddress a al)) = al" if "a \<notin> warm_addresses al"
    using that DeleteAddress_AddAddress [of al a] by (simp add: warm_addresses_def ContainsAddress_def)
  moreover have "DeleteSlot a k (snd (AddSlot a k al)) = Inr al" if "(a, k) \<notin> warm_slots al" "a \<in> warm_addresses al"
    using that AddSlot_spec(3) [OF assms, of a k] DeleteSlot_AddSlot [OF assms, of a k]
    by (cases "AddSlot a k al") auto
  ultimately show ?thesis using AddAddress_spec [where a = a and al = al] AddSlot_spec [OF assms, of a k] assms by auto
qed

theorem access_list_refines_sets_witness:
  "warm_slots (snd (AddSlot 1 7 newAccessList)) = {(1, 7)} \<and> fst (AddSlot 1 7 newAccessList) = (True, True)"
  using access_list_refines_sets [OF newAccessList_wf, of 1 7]
  by (simp add: warm_slots_def warm_addresses_def Contains_def ContainsAddress_def newAccessList_def)

end
