(* ===== verification/Store_Iteration.thy ===== *)
theory Store_Iteration
  imports Go_Values "HOL-Library.List_Lexorder" "HOL-Library.Char_ord"
begin

text \<open>
  Iteration over a module's key-value store. \<^verbatim>\<open>store.Iterator(start, nil)\<close> visits the keys
  from \<^verbatim>\<open>start\<close> on in byte order; the loops of the keepers stop at the first key that has
  not the prefix they look for. Such a loop visits every key with the prefix and no other, because
  in byte order the keys with a common prefix stand together.
\<close>

definition iterate :: "kv \<Rightarrow> bytes \<Rightarrow> bytes list" where
  "iterate m start = filter (\<lambda>k. start \<le> k) (sorted_list_of_set (dom m))"

definition prefix_keys :: "kv \<Rightarrow> bytes \<Rightarrow> bytes list" where
  "prefix_keys m p = takeWhile (\<lambda>k. HasPrefix k p) (iterate m p)"

lemma HasPrefix_le: "HasPrefix k p \<Longrightarrow> p \<le> (k :: bytes)"
proof (induction p arbitrary: k)
  case (Cons c p)
  then obtain k' where "k = c # k'" "HasPrefix k' p"
    by (cases k) (auto simp: HasPrefix_def)
  then show ?case using Cons.IH by simp
qed simp

lemma HasPrefix_between:
  "p \<le> a \<Longrightarrow> a \<le> b \<Longrightarrow> HasPrefix b p \<Longrightarrow> HasPrefix (a :: bytes) p"
proof (induction p arbitrary: a b)
  case (Cons c p)
  then obtain b' where b: "b = c # b'" "HasPrefix b' p" by (cases b) (auto simp: HasPrefix_def)
  obtain d a' where a: "a = d # a'" using Cons.prems(1) by (cases a) auto
  then have "d = c" "p \<le> a'" "a' \<le> b'" using Cons.prems(1,2) b(1) by auto
  then show ?case using Cons.IH [OF _ _ b(2)] a by (simp add: HasPrefix_def)
qed (simp add: HasPrefix_def)

lemma takeWhile_prefix:
  "sorted xs \<Longrightarrow>
   takeWhile (\<lambda>k. HasPrefix k p) (filter (\<lambda>k. p \<le> k) xs) = filter (\<lambda>k :: bytes. HasPrefix k p) xs"
proof (induction xs)
  case (Cons x xs)
  show ?case
  proof (cases "p \<le> x \<and> \<not> HasPrefix x p")
    case True
    then have "\<not> HasPrefix y p" if "y \<in> set xs" for y
      using Cons.prems that HasPrefix_between [of p x y] by auto
    then have "filter (\<lambda>k. HasPrefix k p) xs = []" by (simp add: filter_empty_conv)
    with True show ?thesis by simp
  next
    case False
    then show ?thesis using Cons by (auto dest: HasPrefix_le)
  qed
qed simp

lemma prefix_keys_eq:
  "prefix_keys m p = filter (\<lambda>k. HasPrefix k p) (sorted_list_of_set (dom m))"
  by (simp add: prefix_keys_def iterate_def takeWhile_prefix)

lemma prefix_keys_props:
  assumes "finite (dom m)"
  shows "set (prefix_keys m p) = {k. kv_has m k \<and> HasPrefix k p}"
    and "distinct (prefix_keys m p)" and "sorted (prefix_keys m p)"
    and "length (prefix_keys m p) = card {k. kv_has m k \<and> HasPrefix k p}"
proof -
  show s: "set (prefix_keys m p) = {k. kv_has m k \<and> HasPrefix k p}"
    using assms by (auto simp: prefix_keys_eq kv_has_def)
  show d: "distinct (prefix_keys m p)" and "sorted (prefix_keys m p)"
    by (simp_all add: prefix_keys_eq sorted_filter [of "\<lambda>x. x", simplified])
  show "length (prefix_keys m p) = card {k. kv_has m k \<and> HasPrefix k p}"
    using s distinct_card [OF d] by simp
qed

lemma kv_dom [simp]:
  "dom (kv_set k v m) = insert k (dom m)" "dom (kv_delete k m) = dom m - {k}"
  by (auto simp: kv_set_def kv_delete_def)

lemma HasPrefix_byte [simp]: "HasPrefix k [c] \<longleftrightarrow> (\<exists>r. k = c # r)"
  by (cases k) (auto simp: HasPrefix_def)

text \<open>The keys under a one-byte prefix, without the prefix.\<close>

definition under_prefix :: "kv \<Rightarrow> char \<Rightarrow> bytes set" where
  "under_prefix m c = {r. kv_has m (c # r)}"

lemma under_prefix_card:
  assumes "finite (dom m)"
  shows "length (prefix_keys m [c]) = card (under_prefix m c)"
proof -
  have "{k. kv_has m k \<and> HasPrefix k [c]} = (\<lambda>r. c # r) ` under_prefix m c"
    by (auto simp: under_prefix_def)
  then show ?thesis
    using prefix_keys_props(4) [OF assms, of "[c]"] card_image [of "\<lambda>r. c # r" "under_prefix m c"]
    by (simp add: inj_on_def)
qed

lemma under_prefix_finite: "finite (dom m) \<Longrightarrow> finite (under_prefix m c)"
  by (rule finite_subset [of _ "tl ` dom m"]) (force simp: under_prefix_def kv_has_def image_iff)+

lemma under_prefix_set [simp]:
  "under_prefix (kv_set (c # r) v m) c = insert r (under_prefix m c)"
  "under_prefix (kv_delete (c # r) m) c = under_prefix m c - {r}"
  by (auto simp: under_prefix_def)

lemma under_prefix_other [simp]:
  "d \<noteq> c \<Longrightarrow> under_prefix (kv_set (d # r) v m) c = under_prefix m c"
  by (auto simp: under_prefix_def)

end
