(* ===== verification/Admission.thy ===== *)
theory Admission
  imports Store_Iteration
begin

text \<open>
  Validator admission (\<^verbatim>\<open>src/x/validatoradmission\<close>): the approval list and policy kept in
  the module store, the three message handlers, the two queries, genesis, and the ante handler
  that applies the policy to transactions. Bech32 and coin parsing, the authority check of the SDK
  and the staking module are code outside the repository and are parameters.
\<close>

section \<open>Policy and genesis\<close>

text \<open>A coin is its denomination and amount; \<^verbatim>\<open>ValidateAuthority\<close> is taken at the context of the block.\<close>

type_synonym coin = "string \<times> int"

record admission_env =
  AccAddressFromBech32 :: "string \<Rightarrow> bytes result"
  ValAddressFromBech32 :: "string \<Rightarrow> bytes result"
  ParseCoinNormalized :: "string \<Rightarrow> coin result"
  Coin_IsValid :: "coin \<Rightarrow> bool"
  ValidateAuthority :: "string \<Rightarrow> string \<Rightarrow> unit result"

definition DefaultMaxApprovedValidators :: uint32 where "DefaultMaxApprovedValidators = 258"
definition DefaultMinimumSelfDelegation :: string where
  "DefaultMinimumSelfDelegation = ''5000000000000000000000000axtc''"

definition DefaultPolicy :: "uint32 \<times> string" where
  "DefaultPolicy = (DefaultMaxApprovedValidators, DefaultMinimumSelfDelegation)"

definition validatePolicyAmount :: "admission_env \<Rightarrow> uint32 \<Rightarrow> string \<Rightarrow> coin result" where
  "validatePolicyAmount env maxApproved minimum =
     thenR (require (maxApproved \<noteq> 0) (Err ''max approved validators must be greater than zero'')) (
     case ParseCoinNormalized env minimum of
       Inl e \<Rightarrow> Inl (Err ''invalid minimum self delegation'')
     | Inr c \<Rightarrow>
         thenR (require (Coin_IsValid env c \<and> 0 < snd c) (Err ''minimum self delegation must be positive''))
           (Inr c))"

definition ValidatePolicy :: "admission_env \<Rightarrow> uint32 \<Rightarrow> string \<Rightarrow> unit result" where
  "ValidatePolicy env maxApproved minimum =
     bindR (validatePolicyAmount env maxApproved minimum) (\<lambda>c.
     require (fst c = ''axtc'') (Err ''minimum self delegation must use axtc''))"

definition ValidateGenesisPolicy :: "admission_env \<Rightarrow> uint32 \<Rightarrow> string \<Rightarrow> unit result" where
  "ValidateGenesisPolicy env maxApproved minimum =
     thenR (validatePolicyAmount env maxApproved minimum) (Inr ())"

record GenesisState =
  gs_Authority :: string
  gs_ApprovedValidators :: "string list"
  gs_MaxApprovedValidators :: uint32
  gs_MinimumSelfDelegation :: string

definition DefaultGenesisState :: GenesisState where
  "DefaultGenesisState =
     \<lparr>gs_Authority = '''', gs_ApprovedValidators = [], gs_MaxApprovedValidators = fst DefaultPolicy,
      gs_MinimumSelfDelegation = snd DefaultPolicy\<rparr>"

definition Policy :: "GenesisState \<Rightarrow> uint32 \<times> string" where
  "Policy g =
     (if gs_MaxApprovedValidators g = 0 then fst DefaultPolicy else gs_MaxApprovedValidators g,
      if gs_MinimumSelfDelegation g = '''' then snd DefaultPolicy else gs_MinimumSelfDelegation g)"

fun validators_loop :: "admission_env \<Rightarrow> string set \<Rightarrow> string list \<Rightarrow> unit result" where
  "validators_loop env seen [] = Inr ()"
| "validators_loop env seen (a # as) =
     thenR (require (TrimSpace a \<noteq> '''') (Err ''approved validator address is empty'')) (
     thenR (require (TrimSpace a = a) (Err ''approved validator address contains surrounding spaces'')) (
     case ValAddressFromBech32 env a of
       Inl e \<Rightarrow> Inl (Err ''invalid Xitcoin validator address'')
     | Inr _ \<Rightarrow>
         thenR (require (a \<notin> seen) (Err ''approved validator listed twice''))
           (validators_loop env (insert a seen) as)))"

definition Validate :: "admission_env \<Rightarrow> GenesisState \<Rightarrow> unit result" where
  "Validate env g =
     (let auth = TrimSpace (gs_Authority g); p = Policy g in
      if auth = '''' then
        thenR (require (gs_ApprovedValidators g = []) (Err ''validator admission authority is required''))
          (ValidateGenesisPolicy env (fst p) (snd p))
      else
        thenR (require (auth = gs_Authority g) (Err ''validator admission authority contains surrounding spaces'')) (
        case AccAddressFromBech32 env auth of
          Inl e \<Rightarrow> Inl (Err ''invalid Xitcoin authority address'')
        | Inr _ \<Rightarrow>
            thenR (ValidateGenesisPolicy env (fst p) (snd p)) (
            thenR (require (\<not> fst p < word_of_nat (length (gs_ApprovedValidators g)))
              (Err ''approved validators exceed configured capacity'')) (
            thenR (require (gs_ApprovedValidators g \<noteq> []) (Err ''at least one approved validator is required''))
              (validators_loop env {} (gs_ApprovedValidators g))))))"

section \<open>Messages\<close>

record MsgApproveValidator =
  ma_Authority :: string
  ma_ValidatorAddress :: string

record MsgRevokeValidator =
  mr_Authority :: string
  mr_ValidatorAddress :: string

record MsgUpdateParams =
  mu_Authority :: string
  mu_MaxApprovedValidators :: uint32
  mu_MinimumSelfDelegation :: string

definition validateAuthorityAndValidator :: "admission_env \<Rightarrow> string \<Rightarrow> string \<Rightarrow> unit result" where
  "validateAuthorityAndValidator env auth validator =
     (case AccAddressFromBech32 env auth of
        Inl e \<Rightarrow> Inl (Err ''invalid Xitcoin authority address'')
      | Inr _ \<Rightarrow> (case ValAddressFromBech32 env validator of
            Inl e \<Rightarrow> Inl (Err ''invalid Xitcoin validator address'')
          | Inr _ \<Rightarrow> Inr ()))"

definition ma_ValidateBasic :: "admission_env \<Rightarrow> MsgApproveValidator \<Rightarrow> unit result" where
  "ma_ValidateBasic env m = validateAuthorityAndValidator env (ma_Authority m) (ma_ValidatorAddress m)"

definition mr_ValidateBasic :: "admission_env \<Rightarrow> MsgRevokeValidator \<Rightarrow> unit result" where
  "mr_ValidateBasic env m = validateAuthorityAndValidator env (mr_Authority m) (mr_ValidatorAddress m)"

definition mu_ValidateBasic :: "admission_env \<Rightarrow> MsgUpdateParams \<Rightarrow> unit result" where
  "mu_ValidateBasic env m =
     (case AccAddressFromBech32 env (mu_Authority m) of
        Inl e \<Rightarrow> Inl (Err ''invalid Xitcoin authority address'')
      | Inr _ \<Rightarrow> ValidatePolicy env (mu_MaxApprovedValidators m) (mu_MinimumSelfDelegation m))"

section \<open>Keeper\<close>

definition KeyAuthority :: bytes where "KeyAuthority = [CHR 0x01]"
definition KeyApprovedValidatorPrefix :: bytes where "KeyApprovedValidatorPrefix = [CHR 0x02]"
definition KeyMaxApprovedValidators :: bytes where "KeyMaxApprovedValidators = [CHR 0x03]"
definition KeyMinimumSelfDelegation :: bytes where "KeyMinimumSelfDelegation = [CHR 0x04]"

definition SetAuthority :: "string \<Rightarrow> kv \<Rightarrow> kv" where
  "SetAuthority auth = kv_set KeyAuthority auth"

definition GetAuthority :: "kv \<Rightarrow> string" where
  "GetAuthority m = kv_get m KeyAuthority"

definition SetMaxApprovedValidators :: "uint32 \<Rightarrow> kv \<Rightarrow> kv" where
  "SetMaxApprovedValidators v = kv_set KeyMaxApprovedValidators (PutUint32 v)"

definition GetMaxApprovedValidators :: "kv \<Rightarrow> uint32" where
  "GetMaxApprovedValidators m =
     (let v = kv_get m KeyMaxApprovedValidators
      in if length v \<noteq> 4 then fst DefaultPolicy else Uint32 v)"

definition SetMinimumSelfDelegation :: "string \<Rightarrow> kv \<Rightarrow> kv" where
  "SetMinimumSelfDelegation v = kv_set KeyMinimumSelfDelegation v"

definition GetMinimumSelfDelegation :: "kv \<Rightarrow> string" where
  "GetMinimumSelfDelegation m =
     (let v = kv_get m KeyMinimumSelfDelegation in if v = '''' then snd DefaultPolicy else v)"

definition SetApprovedValidator :: "string \<Rightarrow> bool \<Rightarrow> kv \<Rightarrow> kv" where
  "SetApprovedValidator a approved =
     (let key = KeyApprovedValidatorPrefix @ a
      in if approved then kv_set key [CHR 0x01] else kv_delete key)"

definition IsApprovedValidator :: "kv \<Rightarrow> string \<Rightarrow> bool" where
  "IsApprovedValidator m a = kv_has m (KeyApprovedValidatorPrefix @ TrimSpace a)"

text \<open>The counter is a \<^verbatim>\<open>uint32\<close>: it wraps around.\<close>

definition ApprovedValidatorCount :: "kv \<Rightarrow> uint32" where
  "ApprovedValidatorCount m = word_of_nat (length (prefix_keys m KeyApprovedValidatorPrefix))"

definition InitGenesis :: "GenesisState \<Rightarrow> kv \<Rightarrow> kv" where
  "InitGenesis g m =
     fold (\<lambda>a. SetApprovedValidator a True) (gs_ApprovedValidators g)
       (SetMinimumSelfDelegation (snd (Policy g))
         (SetMaxApprovedValidators (fst (Policy g)) (SetAuthority (gs_Authority g) m)))"

definition ExportGenesis :: "kv \<Rightarrow> GenesisState" where
  "ExportGenesis m =
     \<lparr>gs_Authority = GetAuthority m,
      gs_ApprovedValidators =
        sort (map (drop (length KeyApprovedValidatorPrefix)) (prefix_keys m KeyApprovedValidatorPrefix)),
      gs_MaxApprovedValidators = GetMaxApprovedValidators m,
      gs_MinimumSelfDelegation = GetMinimumSelfDelegation m\<rparr>"

text \<open>The module's entry point, after the JSON text of the genesis file has been decoded.\<close>

definition AppInitGenesis :: "admission_env \<Rightarrow> GenesisState \<Rightarrow> (kv, unit) handler" where
  "AppInitGenesis env g = (case Validate env g of
       Inl e \<Rightarrow> failE (Panic ''invalid validator_admission genesis'')
     | Inr _ \<Rightarrow> modifyE (InitGenesis g))"

section \<open>Message server\<close>

text \<open>
  The staking module: a validator is known by its operator address; of the validator the code
  reads whether it is jailed and its consensus address. \<^verbatim>\<open>errors.Is(err, ErrNoValidatorFound)\<close>
  is a predicate on errors.
\<close>

record staking_validator =
  val_jailed :: bool
  val_cons_addr :: "bytes result"

record 'k staking_ops =
  GetValidator :: "bytes \<Rightarrow> 'k \<Rightarrow> staking_validator result"
  Jail :: "bytes \<Rightarrow> 'k \<Rightarrow> unit result \<times> 'k"
  IsNoValidatorFound :: "err \<Rightarrow> bool"

record 'k admission_state =
  adm_store :: kv
  adm_staking :: 'k

type_synonym ('k, 'a) admission_op = "('k admission_state, 'a) handler"

definition admE :: "(kv \<Rightarrow> kv) \<Rightarrow> ('k, unit) admission_op" where
  "admE f = modifyE (\<lambda>s. s\<lparr>adm_store := f (adm_store s)\<rparr>)"

definition jailE :: "'k staking_ops \<Rightarrow> bytes \<Rightarrow> ('k, unit) admission_op" where
  "jailE st addr s = (case Jail st addr (adm_staking s) of (r, k) \<Rightarrow> (r, s\<lparr>adm_staking := k\<rparr>))"

definition validateAuthority :: "admission_env \<Rightarrow> string \<Rightarrow> ('k, unit) admission_op" where
  "validateAuthority env auth = readE (\<lambda>s. ValidateAuthority env (GetAuthority (adm_store s)) auth)"

definition ApproveValidator :: "admission_env \<Rightarrow> MsgApproveValidator option \<Rightarrow> ('k, unit) admission_op" where
  "ApproveValidator env msg = (case msg of
       None \<Rightarrow> failE (Err ''Validator Admission: empty approval request'')
     | Some req \<Rightarrow>
         thenE (validateAuthority env (ma_Authority req)) (
         thenE (liftE (ma_ValidateBasic env req)) (
         bindE (getsE (\<lambda>s. IsApprovedValidator (adm_store s) (ma_ValidatorAddress req))) (\<lambda>known.
         if known then okE ()
         else thenE (readE (\<lambda>s. require (ApprovedValidatorCount (adm_store s) < GetMaxApprovedValidators (adm_store s))
                (Err ''Validator Admission: approved validator capacity reached'')))
              (admE (SetApprovedValidator (ma_ValidatorAddress req) True))))))"

definition RevokeValidator ::
  "admission_env \<Rightarrow> 'k staking_ops \<Rightarrow> MsgRevokeValidator option \<Rightarrow> ('k, unit) admission_op" where
  "RevokeValidator env st msg = (case msg of
       None \<Rightarrow> failE (Err ''Validator Admission: empty revocation request'')
     | Some req \<Rightarrow>
         thenE (validateAuthority env (mr_Authority req)) (
         thenE (liftE (mr_ValidateBasic env req)) (
         bindE (liftE (ValAddressFromBech32 env (mr_ValidatorAddress req))) (\<lambda>addr.
         thenE (admE (SetApprovedValidator (mr_ValidatorAddress req) False)) (
         bindE (getsE (\<lambda>s. GetValidator st addr (adm_staking s))) (\<lambda>found.
         case found of
           Inl e \<Rightarrow> if IsNoValidatorFound st e then okE () else failE e
         | Inr validator \<Rightarrow>
             if val_jailed validator then okE ()
             else bindE (liftE (val_cons_addr validator)) (\<lambda>consensus. jailE st consensus)))))))"

definition UpdateParams :: "admission_env \<Rightarrow> MsgUpdateParams option \<Rightarrow> ('k, unit) admission_op" where
  "UpdateParams env msg = (case msg of
       None \<Rightarrow> failE (Err ''Validator Admission: empty policy update request'')
     | Some req \<Rightarrow>
         thenE (validateAuthority env (mu_Authority req)) (
         thenE (liftE (mu_ValidateBasic env req)) (
         thenE (readE (\<lambda>s. require (\<not> mu_MaxApprovedValidators req < ApprovedValidatorCount (adm_store s))
           (Err ''Validator Admission: capacity cannot be below approved validator count''))) (
         thenE (admE (SetMaxApprovedValidators (mu_MaxApprovedValidators req)))
           (admE (SetMinimumSelfDelegation (mu_MinimumSelfDelegation req)))))))"

section \<open>Queries\<close>

definition QueryParams :: "kv \<Rightarrow> string \<times> uint32 \<times> string" where
  "QueryParams m = (GetAuthority m, GetMaxApprovedValidators m, GetMinimumSelfDelegation m)"

definition QueryValidator :: "admission_env \<Rightarrow> kv \<Rightarrow> string option \<Rightarrow> bool result" where
  "QueryValidator env m req = (case req of
       None \<Rightarrow> Inl (Err ''validator admission query request is required'')
     | Some a \<Rightarrow> (case ValAddressFromBech32 env a of
           Inl e \<Rightarrow> Inl (Err ''invalid validator address'')
         | Inr _ \<Rightarrow> Inr (IsApprovedValidator m a)))"

section \<open>Ante handler\<close>

text \<open>
  The messages the type switch tells apart; every other message type, an \<^verbatim>\<open>authz.MsgExec\<close>
  with messages inside it included, is \<^verbatim>\<open>OtherMsg\<close>.
\<close>

datatype sdk_msg =
    MsgCreateValidator (cv_ValidatorAddress: string) (cv_Value: coin)
  | MsgUnjail (uj_ValidatorAddr: string)
  | MintMsgUpdateParams
  | MsgSubmitProposal
  | OtherMsg

fun ante_msg :: "admission_env \<Rightarrow> bool \<Rightarrow> kv \<Rightarrow> sdk_msg \<Rightarrow> unit result" where
  "ante_msg env allowGovernance m (MsgCreateValidator a v) =
     thenR (require (IsApprovedValidator m a) (Err ''Validator Admission: validator is not approved by Xitcoin'')) (
     case ParseCoinNormalized env (GetMinimumSelfDelegation m) of
       Inl e \<Rightarrow> Inl (Err ''Validator Admission: invalid on-chain minimum self delegation'')
     | Inr minimum \<Rightarrow>
         require (\<not> (fst v \<noteq> fst minimum \<or> snd v < snd minimum))
           (Err ''Validator Admission: self delegation must be at least''))"
| "ante_msg env allowGovernance m (MsgUnjail a) =
     require (IsApprovedValidator m a) (Err ''Validator Admission: revoked validator cannot unjail'')"
| "ante_msg env allowGovernance m MintMsgUpdateParams =
     Inl (Err ''Fixed monetary policy: Mint parameters cannot be changed'')"
| "ante_msg env allowGovernance m MsgSubmitProposal =
     require allowGovernance (Err ''Governance safeguards: executable on-chain proposals are disabled'')"
| "ante_msg env allowGovernance m OtherMsg = Inr ()"

fun ante_loop :: "admission_env \<Rightarrow> bool \<Rightarrow> kv \<Rightarrow> sdk_msg list \<Rightarrow> unit result" where
  "ante_loop env allowGovernance m [] = Inr ()"
| "ante_loop env allowGovernance m (msg # msgs) =
     thenR (ante_msg env allowGovernance m msg) (ante_loop env allowGovernance m msgs)"

text \<open>
  \<^verbatim>\<open>storeOf\<close> is the module's store at a context, \<^verbatim>\<open>GetMsgs\<close> the messages of a
  transaction; the variadic flag is a list.
\<close>

definition NewAdmissionAnteHandler ::
  "admission_env \<Rightarrow> ('c \<Rightarrow> kv) \<Rightarrow> ('t \<Rightarrow> sdk_msg list) \<Rightarrow> ('t \<Rightarrow> bool \<Rightarrow> ('c, unit) handler) \<Rightarrow>
   bool list \<Rightarrow> 't \<Rightarrow> bool \<Rightarrow> ('c, unit) handler" where
  "NewAdmissionAnteHandler env storeOf GetMsgs nxt allow tx simulate ctx =
     (let allowGovernance = (length allow > 0 \<and> allow ! 0)
      in case ante_loop env allowGovernance (storeOf ctx) (GetMsgs tx) of
           Inl e \<Rightarrow> (Inl e, ctx)
         | Inr _ \<Rightarrow> nxt tx simulate ctx)"

end
