(* ===== verification/Admission_Properties.thy ===== *)
theory Admission_Properties
  imports Admission
begin

text \<open>
  Properties of validator admission: the capacity of the approval list along every sequence of
  messages, the lasting effect of a revocation on the ante handler, the ante handler as a
  declarative policy, what a rejected message leaves behind, and the genesis round trip.
\<close>

section \<open>The store as an abstract policy\<close>

definition approved :: "kv \<Rightarrow> string set" where
  "approved m = under_prefix m (CHR 0x02)"

lemmas admission_keys = KeyAuthority_def KeyApprovedValidatorPrefix_def KeyMaxApprovedValidators_def
  KeyMinimumSelfDelegation_def

lemmas admission_writes = SetAuthority_def SetMaxApprovedValidators_def SetMinimumSelfDelegation_def
  SetApprovedValidator_def

lemma approved_writes [simp]:
  "approved (SetAuthority x m) = approved m" "approved (SetMaxApprovedValidators n m) = approved m"
  "approved (SetMinimumSelfDelegation x m) = approved m"
  "approved (SetApprovedValidator a True m) = insert a (approved m)"
  "approved (SetApprovedValidator a False m) = approved m - {a}"
  by (simp_all add: approved_def admission_writes admission_keys)

lemma admission_reads [simp]:
  "GetAuthority (SetAuthority x m) = x" "GetAuthority (SetMaxApprovedValidators n m) = GetAuthority m"
  "GetAuthority (SetMinimumSelfDelegation y m) = GetAuthority m"
  "GetAuthority (SetApprovedValidator a b m) = GetAuthority m"
  "GetMaxApprovedValidators (SetMaxApprovedValidators n m) = n"
  "GetMaxApprovedValidators (SetAuthority x m) = GetMaxApprovedValidators m"
  "GetMaxApprovedValidators (SetMinimumSelfDelegation y m) = GetMaxApprovedValidators m"
  "GetMaxApprovedValidators (SetApprovedValidator a b m) = GetMaxApprovedValidators m"
  "GetMinimumSelfDelegation (SetMinimumSelfDelegation y m) = (if y = [] then snd DefaultPolicy else y)"
  "GetMinimumSelfDelegation (SetAuthority x m) = GetMinimumSelfDelegation m"
  "GetMinimumSelfDelegation (SetMaxApprovedValidators n m) = GetMinimumSelfDelegation m"
  "GetMinimumSelfDelegation (SetApprovedValidator a b m) = GetMinimumSelfDelegation m"
  by (simp_all add: GetAuthority_def GetMaxApprovedValidators_def GetMinimumSelfDelegation_def admission_writes
      admission_keys codec_simps Let_def)

lemma admission_finite [simp]:
  "finite (dom (SetAuthority x m)) = finite (dom m)" "finite (dom (SetMaxApprovedValidators n m)) = finite (dom m)"
  "finite (dom (SetMinimumSelfDelegation y m)) = finite (dom m)"
  "finite (dom (SetApprovedValidator a b m)) = finite (dom m)"
  by (simp_all add: admission_writes Let_def)

lemma IsApproved_iff: "IsApprovedValidator m a \<longleftrightarrow> TrimSpace a \<in> approved m"
  by (simp add: IsApprovedValidator_def approved_def under_prefix_def admission_keys)

lemma Count_eq: "finite (dom m) \<Longrightarrow> ApprovedValidatorCount m = word_of_nat (card (approved m))"
  by (simp add: ApprovedValidatorCount_def KeyApprovedValidatorPrefix_def under_prefix_card approved_def)

lemma unat_count:
  assumes "finite (dom m)" "card (approved m) \<le> unat (x :: uint32)"
  shows "unat (ApprovedValidatorCount m) = card (approved m)"
proof -
  have "card (approved m) < 2 ^ 32" using assms(2) unsigned_less [of x, where ?'a = nat] by simp
  then show ?thesis by (simp add: Count_eq [OF assms(1)] unat_of_nat take_bit_nat_eq_self_iff)
qed

section \<open>Messages as steps\<close>

datatype admission_msg =
    Approve "MsgApproveValidator option"
  | Revoke "MsgRevokeValidator option"
  | Update "MsgUpdateParams option"

fun exec_msg :: "admission_env \<Rightarrow> 'k staking_ops \<Rightarrow> admission_msg \<Rightarrow> ('k, unit) admission_op" where
  "exec_msg env st (Approve m) = ApproveValidator env m"
| "exec_msg env st (Revoke m) = RevokeValidator env st m"
| "exec_msg env st (Update m) = UpdateParams env m"

definition admission_step ::
  "admission_env \<Rightarrow> 'k staking_ops \<Rightarrow> admission_msg \<Rightarrow> 'k admission_state \<Rightarrow> 'k admission_state \<Rightarrow> bool" where
  "admission_step env st msg s t \<longleftrightarrow> exec_msg env st msg s = (Inr (), t)"

lemma Approve_ok:
  "ApproveValidator env msg s = (Inr (), t) \<Longrightarrow>
   \<exists>req. msg = Some req \<and> ValidateAuthority env (GetAuthority (adm_store s)) (ma_Authority req) = Inr () \<and>
     ma_ValidateBasic env req = Inr () \<and>
     (if IsApprovedValidator (adm_store s) (ma_ValidatorAddress req) then t = s
      else ApprovedValidatorCount (adm_store s) < GetMaxApprovedValidators (adm_store s) \<and>
        t = s\<lparr>adm_store := SetApprovedValidator (ma_ValidatorAddress req) True (adm_store s)\<rparr>)"
  by (auto simp: ApproveValidator_def validateAuthority_def admE_def handler_simps split: option.splits if_splits)

lemma jailE_ok [handler_simps]:
  "jailE st a s = (r, t) \<longleftrightarrow> Jail st a (adm_staking s) = (r, adm_staking t) \<and> adm_store t = adm_store s"
  by (cases s; cases t) (auto simp: jailE_def split: prod.splits)

lemma Revoke_ok:
  "RevokeValidator env st msg s = (Inr (), t) \<Longrightarrow>
   \<exists>req addr. msg = Some req \<and>
     ValidateAuthority env (GetAuthority (adm_store s)) (mr_Authority req) = Inr () \<and>
     ValAddressFromBech32 env (mr_ValidatorAddress req) = Inr addr \<and>
     adm_store t = SetApprovedValidator (mr_ValidatorAddress req) False (adm_store s) \<and>
     (case GetValidator st addr (adm_staking s) of
        Inl e \<Rightarrow> IsNoValidatorFound st e \<and> adm_staking t = adm_staking s
      | Inr v \<Rightarrow> if val_jailed v then adm_staking t = adm_staking s
          else \<exists>c. val_cons_addr v = Inr c \<and> Jail st c (adm_staking s) = (Inr (), adm_staking t))"
proof -
  assume run: "RevokeValidator env st msg s = (Inr (), t)"
  then obtain req addr where req: "msg = Some req"
      "ValidateAuthority env (GetAuthority (adm_store s)) (mr_Authority req) = Inr ()"
      "ValAddressFromBech32 env (mr_ValidatorAddress req) = Inr addr"
    and rest: "(case GetValidator st addr (adm_staking s) of
         Inl e \<Rightarrow> if IsNoValidatorFound st e then okE () else failE e
       | Inr v \<Rightarrow> if val_jailed v then okE () else bindE (liftE (val_cons_addr v)) (\<lambda>c. jailE st c))
       (s\<lparr>adm_store := SetApprovedValidator (mr_ValidatorAddress req) False (adm_store s)\<rparr>) = (Inr (), t)"
    by (cases msg) (auto simp: RevokeValidator_def validateAuthority_def admE_def handler_simps)
  have "adm_store t = SetApprovedValidator (mr_ValidatorAddress req) False (adm_store s) \<and>
     (case GetValidator st addr (adm_staking s) of
        Inl e \<Rightarrow> IsNoValidatorFound st e \<and> adm_staking t = adm_staking s
      | Inr v \<Rightarrow> if val_jailed v then adm_staking t = adm_staking s
          else \<exists>c. val_cons_addr v = Inr c \<and> Jail st c (adm_staking s) = (Inr (), adm_staking t))"
    using rest by (cases "GetValidator st addr (adm_staking s)") (auto simp: handler_simps split: if_splits)
  with req show ?thesis by blast
qed

lemma Update_ok:
  "UpdateParams env msg s = (Inr (), t) \<Longrightarrow>
   \<exists>req. msg = Some req \<and> ValidateAuthority env (GetAuthority (adm_store s)) (mu_Authority req) = Inr () \<and>
     mu_ValidateBasic env req = Inr () \<and>
     \<not> mu_MaxApprovedValidators req < ApprovedValidatorCount (adm_store s) \<and>
     t = s\<lparr>adm_store := SetMinimumSelfDelegation (mu_MinimumSelfDelegation req)
       (SetMaxApprovedValidators (mu_MaxApprovedValidators req) (adm_store s))\<rparr>"
  by (auto simp: UpdateParams_def validateAuthority_def admE_def handler_simps split: option.splits)

section \<open>Capacity\<close>

definition within_capacity :: "'k admission_state \<Rightarrow> bool" where
  "within_capacity s \<longleftrightarrow> finite (dom (adm_store s)) \<and>
     card (approved (adm_store s)) \<le> unat (GetMaxApprovedValidators (adm_store s))"

lemma within_capacity_step:
  assumes "admission_step env st msg s t" "within_capacity s"
  shows "within_capacity t"
proof -
  have fin: "finite (dom (adm_store s))" "finite (approved (adm_store s))"
    and cap: "card (approved (adm_store s)) \<le> unat (GetMaxApprovedValidators (adm_store s))"
    using assms(2) by (auto simp: within_capacity_def approved_def under_prefix_finite)
  note count = unat_count [OF fin(1) cap]
  show ?thesis
  proof (cases msg)
    case (Approve m)
    then show ?thesis
      using Approve_ok [of env m s t] assms fin cap count
      by (auto simp: admission_step_def within_capacity_def word_less_nat_alt card_insert_if split: if_splits)
  next
    case (Revoke m)
    then show ?thesis
      using Revoke_ok [of env st m s t] assms fin cap card_Diff1_le [of "approved (adm_store s)"]
      by (force simp: admission_step_def within_capacity_def intro: order_trans)
  next
    case (Update m)
    then show ?thesis
      using Update_ok [of env m s t] assms fin count
      by (auto simp: admission_step_def within_capacity_def word_less_nat_alt)
  qed
qed

interpretation capacity: invariant_system "admission_step env st" within_capacity for env st
  by unfold_locales (rule within_capacity_step)

section \<open>Genesis\<close>

lemma InitGenesis_reads:
  "approved (InitGenesis g Map.empty) = set (gs_ApprovedValidators g)"
  "GetMaxApprovedValidators (InitGenesis g Map.empty) = fst (Policy g)"
  "GetMinimumSelfDelegation (InitGenesis g Map.empty) = snd (Policy g)"
  "GetAuthority (InitGenesis g Map.empty) = gs_Authority g"
  "finite (dom (InitGenesis g Map.empty))"
proof -
  have fold: "approved (fold (\<lambda>a. SetApprovedValidator a True) as m) = set as \<union> approved m \<and>
      GetMaxApprovedValidators (fold (\<lambda>a. SetApprovedValidator a True) as m) = GetMaxApprovedValidators m \<and>
      GetMinimumSelfDelegation (fold (\<lambda>a. SetApprovedValidator a True) as m) = GetMinimumSelfDelegation m \<and>
      GetAuthority (fold (\<lambda>a. SetApprovedValidator a True) as m) = GetAuthority m \<and>
      finite (dom (fold (\<lambda>a. SetApprovedValidator a True) as m)) = finite (dom m)" for as m
    by (induction as arbitrary: m) auto
  have "approved Map.empty = {}" by (simp add: approved_def under_prefix_def kv_has_def)
  moreover have "snd (Policy g) \<noteq> []" by (simp add: Policy_def DefaultPolicy_def DefaultMinimumSelfDelegation_def)
  ultimately show "approved (InitGenesis g Map.empty) = set (gs_ApprovedValidators g)"
    "GetMaxApprovedValidators (InitGenesis g Map.empty) = fst (Policy g)"
    "GetMinimumSelfDelegation (InitGenesis g Map.empty) = snd (Policy g)"
    "GetAuthority (InitGenesis g Map.empty) = gs_Authority g"
    "finite (dom (InitGenesis g Map.empty))"
    by (simp_all add: InitGenesis_def fold)
qed

lemma validators_loop_ok:
  "validators_loop env seen as = Inr () \<longleftrightarrow>
     distinct as \<and> set as \<inter> seen = {} \<and>
     (\<forall>a\<in>set as. a \<noteq> [] \<and> TrimSpace a = a \<and> (\<exists>b. ValAddressFromBech32 env a = Inr b))"
  by (induction as arbitrary: seen) (auto simp: handler_simps split: sum.splits)

lemma Validate_iff:
  "Validate env g = Inr () \<longleftrightarrow>
     ValidateGenesisPolicy env (fst (Policy g)) (snd (Policy g)) = Inr () \<and>
     (if TrimSpace (gs_Authority g) = [] then gs_ApprovedValidators g = []
      else TrimSpace (gs_Authority g) = gs_Authority g \<and> (\<exists>b. AccAddressFromBech32 env (gs_Authority g) = Inr b) \<and>
        \<not> fst (Policy g) < word_of_nat (length (gs_ApprovedValidators g)) \<and> gs_ApprovedValidators g \<noteq> [] \<and>
        validators_loop env {} (gs_ApprovedValidators g) = Inr ())"
  by (auto simp: Validate_def Let_def handler_simps split: sum.splits)

lemma AppInitGenesis_ok:
  "AppInitGenesis env g m0 = (Inr (), m) \<longleftrightarrow> Validate env g = Inr () \<and> m = InitGenesis g m0"
  by (auto simp: AppInitGenesis_def handler_simps split: sum.splits)

lemma genesis_within_capacity:
  assumes "AppInitGenesis env g Map.empty = (Inr (), m)" "length (gs_ApprovedValidators g) < 2 ^ 32"
  shows "within_capacity \<lparr>adm_store = m, adm_staking = k\<rparr>"
proof -
  have v: "Validate env g = Inr ()" and m: "m = InitGenesis g Map.empty"
    using assms(1) by (auto simp: AppInitGenesis_ok)
  have "unat (word_of_nat (length (gs_ApprovedValidators g)) :: uint32) = length (gs_ApprovedValidators g)"
    using assms(2) by (simp add: unat_of_nat take_bit_nat_eq_self_iff)
  then have "length (gs_ApprovedValidators g) \<le> unat (fst (Policy g))"
    using v by (auto simp: Validate_iff word_less_nat_alt split: if_splits)
  then show ?thesis
    using card_length [of "gs_ApprovedValidators g"]
    by (simp add: within_capacity_def m InitGenesis_reads)
qed

section \<open>Concrete parameters\<close>

definition demo_admission :: admission_env where
  "demo_admission =
     \<lparr>AccAddressFromBech32 = (\<lambda>a. if a = [] then Inl (Err ''empty'') else Inr a),
      ValAddressFromBech32 = (\<lambda>a. if a = [] then Inl (Err ''empty'') else Inr a),
      ParseCoinNormalized = (\<lambda>a. Inr (''axtc'', int (length a))),
      Coin_IsValid = (\<lambda>c. 0 \<le> snd c),
      ValidateAuthority = (\<lambda>e a. if e = a then Inr () else Inl (Err ''unauthorized''))\<rparr>"

definition demo_staking :: "bool staking_ops" where
  "demo_staking =
     \<lparr>GetValidator = (\<lambda>a k. Inr \<lparr>val_jailed = k, val_cons_addr = Inr ''c''\<rparr>), Jail = (\<lambda>c k. (Inr (), True)),
      IsNoValidatorFound = (\<lambda>e. False)\<rparr>"

definition demo_genesis :: GenesisState where
  "demo_genesis = \<lparr>gs_Authority = ''gov'', gs_ApprovedValidators = [''v2'', ''v1''],
     gs_MaxApprovedValidators = 3, gs_MinimumSelfDelegation = []\<rparr>"

lemma demo_plain [simp]: "TrimSpace ''gov'' = ''gov''" "TrimSpace ''v1'' = ''v1''" "TrimSpace ''v2'' = ''v2''"
  "TrimSpace ''v3'' = ''v3''"
  by (rule TrimSpace_plain, simp add: plain_char_def nat_of_byte_def)+

lemma demo_admission_sel [simp]:
  "AccAddressFromBech32 demo_admission a = (if a = [] then Inl (Err ''empty'') else Inr a)"
  "ValAddressFromBech32 demo_admission a = (if a = [] then Inl (Err ''empty'') else Inr a)"
  "ParseCoinNormalized demo_admission a = Inr (''axtc'', int (length a))"
  "Coin_IsValid demo_admission c \<longleftrightarrow> 0 \<le> snd c"
  "ValidateAuthority demo_admission e a = (if e = a then Inr () else Inl (Err ''unauthorized''))"
  by (simp_all add: demo_admission_def)

lemma demo_genesis_sel [simp]:
  "gs_Authority demo_genesis = ''gov''" "gs_ApprovedValidators demo_genesis = [''v2'', ''v1'']"
  "Policy demo_genesis = (3, DefaultMinimumSelfDelegation)"
  by (simp_all add: demo_genesis_def Policy_def DefaultPolicy_def)

lemma demo_genesis_ok:
  "AppInitGenesis demo_admission demo_genesis Map.empty = (Inr (), InitGenesis demo_genesis Map.empty)"
  by (simp add: AppInitGenesis_ok Validate_iff validators_loop_ok ValidateGenesisPolicy_def validatePolicyAmount_def
      DefaultMinimumSelfDelegation_def thenR_def bindR_def require_def word_less_nat_alt)

definition demo_admitted :: "bool admission_state" where
  "demo_admitted = \<lparr>adm_store = InitGenesis demo_genesis Map.empty, adm_staking = False\<rparr>"

lemma demo_admitted_sel [simp]:
  "approved (adm_store demo_admitted) = {''v2'', ''v1''}" "GetMaxApprovedValidators (adm_store demo_admitted) = 3"
  "GetMinimumSelfDelegation (adm_store demo_admitted) = DefaultMinimumSelfDelegation"
  "GetAuthority (adm_store demo_admitted) = ''gov''" "finite (dom (adm_store demo_admitted))"
  "adm_staking demo_admitted = False"
  by (simp_all add: demo_admitted_def InitGenesis_reads)

lemmas admission_eval = validateAuthority_def validateAuthorityAndValidator_def admE_def thenE_def bindE_def
  getsE_def require_def thenR_def bindR_def

definition demo_approve :: MsgApproveValidator where
  "demo_approve = \<lparr>ma_Authority = ''gov'', ma_ValidatorAddress = ''v3''\<rparr>"

lemma demo_approve_step:
  "admission_step demo_admission demo_staking (Approve (Some demo_approve)) demo_admitted
     (demo_admitted\<lparr>adm_store := SetApprovedValidator ''v3'' True (adm_store demo_admitted)\<rparr>)"
  by (simp add: admission_step_def ApproveValidator_def demo_approve_def ma_ValidateBasic_def IsApproved_iff Count_eq
      admission_eval)

section \<open>Properties\<close>

text \<open>
  C9. The approval list never outgrows the capacity of the policy: after any sequence of accepted
  messages on a chain started from a genesis state the module accepts, the number of approved
  validators is at most the current maximum.
\<close>

theorem approved_within_capacity:
  assumes "AppInitGenesis env g Map.empty = (Inr (), m)" "length (gs_ApprovedValidators g) < 2 ^ 32"
    and "run (admission_step env st) \<lparr>adm_store = m, adm_staking = k\<rparr> msgs t"
  shows "card (approved (adm_store t)) \<le> unat (GetMaxApprovedValidators (adm_store t))"
  using capacity.run_inv [OF assms(3) genesis_within_capacity [OF assms(1,2)]]
  by (simp add: within_capacity_def)

theorem approved_within_capacity_witness:
  "card (approved (SetApprovedValidator ''v3'' True (adm_store demo_admitted))) \<le> 3"
proof -
  have "run (admission_step demo_admission demo_staking) demo_admitted [Approve (Some demo_approve)]
      (demo_admitted\<lparr>adm_store := SetApprovedValidator ''v3'' True (adm_store demo_admitted)\<rparr>)"
    by (rule run_single) (rule demo_approve_step)
  from approved_within_capacity [OF demo_genesis_ok _ this [unfolded demo_admitted_def]]
  show ?thesis by (simp add: InitGenesis_reads flip: demo_admitted_def)
qed

text \<open>
  What the ante handler asks of each message, without the order of the checks.
\<close>

fun admissible :: "admission_env \<Rightarrow> bool \<Rightarrow> kv \<Rightarrow> sdk_msg \<Rightarrow> bool" where
  "admissible env governance m (MsgCreateValidator a v) \<longleftrightarrow> TrimSpace a \<in> approved m \<and>
     (\<exists>n. ParseCoinNormalized env (GetMinimumSelfDelegation m) = Inr (fst v, n) \<and> n \<le> snd v)"
| "admissible env governance m (MsgUnjail a) \<longleftrightarrow> TrimSpace a \<in> approved m"
| "admissible env governance m MintMsgUpdateParams \<longleftrightarrow> False"
| "admissible env governance m MsgSubmitProposal \<longleftrightarrow> governance"
| "admissible env governance m OtherMsg \<longleftrightarrow> True"

lemma ante_msg_iff: "ante_msg env governance m msg = Inr () \<longleftrightarrow> admissible env governance m msg"
  by (cases msg) (auto simp: IsApproved_iff handler_simps split: sum.splits)

lemma ante_loop_iff: "ante_loop env governance m msgs = Inr () \<longleftrightarrow> list_all (admissible env governance m) msgs"
  by (induction msgs) (auto simp: handler_simps ante_msg_iff)

text \<open>
  C33. The ante handler is the declarative policy: a transaction reaches the next handler exactly
  when every message of it is admissible (an approved operator with a self delegation of the
  required denomination and amount, an approved operator for an unjail, no change of the mint
  parameters, no governance proposal unless allowed), and is refused with the context unchanged
  otherwise.
\<close>

theorem ante_handler_decides_policy:
  "if list_all (admissible env (allow \<noteq> [] \<and> hd allow) (storeOf ctx)) (GetMsgs tx)
   then NewAdmissionAnteHandler env storeOf GetMsgs nxt allow tx simulate ctx = nxt tx simulate ctx
   else \<exists>e. NewAdmissionAnteHandler env storeOf GetMsgs nxt allow tx simulate ctx = (Inl e, ctx)"
proof -
  have gov: "(0 < length allow \<and> allow ! 0) = (allow \<noteq> [] \<and> hd allow)" by (cases allow) auto
  show ?thesis
    using ante_loop_iff [of env "allow \<noteq> [] \<and> hd allow" "storeOf ctx" "GetMsgs tx"]
    by (cases "ante_loop env (allow \<noteq> [] \<and> hd allow) (storeOf ctx) (GetMsgs tx)")
      (auto simp: NewAdmissionAnteHandler_def gov simp del: length_greater_0_conv)
qed

section \<open>Revocation\<close>

text \<open>
  What the staking module promises about \<^verbatim>\<open>Jail\<close>: afterwards the validator with that
  consensus address is jailed.
\<close>

definition jail_law :: "'k staking_ops \<Rightarrow> bool" where
  "jail_law st \<longleftrightarrow> (\<forall>a v c k k'. GetValidator st a k = Inr v \<longrightarrow> val_cons_addr v = Inr c \<longrightarrow>
     Jail st c k = (Inr (), k') \<longrightarrow> (\<exists>w. GetValidator st a k' = Inr w \<and> val_jailed w))"

fun approves :: "string \<Rightarrow> admission_msg \<Rightarrow> bool" where
  "approves v (Approve (Some r)) \<longleftrightarrow> ma_ValidatorAddress r = v"
| "approves v _ \<longleftrightarrow> False"

lemma not_approved_step:
  assumes "admission_step env st msg s t" "\<not> approves v msg" "v \<notin> approved (adm_store s)"
  shows "v \<notin> approved (adm_store t)"
proof (cases msg)
  case (Approve m)
  then show ?thesis using assms Approve_ok [of env m s t] by (auto simp: admission_step_def split: if_splits)
next
  case (Revoke m)
  then show ?thesis using assms Revoke_ok [of env st m s t] by (auto simp: admission_step_def)
next
  case (Update m)
  then show ?thesis using assms Update_ok [of env m s t] by (auto simp: admission_step_def)
qed

interpretation revoked: invariant_system
  "\<lambda>msg s t. admission_step env st msg s t \<and> \<not> approves v msg" "\<lambda>s. v \<notin> approved (adm_store s)" for env st v
  by unfold_locales (blast dest: not_approved_step)

lemma Revoke_jails:
  assumes "jail_law st" "RevokeValidator env st (Some req) s = (Inr (), t)"
    and "ValAddressFromBech32 env (mr_ValidatorAddress req) = Inr addr"
  shows "case GetValidator st addr (adm_staking t) of Inl e \<Rightarrow> IsNoValidatorFound st e | Inr w \<Rightarrow> val_jailed w"
proof (cases "GetValidator st addr (adm_staking s)")
  case (Inl e)
  then show ?thesis using Revoke_ok [OF assms(2)] assms(3) by auto
next
  case (Inr v)
  show ?thesis
  proof (cases "val_jailed v")
    case True
    then show ?thesis using Revoke_ok [OF assms(2)] assms(3) Inr by auto
  next
    case False
    then obtain c where c: "val_cons_addr v = Inr c" "Jail st c (adm_staking s) = (Inr (), adm_staking t)"
      using Revoke_ok [OF assms(2)] assms(3) Inr by auto
    obtain w where "GetValidator st addr (adm_staking t) = Inr w" "val_jailed w"
      using assms(1) Inr c unfolding jail_law_def by blast
    then show ?thesis by simp
  qed
qed

text \<open>
  C24. A revocation takes effect at once and lasts in the ante handler: after an accepted revocation
  the validator is unknown to the staking module or jailed, and after any further accepted messages
  that do not approve the same address text again, the admission ante handler refuses every
  transaction with a top-level message that unjails the validator or creates it anew under that
  address text, up to surrounding space. It is only about messages of the transaction itself:
  messages inside an authz execution and calls of the staking precompile do not meet this handler.
\<close>

theorem revoked_validator_stays_out:
  assumes "jail_law st" "RevokeValidator env st (Some req) s = (Inr (), t)"
    and "v = mr_ValidatorAddress req" "TrimSpace v = v" "ValAddressFromBech32 env v = Inr addr"
    and "run (admission_step env st) t msgs u" "\<forall>msg\<in>set msgs. \<not> approves v msg"
    and "storeOf ctx = adm_store u"
    and "TrimSpace w = v" "MsgUnjail w \<in> set (GetMsgs tx) \<or> (\<exists>c. MsgCreateValidator w c \<in> set (GetMsgs tx))"
  shows "(case GetValidator st addr (adm_staking t) of Inl e \<Rightarrow> IsNoValidatorFound st e | Inr w \<Rightarrow> val_jailed w) \<and>
    (\<exists>e. NewAdmissionAnteHandler env storeOf GetMsgs nxt allow tx simulate ctx = (Inl e, ctx))"
proof -
  have "v \<notin> approved (adm_store t)" using Revoke_ok [OF assms(2)] assms(3) by auto
  then have out: "v \<notin> approved (storeOf ctx)"
    using revoked.run_inv [OF run_restrict [OF assms(6,7)]] assms(8) by simp
  have "\<not> list_all (admissible env g (storeOf ctx)) (GetMsgs tx)" for g
    using assms(9,10) out by (fastforce simp: list_all_iff)
  then have "ante_loop env g (storeOf ctx) (GetMsgs tx) \<noteq> Inr ()" for g by (simp add: ante_loop_iff)
  then have "\<exists>e. NewAdmissionAnteHandler env storeOf GetMsgs nxt allow tx simulate ctx = (Inl e, ctx)"
    by (auto simp: NewAdmissionAnteHandler_def Let_def split: sum.split)
  then show ?thesis using Revoke_jails [OF assms(1,2)] assms(3,5) by blast
qed

definition demo_revoke :: MsgRevokeValidator where
  "demo_revoke = \<lparr>mr_Authority = ''gov'', mr_ValidatorAddress = ''v1''\<rparr>"

lemma demo_revoke_step:
  "RevokeValidator demo_admission demo_staking (Some demo_revoke) demo_admitted =
     (Inr (), \<lparr>adm_store = SetApprovedValidator ''v1'' False (adm_store demo_admitted), adm_staking = True\<rparr>)"
  by (simp add: RevokeValidator_def demo_revoke_def mr_ValidateBasic_def admission_eval demo_staking_def jailE_def)

theorem revoked_validator_stays_out_witness:
  "\<exists>e. NewAdmissionAnteHandler demo_admission (\<lambda>m. m) (\<lambda>tx. tx) (\<lambda>tx sim. okE ()) [] [OtherMsg, MsgUnjail '' v1''] False
     (SetApprovedValidator ''v1'' False (adm_store demo_admitted)) =
     (Inl e, SetApprovedValidator ''v1'' False (adm_store demo_admitted))"
proof -
  have trim: "TrimSpace '' v1'' = ''v1''" by code_simp
  have "jail_law demo_staking" by (simp add: jail_law_def demo_staking_def)
  from revoked_validator_stays_out [OF this demo_revoke_step _ _ _ run.intros(1), of "''v1''" "''v1''" "\<lambda>m. m"
      "SetApprovedValidator ''v1'' False (adm_store demo_admitted)" "'' v1''" "\<lambda>tx. tx" "[OtherMsg, MsgUnjail '' v1'']"]
  show ?thesis by (simp add: demo_revoke_def trim)
qed

section \<open>Rejected messages\<close>

lemma Approve_err: "ApproveValidator env msg s = (Inl e, t) \<Longrightarrow> t = s"
  by (auto simp: ApproveValidator_def validateAuthority_def admE_def handler_simps split: option.splits if_splits)

lemma Update_err: "UpdateParams env msg s = (Inl e, t) \<Longrightarrow> t = s"
  by (auto simp: UpdateParams_def validateAuthority_def admE_def handler_simps split: option.splits)

lemma Revoke_err:
  assumes "RevokeValidator env st msg s = (Inl e, t)"
  shows "t = s \<or> (\<exists>req. msg = Some req \<and>
     ValidateAuthority env (GetAuthority (adm_store s)) (mr_Authority req) = Inr () \<and>
     adm_store t = SetApprovedValidator (mr_ValidatorAddress req) False (adm_store s))"
proof (cases msg)
  case None
  then show ?thesis using assms by (simp add: RevokeValidator_def)
next
  case (Some req)
  let ?u = "s\<lparr>adm_store := SetApprovedValidator (mr_ValidatorAddress req) False (adm_store s)\<rparr>"
  consider "t = s"
    | addr where "ValidateAuthority env (GetAuthority (adm_store s)) (mr_Authority req) = Inr ()"
      "(case GetValidator st addr (adm_staking s) of
          Inl e \<Rightarrow> if IsNoValidatorFound st e then okE () else failE e
        | Inr v \<Rightarrow> if val_jailed v then okE () else bindE (liftE (val_cons_addr v)) (\<lambda>c. jailE st c))
       ?u = (Inl e, t)"
    using assms Some by (auto simp: RevokeValidator_def validateAuthority_def admE_def handler_simps)
  then show ?thesis
  proof cases
    case (2 addr)
    then have "adm_store t = adm_store ?u"
      by (cases "GetValidator st addr (adm_staking s)") (auto simp: handler_simps split: if_splits)
    then show ?thesis using 2(1) Some by simp
  qed simp
qed

fun msg_authority :: "admission_msg \<Rightarrow> string option" where
  "msg_authority (Approve m) = map_option ma_Authority m"
| "msg_authority (Revoke m) = map_option mr_Authority m"
| "msg_authority (Update m) = map_option mu_Authority m"

text \<open>
  Rejections: a message without a body, or whose sender the authority check refuses, is rejected and
  changes nothing; any other rejected message changes nothing either, with one exception, a
  revocation by the authority that fails after the approval has been removed, where that removal
  is left in the state of the failed transaction.
\<close>

theorem rejected_messages_change_nothing:
  "(case msg_authority msg of
      None \<Rightarrow> \<exists>e. exec_msg env st msg s = (Inl e, s)
    | Some a \<Rightarrow> (case ValidateAuthority env (GetAuthority (adm_store s)) a of
          Inl e \<Rightarrow> exec_msg env st msg s = (Inl e, s)
        | Inr _ \<Rightarrow> (case exec_msg env st msg s of
              (Inr _, t) \<Rightarrow> admission_step env st msg s t
            | (Inl e, t) \<Rightarrow> t = s \<or> (\<exists>req. msg = Revoke (Some req) \<and>
                adm_store t = SetApprovedValidator (mr_ValidatorAddress req) False (adm_store s)))))"
proof (cases "exec_msg env st msg s")
  case (Pair r t)
  have "t = s \<or> (\<exists>req. msg = Revoke (Some req) \<and>
      adm_store t = SetApprovedValidator (mr_ValidatorAddress req) False (adm_store s))" if "r = Inl e" for e
  proof (cases msg)
    case (Revoke m)
    then show ?thesis using Revoke_err [of env st m s e t] Pair that by auto
  qed (use Pair that Approve_err Update_err in auto)
  moreover have "exec_msg env st msg s = (Inl e, s)"
    if "msg_authority msg = Some a" "ValidateAuthority env (GetAuthority (adm_store s)) a = Inl e" for a e
    using that by (cases msg) (auto simp: ApproveValidator_def RevokeValidator_def UpdateParams_def
        validateAuthority_def thenE_def bindE_def)
  moreover have "\<exists>e. exec_msg env st msg s = (Inl e, s)" if "msg_authority msg = None"
    using that by (cases msg) (auto simp: ApproveValidator_def RevokeValidator_def UpdateParams_def)
  ultimately show ?thesis
    using Pair by (auto simp: admission_step_def split: option.split sum.split)
qed

section \<open>Genesis round trip\<close>

lemma fold_approved:
  "fold (\<lambda>a. SetApprovedValidator a True) as m =
     (\<lambda>k. if \<exists>a\<in>set as. k = KeyApprovedValidatorPrefix @ a then Some [CHR 0x01] else m k)"
proof (induction as arbitrary: m)
  case (Cons a as)
  then show ?case by (auto simp: SetApprovedValidator_def kv_set_def fun_eq_iff)
qed simp

lemma InitGenesis_cong:
  "gs_Authority g = gs_Authority h \<Longrightarrow> Policy g = Policy h \<Longrightarrow>
   set (gs_ApprovedValidators g) = set (gs_ApprovedValidators h) \<Longrightarrow> InitGenesis g m = InitGenesis h m"
  by (simp add: InitGenesis_def fold_approved)

lemma Policy_idem:
  "gs_MaxApprovedValidators g = fst (Policy h) \<Longrightarrow> gs_MinimumSelfDelegation g = snd (Policy h) \<Longrightarrow> Policy g = Policy h"
  by (auto simp: Policy_def DefaultPolicy_def DefaultMaxApprovedValidators_def DefaultMinimumSelfDelegation_def)

lemma sort_eq_Nil: "sort xs = [] \<longleftrightarrow> xs = []"
  by (metis length_0_conv length_sort)

lemma exported_validators:
  assumes "finite (dom m)"
  shows "gs_ApprovedValidators (ExportGenesis m) = sorted_list_of_set (approved m)"
proof -
  let ?ks = "prefix_keys m [CHR 0x02]"
  have keys: "set ?ks = (\<lambda>r. CHR 0x02 # r) ` approved m"
    using prefix_keys_props(1) [OF assms, of "[CHR 0x02]"] by (auto simp: approved_def under_prefix_def)
  have "inj_on (drop 1) (set ?ks)" by (auto simp: keys inj_on_def)
  then have "distinct (map (drop 1) ?ks)" using prefix_keys_props(2) [OF assms] by (simp add: distinct_map)
  moreover have "set (map (drop 1) ?ks) = approved m" by (auto simp: keys image_image)
  moreover have "gs_ApprovedValidators (ExportGenesis m) = sort (map (drop 1) ?ks)"
    by (simp add: ExportGenesis_def KeyApprovedValidatorPrefix_def)
  ultimately show ?thesis
    using sorted_distinct_set_unique [of "sort (map (drop 1) ?ks)" "sorted_list_of_set (approved m)"]
      under_prefix_finite [OF assms] by (simp add: approved_def)
qed

text \<open>
  C34. Genesis round trip: the state exported from a chain that was just started from an accepted genesis
  state is that genesis state with the policy defaults filled in and the validators sorted, and
  starting a chain from the export is accepted and gives the same store.
\<close>

theorem admission_genesis_round_trip:
  assumes "AppInitGenesis env g Map.empty = (Inr (), m)"
  shows "ExportGenesis m = g\<lparr>gs_ApprovedValidators := sort (gs_ApprovedValidators g),
      gs_MaxApprovedValidators := fst (Policy g), gs_MinimumSelfDelegation := snd (Policy g)\<rparr> \<and>
    AppInitGenesis env (ExportGenesis m) Map.empty = (Inr (), m)"
proof -
  have v: "Validate env g = Inr ()" and m: "m = InitGenesis g Map.empty"
    using assms by (auto simp: AppInitGenesis_ok)
  have dist: "distinct (gs_ApprovedValidators g)"
    using v by (auto simp: Validate_iff validators_loop_ok split: if_splits)
  have "sorted_list_of_set (approved m) = sort (gs_ApprovedValidators g)"
    using dist by (simp add: m InitGenesis_reads sorted_list_of_set_sort_remdups distinct_remdups_id)
  then have vals: "gs_ApprovedValidators (ExportGenesis m) = sort (gs_ApprovedValidators g)"
    using exported_validators [of m] by (simp add: m InitGenesis_reads)
  have rest: "gs_Authority (ExportGenesis m) = gs_Authority g"
    "gs_MaxApprovedValidators (ExportGenesis m) = fst (Policy g)"
    "gs_MinimumSelfDelegation (ExportGenesis m) = snd (Policy g)"
    by (simp_all add: ExportGenesis_def m InitGenesis_reads)
  have pol: "Policy (ExportGenesis m) = Policy g" using rest(2,3) by (rule Policy_idem)
  have "Validate env (ExportGenesis m) = Inr ()"
    using v dist by (auto simp: Validate_iff pol vals rest(1) validators_loop_ok sort_eq_Nil split: if_splits)
  moreover have "InitGenesis (ExportGenesis m) Map.empty = m"
    unfolding m by (rule InitGenesis_cong) (use vals rest pol m in simp_all)
  ultimately have "AppInitGenesis env (ExportGenesis m) Map.empty = (Inr (), m)" by (simp add: AppInitGenesis_ok)
  moreover have "ExportGenesis m = g\<lparr>gs_ApprovedValidators := sort (gs_ApprovedValidators g),
      gs_MaxApprovedValidators := fst (Policy g), gs_MinimumSelfDelegation := snd (Policy g)\<rparr>"
    using vals rest by (cases "ExportGenesis m"; cases g) simp
  ultimately show ?thesis by blast
qed

theorem admission_genesis_round_trip_witness:
  "gs_ApprovedValidators (ExportGenesis (adm_store demo_admitted)) = [''v1'', ''v2'']"
proof -
  have "ExportGenesis (InitGenesis demo_genesis Map.empty) = demo_genesis\<lparr>gs_ApprovedValidators := sort [''v2'', ''v1''],
      gs_MaxApprovedValidators := 3, gs_MinimumSelfDelegation := DefaultMinimumSelfDelegation\<rparr>"
    using conjunct1 [OF admission_genesis_round_trip [OF demo_genesis_ok]] by simp
  then show ?thesis by (simp add: demo_admitted_def less_char_def)
qed

end
