(* ===== verification/Dec.thy ===== *)
theory Dec
  imports Go_Values
begin

text \<open>
  Decimal numbers of the SDK (\<^verbatim>\<open>sdkmath.LegacyDec\<close>), code outside the repository. A decimal
  is its number of \<open>10 ^ (-18)\<close> units, so comparison, sign and the conversion of a whole number
  are those of the integers; the other operations are parameters, and \<open>dec_laws\<close> states what
  their documentation promises: products are rounded to the nearest unit, quotients by an integer
  and \<^verbatim>\<open>TruncateInt\<close> truncate, sums and differences are exact, and a result of more than
  315 bits panics.
\<close>

type_synonym dec = int

definition dec_unit :: int where "dec_unit = 10 ^ 18"

definition LegacyNewDec :: "int \<Rightarrow> dec" where
  "LegacyNewDec n = n * dec_unit"

record dec_ops =
  DMul :: "dec \<Rightarrow> dec \<Rightarrow> dec result"
  DMulInt :: "dec \<Rightarrow> int \<Rightarrow> dec result"
  DQuoInt :: "dec \<Rightarrow> int \<Rightarrow> dec result"
  DAdd :: "dec \<Rightarrow> dec \<Rightarrow> dec result"
  DSub :: "dec \<Rightarrow> dec \<Rightarrow> dec result"
  DTruncateInt :: "dec \<Rightarrow> int"
  DCeilInt :: "dec \<Rightarrow> int"

definition dec_fits :: "dec \<Rightarrow> bool" where
  "dec_fits d \<longleftrightarrow> \<bar>d\<bar> < 2 ^ 315"

definition dec_result :: "dec \<Rightarrow> dec result" where
  "dec_result d = (if dec_fits d then Inr d else Inl (Panic ''Int overflow''))"

text \<open>\<open>DCeilInt\<close> is \<^verbatim>\<open>Ceil().RoundInt()\<close>, the least whole number not below the decimal.\<close>

definition dec_laws :: "dec_ops \<Rightarrow> bool" where
  "dec_laws D \<longleftrightarrow>
     (\<forall>a b. \<exists>r. 2 * \<bar>r * dec_unit - a * b\<bar> \<le> dec_unit \<and> DMul D a b = dec_result r) \<and>
     (\<forall>a n. DMulInt D a n = dec_result (a * n)) \<and>
     (\<forall>a n. DQuoInt D a n = (if n = 0 then Inl (Panic ''division by zero'') else Inr (go_div a n))) \<and>
     (\<forall>a b. DAdd D a b = dec_result (a + b)) \<and> (\<forall>a b. DSub D a b = dec_result (a - b)) \<and>
     (\<forall>a. DTruncateInt D a = go_div a dec_unit) \<and> (\<forall>a. DCeilInt D a = - ((- a) div dec_unit))"

lemma dec_unit_pos [simp]: "0 < dec_unit" "dec_unit \<noteq> 0"
  by (simp_all add: dec_unit_def)

lemma dec_result_ok [handler_simps]: "dec_result d = Inr e \<longleftrightarrow> dec_fits d \<and> e = d"
  by (auto simp: dec_result_def)

lemma dec_mul_law:
  "dec_laws D \<Longrightarrow> \<exists>r. 2 * \<bar>r * dec_unit - a * b\<bar> \<le> dec_unit \<and> DMul D a b = dec_result r"
  by (simp only: dec_laws_def)

text \<open>A product with a whole number is exact: there is nothing to round.\<close>

lemma dec_mul_whole:
  assumes "dec_laws D"
  shows "DMul D (LegacyNewDec n) b = dec_result (n * b)" "DMul D b (LegacyNewDec n) = dec_result (n * b)"
proof -
  have exact: "r = n * b" if "2 * \<bar>r * dec_unit - n * dec_unit * b\<bar> \<le> dec_unit" for r :: int
  proof -
    define k where "k = r - n * b"
    have "r * dec_unit - n * dec_unit * b = k * dec_unit" by (simp add: k_def left_diff_distrib)
    then have le: "2 * (\<bar>k\<bar> * dec_unit) \<le> dec_unit" using that
      by (simp only: abs_mult abs_of_pos [OF dec_unit_pos(1)])
    have "\<not> 1 \<le> \<bar>k\<bar>"
    proof
      assume "1 \<le> \<bar>k\<bar>"
      then have "dec_unit \<le> \<bar>k\<bar> * dec_unit" using mult_right_mono [of 1 "\<bar>k\<bar>" dec_unit] by simp
      then show False using le dec_unit_pos(1) by linarith
    qed
    then show ?thesis by (simp add: k_def)
  qed
  obtain r where r: "2 * \<bar>r * dec_unit - LegacyNewDec n * b\<bar> \<le> dec_unit" "DMul D (LegacyNewDec n) b = dec_result r"
    using dec_mul_law [OF assms, of "LegacyNewDec n" b] by blast
  have "r = n * b" by (rule exact) (use r(1) in \<open>simp only: LegacyNewDec_def\<close>)
  with r(2) show "DMul D (LegacyNewDec n) b = dec_result (n * b)" by simp
  obtain q where q: "2 * \<bar>q * dec_unit - b * LegacyNewDec n\<bar> \<le> dec_unit" "DMul D b (LegacyNewDec n) = dec_result q"
    using dec_mul_law [OF assms, of b "LegacyNewDec n"] by blast
  have "b * LegacyNewDec n = n * dec_unit * b" by (simp add: LegacyNewDec_def)
  with q(1) have "q = n * b" by (intro exact) simp
  with q(2) show "DMul D b (LegacyNewDec n) = dec_result (n * b)" by simp
qed

lemma dec_laws_ops:
  assumes "dec_laws D"
  shows "DMulInt D a n = dec_result (a * n)"
    "DQuoInt D a n = (if n = 0 then Inl (Panic ''division by zero'') else Inr (go_div a n))"
    "DAdd D a b = dec_result (a + b)" "DSub D a b = dec_result (a - b)"
    "DTruncateInt D a = go_div a dec_unit" "DCeilInt D a = - ((- a) div dec_unit)"
  using assms by (simp_all only: dec_laws_def)

lemma go_div_zero [simp]: "go_div 0 n = 0"
  by (simp add: go_div_def)

lemma div_le_dividend_int: "0 \<le> a \<Longrightarrow> 0 < n \<Longrightarrow> a div n \<le> (a :: int)"
  using zdiv_mono2 [of a 1 n] by simp

lemma go_div_bounds: "0 \<le> a \<Longrightarrow> 0 < n \<Longrightarrow> 0 \<le> go_div a n \<and> go_div a n \<le> a"
  by (simp add: go_div_nonneg pos_imp_zdiv_nonneg_iff div_le_dividend_int)

text \<open>The operations on integers, with rounding half up; they satisfy the laws.\<close>

definition int_dec_ops :: dec_ops where
  "int_dec_ops =
     \<lparr>DMul = (\<lambda>a b. dec_result ((2 * a * b + dec_unit) div (2 * dec_unit))),
      DMulInt = (\<lambda>a n. dec_result (a * n)),
      DQuoInt = (\<lambda>a n. if n = 0 then Inl (Panic ''division by zero'') else Inr (go_div a n)),
      DAdd = (\<lambda>a b. dec_result (a + b)), DSub = (\<lambda>a b. dec_result (a - b)),
      DTruncateInt = (\<lambda>a. go_div a dec_unit), DCeilInt = (\<lambda>a. - ((- a) div dec_unit))\<rparr>"

lemma int_dec_laws: "dec_laws int_dec_ops"
proof -
  have near: "2 * \<bar>r * dec_unit - a * b\<bar> \<le> dec_unit" if "r = (2 * a * b + dec_unit) div (2 * dec_unit)" for r a b :: int
  proof -
    define x u where "x = 2 * a * b + dec_unit" and "u = 2 * dec_unit"
    have "u * (x div u) + x mod u = x" by (rule mult_div_mod_eq)
    moreover have "0 \<le> x mod u" "x mod u < u" by (simp_all add: u_def)
    ultimately have "u * r \<le> x" "x < u * r + u" unfolding that x_def [symmetric] u_def [symmetric] by linarith+
    moreover have "u * r = 2 * (r * dec_unit)" "x = 2 * (a * b) + dec_unit" by (simp_all add: u_def x_def)
    ultimately have "- dec_unit \<le> 2 * (r * dec_unit - a * b)" "2 * (r * dec_unit - a * b) \<le> dec_unit"
      unfolding u_def right_diff_distrib by linarith+
    then show ?thesis by (cases "0 \<le> r * dec_unit - a * b") simp_all
  qed
  have mul: "\<exists>r. 2 * \<bar>r * dec_unit - a * b\<bar> \<le> dec_unit \<and> DMul int_dec_ops a b = dec_result r" for a b
    by (rule exI, rule conjI, rule near [OF refl]) (simp add: int_dec_ops_def)
  show ?thesis unfolding dec_laws_def
    by (intro conjI allI; (rule mul)?) (simp_all add: int_dec_ops_def)
qed

end
