(* ===== verification/Evm_Denom.thy ===== *)
theory Evm_Denom
  imports Dec
begin

text \<open>
  The coin of the EVM (\<^verbatim>\<open>src/x/vm/types/denom.go\<close>, \<^verbatim>\<open>denom_config.go\<close>,
  \<^verbatim>\<open>scaling.go\<close>): supported decimals and their conversion factors, the coin information that
  is set once at start-up, and the conversions of amounts and denominations. The global variable
  \<^verbatim>\<open>evmCoinInfo\<close> is an option: reading it before it is set panics.
\<close>

section \<open>Decimals\<close>

type_synonym Decimals = uint32

definition EighteenDecimals :: Decimals where "EighteenDecimals = 18"

text \<open>The table of the code; a missing entry is the zero value of \<^verbatim>\<open>math.Int\<close>, which holds no number.\<close>

definition ConversionFactor :: "Decimals \<Rightarrow> int option" where
  "ConversionFactor = map_of
     [(1, 10 ^ 17), (2, 10 ^ 16), (3, 10 ^ 15), (4, 10 ^ 14), (5, 10 ^ 13), (6, 10 ^ 12), (7, 10 ^ 11),
      (8, 10 ^ 10), (9, 10 ^ 9), (10, 10 ^ 8), (11, 10 ^ 7), (12, 10 ^ 6), (13, 10 ^ 5), (14, 10 ^ 4),
      (15, 10 ^ 3), (16, 10 ^ 2), (17, 10 ^ 1), (18, 10 ^ 0)]"

definition Decimals_Validate :: "Decimals \<Rightarrow> unit result" where
  "Decimals_Validate d = require (0 < d \<and> d \<le> EighteenDecimals) (Err ''received unsupported decimals'')"

section \<open>Coin information\<close>

record EvmCoinInfo =
  ci_Denom :: string
  ci_ExtendedDenom :: string
  ci_DisplayDenom :: string
  ci_Decimals :: uint32

definition validateCoinInfo :: "(string \<Rightarrow> unit result) \<Rightarrow> EvmCoinInfo \<Rightarrow> unit result" where
  "validateCoinInfo ValidateDenom info =
     (case ValidateDenom (ci_Denom info) of Inl e \<Rightarrow> Inl (Err ''invalid EVM denom'') | Inr _ \<Rightarrow>
      case ValidateDenom (ci_ExtendedDenom info) of Inl e \<Rightarrow> Inl (Err ''invalid EVM extended denom'') | Inr _ \<Rightarrow>
      case ValidateDenom (ci_DisplayDenom info) of Inl e \<Rightarrow> Inl (Err ''invalid EVM display denom'') | Inr _ \<Rightarrow>
      case Decimals_Validate (ci_Decimals info) of Inl e \<Rightarrow> Inl (Err ''invalid EVM decimals'') | Inr _ \<Rightarrow>
        thenR (require (ci_Decimals info = EighteenDecimals) (Err ''unsupported EVM decimals''))
          (require (ci_Denom info = ci_ExtendedDenom info)
            (Err ''EVM denom and extended denom must be the same for 18 decimals'')))"

definition setCoinInfo :: "(string \<Rightarrow> unit result) \<Rightarrow> EvmCoinInfo \<Rightarrow> (EvmCoinInfo option, unit) handler" where
  "setCoinInfo ValidateDenom info =
     thenE (liftE (validateCoinInfo ValidateDenom info)) (modifyE (\<lambda>_. Some info))"

definition getCoinInfo :: "EvmCoinInfo option \<Rightarrow> EvmCoinInfo result" where
  "getCoinInfo g = of_option (Panic ''global evmCoinInfo is not set yet!'') g"

definition GetEVMCoinDecimals :: "EvmCoinInfo option \<Rightarrow> Decimals result" where
  "GetEVMCoinDecimals g = bindR (getCoinInfo g) (\<lambda>i. Inr (ci_Decimals i))"

definition GetEVMCoinDenom :: "EvmCoinInfo option \<Rightarrow> string result" where
  "GetEVMCoinDenom g = bindR (getCoinInfo g) (\<lambda>i. Inr (ci_Denom i))"

definition GetEVMCoinExtendedDenom :: "EvmCoinInfo option \<Rightarrow> string result" where
  "GetEVMCoinExtendedDenom g = bindR (getCoinInfo g) (\<lambda>i. Inr (ci_ExtendedDenom i))"

text \<open>The factor of the configured coin; arithmetic with an empty \<^verbatim>\<open>math.Int\<close> is a nil dereference.\<close>

definition coin_factor :: "EvmCoinInfo option \<Rightarrow> int result" where
  "coin_factor g = bindR (GetEVMCoinDecimals g) (\<lambda>d.
     of_option (Panic ''nil pointer dereference'') (ConversionFactor d))"

section \<open>Conversion of amounts and denominations\<close>

definition ConvertAmountTo18DecimalsLegacy :: "dec_ops \<Rightarrow> EvmCoinInfo option \<Rightarrow> dec \<Rightarrow> dec result" where
  "ConvertAmountTo18DecimalsLegacy D g amt = bindR (coin_factor g) (\<lambda>f. DMulInt D amt f)"

definition ConvertAmountTo18DecimalsBigInt :: "EvmCoinInfo option \<Rightarrow> int \<Rightarrow> int result" where
  "ConvertAmountTo18DecimalsBigInt g amt = bindR (coin_factor g) (\<lambda>f. Inr (amt * f))"

text \<open>The product of two 256-bit numbers wraps around.\<close>

definition ConvertAmountTo18Decimals256Int :: "EvmCoinInfo option \<Rightarrow> uint256 \<Rightarrow> uint256 result" where
  "ConvertAmountTo18Decimals256Int g amt =
     bindR (coin_factor g) (\<lambda>f. Inr (amt * ucast (word_of_int f :: uint64)))"

definition ConvertBigIntFrom18DecimalsToLegacyDec :: "dec_ops \<Rightarrow> EvmCoinInfo option \<Rightarrow> int \<Rightarrow> dec result" where
  "ConvertBigIntFrom18DecimalsToLegacyDec D g amt =
     bindR (coin_factor g) (\<lambda>f. DQuoInt D (LegacyNewDec amt) f)"

definition ConvertEvmCoinDenomToExtendedDenom ::
  "EvmCoinInfo option \<Rightarrow> string \<times> int \<Rightarrow> (string \<times> int) result" where
  "ConvertEvmCoinDenomToExtendedDenom g c =
     bindR (GetEVMCoinDenom g) (\<lambda>denom.
     thenR (require (fst c = denom) (Err ''expected coin denom'')) (
     bindR (GetEVMCoinExtendedDenom g) (\<lambda>ext. Inr (ext, snd c))))"

section \<open>What configuration guarantees\<close>

lemma setCoinInfo_ok:
  assumes "setCoinInfo vd info g = (Inr (), h)"
  shows "h = Some info" "ci_Decimals info = 18" "ci_Denom info = ci_ExtendedDenom info"
  using assms
  by (auto simp: setCoinInfo_def validateCoinInfo_def handler_simps EighteenDecimals_def split: sum.splits)

lemma coin_factor_configured: "ci_Decimals info = 18 \<Longrightarrow> coin_factor (Some info) = Inr 1"
  by (simp add: coin_factor_def GetEVMCoinDecimals_def getCoinInfo_def of_option_def bindR_def ConversionFactor_def)

text \<open>
  With every configuration that start-up accepts, the conversions between the coin of the chain
  and the 18-decimal representation of the EVM are the identity: no amount is scaled, rounded or
  wrapped, and converting a whole amount back gives it again.
\<close>

theorem configured_conversions_identity:
  assumes "dec_laws D" "setCoinInfo vd info g = (Inr (), h)" "dec_fits d"
  shows "ConvertAmountTo18DecimalsLegacy D h d = Inr d \<and>
    ConvertAmountTo18DecimalsBigInt h n = Inr n \<and> ConvertAmountTo18Decimals256Int h w = Inr w \<and>
    ConvertBigIntFrom18DecimalsToLegacyDec D h n = Inr (LegacyNewDec n) \<and>
    ConvertEvmCoinDenomToExtendedDenom h (ci_Denom info, n) = Inr (ci_Denom info, n)"
proof -
  note conf = setCoinInfo_ok [OF assms(2)]
  note f = coin_factor_configured [OF conf(2)]
  have "go_div a 1 = a" for a :: int by (cases "0 \<le> a") (simp_all add: go_div_def sgn_if)
  then show ?thesis
    using assms(1,3) conf
    by (simp add: ConvertAmountTo18DecimalsLegacy_def ConvertAmountTo18DecimalsBigInt_def
        ConvertAmountTo18Decimals256Int_def ConvertBigIntFrom18DecimalsToLegacyDec_def
        ConvertEvmCoinDenomToExtendedDenom_def GetEVMCoinDenom_def GetEVMCoinExtendedDenom_def getCoinInfo_def
        f bindR_def thenR_def require_def of_option_def dec_laws_ops dec_result_def)
qed

definition demo_coin :: EvmCoinInfo where
  "demo_coin = \<lparr>ci_Denom = ''axtc'', ci_ExtendedDenom = ''axtc'', ci_DisplayDenom = ''xtc'', ci_Decimals = 18\<rparr>"

lemma demo_coin_set: "setCoinInfo (\<lambda>_. Inr ()) demo_coin None = (Inr (), Some demo_coin)"
  by (simp add: setCoinInfo_def demo_coin_def validateCoinInfo_def Decimals_Validate_def EighteenDecimals_def
      require_def thenR_def bindR_def thenE_def bindE_def)

theorem configured_conversions_identity_witness:
  "ConvertAmountTo18DecimalsLegacy int_dec_ops (Some demo_coin) 7 = Inr 7"
  using configured_conversions_identity [OF int_dec_laws demo_coin_set, of 7] by (simp add: dec_fits_def)

end
