(* ===== verification/Feemarket.thy ===== *)
theory Feemarket
  imports Evm_Denom
begin

text \<open>
  The fee market (\<^verbatim>\<open>src/x/feemarket\<close>): parameters and their validation, the EIP-1559 base
  fee formula, the begin- and end-block handlers, the parameter update, queries and genesis, and the
  view of the fee market that the EVM uses (\<^verbatim>\<open>src/x/vm/wrappers/feemarket.go\<close> and
  \<^verbatim>\<open>GetBaseFee\<close> of \<^verbatim>\<open>src/x/vm/types/utils.go\<close>). A decimal that was never set
  is \<^verbatim>\<open>None\<close>; using it is a nil dereference.
\<close>

section \<open>Parameters\<close>

record Params =
  NoBaseFee :: bool
  BaseFeeChangeDenominator :: uint32
  ElasticityMultiplier :: uint32
  BaseFee :: "dec option"
  EnableHeight :: int
  MinGasPrice :: "dec option"
  MinGasMultiplier :: "dec option"

text \<open>
  Outside code: decimals, the protobuf codec of the parameters, the SDK's \<^verbatim>\<open>uint64\<close>
  encoding, decimal output, the authority check and address parsing, and go-ethereum's two
  constants.
\<close>

record feemarket_env =
  fm_dec :: dec_ops
  MarshalParams :: "Params \<Rightarrow> bytes result"
  UnmarshalParams :: "bytes \<Rightarrow> Params result"
  Uint64ToBigEndian :: "uint64 \<Rightarrow> bytes"
  BigEndianToUint64 :: "bytes \<Rightarrow> uint64"
  DecString :: "dec \<Rightarrow> string"
  fm_ValidateAuthority :: "string \<Rightarrow> string \<Rightarrow> unit result"
  fm_AccAddressFromBech32 :: "string \<Rightarrow> bytes result"
  DefaultBaseFeeChangeDenominator :: uint32
  DefaultElasticityMultiplier :: uint32

definition the_dec :: "dec option \<Rightarrow> dec result" where
  "the_dec d = of_option (Panic ''nil pointer dereference'') d"

definition DefaultParams :: "feemarket_env \<Rightarrow> Params" where
  "DefaultParams env =
     \<lparr>NoBaseFee = False, BaseFeeChangeDenominator = DefaultBaseFeeChangeDenominator env,
      ElasticityMultiplier = DefaultElasticityMultiplier env, BaseFee = Some (LegacyNewDec 1000000000),
      EnableHeight = 0, MinGasPrice = Some 0, MinGasMultiplier = Some (50 * 10 ^ 16)\<rparr>"

definition validateMinGasPrice :: "dec option \<Rightarrow> unit result" where
  "validateMinGasPrice gasPrice = (case gasPrice of
       None \<Rightarrow> Inl (Err ''invalid parameter: nil'')
     | Some p \<Rightarrow> require (\<not> p < 0) (Err ''value cannot be negative''))"

definition validateMinGasMultiplier :: "dec option \<Rightarrow> unit result" where
  "validateMinGasMultiplier multiplier = (case multiplier of
       None \<Rightarrow> Inl (Err ''invalid parameter: nil'')
     | Some p \<Rightarrow>
         thenR (require (\<not> p < 0) (Err ''value cannot be negative''))
           (require (\<not> LegacyNewDec 1 < p) (Err ''value cannot be greater than 1'')))"

definition Params_Validate :: "Params \<Rightarrow> unit result" where
  "Params_Validate p =
     thenR (require (BaseFeeChangeDenominator p \<noteq> 0) (Err ''base fee change denominator cannot be 0'')) (
     bindR (the_dec (BaseFee p)) (\<lambda>fee.
     thenR (require (\<not> fee < 0) (Err ''initial base fee cannot be negative'')) (
     thenR (require (\<not> EnableHeight p < 0) (Err ''enable height cannot be negative'')) (
     thenR (require (ElasticityMultiplier p \<noteq> 0) (Err ''elasticity multiplier cannot be zero'')) (
     thenR (validateMinGasMultiplier (MinGasMultiplier p))
       (validateMinGasPrice (MinGasPrice p)))))))"

definition IsBaseFeeEnabled :: "Params \<Rightarrow> int \<Rightarrow> bool" where
  "IsBaseFeeEnabled p height \<longleftrightarrow> \<not> NoBaseFee p \<and> height \<ge> EnableHeight p"

section \<open>The base fee formula\<close>

definition CalcGasBaseFee :: "dec_ops \<Rightarrow> uint64 \<Rightarrow> uint64 \<Rightarrow> uint64 \<Rightarrow> dec \<Rightarrow> dec \<Rightarrow> dec option \<Rightarrow> dec result" where
  "CalcGasBaseFee D gasUsed gasTarget baseFeeChangeDenom baseFee minUnitGas minGasPrice =
     (if gasUsed = gasTarget then Inr baseFee
      else if gasTarget = 0 then Inr 0
      else
        bindR (DMul D (LegacyNewDec \<bar>uint gasUsed - uint gasTarget\<bar>) baseFee) (\<lambda>num1.
        bindR (DQuoInt D num1 (uint gasTarget)) (\<lambda>num2.
        bindR (DQuoInt D num2 (uint baseFeeChangeDenom)) (\<lambda>num.
        if gasUsed > gasTarget then DAdd D baseFee (max num minUnitGas)
        else bindR (DSub D baseFee num) (\<lambda>d. bindR (the_dec minGasPrice) (\<lambda>p. Inr (max d p)))))))"

section \<open>Keeper\<close>

definition ParamsKey :: bytes where "ParamsKey = ''Params''"
definition KeyPrefixBlockGasWanted :: bytes where "KeyPrefixBlockGasWanted = [CHR 0x01]"

type_synonym event = "string \<times> (string \<times> string) list"

record fm_state =
  fm_store :: kv
  fm_events :: "event list"

type_synonym 'a fm_op = "(fm_state, 'a) handler"

definition GetParams :: "feemarket_env \<Rightarrow> kv \<Rightarrow> Params result" where
  "GetParams env m = (case m ParamsKey of None \<Rightarrow> Inr (DefaultParams env) | Some bz \<Rightarrow> UnmarshalParams env bz)"

definition fmE :: "(kv \<Rightarrow> kv) \<Rightarrow> unit fm_op" where
  "fmE f = modifyE (\<lambda>s. s\<lparr>fm_store := f (fm_store s)\<rparr>)"

definition fm_emit :: "event \<Rightarrow> unit fm_op" where
  "fm_emit e = modifyE (\<lambda>s. s\<lparr>fm_events := fm_events s @ [e]\<rparr>)"

definition SetParams :: "feemarket_env \<Rightarrow> Params \<Rightarrow> unit fm_op" where
  "SetParams env p = bindE (liftE (MarshalParams env p)) (\<lambda>bz. fmE (kv_set ParamsKey bz))"

definition GetBaseFee :: "feemarket_env \<Rightarrow> kv \<Rightarrow> dec option result" where
  "GetBaseFee env m = bindR (GetParams env m) (\<lambda>p. Inr (if NoBaseFee p then None else BaseFee p))"

text \<open>An error of \<^verbatim>\<open>SetParams\<close> is dropped by the code.\<close>

definition SetBaseFee :: "feemarket_env \<Rightarrow> dec \<Rightarrow> unit fm_op" where
  "SetBaseFee env baseFee =
     bindE (readE (\<lambda>s. GetParams env (fm_store s))) (\<lambda>p.
     \<lambda>s. case SetParams env (p\<lparr>BaseFee := Some baseFee\<rparr>) s of
           (Inl (Panic e), t) \<Rightarrow> (Inl (Panic e), t)
         | (Inl (Err e), t) \<Rightarrow> (Inr (), t)
         | (Inr _, t) \<Rightarrow> (Inr (), t))"

definition SetBlockGasWanted :: "feemarket_env \<Rightarrow> uint64 \<Rightarrow> kv \<Rightarrow> kv" where
  "SetBlockGasWanted env gas = kv_set KeyPrefixBlockGasWanted (Uint64ToBigEndian env gas)"

definition GetBlockGasWanted :: "feemarket_env \<Rightarrow> kv \<Rightarrow> uint64" where
  "GetBlockGasWanted env m = BigEndianToUint64 env (kv_get m KeyPrefixBlockGasWanted)"

text \<open>What the code reads of the block's context; \<^verbatim>\<open>MaxGas\<close> is absent when the consensus parameters have no block part.\<close>

record block_ctx =
  BlockHeight :: int
  ConsMaxGas :: "int option"
  BlockGasMeter :: bool
  BlockGasWanted :: uint64
  BlockGasUsed :: uint64

definition block_gas_limit :: "block_ctx \<Rightarrow> int" where
  "block_gas_limit ctx = (case ConsMaxGas ctx of
       Some g \<Rightarrow> if g > -1 then g else 2 ^ 64 - 1 | None \<Rightarrow> 2 ^ 64 - 1)"

definition CalculateBaseFee ::
  "feemarket_env \<Rightarrow> EvmCoinInfo option \<Rightarrow> block_ctx \<Rightarrow> kv \<Rightarrow> dec option result" where
  "CalculateBaseFee env coin ctx m =
     bindR (GetParams env m) (\<lambda>p.
     if \<not> IsBaseFeeEnabled p (BlockHeight ctx) then Inr None
     else if BlockHeight ctx = EnableHeight p then Inr (BaseFee p)
     else (case BaseFee p of
        None \<Rightarrow> Inr None
      | Some parentBaseFee \<Rightarrow>
          thenR (require (ElasticityMultiplier p \<noteq> 0) (Panic ''division by zero'')) (
          let target = go_div (block_gas_limit ctx) (uint (ElasticityMultiplier p)) in
          if \<not> (0 \<le> target \<and> target < 2 ^ 64) then Inr None
          else
            bindR (coin_factor coin) (\<lambda>factor.
            bindR (DQuoInt (fm_dec env) (LegacyNewDec 1) factor) (\<lambda>minUnit.
            bindR (CalcGasBaseFee (fm_dec env) (GetBlockGasWanted env m) (word_of_int target)
                (ucast (BaseFeeChangeDenominator p)) parentBaseFee minUnit (MinGasPrice p)) (\<lambda>fee.
            Inr (Some fee)))))))"

section \<open>Block handlers\<close>

definition BeginBlock :: "feemarket_env \<Rightarrow> EvmCoinInfo option \<Rightarrow> block_ctx \<Rightarrow> unit fm_op" where
  "BeginBlock env coin ctx =
     bindE (readE (\<lambda>s. CalculateBaseFee env coin ctx (fm_store s))) (\<lambda>fee.
     case fee of
       None \<Rightarrow> okE ()
     | Some baseFee \<Rightarrow>
         thenE (SetBaseFee env baseFee)
           (fm_emit (''fee_market'', [(''base_fee'', DecString env baseFee)])))"

definition MaxInt64 :: int where "MaxInt64 = 2 ^ 63 - 1"

definition EndBlock :: "feemarket_env \<Rightarrow> block_ctx \<Rightarrow> unit fm_op" where
  "EndBlock env ctx =
     thenE (requireE (BlockGasMeter ctx) (Err ''block gas meter is nil when setting block gas wanted'')) (
     thenE (requireE (\<not> uint (BlockGasWanted ctx) > MaxInt64) (Err ''integer overflow by integer type conversion. Gas wanted > MaxInt64'')) (
     thenE (requireE (\<not> uint (BlockGasUsed ctx) > MaxInt64) (Err ''integer overflow by integer type conversion. Gas used > MaxInt64'')) (
     bindE (readE (\<lambda>s. GetParams env (fm_store s))) (\<lambda>p.
     bindE (liftE (the_dec (MinGasMultiplier p))) (\<lambda>multiplier.
     bindE (liftE (DMul (fm_dec env) (LegacyNewDec (uint (BlockGasWanted ctx))) multiplier)) (\<lambda>limited.
     let wanted = DTruncateInt (fm_dec env) (max limited (LegacyNewDec (uint (BlockGasUsed ctx)))) in
     thenE (requireE (0 \<le> wanted \<and> wanted < 2 ^ 64) (Panic ''Uint64() out of bounds'')) (
     thenE (fmE (SetBlockGasWanted env (word_of_int wanted)))
       (fm_emit (''block_gas'', [(''height'', int_dec (BlockHeight ctx)), (''amount'', int_dec wanted)])))))))))"

section \<open>Messages, queries, genesis\<close>

record MsgUpdateParams =
  mu_Authority :: string
  mu_Params :: Params

definition mu_ValidateBasic :: "feemarket_env \<Rightarrow> MsgUpdateParams \<Rightarrow> unit result" where
  "mu_ValidateBasic env msg = (case fm_AccAddressFromBech32 env (mu_Authority msg) of
       Inl e \<Rightarrow> Inl (Err ''invalid authority address'')
     | Inr _ \<Rightarrow> Params_Validate (mu_Params msg))"

definition UpdateParams :: "feemarket_env \<Rightarrow> string \<Rightarrow> MsgUpdateParams \<Rightarrow> unit fm_op" where
  "UpdateParams env auth msg =
     thenE (liftE (fm_ValidateAuthority env auth (mu_Authority msg)))
       (SetParams env (mu_Params msg))"

definition QueryBlockGas :: "feemarket_env \<Rightarrow> kv \<Rightarrow> int result" where
  "QueryBlockGas env m =
     (let gas = uint (GetBlockGasWanted env m)
      in thenR (require (gas \<le> MaxInt64) (Err ''block gas is higher than MaxInt64'')) (Inr gas))"

record GenesisState =
  gen_Params :: Params
  gen_BlockGas :: uint64

definition InitGenesis :: "feemarket_env \<Rightarrow> GenesisState \<Rightarrow> unit fm_op" where
  "InitGenesis env data s = (case SetParams env (gen_Params data) s of
       (Inl e, t) \<Rightarrow> (Inl (Panic ''could not set parameters at genesis''), t)
     | (Inr _, t) \<Rightarrow> fmE (SetBlockGasWanted env (gen_BlockGas data)) t)"

definition ExportGenesis :: "feemarket_env \<Rightarrow> kv \<Rightarrow> GenesisState result" where
  "ExportGenesis env m =
     bindR (GetParams env m) (\<lambda>p. Inr \<lparr>gen_Params = p, gen_BlockGas = GetBlockGasWanted env m\<rparr>)"

section \<open>The view of the EVM\<close>

definition WGetBaseFee :: "feemarket_env \<Rightarrow> kv \<Rightarrow> Decimals \<Rightarrow> int result" where
  "WGetBaseFee env m decimals =
     bindR (GetBaseFee env m) (\<lambda>fee. case fee of
       None \<Rightarrow> Inr 0
     | Some d \<Rightarrow> (case Decimals_Validate decimals of
           Inl e \<Rightarrow> Inr 0
         | Inr _ \<Rightarrow> (case ConversionFactor decimals of
               None \<Rightarrow> Inr 0
             | Some conv \<Rightarrow> bindR (DMulInt (fm_dec env) d conv) (\<lambda>c. Inr (DTruncateInt (fm_dec env) c)))))"

definition WCalculateBaseFee ::
  "feemarket_env \<Rightarrow> EvmCoinInfo option \<Rightarrow> block_ctx \<Rightarrow> kv \<Rightarrow> int option result" where
  "WCalculateBaseFee env coin ctx m =
     bindR (CalculateBaseFee env coin ctx m) (\<lambda>fee. case fee of
       None \<Rightarrow> Inr None
     | Some d \<Rightarrow> bindR (ConvertAmountTo18DecimalsLegacy (fm_dec env) coin d) (\<lambda>c.
         Inr (Some (DTruncateInt (fm_dec env) c))))"

definition WGetParams :: "feemarket_env \<Rightarrow> EvmCoinInfo option \<Rightarrow> kv \<Rightarrow> Params result" where
  "WGetParams env coin m =
     bindR (GetParams env m) (\<lambda>p.
     bindR (case BaseFee p of
              None \<Rightarrow> Inr p
            | Some d \<Rightarrow> bindR (ConvertAmountTo18DecimalsLegacy (fm_dec env) coin d) (\<lambda>c. Inr (p\<lparr>BaseFee := Some c\<rparr>))) (\<lambda>q.
     bindR (the_dec (MinGasPrice q)) (\<lambda>d.
     bindR (ConvertAmountTo18DecimalsLegacy (fm_dec env) coin d) (\<lambda>c. Inr (q\<lparr>MinGasPrice := Some c\<rparr>)))))"

text \<open>\<^verbatim>\<open>evmtypes.GetBaseFee\<close>; whether the London rules apply is decided by go-ethereum's configuration.\<close>

definition EvmGetBaseFee :: "dec_ops \<Rightarrow> EvmCoinInfo option \<Rightarrow> bool \<Rightarrow> Params \<Rightarrow> int option result" where
  "EvmGetBaseFee D coin isLondon p =
     (if \<not> isLondon then Inr None
      else if NoBaseFee p then Inr (Some 0)
      else bindR (the_dec (BaseFee p)) (\<lambda>fee.
           if fee = 0 then Inr (Some 0)
           else bindR (ConvertAmountTo18DecimalsLegacy D coin fee) (\<lambda>c. Inr (Some (DTruncateInt D c)))))"

end
