(* ===== verification/Demo_Codec.thy ===== *)
theory Demo_Codec
  imports Go_Values
begin

text \<open>
  A text codec for lists of integers, decimal numbers separated by commas. The witnesses of the
  properties use it as the codec parameter of the modules whose own codec is outside code.
\<close>

fun split_on :: "char \<Rightarrow> string \<Rightarrow> string list" where
  "split_on c [] = [[]]"
| "split_on c (x # xs) = (if x = c then [] # split_on c xs
     else (case split_on c xs of [] \<Rightarrow> [[x]] | w # ws \<Rightarrow> (x # w) # ws))"

lemma split_on_neq_Nil [simp]: "split_on c xs \<noteq> []"
  by (induction xs) (auto split: list.split)

lemma split_on_plain: "c \<notin> set s \<Longrightarrow> split_on c s = [s]"
  by (induction s) auto

lemma split_on_append: "c \<notin> set s \<Longrightarrow> split_on c (s @ c # r) = s # split_on c r"
  by (induction s) auto

lemma split_on_Join: "ss \<noteq> [] \<Longrightarrow> \<forall>s\<in>set ss. c \<notin> set s \<Longrightarrow> split_on c (Join ss c) = ss"
  by (induction ss c rule: Join.induct) (auto simp: split_on_plain split_on_append)

definition encode_ints :: "int list \<Rightarrow> bytes" where
  "encode_ints ns = Join (map int_dec ns) (CHR '','')"

definition decode_ints :: "bytes \<Rightarrow> int list" where
  "decode_ints bz = map (\<lambda>s. case SetString10 s of None \<Rightarrow> 0 | Some n \<Rightarrow> n) (split_on (CHR '','') bz)"

lemma comma_not_in_int_dec: "CHR '','' \<notin> set (int_dec n)"
proof -
  have "CHR '','' \<notin> set (nat_dec k)" for k
    using nat_dec_digits [of k] by (auto simp: list_all_iff is_digit_def nat_of_byte_def)
  then show ?thesis by (auto simp: int_dec_def)
qed

lemma decode_encode_ints: "ns \<noteq> [] \<Longrightarrow> decode_ints (encode_ints ns) = ns"
  by (simp add: decode_ints_def encode_ints_def split_on_Join comma_not_in_int_dec codec_simps o_def)

text \<open>A codec for lists of arbitrary strings: hexadecimal texts separated by commas.\<close>

definition encode_strings :: "string list \<Rightarrow> bytes" where
  "encode_strings ss = Join (map hex_encode ss) (CHR '','')"

definition decode_strings :: "bytes \<Rightarrow> string list" where
  "decode_strings bz = map (\<lambda>s. the (hex_decode s)) (split_on (CHR '','') bz)"

lemma comma_not_in_hex: "CHR '','' \<notin> set (hex_encode bs)"
proof -
  have "hex_char d \<noteq> CHR '',''" for d
    using hex_val_hex_char [of d] by (auto simp: hex_val_def nat_of_byte_def is_digit_def)
  then have "CHR '','' \<noteq> hex_char d" for d by metis
  then show ?thesis by (induction bs) auto
qed

lemma decode_encode_strings: "ss \<noteq> [] \<Longrightarrow> decode_strings (encode_strings ss) = ss"
  by (simp add: decode_strings_def encode_strings_def split_on_Join comma_not_in_hex codec_simps o_def)

lemma encode_strings_neq_Nil: "1 < length ss \<Longrightarrow> encode_strings ss \<noteq> []"
  by (cases ss rule: list.exhaust; cases "tl ss") (auto simp: encode_strings_def)

end
