(* ===== verification/Feemarket_Properties.thy ===== *)
theory Feemarket_Properties
  imports Feemarket Demo_Codec
begin

text \<open>
  Properties of the fee market: the decimal formula equals the integer formula of EIP-1559, the
  base fee moves in the right direction within its bounds, valid parameters keep the block handlers
  from failing and stay valid, the gas recorded at the end of a block, the two views of the base fee
  agree, and the genesis round trip.
\<close>

section \<open>The formula on integers\<close>

lemma ucast_up_32: "ucast (ucast (w :: uint32) :: uint64) = w"
  by (rule ucast_up_ucast_id) (simp add: is_up)

definition eip1559 :: "int \<Rightarrow> int \<Rightarrow> int \<Rightarrow> int \<Rightarrow> int \<Rightarrow> int \<Rightarrow> int" where
  "eip1559 used target denom fee unit price =
     (if used = target then fee
      else if used > target then fee + max ((used - target) * fee div target div denom) unit
      else max (fee - (target - used) * fee div target div denom) price)"

lemma eip_delta_bounds:
  fixes d fee target denom :: int
  assumes "0 \<le> d" "0 \<le> fee" "0 < target" "0 < denom"
  shows "0 \<le> d * fee div target div denom" "d * fee div target div denom \<le> d * fee"
proof -
  have a: "0 \<le> d * fee" using assms by simp
  then have b: "0 \<le> d * fee div target" using assms by (simp add: pos_imp_zdiv_nonneg_iff)
  then show "0 \<le> d * fee div target div denom" using assms by (simp add: pos_imp_zdiv_nonneg_iff)
  show "d * fee div target div denom \<le> d * fee"
    using div_le_dividend_int [OF a assms(3)] div_le_dividend_int [OF b assms(4)] by linarith
qed

lemma eip_nonneg: "0 \<le> fee \<Longrightarrow> 0 \<le> unit \<Longrightarrow> 0 \<le> price \<Longrightarrow> 0 \<le> eip1559 used target denom fee unit price"
  by (auto simp: eip1559_def max_def)

lemma dec_fits_I: "- (2 ^ 315) < d \<Longrightarrow> d < 2 ^ 315 \<Longrightarrow> dec_fits d"
  by (simp add: dec_fits_def abs_less_iff)

lemma calc_base_fee:
  assumes laws: "dec_laws D" and pos: "target \<noteq> 0" "denom \<noteq> 0"
    and fee: "0 \<le> fee" "fee < 2 ^ 250" and unit: "0 \<le> unit" "unit < 2 ^ 250"
  shows "CalcGasBaseFee D used target denom fee unit (Some price) =
    Inr (eip1559 (uint used) (uint target) (uint denom) fee unit price)"
proof (cases "used = target")
  case True
  then show ?thesis by (simp add: CalcGasBaseFee_def eip1559_def)
next
  case False
  define d where "d = \<bar>uint used - uint target\<bar>"
  define num where "num = d * fee div uint target div uint denom"
  have t: "0 < uint target" "0 < uint denom" using pos by (simp_all add: less_le unsigned_eq_0_iff)
  have w: "uint used < 2 ^ 64" "uint target < 2 ^ 64"
    using uint_lt2p [of used] uint_lt2p [of target] by simp_all
  have d: "0 \<le> d" "d < 2 ^ 64"
    using w uint_ge_0 [of used] uint_ge_0 [of target] unfolding d_def by linarith+
  have prod: "0 \<le> d * fee" "d * fee < 2 ^ 314"
  proof -
    show "0 \<le> d * fee" using d fee by simp
    have "d * fee \<le> 2 ^ 64 * fee" using d fee by (intro mult_right_mono) auto
    also have "\<dots> < 2 ^ 64 * 2 ^ 250" using fee by simp
    finally show "d * fee < 2 ^ 314" by simp
  qed
  have num: "0 \<le> num" "num < 2 ^ 314"
    using eip_delta_bounds [OF d(1) fee(1) t] prod by (auto simp: num_def)
  have fits: "dec_fits (d * fee)" "dec_fits (fee + max num unit)" "dec_fits (fee - num)"
    using prod num fee unit by (auto intro!: dec_fits_I)
  have mul: "DMul D (LegacyNewDec d) fee = Inr (d * fee)"
    using dec_mul_whole(1) [OF laws] fits(1) by (simp add: dec_result_def)
  have quo: "DQuoInt D (d * fee) (uint target) = Inr (d * fee div uint target)"
    "DQuoInt D (d * fee div uint target) (uint denom) = Inr num"
    using t prod by (simp_all add: dec_laws_ops [OF laws] go_div_nonneg num_def pos_imp_zdiv_nonneg_iff)
  have less: "used > target \<longleftrightarrow> uint used > uint target" "uint used \<noteq> uint target"
    using False by (auto simp: word_less_def word_uint_eq_iff)
  have eip: "eip1559 (uint used) (uint target) (uint denom) fee unit price =
      (if uint target < uint used then fee + max num unit else max (fee - num) price)"
    using less(2) by (auto simp: eip1559_def num_def d_def)
  show ?thesis
    unfolding eip
    by (simp add: CalcGasBaseFee_def False pos mul quo less fits bindR_def the_dec_def of_option_def
        dec_laws_ops(3,4) [OF laws] dec_result_def flip: d_def)
qed

text \<open>
  C25. The decimal arithmetic of the base fee is the integer formula of EIP-1559 on units of
  \<open>10 ^ (-18)\<close>: for a positive gas target and denominator and a base fee below \<open>2 ^ 250\<close> units no
  step rounds or overflows.
\<close>

theorem base_fee_formula_is_eip1559:
  assumes "dec_laws D" "target \<noteq> 0" "denom \<noteq> 0" "0 \<le> fee" "fee < 2 ^ 250" "0 \<le> unit" "unit < 2 ^ 250"
  shows "CalcGasBaseFee D used target denom fee unit (Some price) =
    Inr (eip1559 (uint used) (uint target) (uint denom) fee unit price)"
  using assms by (rule calc_base_fee)

theorem base_fee_formula_is_eip1559_witness:
  "CalcGasBaseFee int_dec_ops 150 100 8 1000 1 (Some 0) = Inr 1062 \<and>
   CalcGasBaseFee int_dec_ops 50 100 8 1000 1 (Some 0) = Inr 938"
  using base_fee_formula_is_eip1559 [OF int_dec_laws, of 100 8 1000 1 150 0]
    base_fee_formula_is_eip1559 [OF int_dec_laws, of 100 8 1000 1 50 0]
  by (simp add: eip1559_def)

section \<open>Valid parameters\<close>

lemma valid_params_iff:
  "Params_Validate p = Inr () \<longleftrightarrow> BaseFeeChangeDenominator p \<noteq> 0 \<and> (\<exists>f. BaseFee p = Some f \<and> 0 \<le> f) \<and>
     0 \<le> EnableHeight p \<and> ElasticityMultiplier p \<noteq> 0 \<and>
     (\<exists>q. MinGasMultiplier p = Some q \<and> 0 \<le> q \<and> q \<le> dec_unit) \<and> (\<exists>q. MinGasPrice p = Some q \<and> 0 \<le> q)"
  by (auto simp: Params_Validate_def validateMinGasMultiplier_def validateMinGasPrice_def the_dec_def LegacyNewDec_def
      handler_simps split: option.splits)

definition params_set :: "Params \<Rightarrow> bool" where
  "params_set p \<longleftrightarrow> BaseFee p \<noteq> None \<and> MinGasPrice p \<noteq> None \<and> MinGasMultiplier p \<noteq> None"

text \<open>What the outside code promises: decimal arithmetic, and that encoded values are read back.\<close>

definition feemarket_laws :: "feemarket_env \<Rightarrow> bool" where
  "feemarket_laws env \<longleftrightarrow> dec_laws (fm_dec env) \<and>
     (\<forall>p. params_set p \<longrightarrow> (\<exists>bz. MarshalParams env p = Inr bz \<and> UnmarshalParams env bz = Inr p)) \<and>
     (\<forall>g. BigEndianToUint64 env (Uint64ToBigEndian env g) = g)"

lemma fm_keys [simp]: "ParamsKey \<noteq> KeyPrefixBlockGasWanted" "KeyPrefixBlockGasWanted \<noteq> ParamsKey"
  by (simp_all add: ParamsKey_def KeyPrefixBlockGasWanted_def)

lemma SetParams_set:
  assumes "feemarket_laws env" "params_set p"
  shows "\<exists>t. SetParams env p s = (Inr (), t) \<and> GetParams env (fm_store t) = Inr p \<and>
    GetBlockGasWanted env (fm_store t) = GetBlockGasWanted env (fm_store s) \<and> fm_events t = fm_events s"
proof -
  obtain bz where "MarshalParams env p = Inr bz" "UnmarshalParams env bz = Inr p"
    using assms unfolding feemarket_laws_def by blast
  then show ?thesis
    by (simp add: SetParams_def bindE_def fmE_def GetParams_def GetBlockGasWanted_def kv_set_def kv_get_def)
qed

lemma gas_wanted_reads [simp]:
  "GetParams env (SetBlockGasWanted env g m) = GetParams env m"
  "feemarket_laws env \<Longrightarrow> GetBlockGasWanted env (SetBlockGasWanted env g m) = g"
  by (simp_all add: GetParams_def GetBlockGasWanted_def SetBlockGasWanted_def kv_set_def kv_get_def feemarket_laws_def)

section \<open>Block handlers\<close>

lemma target_range:
  assumes "0 \<le> g" "e \<noteq> (0 :: uint32)"
  shows "0 \<le> go_div g (uint e)"
proof -
  have "0 < uint e" using assms(2) by (simp add: less_le unsigned_eq_0_iff)
  then show ?thesis using assms(1) by (simp add: go_div_nonneg pos_imp_zdiv_nonneg_iff)
qed

lemma block_gas_limit_nonneg: "0 \<le> block_gas_limit ctx"
  by (simp add: block_gas_limit_def split: option.split)

lemma CalculateBaseFee_total:
  assumes laws: "dec_laws (fm_dec env)" and coin: "coin_factor coin = Inr 1"
    and p: "GetParams env m = Inr p" "Params_Validate p = Inr ()" "BaseFee p = Some fee" "fee < 2 ^ 250"
  shows "\<exists>r. CalculateBaseFee env coin ctx m = Inr r \<and> (\<forall>f. r = Some f \<longrightarrow> 0 \<le> f)"
proof (cases "IsBaseFeeEnabled p (BlockHeight ctx) \<and> BlockHeight ctx \<noteq> EnableHeight p")
  case False
  then show ?thesis using p by (auto simp: CalculateBaseFee_def bindR_def valid_params_iff)
next
  case True
  have v: "0 \<le> fee" "ElasticityMultiplier p \<noteq> 0" "BaseFeeChangeDenominator p \<noteq> 0"
    using p(2,3) by (auto simp: valid_params_iff)
  obtain price where price: "MinGasPrice p = Some price" "0 \<le> price" using p(2) by (auto simp: valid_params_iff)
  define target where "target = go_div (block_gas_limit ctx) (uint (ElasticityMultiplier p))"
  have one: "DQuoInt (fm_dec env) (LegacyNewDec 1) 1 = Inr dec_unit"
    by (simp add: dec_laws_ops [OF laws] LegacyNewDec_def go_div_nonneg less_imp_le [OF dec_unit_pos(1)])
  have denom: "(ucast (BaseFeeChangeDenominator p) :: uint64) \<noteq> 0" using v(3) by (metis ucast_up_32 ucast_0)
  let ?used = "GetBlockGasWanted env m" and ?t = "word_of_int target :: uint64"
  have "\<exists>f. CalcGasBaseFee (fm_dec env) ?used ?t (ucast (BaseFeeChangeDenominator p)) fee dec_unit (Some price) = Inr f \<and> 0 \<le> f"
  proof (cases "?t = 0")
    case True
    then show ?thesis using v(1) by (simp add: CalcGasBaseFee_def)
  next
    case False
    have "0 \<le> eip1559 (uint ?used) (uint ?t) (uint (ucast (BaseFeeChangeDenominator p) :: uint64)) fee dec_unit price"
      using v(1) price(2) by (intro eip_nonneg less_imp_le [OF dec_unit_pos(1)])
    moreover have "dec_unit < 2 ^ 250" "0 \<le> dec_unit" by (simp_all add: dec_unit_def)
    ultimately show ?thesis using calc_base_fee [OF laws False denom v(1) p(4)] by auto
  qed
  then show ?thesis
    using True p(1,3) v(2) coin one price
    by (auto simp: CalculateBaseFee_def bindR_def thenR_def require_def Let_def target_def)
qed

lemma SetBaseFee_set:
  assumes "feemarket_laws env" "GetParams env (fm_store s) = Inr p" "Params_Validate p = Inr ()"
  shows "\<exists>t. SetBaseFee env f s = (Inr (), t) \<and> GetParams env (fm_store t) = Inr (p\<lparr>BaseFee := Some f\<rparr>)"
proof -
  have "params_set (p\<lparr>BaseFee := Some f\<rparr>)" using assms(3) by (auto simp: params_set_def valid_params_iff)
  from SetParams_set [OF assms(1) this, of s] obtain t
    where "SetParams env (p\<lparr>BaseFee := Some f\<rparr>) s = (Inr (), t)" "GetParams env (fm_store t) = Inr (p\<lparr>BaseFee := Some f\<rparr>)"
    by blast
  then show ?thesis using assms(2) by (simp add: SetBaseFee_def bindE_def)
qed

lemma BeginBlock_total:
  assumes "feemarket_laws env" "coin_factor coin = Inr 1"
    and "GetParams env (fm_store s) = Inr p" "Params_Validate p = Inr ()" "BaseFee p = Some fee" "fee < 2 ^ 250"
  shows "\<exists>t q. BeginBlock env coin ctx s = (Inr (), t) \<and> GetParams env (fm_store t) = Inr q \<and>
    Params_Validate q = Inr () \<and> q\<lparr>BaseFee := BaseFee p\<rparr> = p"
proof -
  have laws: "dec_laws (fm_dec env)" using assms(1) by (simp add: feemarket_laws_def)
  obtain r where r: "CalculateBaseFee env coin ctx (fm_store s) = Inr r" "\<forall>f. r = Some f \<longrightarrow> 0 \<le> f"
    using CalculateBaseFee_total [OF laws assms(2-6)] by blast
  show ?thesis
  proof (cases r)
    case None
    then show ?thesis using r assms by (auto simp: BeginBlock_def bindE_def)
  next
    case (Some f)
    then obtain t where "SetBaseFee env f s = (Inr (), t)" "GetParams env (fm_store t) = Inr (p\<lparr>BaseFee := Some f\<rparr>)"
      using SetBaseFee_set [OF assms(1,3,4)] by blast
    then show ?thesis
      using r Some assms(4) by (auto simp: BeginBlock_def bindE_def thenE_def fm_emit_def valid_params_iff)
  qed
qed

lemma max_div_unit: "0 \<le> b \<Longrightarrow> max a (b * dec_unit) div dec_unit = max (a div dec_unit) b"
proof (cases "a \<le> b * dec_unit")
  case True
  then have "a div dec_unit \<le> b * dec_unit div dec_unit" by (intro zdiv_mono1) simp_all
  then show ?thesis using True by (simp add: max_def)
next
  case False
  then have "b * dec_unit div dec_unit \<le> a div dec_unit" by (intro zdiv_mono1) simp_all
  then show ?thesis using False by (simp add: max_def)
qed

lemma EndBlock_run:
  assumes laws: "feemarket_laws env" and p: "GetParams env (fm_store s) = Inr p" "Params_Validate p = Inr ()"
    and ctx: "BlockGasMeter ctx" "uint (BlockGasWanted ctx) \<le> MaxInt64" "uint (BlockGasUsed ctx) \<le> MaxInt64"
    and mult: "MinGasMultiplier p = Some q"
    and w: "w = max (uint (BlockGasWanted ctx) * q div dec_unit) (uint (BlockGasUsed ctx))"
  shows "uint (BlockGasUsed ctx) \<le> w \<and> w \<le> max (uint (BlockGasWanted ctx)) (uint (BlockGasUsed ctx)) \<and>
    (\<exists>t. EndBlock env ctx s = (Inr (), t) \<and> fm_store t = SetBlockGasWanted env (word_of_int w) (fm_store s))"
proof -
  let ?g = "uint (BlockGasWanted ctx)" and ?u = "uint (BlockGasUsed ctx)"
  have q: "0 \<le> q" "q \<le> dec_unit" using p(2) mult by (auto simp: valid_params_iff)
  have dl: "dec_laws (fm_dec env)" using laws by (simp add: feemarket_laws_def)
  have le: "?g * q \<le> ?g * dec_unit" using q by (intro mult_left_mono) simp_all
  have "?g * dec_unit \<le> MaxInt64 * dec_unit" using ctx(2) by (intro mult_right_mono) (simp_all add: less_imp_le)
  then have "?g * q < 2 ^ 315" using le by (simp add: MaxInt64_def dec_unit_def)
  then have mul: "DMul (fm_dec env) (LegacyNewDec ?g) q = Inr (?g * q)"
    using dec_mul_whole(1) [OF dl] q(1) by (simp add: dec_result_def dec_fits_def)
  have "?g * q div dec_unit \<le> ?g * dec_unit div dec_unit" using le by (intro zdiv_mono1) simp_all
  then have b: "?u \<le> w" "w \<le> max ?g ?u" by (auto simp: w)
  then have "0 \<le> w" "w < 2 ^ 64" using ctx(2,3) order_trans [OF uint_ge_0 b(1)] by (auto simp: MaxInt64_def)
  moreover have "DTruncateInt (fm_dec env) (max (?g * q) (LegacyNewDec ?u)) = w"
  proof -
    have nn: "0 \<le> max (?g * q) (?u * dec_unit)" using q(1) by (simp add: le_max_iff_disj)
    show ?thesis
      by (simp add: dec_laws_ops(5) [OF dl] go_div_nonneg [OF nn dec_unit_pos(1)] LegacyNewDec_def max_div_unit w)
  qed
  ultimately show ?thesis
    using ctx mul mult p(1) b
    by (simp add: EndBlock_def thenE_def bindE_def requireE_def the_dec_def of_option_def fmE_def fm_emit_def Let_def)
qed

section \<open>Concrete parameters\<close>

definition demo_params :: Params where
  "demo_params = \<lparr>NoBaseFee = False, BaseFeeChangeDenominator = 8, ElasticityMultiplier = 2,
     BaseFee = Some (LegacyNewDec 1000), EnableHeight = 0, MinGasPrice = Some 0, MinGasMultiplier = Some (50 * 10 ^ 16)\<rparr>"

lemma demo_params_valid: "Params_Validate demo_params = Inr ()"
  by (simp add: valid_params_iff demo_params_def LegacyNewDec_def dec_unit_def)

definition demo_marshal :: "Params \<Rightarrow> bytes result" where
  "demo_marshal p = (case (BaseFee p, MinGasPrice p, MinGasMultiplier p) of
       (Some f, Some g, Some h) \<Rightarrow> Inr (encode_ints
         [if NoBaseFee p then 1 else 0, uint (BaseFeeChangeDenominator p), uint (ElasticityMultiplier p), f,
          EnableHeight p, g, h])
     | _ \<Rightarrow> Inl (Err ''nil''))"

definition demo_unmarshal :: "bytes \<Rightarrow> Params result" where
  "demo_unmarshal bz = (case decode_ints bz of
       [a, b, c, f, e, g, h] \<Rightarrow> Inr \<lparr>NoBaseFee = (a = 1), BaseFeeChangeDenominator = word_of_int b,
         ElasticityMultiplier = word_of_int c, BaseFee = Some f, EnableHeight = e, MinGasPrice = Some g,
         MinGasMultiplier = Some h\<rparr>
     | _ \<Rightarrow> Inl (Panic ''unmarshal''))"

definition demo_feemarket :: feemarket_env where
  "demo_feemarket =
     \<lparr>fm_dec = int_dec_ops, MarshalParams = demo_marshal, UnmarshalParams = demo_unmarshal,
      Uint64ToBigEndian = PutUint64, BigEndianToUint64 = Uint64, DecString = int_dec,
      fm_ValidateAuthority = (\<lambda>e a. if e = a then Inr () else Inl (Err ''unauthorized'')),
      fm_AccAddressFromBech32 = (\<lambda>a. Inr a), DefaultBaseFeeChangeDenominator = 8, DefaultElasticityMultiplier = 2\<rparr>"

lemma demo_codec: "params_set p \<Longrightarrow> \<exists>bz. demo_marshal p = Inr bz \<and> demo_unmarshal bz = Inr p"
  by (cases p) (auto simp: params_set_def demo_marshal_def demo_unmarshal_def decode_encode_ints)

lemma demo_feemarket_laws: "feemarket_laws demo_feemarket"
  by (simp add: feemarket_laws_def demo_feemarket_def int_dec_laws demo_codec codec_simps)

text \<open>A state that holds the parameters, and a block of a million gas that used a quarter of it.\<close>

definition demo_fm :: fm_state where
  "demo_fm = \<lparr>fm_store = [ParamsKey \<mapsto> (case demo_marshal demo_params of Inr bz \<Rightarrow> bz | Inl e \<Rightarrow> [])], fm_events = []\<rparr>"

definition demo_block :: block_ctx where
  "demo_block = \<lparr>BlockHeight = 5, ConsMaxGas = Some 1000000, BlockGasMeter = True, BlockGasWanted = 600000,
     BlockGasUsed = 250000\<rparr>"

lemma demo_fm_params: "GetParams demo_feemarket (fm_store demo_fm) = Inr demo_params"
proof -
  have "params_set demo_params" by (simp add: params_set_def demo_params_def)
  then obtain bz where "demo_marshal demo_params = Inr bz" "demo_unmarshal bz = Inr demo_params"
    using demo_codec by blast
  then show ?thesis by (simp add: GetParams_def demo_fm_def demo_feemarket_def)
qed

lemma demo_block_sel [simp]:
  "BlockGasMeter demo_block" "uint (BlockGasWanted demo_block) = 600000" "uint (BlockGasUsed demo_block) = 250000"
  by (simp_all add: demo_block_def)

section \<open>Properties of the handlers\<close>

text \<open>
  The gas recorded at the end of a block, on which the next base fee depends, is the larger of the
  gas used and the part of the gas wanted given by the minimum gas multiplier: never less than what
  was used and never more than what was wanted or used.
\<close>

lemma end_block_records_bounded_gas:
  assumes "feemarket_laws env" "GetParams env (fm_store s) = Inr p" "Params_Validate p = Inr ()"
    and "BlockGasMeter ctx" "uint (BlockGasWanted ctx) \<le> MaxInt64" "uint (BlockGasUsed ctx) \<le> MaxInt64"
  shows "\<exists>t q. EndBlock env ctx s = (Inr (), t) \<and> GetParams env (fm_store t) = Inr p \<and> MinGasMultiplier p = Some q \<and>
    uint (GetBlockGasWanted env (fm_store t)) =
      max (uint (BlockGasWanted ctx) * q div dec_unit) (uint (BlockGasUsed ctx)) \<and>
    uint (BlockGasUsed ctx) \<le> uint (GetBlockGasWanted env (fm_store t)) \<and>
    uint (GetBlockGasWanted env (fm_store t)) \<le> max (uint (BlockGasWanted ctx)) (uint (BlockGasUsed ctx))"
proof -
  obtain q where q: "MinGasMultiplier p = Some q" using assms(3) by (auto simp: valid_params_iff)
  define w where "w = max (uint (BlockGasWanted ctx) * q div dec_unit) (uint (BlockGasUsed ctx))"
  from EndBlock_run [OF assms(1-6) q w_def] obtain t
    where t: "EndBlock env ctx s = (Inr (), t)" "fm_store t = SetBlockGasWanted env (word_of_int w) (fm_store s)"
      and b: "uint (BlockGasUsed ctx) \<le> w" "w \<le> max (uint (BlockGasWanted ctx)) (uint (BlockGasUsed ctx))"
    by blast
  have "0 \<le> w" "w < 2 ^ 64"
    using b assms(5,6) order_trans [OF uint_ge_0 b(1)] by (auto simp: MaxInt64_def)
  then have "uint (GetBlockGasWanted env (fm_store t)) = w"
    using assms(1) t(2) by (simp add: uint_word_of_int_eq take_bit_int_eq_self)
  moreover have "GetParams env (fm_store t) = Inr p" using t(2) assms(2) by simp
  ultimately show ?thesis using t(1) q b w_def by auto
qed

text \<open>
  C26. The fee market keeps running while its parameters are valid. With a configured coin, valid
  stored parameters and a base fee below \<open>2 ^ 250\<close> units, the begin-block handler succeeds and
  leaves valid parameters that differ at most in the base fee. The end-block handler that follows
  succeeds exactly when the block has a gas meter and its gas wanted and gas used are in the range
  of \<^verbatim>\<open>int64\<close>; it then keeps the parameters and records the larger of the gas used and the part of
  the gas wanted given by the minimum gas multiplier. Otherwise it returns an error, not a panic,
  and changes nothing.
\<close>

theorem block_handlers_keep_running:
  assumes "feemarket_laws env" "setCoinInfo vd info g = (Inr (), coin)"
    and "GetParams env (fm_store s) = Inr p" "Params_Validate p = Inr ()" "BaseFee p = Some fee" "fee < 2 ^ 250"
  shows "\<exists>t q. BeginBlock env coin ctx s = (Inr (), t) \<and>
    GetParams env (fm_store t) = Inr q \<and> Params_Validate q = Inr () \<and> q\<lparr>BaseFee := BaseFee p\<rparr> = p \<and>
    (if BlockGasMeter ctx \<and> uint (BlockGasWanted ctx) \<le> MaxInt64 \<and> uint (BlockGasUsed ctx) \<le> MaxInt64
     then \<exists>u m. EndBlock env ctx t = (Inr (), u) \<and> GetParams env (fm_store u) = Inr q \<and> MinGasMultiplier q = Some m \<and>
       uint (GetBlockGasWanted env (fm_store u)) = max (uint (BlockGasWanted ctx) * m div dec_unit) (uint (BlockGasUsed ctx))
     else \<exists>e. EndBlock env ctx t = (Inl (Err e), t))"
proof -
  have factor: "coin_factor coin = Inr 1"
    using setCoinInfo_ok [OF assms(2)] coin_factor_configured by blast
  obtain t q where t: "BeginBlock env coin ctx s = (Inr (), t)" "GetParams env (fm_store t) = Inr q"
      "Params_Validate q = Inr ()" "q\<lparr>BaseFee := BaseFee p\<rparr> = p"
    using BeginBlock_total [OF assms(1) factor assms(3-6)] by blast
  show ?thesis
  proof (cases "BlockGasMeter ctx \<and> uint (BlockGasWanted ctx) \<le> MaxInt64 \<and> uint (BlockGasUsed ctx) \<le> MaxInt64")
    case True
    then show ?thesis using t end_block_records_bounded_gas [OF assms(1) t(2,3), of ctx] by auto
  next
    case False
    then have "\<exists>e. EndBlock env ctx t = (Inl (Err e), t)"
      by (auto simp: EndBlock_def thenE_def bindE_def requireE_def failE_def okE_def)
    then show ?thesis using t False by auto
  qed
qed

theorem block_handlers_keep_running_witness:
  "\<exists>t u. BeginBlock demo_feemarket (Some demo_coin) demo_block demo_fm = (Inr (), t) \<and>
     EndBlock demo_feemarket demo_block t = (Inr (), u) \<and> 250000 \<le> uint (GetBlockGasWanted demo_feemarket (fm_store u))"
proof -
  have "BaseFee demo_params = Some (LegacyNewDec 1000)" "LegacyNewDec 1000 < 2 ^ 250"
    by (simp_all add: demo_params_def LegacyNewDec_def dec_unit_def)
  from block_handlers_keep_running [OF demo_feemarket_laws demo_coin_set demo_fm_params demo_params_valid this, of demo_block]
  show ?thesis by (fastforce simp: MaxInt64_def)
qed

text \<open>
  C35. The two ways in which the EVM reads the base fee agree: with a configured coin, the wrapper of
  the fee market and the function on its parameters give the same whole number under the London
  rules, the stored base fee without its fraction, zero when the base fee is disabled.
\<close>

theorem evm_base_fee_views_agree:
  assumes "dec_laws (fm_dec env)" "setCoinInfo vd info g = (Inr (), coin)"
    and "GetParams env m = Inr p" "BaseFee p = Some fee" "0 \<le> fee" "dec_fits fee"
  shows "\<exists>n. WGetBaseFee env m (ci_Decimals info) = Inr n \<and>
    EvmGetBaseFee (fm_dec env) coin True p = Inr (Some n) \<and>
    (if NoBaseFee p then n = 0 else n * dec_unit \<le> fee \<and> fee < (n + 1) * dec_unit)"
proof -
  note conf = setCoinInfo_ok [OF assms(2)]
  have f: "ConversionFactor (ci_Decimals info) = Some 1" "coin_factor coin = Inr 1"
    using coin_factor_configured [OF conf(2)] conf(1,2) by (simp_all add: ConversionFactor_def)
  have v: "Decimals_Validate (ci_Decimals info) = Inr ()"
    using conf(2) by (simp add: Decimals_Validate_def EighteenDecimals_def require_def)
  have m: "DMulInt (fm_dec env) fee 1 = Inr fee" using assms(1,6) by (simp add: dec_laws_ops dec_result_def)
  have t: "DTruncateInt (fm_dec env) fee = fee div dec_unit"
    using assms(1,5) by (simp add: dec_laws_ops go_div_nonneg)
  define n where "n = fee div dec_unit"
  have "n * dec_unit + fee mod dec_unit = fee" by (simp add: n_def)
  moreover have "0 \<le> fee mod dec_unit" "fee mod dec_unit < dec_unit" by simp_all
  ultimately have b: "n * dec_unit \<le> fee" "fee < (n + 1) * dec_unit" unfolding distrib_right by linarith+
  show ?thesis
    using assms(3,4) f v m t b
    by (cases "NoBaseFee p"; cases "fee = 0")
      (auto simp: WGetBaseFee_def EvmGetBaseFee_def GetBaseFee_def bindR_def the_dec_def of_option_def
        ConvertAmountTo18DecimalsLegacy_def n_def)
qed

theorem evm_base_fee_views_agree_witness:
  "WGetBaseFee demo_feemarket (fm_store demo_fm) 18 = Inr 1000"
proof -
  have "dec_laws (fm_dec demo_feemarket)" using demo_feemarket_laws by (simp add: feemarket_laws_def)
  from evm_base_fee_views_agree [OF this demo_coin_set demo_fm_params, of "LegacyNewDec 1000"]
  obtain n where n: "WGetBaseFee demo_feemarket (fm_store demo_fm) (ci_Decimals demo_coin) = Inr n"
      "n * dec_unit \<le> 1000 * dec_unit" "1000 * dec_unit < (n + 1) * dec_unit"
    by (auto simp: demo_params_def LegacyNewDec_def dec_unit_def dec_fits_def)
  then have "n = 1000" by (simp add: dec_unit_def)
  then show ?thesis using n(1) by (simp add: demo_coin_def)
qed

text \<open>
  Genesis round trip: a genesis state with valid parameters is accepted in every state, and the
  export that follows gives it back unchanged.
\<close>

theorem feemarket_genesis_round_trip:
  assumes "feemarket_laws env" "Params_Validate (gen_Params g) = Inr ()"
  shows "\<exists>t. InitGenesis env g s = (Inr (), t) \<and> ExportGenesis env (fm_store t) = Inr g"
proof -
  have "params_set (gen_Params g)" using assms(2) by (auto simp: params_set_def valid_params_iff)
  from SetParams_set [OF assms(1) this, of s] obtain t
    where "SetParams env (gen_Params g) s = (Inr (), t)" "GetParams env (fm_store t) = Inr (gen_Params g)" by blast
  then show ?thesis
    using assms(1) by (simp add: InitGenesis_def ExportGenesis_def fmE_def bindR_def)
qed

theorem feemarket_genesis_round_trip_witness:
  "\<exists>t. InitGenesis demo_feemarket \<lparr>gen_Params = demo_params, gen_BlockGas = 77\<rparr> demo_fm = (Inr (), t) \<and>
     ExportGenesis demo_feemarket (fm_store t) = Inr \<lparr>gen_Params = demo_params, gen_BlockGas = 77\<rparr>"
  by (rule feemarket_genesis_round_trip [OF demo_feemarket_laws]) (simp add: demo_params_valid)

end
