(* ===== verification/Incentives.thy ===== *)
theory Incentives
  imports Go_Values
begin

text \<open>
  Validator incentives (\<^verbatim>\<open>src/x/validatorincentives\<close>): the treasury-release policy, the
  daily period state, the keeper with its begin-block release, parameter updates under an authority,
  the one migration, queries and genesis. The bank, account and staking modules and address parsing
  are outside code; the JSON text of the period state is a parameter whose law is that what was
  written is read back.
\<close>

section \<open>Parameters\<close>

record Params =
  TreasuryReleaseRateBasisPoints :: uint32
  BlocksPerYear :: uint64
  CalculationPeriodBlocks :: uint64

definition BasisPointDenominator :: uint32 where "BasisPointDenominator = 10000"
definition DefaultTreasuryReleaseRateBasisPoints :: uint32 where "DefaultTreasuryReleaseRateBasisPoints = 1000"
definition DefaultBlocksPerYear :: uint64 where "DefaultBlocksPerYear = 6311520"
definition DefaultCalculationPeriodBlocks :: uint64 where "DefaultCalculationPeriodBlocks = 17280"

definition DefaultParams :: Params where
  "DefaultParams =
     \<lparr>TreasuryReleaseRateBasisPoints = DefaultTreasuryReleaseRateBasisPoints, BlocksPerYear = DefaultBlocksPerYear,
      CalculationPeriodBlocks = DefaultCalculationPeriodBlocks\<rparr>"

definition Params_Validate :: "Params \<Rightarrow> unit result" where
  "Params_Validate p =
     thenR (require (\<not> TreasuryReleaseRateBasisPoints p > BasisPointDenominator) (Err ''treasury release rate exceeds 100 percent'')) (
     thenR (require (BlocksPerYear p \<noteq> 0) (Err ''blocks per year must be greater than zero'')) (
     thenR (require (CalculationPeriodBlocks p \<noteq> 0) (Err ''calculation period must contain at least one block''))
       (require (\<not> CalculationPeriodBlocks p > BlocksPerYear p) (Err ''calculation period cannot exceed one year''))))"

definition ValidateUpdate :: "Params \<Rightarrow> Params \<Rightarrow> unit result" where
  "ValidateUpdate p previous = (case Params_Validate previous of
       Inl e \<Rightarrow> Inl (Err ''invalid previous parameters'')
     | Inr _ \<Rightarrow> Params_Validate p)"

section \<open>Release policy\<close>

text \<open>
  Amounts are \<^verbatim>\<open>sdkmath.Int\<close>: every product and sum is checked to fit 256 bits, quotients
  truncate.
\<close>

definition AnnualizedRewardCapacity :: "int \<Rightarrow> uint32 \<Rightarrow> int result" where
  "AnnualizedRewardCapacity treasuryBalance rate =
     thenR (require (\<not> treasuryBalance < 0) (Err ''treasury balance cannot be negative'')) (
     thenR (require (\<not> rate > BasisPointDenominator) (Err ''treasury release rate exceeds 100 percent'')) (
     bindR (sdk_int (treasuryBalance * uint rate)) (\<lambda>x. Inr (go_div x (uint BasisPointDenominator)))))"

definition PeriodProvision :: "int \<Rightarrow> uint64 \<Rightarrow> uint64 \<Rightarrow> int result" where
  "PeriodProvision annualizedCapacity periodBlocks blocksPerYear =
     thenR (require (\<not> annualizedCapacity < 0) (Err ''annualized capacity cannot be negative'')) (
     thenR (require (periodBlocks \<noteq> 0) (Err ''calculation period must contain at least one block'')) (
     thenR (require (blocksPerYear \<noteq> 0) (Err ''blocks per year must be greater than zero'')) (
     thenR (require (\<not> periodBlocks > blocksPerYear) (Err ''calculation period cannot exceed one year'')) (
     bindR (sdk_int (annualizedCapacity * uint periodBlocks)) (\<lambda>x. Inr (go_div x (uint blocksPerYear)))))))"

definition DerivedAPYBasisPoints :: "int \<Rightarrow> int \<Rightarrow> int result" where
  "DerivedAPYBasisPoints annualizedCapacity eligibleBonded =
     thenR (require (\<not> annualizedCapacity < 0) (Err ''annualized capacity cannot be negative'')) (
     thenR (require (\<not> eligibleBonded < 0) (Err ''eligible bonded stake cannot be negative'')) (
     if eligibleBonded = 0 then Inr 0
     else bindR (sdk_int (annualizedCapacity * uint BasisPointDenominator)) (\<lambda>x. Inr (go_div x eligibleBonded))))"

definition CumulativeProvision :: "int \<Rightarrow> uint64 \<Rightarrow> uint64 \<Rightarrow> int result" where
  "CumulativeProvision periodProvision elapsedBlocks periodBlocks =
     thenR (require (\<not> periodProvision < 0) (Err ''period provision cannot be negative'')) (
     thenR (require (periodBlocks \<noteq> 0) (Err ''calculation period must contain at least one block'')) (
     thenR (require (\<not> elapsedBlocks > periodBlocks) (Err ''elapsed blocks exceed the calculation period'')) (
     bindR (sdk_int (periodProvision * uint elapsedBlocks)) (\<lambda>x. Inr (go_div x (uint periodBlocks))))))"

section \<open>Period state\<close>

record PeriodState =
  StartBlock :: uint64
  EndBlock :: uint64
  ps_Rate :: uint32
  TreasuryBalanceAtomic :: string
  EligibleBondedAtomic :: string
  AnnualizedCapacityAtomic :: string
  ps_DerivedAPY :: string
  PeriodProvisionAtomic :: string
  DistributedAtomic :: string

definition parseAtomicAmount :: "string \<Rightarrow> int result" where
  "parseAtomicAmount v = bindR (of_option (Err ''amount is not a base-10 integer'') (SetString10 v)) sdk_int"

definition ParseStoredAtomicAmount :: "string \<Rightarrow> int result" where
  "ParseStoredAtomicAmount v = parseAtomicAmount v"

definition NewPeriodState :: "uint64 \<Rightarrow> int \<Rightarrow> int \<Rightarrow> Params \<Rightarrow> PeriodState result" where
  "NewPeriodState startBlock eligibleBonded treasuryBalance params =
     thenR (Params_Validate params) (
     thenR (require (\<not> startBlock > (- 1) - CalculationPeriodBlocks params) (Err ''calculation period end block overflows'')) (
     thenR (require (\<not> eligibleBonded < 0) (Err ''eligible bonded stake cannot be negative'')) (
     bindR (AnnualizedRewardCapacity treasuryBalance (TreasuryReleaseRateBasisPoints params)) (\<lambda>annualized.
     bindR (DerivedAPYBasisPoints annualized eligibleBonded) (\<lambda>apy.
     bindR (if eligibleBonded > 0
            then PeriodProvision annualized (CalculationPeriodBlocks params) (BlocksPerYear params)
            else Inr 0) (\<lambda>provision.
     Inr \<lparr>StartBlock = startBlock, EndBlock = startBlock + CalculationPeriodBlocks params,
          ps_Rate = TreasuryReleaseRateBasisPoints params, TreasuryBalanceAtomic = int_dec treasuryBalance,
          EligibleBondedAtomic = int_dec eligibleBonded, AnnualizedCapacityAtomic = int_dec annualized,
          ps_DerivedAPY = int_dec apy, PeriodProvisionAtomic = int_dec provision, DistributedAtomic = ''0''\<rparr>))))))"

text \<open>The loop over the six amount fields.\<close>

fun parse_fields :: "(string \<times> string) list \<Rightarrow> int list result" where
  "parse_fields [] = Inr []"
| "parse_fields ((name, v) # rest) = (case parseAtomicAmount v of
       Inl (Panic e) \<Rightarrow> Inl (Panic e)
     | Inl (Err e) \<Rightarrow> Inl (Err (''invalid '' @ name @ '' amount''))
     | Inr n \<Rightarrow>
         thenR (require (\<not> n < 0) (Err (name @ '' amount cannot be negative''))) (
         bindR (parse_fields rest) (\<lambda>ns. Inr (n # ns))))"

definition PeriodState_Validate :: "PeriodState \<Rightarrow> unit result" where
  "PeriodState_Validate p =
     thenR (require (\<not> EndBlock p \<le> StartBlock p) (Err ''calculation period end block must follow start block'')) (
     thenR (require (\<not> ps_Rate p > BasisPointDenominator) (Err ''treasury release rate exceeds 100 percent'')) (
     bindR (parse_fields [(''treasury balance'', TreasuryBalanceAtomic p), (''eligible bonded'', EligibleBondedAtomic p),
         (''annualized capacity'', AnnualizedCapacityAtomic p), (''derived APY'', ps_DerivedAPY p),
         (''period provision'', PeriodProvisionAtomic p), (''distributed'', DistributedAtomic p)]) (\<lambda>parsed.
     thenR (require (\<not> parsed ! 5 > parsed ! 4) (Err ''distributed amount exceeds period provision''))
       (require (\<not> parsed ! 4 > parsed ! 0) (Err ''period provision exceeds treasury snapshot'')))))"

definition RemainingProvision :: "PeriodState \<Rightarrow> int result" where
  "RemainingProvision p =
     thenR (PeriodState_Validate p) (
     bindR (parseAtomicAmount (PeriodProvisionAtomic p)) (\<lambda>provision.
     bindR (parseAtomicAmount (DistributedAtomic p)) (\<lambda>distributed.
     sdk_int (provision - distributed))))"

section \<open>Keeper\<close>

definition ParamsKey :: bytes where "ParamsKey = [CHR 0x01]"
definition PeriodStateKey :: bytes where "PeriodStateKey = [CHR 0x02]"
definition TotalDistributedKey :: bytes where "TotalDistributedKey = [CHR 0x03]"
definition AuthorityKey :: bytes where "AuthorityKey = [CHR 0x04]"
definition TreasuryAccountName :: string where "TreasuryAccountName = ''validator_incentives''"
definition IncentiveDenom :: string where "IncentiveDenom = ''axtc''"

record incentive_env =
  MarshalPeriod :: "PeriodState \<Rightarrow> bytes result"
  UnmarshalPeriod :: "bytes \<Rightarrow> PeriodState result"
  inc_AccAddressFromBech32 :: "string \<Rightarrow> bytes result"

text \<open>The account, bank and staking keepers; \<open>'b\<close> is what the bank and staking modules store.\<close>

record 'b keepers =
  GetModuleAddress :: "string \<Rightarrow> bytes"
  GetBalance :: "bytes \<Rightarrow> string \<Rightarrow> 'b \<Rightarrow> string \<times> int"
  SendCoinsFromModuleToAccount :: "string \<Rightarrow> bytes \<Rightarrow> string \<times> int \<Rightarrow> 'b \<Rightarrow> unit result \<times> 'b"
  SendCoinsFromModuleToModule :: "string \<Rightarrow> string \<Rightarrow> string \<times> int \<Rightarrow> 'b \<Rightarrow> unit result \<times> 'b"
  TotalValidatorPower :: "'b \<Rightarrow> int result"

record 'b inc_state =
  inc_store :: kv
  inc_world :: 'b

type_synonym ('b, 'a) inc_op = "('b inc_state, 'a) handler"

definition incE :: "(kv \<Rightarrow> kv) \<Rightarrow> ('b, unit) inc_op" where
  "incE f = modifyE (\<lambda>s. s\<lparr>inc_store := f (inc_store s)\<rparr>)"

definition worldE :: "('b \<Rightarrow> unit result \<times> 'b) \<Rightarrow> ('b, unit) inc_op" where
  "worldE f s = (case f (inc_world s) of (r, b) \<Rightarrow> (r, s\<lparr>inc_world := b\<rparr>))"

definition SetAuthority :: "string \<Rightarrow> kv \<Rightarrow> kv" where
  "SetAuthority auth = kv_set AuthorityKey auth"

definition GetAuthority :: "kv \<Rightarrow> string" where
  "GetAuthority m = kv_get m AuthorityKey"

definition SetParams :: "Params \<Rightarrow> ('b, unit) inc_op" where
  "SetParams p =
     thenE (liftE (Params_Validate p))
       (incE (kv_set ParamsKey (PutUint32 (TreasuryReleaseRateBasisPoints p) @ PutUint64 (BlocksPerYear p) @
          PutUint64 (CalculationPeriodBlocks p))))"

definition GetParams :: "kv \<Rightarrow> Params" where
  "GetParams m =
     (let v = kv_get m ParamsKey in
      if length v \<noteq> 20 then DefaultParams
      else \<lparr>TreasuryReleaseRateBasisPoints = Uint32 (take 4 v), BlocksPerYear = Uint64 (take 8 (drop 4 v)),
            CalculationPeriodBlocks = Uint64 (take 8 (drop 12 v))\<rparr>)"

definition Migrate1to2 :: "('b, unit) inc_op" where
  "Migrate1to2 = thenE (SetParams DefaultParams) (incE (kv_delete PeriodStateKey))"

definition UpdateParams :: "Params \<Rightarrow> ('b, unit) inc_op" where
  "UpdateParams nxt =
     bindE (getsE (\<lambda>s. GetParams (inc_store s))) (\<lambda>previous.
     thenE (liftE (ValidateUpdate nxt previous)) (SetParams nxt))"

definition SetPeriodState :: "incentive_env \<Rightarrow> PeriodState \<Rightarrow> ('b, unit) inc_op" where
  "SetPeriodState env st =
     thenE (liftE (PeriodState_Validate st)) (
     bindE (liftE (MarshalPeriod env st)) (\<lambda>bz. incE (kv_set PeriodStateKey bz)))"

definition GetPeriodState :: "incentive_env \<Rightarrow> kv \<Rightarrow> PeriodState option result" where
  "GetPeriodState env m =
     (let v = kv_get m PeriodStateKey in
      if length v = 0 then Inr None
      else bindR (UnmarshalPeriod env v) (\<lambda>st. thenR (PeriodState_Validate st) (Inr (Some st))))"

definition SetTotalDistributed :: "int \<Rightarrow> ('b, unit) inc_op" where
  "SetTotalDistributed amount =
     thenE (requireE (\<not> amount < 0) (Err ''total distributed amount cannot be negative''))
       (incE (kv_set TotalDistributedKey (int_dec amount)))"

definition GetTotalDistributed :: "kv \<Rightarrow> int result" where
  "GetTotalDistributed m =
     (let v = kv_get m TotalDistributedKey in
      if v = [] then Inr 0
      else bindR (ParseStoredAtomicAmount v) (\<lambda>amount.
           thenR (require (\<not> amount < 0) (Err ''stored total distributed amount is negative'')) (Inr amount)))"

section \<open>Treasury\<close>

definition Balance :: "'b keepers \<Rightarrow> 'b \<Rightarrow> (string \<times> int) result" where
  "Balance ks b =
     (let address = GetModuleAddress ks TreasuryAccountName in
      thenR (require (length address \<noteq> 0) (Err ''incentive treasury module account is missing''))
        (Inr (GetBalance ks address IncentiveDenom b)))"

definition Send :: "'b keepers \<Rightarrow> bytes \<Rightarrow> int \<Rightarrow> ('b, unit) inc_op" where
  "Send ks recipient amount =
     thenE (requireE (length recipient \<noteq> 0) (Err ''reward recipient is empty'')) (
     thenE (requireE (amount > 0) (Err ''reward amount must be positive'')) (
     bindE (readE (\<lambda>s. Balance ks (inc_world s))) (\<lambda>balance.
     thenE (requireE (\<not> snd balance < amount) (Err ''incentive treasury balance is insufficient''))
       (worldE (SendCoinsFromModuleToAccount ks TreasuryAccountName recipient (IncentiveDenom, amount))))))"

definition SendToModule :: "'b keepers \<Rightarrow> string \<Rightarrow> int \<Rightarrow> ('b, unit) inc_op" where
  "SendToModule ks recipientModule amount =
     thenE (requireE (recipientModule \<noteq> []) (Err ''reward recipient module is empty'')) (
     thenE (requireE (amount > 0) (Err ''reward amount must be positive'')) (
     bindE (readE (\<lambda>s. Balance ks (inc_world s))) (\<lambda>balance.
     thenE (requireE (\<not> snd balance < amount) (Err ''incentive treasury balance is insufficient''))
       (worldE (SendCoinsFromModuleToModule ks TreasuryAccountName recipientModule (IncentiveDenom, amount))))))"

section \<open>Begin block\<close>

definition SnapshotPeriod :: "incentive_env \<Rightarrow> 'b keepers \<Rightarrow> int \<Rightarrow> ('b, PeriodState) inc_op" where
  "SnapshotPeriod env ks height =
     thenE (requireE (\<not> height < 0) (Err ''block height cannot be negative'')) (
     bindE (readE (\<lambda>s. TotalValidatorPower ks (inc_world s))) (\<lambda>eligibleBonded.
     thenE (requireE (\<not> eligibleBonded < 0) (Err ''eligible bonded stake cannot be negative'')) (
     bindE (readE (\<lambda>s. Balance ks (inc_world s))) (\<lambda>balance.
     thenE (requireE (fst balance = IncentiveDenom) (Err ''unexpected incentive treasury denomination'')) (
     bindE (readE (\<lambda>s. NewPeriodState (word_of_int height) eligibleBonded (snd balance) (GetParams (inc_store s)))) (\<lambda>st.
     thenE (SetPeriodState env st) (okE st)))))))"

definition RecordDistribution :: "incentive_env \<Rightarrow> int \<Rightarrow> ('b, unit) inc_op" where
  "RecordDistribution env amount =
     thenE (requireE (amount > 0) (Err ''distribution amount must be positive'')) (
     bindE (readE (\<lambda>s. GetPeriodState env (inc_store s))) (\<lambda>found. case found of
       None \<Rightarrow> failE (Err ''no calculation period has been configured'')
     | Some st \<Rightarrow>
         bindE (liftE (RemainingProvision st)) (\<lambda>remaining.
         thenE (requireE (\<not> amount > remaining) (Err ''distribution exceeds the remaining period provision'')) (
         bindE (liftE (ParseStoredAtomicAmount (DistributedAtomic st))) (\<lambda>distributed.
         bindE (readE (\<lambda>s. GetTotalDistributed (inc_store s))) (\<lambda>total.
         bindE (liftE (sdk_int (distributed + amount))) (\<lambda>d.
         thenE (SetPeriodState env (st\<lparr>DistributedAtomic := int_dec d\<rparr>)) (
         bindE (liftE (sdk_int (total + amount))) (\<lambda>t.
         SetTotalDistributed t)))))))))"

text \<open>The release of a block of the active period, the part of \<^verbatim>\<open>ProcessBlock\<close> after the snapshot.\<close>

definition release_share :: "incentive_env \<Rightarrow> 'b keepers \<Rightarrow> string \<Rightarrow> uint64 \<Rightarrow> PeriodState \<Rightarrow> ('b, unit) inc_op" where
  "release_share env ks feeCollector height st =
     thenE (requireE (\<not> (height < StartBlock st \<or> height \<ge> EndBlock st))
       (Err ''block is outside the active calculation period'')) (
     bindE (liftE (ParseStoredAtomicAmount (PeriodProvisionAtomic st))) (\<lambda>periodProvision.
     bindE (liftE (ParseStoredAtomicAmount (DistributedAtomic st))) (\<lambda>distributed.
     bindE (liftE (CumulativeProvision periodProvision (height - StartBlock st + 1) (EndBlock st - StartBlock st))) (\<lambda>target.
     bindE (liftE (sdk_int (target - distributed))) (\<lambda>amount.
     thenE (requireE (\<not> amount < 0) (Err ''stored distribution exceeds the cumulative target'')) (
     if amount = 0 then okE ()
     else thenE (SendToModule ks feeCollector amount) (RecordDistribution env amount)))))))"

definition ProcessBlock :: "incentive_env \<Rightarrow> 'b keepers \<Rightarrow> string \<Rightarrow> int \<Rightarrow> ('b, unit) inc_op" where
  "ProcessBlock env ks feeCollector blockHeight =
     thenE (requireE (\<not> blockHeight < 0) (Err ''block height cannot be negative'')) (
     let height = (word_of_int blockHeight :: uint64) in
     bindE (readE (\<lambda>s. GetPeriodState env (inc_store s))) (\<lambda>found.
     bindE (case found of
              Some st \<Rightarrow> if height \<ge> EndBlock st then SnapshotPeriod env ks blockHeight else okE st
            | None \<Rightarrow> SnapshotPeriod env ks blockHeight)
       (release_share env ks feeCollector height)))"

text \<open>The module's begin-block handler; the fee collector's name is the account module's constant.\<close>

definition BeginBlock :: "incentive_env \<Rightarrow> 'b keepers \<Rightarrow> string \<Rightarrow> int \<Rightarrow> ('b, unit) inc_op" where
  "BeginBlock env ks FeeCollectorName blockHeight = ProcessBlock env ks FeeCollectorName blockHeight"

section \<open>Parameter updates\<close>

definition RequireAuthority :: "kv \<Rightarrow> string \<Rightarrow> unit result" where
  "RequireAuthority m caller =
     thenR (require (GetAuthority m \<noteq> []) (Err ''validator incentive authority is not configured'')) (
     thenR (require (caller \<noteq> []) (Err ''validator incentive caller is empty''))
       (require (caller = GetAuthority m) (Err ''validator incentive caller is not authorized'')))"

definition UpdateParamsAuthorized :: "string \<Rightarrow> Params \<Rightarrow> ('b, unit) inc_op" where
  "UpdateParamsAuthorized caller nxt =
     thenE (readE (\<lambda>s. RequireAuthority (inc_store s) caller)) (UpdateParams nxt)"

definition validateCommandAuthority :: "incentive_env \<Rightarrow> string \<Rightarrow> unit result" where
  "validateCommandAuthority env auth =
     thenR (require (auth \<noteq> []) (Err ''authority is required'')) (
     case inc_AccAddressFromBech32 env auth of Inl e \<Rightarrow> Inl (Err ''invalid authority address'') | Inr _ \<Rightarrow> Inr ())"

record UpdateParamsCommand =
  cmd_Authority :: string
  cmd_Params :: Params

definition cmd_ValidateBasic :: "incentive_env \<Rightarrow> UpdateParamsCommand \<Rightarrow> unit result" where
  "cmd_ValidateBasic env c =
     thenR (validateCommandAuthority env (cmd_Authority c)) (
     case Params_Validate (cmd_Params c) of Inl e \<Rightarrow> Inl (Err ''invalid incentive parameters'') | Inr _ \<Rightarrow> Inr ())"

definition HandleUpdateParamsCommand :: "incentive_env \<Rightarrow> UpdateParamsCommand \<Rightarrow> ('b, unit) inc_op" where
  "HandleUpdateParamsCommand env c =
     thenE (liftE (cmd_ValidateBasic env c)) (UpdateParamsAuthorized (cmd_Authority c) (cmd_Params c))"

record MsgUpdateParams =
  mu_Authority :: string
  mu_TreasuryReleaseRateBasisPoints :: uint32
  mu_BlocksPerYear :: uint64
  mu_CalculationPeriodBlocks :: uint64

definition command_of :: "MsgUpdateParams \<Rightarrow> UpdateParamsCommand" where
  "command_of m =
     \<lparr>cmd_Authority = mu_Authority m,
      cmd_Params = \<lparr>TreasuryReleaseRateBasisPoints = mu_TreasuryReleaseRateBasisPoints m,
        BlocksPerYear = mu_BlocksPerYear m, CalculationPeriodBlocks = mu_CalculationPeriodBlocks m\<rparr>\<rparr>"

definition mu_ValidateBasic :: "incentive_env \<Rightarrow> MsgUpdateParams option \<Rightarrow> unit result" where
  "mu_ValidateBasic env msg = (case msg of
       None \<Rightarrow> Inl (Err ''update params message is nil'')
     | Some m \<Rightarrow> cmd_ValidateBasic env (command_of m))"

definition MsgServer_UpdateParams :: "incentive_env \<Rightarrow> MsgUpdateParams option \<Rightarrow> ('b, unit) inc_op" where
  "MsgServer_UpdateParams env msg = (case msg of
       None \<Rightarrow> failE (Err ''update params message is nil'')
     | Some m \<Rightarrow> HandleUpdateParamsCommand env (command_of m))"

section \<open>Genesis and queries\<close>

record GenesisState =
  gen_Authority :: string
  gen_Params :: Params

definition GenesisState_Validate :: "incentive_env \<Rightarrow> GenesisState \<Rightarrow> unit result" where
  "GenesisState_Validate env g = (case Params_Validate (gen_Params g) of
       Inl e \<Rightarrow> Inl (Err ''invalid genesis parameters'')
     | Inr _ \<Rightarrow>
         (let auth = TrimSpace (gen_Authority g) in
          if auth = [] then Inr ()
          else thenR (require (auth = gen_Authority g) (Err ''incentive authority contains surrounding spaces'')) (
               case inc_AccAddressFromBech32 env auth of
                 Inl e \<Rightarrow> Inl (Err ''invalid incentive authority address'') | Inr _ \<Rightarrow> Inr ())))"

definition InitGenesis :: "incentive_env \<Rightarrow> GenesisState \<Rightarrow> ('b, unit) inc_op" where
  "InitGenesis env g =
     thenE (liftE (GenesisState_Validate env g)) (
     thenE (SetParams (gen_Params g)) (
     thenE (SetTotalDistributed 0) (
     if gen_Authority g \<noteq> [] then incE (SetAuthority (gen_Authority g)) else okE ())))"

definition ExportGenesis :: "kv \<Rightarrow> GenesisState" where
  "ExportGenesis m = \<lparr>gen_Authority = GetAuthority m, gen_Params = GetParams m\<rparr>"

text \<open>The module wrapper panics on an invalid state and ignores the keeper's own result.\<close>

definition AppInitGenesis :: "incentive_env \<Rightarrow> GenesisState \<Rightarrow> ('b, unit) inc_op" where
  "AppInitGenesis env g s = (case GenesisState_Validate env g of
       Inl e \<Rightarrow> (Inl (Panic ''invalid genesis''), s)
     | Inr _ \<Rightarrow> (Inr (), snd (InitGenesis env g s)))"

definition DefaultGenesisState :: GenesisState where
  "DefaultGenesisState = \<lparr>gen_Authority = [], gen_Params = DefaultParams\<rparr>"

definition QueryParams :: "kv \<Rightarrow> string \<times> Params" where
  "QueryParams m = (GetAuthority m, GetParams m)"

definition QueryTreasury :: "'b keepers \<Rightarrow> 'b \<Rightarrow> (string \<times> string) result" where
  "QueryTreasury ks b = bindR (Balance ks b) (\<lambda>balance. Inr (fst balance, int_dec (snd balance)))"

text \<open>The response of the period query: the lifetime total, and the state with its activity flag when there is one.\<close>

definition QueryPeriod :: "incentive_env \<Rightarrow> int \<Rightarrow> kv \<Rightarrow> (string \<times> (bool \<times> PeriodState) option) result" where
  "QueryPeriod env height m =
     bindR (GetTotalDistributed m) (\<lambda>total.
     bindR (GetPeriodState env m) (\<lambda>found. case found of
       None \<Rightarrow> Inr (int_dec total, None)
     | Some st \<Rightarrow> Inr (int_dec total,
         Some (height \<ge> 0 \<and> word_of_int height \<ge> StartBlock st \<and> word_of_int height < EndBlock st, st))))"

end
