(* ===== verification/Incentives_Facts.thy ===== *)
theory Incentives_Facts
  imports Incentives Dec
begin

text \<open>
  Library lemmas of the validator incentives: what the validations accept, the amounts a period
  state stands for, the arithmetic of the release policy, and the effect of the keeper's writes.
\<close>

section \<open>Amounts\<close>

definition amount_of :: "string \<Rightarrow> int" where
  "amount_of v = (case SetString10 v of None \<Rightarrow> 0 | Some n \<Rightarrow> n)"

abbreviation provision_of :: "PeriodState \<Rightarrow> int" where
  "provision_of st \<equiv> amount_of (PeriodProvisionAtomic st)"

abbreviation distributed_of :: "PeriodState \<Rightarrow> int" where
  "distributed_of st \<equiv> amount_of (DistributedAtomic st)"

definition period_length :: "PeriodState \<Rightarrow> int" where
  "period_length st = uint (EndBlock st) - uint (StartBlock st)"

lemma amount_of_int_dec [simp]: "amount_of (int_dec n) = n"
  by (simp add: amount_of_def codec_simps)

lemma parseAtomicAmount_ok: "parseAtomicAmount v = Inr n \<longleftrightarrow> SetString10 v = Some n \<and> int_ok n"
  by (auto simp: parseAtomicAmount_def handler_simps)

lemma parseAtomicAmount_of: "parseAtomicAmount v = Inr n \<Longrightarrow> amount_of v = n"
  by (simp add: parseAtomicAmount_ok amount_of_def)

lemma parse_fields_Cons_ok:
  "parse_fields ((name, v) # rest) = Inr ns \<longleftrightarrow>
     (\<exists>n ms. parseAtomicAmount v = Inr n \<and> 0 \<le> n \<and> parse_fields rest = Inr ms \<and> ns = n # ms)"
  by (auto simp: handler_simps split: sum.splits err.splits)

definition good_amount :: "string \<Rightarrow> bool" where
  "good_amount v \<longleftrightarrow> parseAtomicAmount v = Inr (amount_of v) \<and> 0 \<le> amount_of v"

lemma good_amount_iff: "(\<exists>n. parseAtomicAmount v = Inr n \<and> 0 \<le> n \<and> P n) \<longleftrightarrow> good_amount v \<and> P (amount_of v)"
  by (auto simp: good_amount_def dest: parseAtomicAmount_of)

lemma good_amount_int_dec: "good_amount (int_dec n) \<longleftrightarrow> 0 \<le> n \<and> int_ok n"
  by (auto simp: good_amount_def parseAtomicAmount_ok codec_simps)

lemma PeriodState_Validate_ok:
  "PeriodState_Validate p = Inr x \<longleftrightarrow>
     StartBlock p < EndBlock p \<and> ps_Rate p \<le> BasisPointDenominator \<and>
     good_amount (TreasuryBalanceAtomic p) \<and> good_amount (EligibleBondedAtomic p) \<and>
     good_amount (AnnualizedCapacityAtomic p) \<and> good_amount (ps_DerivedAPY p) \<and>
     good_amount (PeriodProvisionAtomic p) \<and> good_amount (DistributedAtomic p) \<and>
     distributed_of p \<le> provision_of p \<and> provision_of p \<le> amount_of (TreasuryBalanceAtomic p)"
  unfolding PeriodState_Validate_def
  by (simp add: handler_simps parse_fields_Cons_ok not_le not_less ex_simps(1,2) [symmetric] del: parse_fields.simps(2) ex_simps)
    (auto simp: good_amount_def dest: parseAtomicAmount_of)

lemma Params_Validate_ok:
  "Params_Validate p = Inr x \<longleftrightarrow>
     TreasuryReleaseRateBasisPoints p \<le> BasisPointDenominator \<and> BlocksPerYear p \<noteq> 0 \<and>
     CalculationPeriodBlocks p \<noteq> 0 \<and> CalculationPeriodBlocks p \<le> BlocksPerYear p"
  by (auto simp: Params_Validate_def handler_simps not_less)

lemma DefaultParams_valid: "Params_Validate DefaultParams = Inr ()"
  by (simp add: Params_Validate_ok DefaultParams_def BasisPointDenominator_def
      DefaultTreasuryReleaseRateBasisPoints_def DefaultBlocksPerYear_def DefaultCalculationPeriodBlocks_def)

section \<open>The release policy\<close>

lemma scaled_le:
  fixes x n d :: int
  assumes "0 \<le> x" "0 \<le> n" "n \<le> d" "0 < d"
  shows "0 \<le> go_div (x * n) d" "go_div (x * n) d \<le> x" "d * go_div (x * n) d \<le> x * n"
proof -
  have p: "0 \<le> x * n" using assms by simp
  show "0 \<le> go_div (x * n) d" using go_div_bounds [OF p assms(4)] by simp
  show d: "d * go_div (x * n) d \<le> x * n"
    unfolding go_div_nonneg [OF p assms(4)]
    using mult_div_mod_eq [of d "x * n"] pos_mod_sign [OF assms(4), of "x * n"] by linarith
  have "x * n \<le> x * d" using assms by (intro mult_left_mono) auto
  then have "d * go_div (x * n) d \<le> d * x" using d by (simp add: mult.commute)
  then show "go_div (x * n) d \<le> x" using assms(4) by simp
qed

lemma scaled_mono:
  fixes x n m d :: int
  assumes "0 \<le> x" "0 \<le> n" "n \<le> m" "0 < d"
  shows "go_div (x * n) d \<le> go_div (x * m) d"
proof -
  have "x * n \<le> x * m" using assms by (intro mult_left_mono) auto
  then show ?thesis using assms by (simp add: go_div_nonneg zdiv_mono1)
qed

lemma uint_le: "(a :: 'a::len word) \<le> b \<longleftrightarrow> uint a \<le> uint b"
  by (simp add: word_le_def)

lemma uint_pos: "(a :: 'a::len word) \<noteq> 0 \<longleftrightarrow> 0 < uint a"
  by (simp add: less_le unsigned_eq_0_iff)

lemma uint_BasisPointDenominator: "uint BasisPointDenominator = 10000"
  by (simp add: BasisPointDenominator_def)

lemma AnnualizedRewardCapacity_ok:
  "AnnualizedRewardCapacity t r = Inr a \<longleftrightarrow>
     0 \<le> t \<and> r \<le> BasisPointDenominator \<and> int_ok (t * uint r) \<and> a = go_div (t * uint r) 10000"
  by (auto simp: AnnualizedRewardCapacity_def handler_simps not_less uint_BasisPointDenominator)

lemma PeriodProvision_ok:
  "PeriodProvision a n y = Inr p \<longleftrightarrow>
     0 \<le> a \<and> n \<noteq> 0 \<and> y \<noteq> 0 \<and> n \<le> y \<and> int_ok (a * uint n) \<and> p = go_div (a * uint n) (uint y)"
  by (auto simp: PeriodProvision_def handler_simps not_less)

lemma DerivedAPYBasisPoints_ok:
  "DerivedAPYBasisPoints a e = Inr y \<longleftrightarrow>
     0 \<le> a \<and> 0 \<le> e \<and> (if e = 0 then y = 0 else int_ok (a * 10000) \<and> y = go_div (a * 10000) e)"
  by (auto simp: DerivedAPYBasisPoints_def handler_simps not_less uint_BasisPointDenominator)

lemma CumulativeProvision_ok:
  "CumulativeProvision p n len = Inr c \<longleftrightarrow>
     0 \<le> p \<and> len \<noteq> 0 \<and> n \<le> len \<and> int_ok (p * uint n) \<and> c = go_div (p * uint n) (uint len)"
  by (auto simp: CumulativeProvision_def handler_simps not_less)

lemmas policy_ok = AnnualizedRewardCapacity_ok PeriodProvision_ok DerivedAPYBasisPoints_ok CumulativeProvision_ok

lemma apy_bound: "0 \<le> a \<Longrightarrow> 0 \<le> e \<Longrightarrow> DerivedAPYBasisPoints a e = Inr y \<Longrightarrow> int_ok a \<Longrightarrow> 0 \<le> y \<and> int_ok y"
proof -
  assume a: "0 \<le> a" "0 \<le> e" and y: "DerivedAPYBasisPoints a e = Inr y"
  show ?thesis
  proof (cases "e = 0")
    case True
    then show ?thesis using y by (simp add: DerivedAPYBasisPoints_ok int_ok_def)
  next
    case False
    then have "int_ok (a * 10000)" "y = go_div (a * 10000) e" using y by (simp_all add: DerivedAPYBasisPoints_ok)
    moreover have "0 \<le> go_div (a * 10000) e \<and> go_div (a * 10000) e \<le> a * 10000"
      using a False by (intro go_div_bounds) auto
    ultimately show ?thesis by (simp add: int_ok_def)
  qed
qed

lemma int_ok_le: "0 \<le> a \<Longrightarrow> a \<le> b \<Longrightarrow> int_ok b \<Longrightarrow> int_ok a"
  by (simp add: int_ok_def)

lemma no_wrap: "\<not> s > (- 1) - (n :: uint64) \<Longrightarrow> uint (s + n) = uint s + uint n"
proof -
  assume "\<not> s > (- 1) - n"
  then have "uint s \<le> uint ((- 1) - n)" by (simp add: word_le_def not_less)
  also have "uint ((- 1) - n :: uint64) = 2 ^ 64 - 1 - uint n"
    using uint_lt2p [of n] uint_ge_0 [of n] by (subst uint_sub_if') (simp add: unsigned_minus_1_eq_mask mask_eq_exp_minus_1)
  finally show ?thesis using uint_ge_0 [of s] uint_ge_0 [of n] by (simp add: uint_word_ariths(1) mod_pos_pos_trivial)
qed

lemma zero_amount: "good_amount ''0''" "amount_of ''0'' = 0"
proof -
  have "''0'' = int_dec 0" by code_simp
  then show "good_amount ''0''" "amount_of ''0'' = 0"
    by (simp_all add: good_amount_int_dec int_ok_def del: int_dec_inj)
qed

lemma NewPeriodState_ok:
  assumes "NewPeriodState start e t p = Inr st" "int_ok t" "int_ok e"
  shows "PeriodState_Validate st = Inr ()" "StartBlock st = start"
    "uint (EndBlock st) = uint start + uint (CalculationPeriodBlocks p)"
    "period_length st = uint (CalculationPeriodBlocks p)" "distributed_of st = 0"
    "0 \<le> t" "amount_of (TreasuryBalanceAtomic st) = t"
    "0 \<le> provision_of st" "provision_of st \<le> t" "ps_Rate st = TreasuryReleaseRateBasisPoints p"
    "10000 * uint (BlocksPerYear p) * provision_of st \<le> t * uint (ps_Rate st) * period_length st"
    "e = 0 \<Longrightarrow> provision_of st = 0"
proof -
  obtain a y pr where p: "Params_Validate p = Inr ()" and nw: "\<not> start > (- 1) - CalculationPeriodBlocks p"
    and e: "0 \<le> e" and a: "AnnualizedRewardCapacity t (TreasuryReleaseRateBasisPoints p) = Inr a"
    and y: "DerivedAPYBasisPoints a e = Inr y"
    and pr: "(if e > 0 then PeriodProvision a (CalculationPeriodBlocks p) (BlocksPerYear p) else Inr 0) = Inr pr"
    and st: "st = \<lparr>StartBlock = start, EndBlock = start + CalculationPeriodBlocks p,
          ps_Rate = TreasuryReleaseRateBasisPoints p, TreasuryBalanceAtomic = int_dec t,
          EligibleBondedAtomic = int_dec e, AnnualizedCapacityAtomic = int_dec a,
          ps_DerivedAPY = int_dec y, PeriodProvisionAtomic = int_dec pr, DistributedAtomic = ''0''\<rparr>"
    using assms(1) by (auto simp: NewPeriodState_def handler_simps not_less simp del: not_less)
  let ?r = "uint (TreasuryReleaseRateBasisPoints p)" and ?n = "uint (CalculationPeriodBlocks p)" and ?y = "uint (BlocksPerYear p)"
  have pv: "?r \<le> 10000" "0 < ?y" "0 < ?n" "?n \<le> ?y"
    using p by (simp_all add: Params_Validate_ok uint_le uint_pos uint_BasisPointDenominator)
  have t: "0 \<le> t" and a': "a = go_div (t * ?r) 10000" using a by (simp_all add: policy_ok)
  have ab: "0 \<le> a" "a \<le> t" "10000 * a \<le> t * ?r"
    using scaled_le [of t ?r 10000] t pv by (simp_all add: a')
  have prb: "0 \<le> pr" "pr \<le> a" "?y * pr \<le> a * ?n"
    using pr scaled_le [of a ?n ?y] ab pv by (auto simp: policy_ok split: if_splits)
  have ok: "int_ok a" "int_ok pr" "0 \<le> y" "int_ok y"
    using int_ok_le [OF ab(1,2) assms(2)] int_ok_le [OF prb(1,2)] apy_bound [OF ab(1) e y] by blast+
  note zero = zero_amount
  have wrap: "uint (start + CalculationPeriodBlocks p) = uint start + ?n" using no_wrap [OF nw] .
  show "PeriodState_Validate st = Inr ()"
    using p e t ab prb ok zero assms wrap pv
    by (simp add: PeriodState_Validate_ok st good_amount_int_dec word_less_def Params_Validate_ok)
  show "StartBlock st = start" "uint (EndBlock st) = uint start + ?n" "period_length st = ?n" "distributed_of st = 0"
    "0 \<le> t" "amount_of (TreasuryBalanceAtomic st) = t" "0 \<le> provision_of st" "provision_of st \<le> t"
    "ps_Rate st = TreasuryReleaseRateBasisPoints p"
    using t prb ab wrap zero by (simp_all add: st period_length_def)
  have "10000 * (?y * pr) \<le> 10000 * (a * ?n)" using prb by simp
  also have "\<dots> \<le> t * ?r * ?n" using mult_right_mono [OF ab(3), of ?n] pv by (simp add: mult.assoc)
  finally show "10000 * uint (BlocksPerYear p) * provision_of st \<le> t * uint (ps_Rate st) * period_length st"
    using wrap by (simp add: st period_length_def mult.assoc)
  show "e = 0 \<Longrightarrow> provision_of st = 0" using pr by (simp add: st)
qed

section \<open>What the outside code promises\<close>

text \<open>A valid period state, whose strings are base-10 numbers, is read back from its JSON text.\<close>

definition period_codec :: "incentive_env \<Rightarrow> bool" where
  "period_codec env \<longleftrightarrow> (\<forall>st. PeriodState_Validate st = Inr () \<longrightarrow>
     (\<exists>bz. MarshalPeriod env st = Inr bz \<and> bz \<noteq> [] \<and> UnmarshalPeriod env bz = Inr st))"

definition module_balance :: "'b keepers \<Rightarrow> string \<Rightarrow> 'b \<Rightarrow> int" where
  "module_balance ks name b = snd (GetBalance ks (GetModuleAddress ks name) IncentiveDenom b)"

text \<open>
  The bank: balances are coins of the asked denomination with an amount of at most 256 bits; a
  transfer between different module accounts that returns has moved exactly the amount and nothing
  of the staking state; one covered by the sender's balance, with room at the recipient, returns.
\<close>

definition bank_laws :: "'b keepers \<Rightarrow> string \<Rightarrow> bool" where
  "bank_laws ks fc \<longleftrightarrow>
     GetModuleAddress ks TreasuryAccountName \<noteq> [] \<and> fc \<noteq> [] \<and>
     GetModuleAddress ks fc \<noteq> GetModuleAddress ks TreasuryAccountName \<and>
     (\<forall>a b. fst (GetBalance ks a IncentiveDenom b) = IncentiveDenom \<and>
        0 \<le> snd (GetBalance ks a IncentiveDenom b) \<and> int_ok (snd (GetBalance ks a IncentiveDenom b))) \<and>
     (\<forall>n b c. SendCoinsFromModuleToModule ks TreasuryAccountName fc (IncentiveDenom, n) b = (Inr (), c) \<longrightarrow>
        module_balance ks TreasuryAccountName c = module_balance ks TreasuryAccountName b - n \<and>
        module_balance ks fc c = module_balance ks fc b + n \<and> TotalValidatorPower ks c = TotalValidatorPower ks b) \<and>
     (\<forall>n b. 0 < n \<and> n \<le> module_balance ks TreasuryAccountName b \<and> int_ok (module_balance ks fc b + n) \<longrightarrow>
        (\<exists>c. SendCoinsFromModuleToModule ks TreasuryAccountName fc (IncentiveDenom, n) b = (Inr (), c)))"

lemma bank_laws_D:
  assumes "bank_laws ks fc"
  shows "GetModuleAddress ks TreasuryAccountName \<noteq> []" "fc \<noteq> []"
    "fst (GetBalance ks a IncentiveDenom b) = IncentiveDenom"
    "0 \<le> module_balance ks m b" "int_ok (module_balance ks m b)"
    "SendCoinsFromModuleToModule ks TreasuryAccountName fc (IncentiveDenom, n) b = (Inr (), c) \<Longrightarrow>
       module_balance ks TreasuryAccountName c = module_balance ks TreasuryAccountName b - n \<and>
       module_balance ks fc c = module_balance ks fc b + n \<and> TotalValidatorPower ks c = TotalValidatorPower ks b"
    "0 < n \<Longrightarrow> n \<le> module_balance ks TreasuryAccountName b \<Longrightarrow> int_ok (module_balance ks fc b + n) \<Longrightarrow>
       \<exists>c. SendCoinsFromModuleToModule ks TreasuryAccountName fc (IncentiveDenom, n) b = (Inr (), c)"
  using assms by (simp_all add: bank_laws_def module_balance_def)

abbreviation treasury_of :: "'b keepers \<Rightarrow> 'b inc_state \<Rightarrow> int" where
  "treasury_of ks s \<equiv> module_balance ks TreasuryAccountName (inc_world s)"

lemma Balance_eq:
  "bank_laws ks fc \<Longrightarrow> Balance ks b = Inr (IncentiveDenom, module_balance ks TreasuryAccountName b)"
  by (simp add: Balance_def require_def thenR_def bindR_def bank_laws_D(1) module_balance_def Let_def)
    (metis bank_laws_D(3) prod.collapse)

section \<open>The keeper's writes\<close>

lemmas inc_keys = ParamsKey_def PeriodStateKey_def TotalDistributedKey_def AuthorityKey_def

lemma incE_eq [handler_simps]: "incE f s = (r, t) \<longleftrightarrow> r = Inr () \<and> t = s\<lparr>inc_store := f (inc_store s)\<rparr>"
  by (auto simp: incE_def modifyE_def)

lemma worldE_ok [handler_simps]:
  "worldE f s = (Inr x, t) \<longleftrightarrow> (\<exists>b. f (inc_world s) = (Inr x, b) \<and> t = s\<lparr>inc_world := b\<rparr>)"
  by (auto simp: worldE_def split: prod.splits)

text \<open>The cells the other operations read, when only the period and the total are written.\<close>

definition same_config :: "kv \<Rightarrow> kv \<Rightarrow> bool" where
  "same_config m m' \<longleftrightarrow> GetParams m' = GetParams m \<and> GetAuthority m' = GetAuthority m"

lemma same_config_refl [simp]: "same_config m m"
  by (simp add: same_config_def)

lemma same_config_trans: "same_config a b \<Longrightarrow> same_config b c \<Longrightarrow> same_config a c"
  by (simp add: same_config_def)

lemma SetPeriodState_ok:
  assumes "period_codec env" "SetPeriodState env st s = (Inr x, t)"
  shows "PeriodState_Validate st = Inr ()" "GetPeriodState env (inc_store t) = Inr (Some st)"
    "inc_world t = inc_world s" "GetTotalDistributed (inc_store t) = GetTotalDistributed (inc_store s)"
    "same_config (inc_store s) (inc_store t)"
proof -
  obtain bz where v: "PeriodState_Validate st = Inr ()" and bz: "MarshalPeriod env st = Inr bz"
    and t: "t = s\<lparr>inc_store := kv_set PeriodStateKey bz (inc_store s)\<rparr>"
    using assms(2) by (auto simp: SetPeriodState_def handler_simps)
  have c: "bz \<noteq> []" "UnmarshalPeriod env bz = Inr st" using assms(1) v bz by (auto simp: period_codec_def)
  show "PeriodState_Validate st = Inr ()" by (rule v)
  show "GetPeriodState env (inc_store t) = Inr (Some st)"
    using c v by (simp add: t GetPeriodState_def Let_def bindR_def thenR_def)
  show "inc_world t = inc_world s" "GetTotalDistributed (inc_store t) = GetTotalDistributed (inc_store s)"
    "same_config (inc_store s) (inc_store t)"
    by (simp_all add: t GetTotalDistributed_def same_config_def GetParams_def GetAuthority_def inc_keys)
qed

lemma SetPeriodState_runs:
  "period_codec env \<Longrightarrow> PeriodState_Validate st = Inr () \<Longrightarrow> \<exists>t. SetPeriodState env st s = (Inr (), t)"
  by (auto simp: SetPeriodState_def handler_simps period_codec_def)

lemma GetPeriodState_valid: "GetPeriodState env m = Inr (Some st) \<Longrightarrow> PeriodState_Validate st = Inr ()"
  by (auto simp: GetPeriodState_def Let_def handler_simps split: if_splits)

lemma SetTotalDistributed_ok:
  assumes "SetTotalDistributed n s = (Inr x, t)" "int_ok n"
  shows "GetTotalDistributed (inc_store t) = Inr n" "inc_world t = inc_world s"
    "GetPeriodState env (inc_store t) = GetPeriodState env (inc_store s)" "same_config (inc_store s) (inc_store t)"
proof -
  have n: "0 \<le> n" and t: "t = s\<lparr>inc_store := kv_set TotalDistributedKey (int_dec n) (inc_store s)\<rparr>"
    using assms(1) by (auto simp: SetTotalDistributed_def handler_simps)
  have ne: "int_dec n \<noteq> []" using n by (simp add: int_dec_def)
  show "GetTotalDistributed (inc_store t) = Inr n"
    using n ne assms(2) good_amount_int_dec [of n]
    by (simp add: t GetTotalDistributed_def Let_def ParseStoredAtomicAmount_def good_amount_def bindR_def thenR_def require_def)
  show "inc_world t = inc_world s" "GetPeriodState env (inc_store t) = GetPeriodState env (inc_store s)"
    "same_config (inc_store s) (inc_store t)"
    by (simp_all add: t GetPeriodState_def same_config_def GetParams_def GetAuthority_def inc_keys)
qed

section \<open>The steps of a block\<close>

lemma GetTotalDistributed_ok: "GetTotalDistributed m = Inr n \<Longrightarrow> 0 \<le> n \<and> int_ok n"
  by (auto simp: GetTotalDistributed_def Let_def handler_simps ParseStoredAtomicAmount_def parseAtomicAmount_ok int_ok_def
      split: if_splits)

lemma SnapshotPeriod_ok:
  assumes "period_codec env" "bank_laws ks fc" "SnapshotPeriod env ks h s = (Inr st, u)"
  obtains e where "0 \<le> h" "TotalValidatorPower ks (inc_world s) = Inr e" "0 \<le> e"
    "NewPeriodState (word_of_int h) e (treasury_of ks s) (GetParams (inc_store s)) = Inr st"
    "SetPeriodState env st s = (Inr (), u)"
  using assms(3)
  by (auto simp: SnapshotPeriod_def handler_simps Balance_eq [OF assms(2)] not_less)

lemma RemainingProvision_ok:
  "RemainingProvision st = Inr n \<longleftrightarrow> PeriodState_Validate st = Inr () \<and> n = provision_of st - distributed_of st"
proof -
  have "int_ok (provision_of st - distributed_of st)" if "PeriodState_Validate st = Inr ()"
    using that by (auto simp: PeriodState_Validate_ok good_amount_def parseAtomicAmount_ok int_ok_def)
  then show ?thesis
    by (auto simp: RemainingProvision_def handler_simps PeriodState_Validate_ok good_amount_def dest: parseAtomicAmount_of)
qed

lemma stored_amounts:
  assumes "PeriodState_Validate st = Inr ()"
  shows "ParseStoredAtomicAmount (PeriodProvisionAtomic st) = Inr (provision_of st)"
    "ParseStoredAtomicAmount (DistributedAtomic st) = Inr (distributed_of st)"
    "0 \<le> distributed_of st" "distributed_of st \<le> provision_of st" "int_ok (provision_of st)"
  using assms by (simp_all add: PeriodState_Validate_ok good_amount_def ParseStoredAtomicAmount_def parseAtomicAmount_ok)

lemma RecordDistribution_ok:
  assumes codec: "period_codec env" and st: "GetPeriodState env (inc_store s) = Inr (Some st)"
    and rec: "RecordDistribution env n s = (Inr (), t)"
  shows "0 < n" "n \<le> provision_of st - distributed_of st"
    "GetPeriodState env (inc_store t) = Inr (Some (st\<lparr>DistributedAtomic := int_dec (distributed_of st + n)\<rparr>))"
    "\<exists>total. GetTotalDistributed (inc_store s) = Inr total \<and> GetTotalDistributed (inc_store t) = Inr (total + n)"
    "inc_world t = inc_world s" "same_config (inc_store s) (inc_store t)"
proof -
  have v: "PeriodState_Validate st = Inr ()" using st by (rule GetPeriodState_valid)
  obtain total v where n: "0 < n" "n \<le> provision_of st - distributed_of st"
    and total: "GetTotalDistributed (inc_store s) = Inr total"
    and set: "SetPeriodState env (st\<lparr>DistributedAtomic := int_dec (distributed_of st + n)\<rparr>) s = (Inr (), v)"
    and ok: "int_ok (total + n)" and tot: "SetTotalDistributed (total + n) v = (Inr (), t)"
    using rec st stored_amounts [OF v] by (auto simp: RecordDistribution_def handler_simps RemainingProvision_ok)
  show "0 < n" "n \<le> provision_of st - distributed_of st" by (fact n)+
  show "GetPeriodState env (inc_store t) = Inr (Some (st\<lparr>DistributedAtomic := int_dec (distributed_of st + n)\<rparr>))"
    using SetTotalDistributed_ok(3) [OF tot ok] SetPeriodState_ok(2) [OF codec set] by simp
  show "\<exists>total. GetTotalDistributed (inc_store s) = Inr total \<and> GetTotalDistributed (inc_store t) = Inr (total + n)"
    using total SetTotalDistributed_ok(1) [OF tot ok] by blast
  show "inc_world t = inc_world s" using SetTotalDistributed_ok(2) [OF tot ok] SetPeriodState_ok(3) [OF codec set] by simp
  show "same_config (inc_store s) (inc_store t)"
    using same_config_trans [OF SetPeriodState_ok(5) [OF codec set] SetTotalDistributed_ok(4) [OF tot ok]] .
qed

text \<open>The period that a block at a height belongs to, and what it must have released by then.\<close>

definition active_at :: "int \<Rightarrow> PeriodState \<Rightarrow> bool" where
  "active_at h st \<longleftrightarrow> uint (StartBlock st) \<le> h \<and> h < uint (EndBlock st)"

definition released_by :: "int \<Rightarrow> PeriodState \<Rightarrow> int" where
  "released_by h st = provision_of st * (h - uint (StartBlock st) + 1) div period_length st"

lemma height_word: "0 \<le> h \<Longrightarrow> h < 2 ^ 63 \<Longrightarrow> uint (word_of_int h :: uint64) = h"
  by (simp add: uint_word_of_int)

lemma elapsed_word:
  assumes "0 \<le> h" "h < 2 ^ 63" "active_at h st"
  shows "uint ((word_of_int h :: uint64) - StartBlock st + 1) = h - uint (StartBlock st) + 1"
    "uint (EndBlock st - StartBlock st) = period_length st" "0 < period_length st"
    "h - uint (StartBlock st) + 1 \<le> period_length st"
proof -
  have w: "uint (word_of_int h :: uint64) = h" using assms by (intro height_word)
  have d: "uint ((word_of_int h :: uint64) - StartBlock st) = h - uint (StartBlock st)"
    using assms(3) by (subst uint_sub_lem [THEN iffD1]) (simp_all add: w active_at_def)
  show "uint ((word_of_int h :: uint64) - StartBlock st + 1) = h - uint (StartBlock st) + 1"
  proof -
    have "h + 1 < 2 ^ 64" using assms(2) by simp
    then have "0 \<le> h - uint (StartBlock st) + 1" "h - uint (StartBlock st) + 1 < 2 ^ 64"
      using assms(3) uint_ge_0 [of "StartBlock st"] unfolding active_at_def by linarith+
    then show ?thesis by (subst uint_word_ariths(1)) (simp add: d mod_pos_pos_trivial)
  qed
  show "uint (EndBlock st - StartBlock st) = period_length st"
    using assms(3) by (subst uint_sub_lem [THEN iffD1]) (simp_all add: active_at_def period_length_def)
  show "0 < period_length st" "h - uint (StartBlock st) + 1 \<le> period_length st"
    using assms(3) by (simp_all add: active_at_def period_length_def)
qed

lemma released_by_bounds:
  assumes "active_at h st" "0 \<le> provision_of st"
  shows "0 \<le> released_by h st" "released_by h st \<le> provision_of st" "released_by h st \<le> released_by (h + 1) st"
    "h + 1 = uint (EndBlock st) \<Longrightarrow> released_by h st = provision_of st"
proof -
  have l: "0 < period_length st" "0 \<le> h - uint (StartBlock st) + 1" "h - uint (StartBlock st) + 1 \<le> period_length st"
    using assms(1) by (simp_all add: active_at_def period_length_def)
  have e: "released_by h st = go_div (provision_of st * (h - uint (StartBlock st) + 1)) (period_length st)"
    "released_by (h + 1) st = go_div (provision_of st * (h + 1 - uint (StartBlock st) + 1)) (period_length st)"
    unfolding released_by_def using l assms(2) by (simp_all add: go_div_nonneg)
  show "0 \<le> released_by h st" "released_by h st \<le> provision_of st"
    unfolding e using scaled_le(1,2) [OF assms(2) l(2,3,1)] .
  show "released_by h st \<le> released_by (h + 1) st"
    unfolding e using l by (intro scaled_mono [OF assms(2)]) simp_all
  show "released_by h st = provision_of st" if "h + 1 = uint (EndBlock st)"
  proof -
    have "h - uint (StartBlock st) + 1 = period_length st" using that by (simp add: period_length_def)
    then show ?thesis using l by (simp add: released_by_def)
  qed
qed

lemma CumulativeProvision_at:
  assumes "0 \<le> h" "h < 2 ^ 63" "active_at h st" "0 \<le> provision_of st"
  shows "CumulativeProvision (provision_of st) (word_of_int h - StartBlock st + 1) (EndBlock st - StartBlock st) = Inr c \<longleftrightarrow>
    int_ok (provision_of st * (h - uint (StartBlock st) + 1)) \<and> c = released_by h st"
proof -
  note w = elapsed_word [OF assms(1-3)]
  have "0 \<le> provision_of st * (h - uint (StartBlock st) + 1)" using assms by (simp add: active_at_def)
  moreover have "EndBlock st \<noteq> StartBlock st" using assms(3) by (auto simp: active_at_def)
  ultimately show ?thesis
    using w assms by (simp add: CumulativeProvision_ok uint_le released_by_def go_div_nonneg)
qed

lemma active_word:
  assumes "0 \<le> h" "h < 2 ^ 63"
  shows "\<not> ((word_of_int h :: uint64) < StartBlock st \<or> EndBlock st \<le> word_of_int h) \<longleftrightarrow> active_at h st"
    "EndBlock st \<le> word_of_int h \<longleftrightarrow> uint (EndBlock st) \<le> h"
  using height_word [OF assms] by (auto simp: active_at_def word_less_def word_le_def)

text \<open>
  The period in which block \<open>h\<close> pays: the stored one while it runs, and otherwise the one that the
  current treasury, bonded stake and parameters give from \<open>h\<close> on, with nothing distributed.
\<close>

definition period_at :: "incentive_env \<Rightarrow> 'b keepers \<Rightarrow> int \<Rightarrow> 'b inc_state \<Rightarrow> PeriodState \<Rightarrow> bool" where
  "period_at env ks h s old \<longleftrightarrow>
     (GetPeriodState env (inc_store s) = Inr (Some old) \<and> h < uint (EndBlock old)) \<or>
     ((\<forall>st. GetPeriodState env (inc_store s) = Inr (Some st) \<longrightarrow> uint (EndBlock st) \<le> h) \<and> distributed_of old = 0 \<and>
      (\<exists>e. TotalValidatorPower ks (inc_world s) = Inr e \<and>
         NewPeriodState (word_of_int h) e (treasury_of ks s) (GetParams (inc_store s)) = Inr old))"

lemma NewPeriodState_distributed: "NewPeriodState h e b p = Inr st \<Longrightarrow> distributed_of st = 0"
  by (auto simp: NewPeriodState_def handler_simps zero_amount)

lemma ProcessBlock_cases:
  assumes codec: "period_codec env" and bank: "bank_laws ks fc" and h: "h < 2 ^ 63"
    and run: "ProcessBlock env ks fc h s = (Inr (), t)"
  obtains st u where "0 \<le> h" "active_at h st" "GetPeriodState env (inc_store u) = Inr (Some st)"
    "u = s \<or> SnapshotPeriod env ks h s = (Inr st, u)" "period_at env ks h s st"
    "distributed_of st \<le> released_by h st"
    "released_by h st = distributed_of st \<and> t = u \<or>
     (\<exists>v. SendToModule ks fc (released_by h st - distributed_of st) u = (Inr (), v) \<and>
          RecordDistribution env (released_by h st - distributed_of st) v = (Inr (), t))"
proof -
  obtain found st u where h0: "0 \<le> h" and found: "GetPeriodState env (inc_store s) = Inr found"
    and st: "(case found of
              Some st \<Rightarrow> if (word_of_int h :: uint64) \<ge> EndBlock st then SnapshotPeriod env ks h else okE st
            | None \<Rightarrow> SnapshotPeriod env ks h) s = (Inr st, u)"
    and rest: "release_share env ks fc (word_of_int h) st u = (Inr (), t)"
    using run by (auto simp: ProcessBlock_def Let_def handler_simps)
  have u: "u = s \<and> found = Some st \<or> SnapshotPeriod env ks h s = (Inr st, u)"
    using st by (auto split: option.splits if_splits)
  have get: "GetPeriodState env (inc_store u) = Inr (Some st)"
    using u found by (auto elim!: SnapshotPeriod_ok [OF codec bank] simp: SetPeriodState_ok(2) [OF codec])
  have v: "PeriodState_Validate st = Inr ()" using get by (rule GetPeriodState_valid)
  note sa = stored_amounts [OF v]
  have act: "active_at h st" using rest active_word(1) [OF h0 h, of st] by (simp add: release_share_def thenE_ok requireE_ok)
  have "CumulativeProvision (provision_of st) (word_of_int h - StartBlock st + 1) (EndBlock st - StartBlock st) =
        Inr c \<longrightarrow> c = released_by h st" for c
    using CumulativeProvision_at [OF h0 h act] sa by auto
  then have "distributed_of st \<le> released_by h st"
    "released_by h st = distributed_of st \<and> t = u \<or>
     (\<exists>v. SendToModule ks fc (released_by h st - distributed_of st) u = (Inr (), v) \<and>
          RecordDistribution env (released_by h st - distributed_of st) v = (Inr (), t))"
    using rest sa(1,2) by (auto simp: release_share_def handler_simps split: if_splits)
  moreover have "period_at env ks h s st"
    using st found act height_word [OF h0 h]
    by (auto simp: period_at_def active_at_def word_le_def NewPeriodState_distributed split: option.splits if_splits
        elim!: SnapshotPeriod_ok [OF codec bank])
  ultimately show ?thesis using that h0 act get u by blast
qed

lemma SendToModule_ok:
  assumes "bank_laws ks fc" "SendToModule ks fc n s = (Inr (), t)"
  shows "0 < n" "n \<le> treasury_of ks s" "inc_store t = inc_store s"
    "treasury_of ks t = treasury_of ks s - n"
    "module_balance ks fc (inc_world t) = module_balance ks fc (inc_world s) + n"
    "TotalValidatorPower ks (inc_world t) = TotalValidatorPower ks (inc_world s)"
  using assms(2) bank_laws_D(6) [OF assms(1), of n "inc_world s"]
  by (auto simp: SendToModule_def handler_simps Balance_eq [OF assms(1)])

end
