(* ===== verification/Incentives_Properties.thy ===== *)
theory Incentives_Properties
  imports Incentives_Facts Demo_Codec
begin

text \<open>
  Properties of the validator incentives: what a block releases, that along every run the treasury
  and the lifetime total account for each other, that the begin-block handler keeps running, the
  bounds of a period's provision, who may change the parameters, and what the genesis export keeps.
\<close>

section \<open>One block\<close>

lemma ProcessBlock_effect:
  assumes codec: "period_codec env" and bank: "bank_laws ks fc" and h: "h < 2 ^ 63"
    and run: "ProcessBlock env ks fc h s = (Inr (), t)" and total: "GetTotalDistributed (inc_store s) = Inr d"
  obtains st paid old where "0 \<le> paid" "active_at h st" "GetPeriodState env (inc_store t) = Inr (Some st)"
    "period_at env ks h s old" "st\<lparr>DistributedAtomic := DistributedAtomic old\<rparr> = old" "paid = released_by h old - distributed_of old"
    "distributed_of st = released_by h st" "GetTotalDistributed (inc_store t) = Inr (d + paid)"
    "treasury_of ks t = treasury_of ks s - paid"
    "module_balance ks fc (inc_world t) = module_balance ks fc (inc_world s) + paid"
    "TotalValidatorPower ks (inc_world t) = TotalValidatorPower ks (inc_world s)"
    "same_config (inc_store s) (inc_store t)"
proof -
  obtain st u where act: "active_at h st" and get: "GetPeriodState env (inc_store u) = Inr (Some st)"
    and u: "u = s \<or> SnapshotPeriod env ks h s = (Inr st, u)" and le: "distributed_of st \<le> released_by h st"
    and per: "period_at env ks h s st"
    and fin: "released_by h st = distributed_of st \<and> t = u \<or>
     (\<exists>v. SendToModule ks fc (released_by h st - distributed_of st) u = (Inr (), v) \<and>
          RecordDistribution env (released_by h st - distributed_of st) v = (Inr (), t))"
    using ProcessBlock_cases [OF codec bank h run] by metis
  have su: "GetTotalDistributed (inc_store u) = Inr d" "inc_world u = inc_world s" "same_config (inc_store s) (inc_store u)"
  proof -
    have "u = s \<or> SetPeriodState env st s = (Inr (), u)" using u by (auto elim!: SnapshotPeriod_ok [OF codec bank])
    then show "GetTotalDistributed (inc_store u) = Inr d" "inc_world u = inc_world s" "same_config (inc_store s) (inc_store u)"
      using SetPeriodState_ok(3-5) [OF codec, of st s "()" u] total by auto
  qed
  show thesis
  proof (cases "released_by h st = distributed_of st \<and> t = u")
    case True
    show ?thesis by (rule that [of 0 st st]) (use True act get su per in simp_all)
  next
    case False
    let ?n = "released_by h st - distributed_of st"
    obtain v where send: "SendToModule ks fc ?n u = (Inr (), v)" and rec: "RecordDistribution env ?n v = (Inr (), t)"
      using fin False by blast
    note sm = SendToModule_ok [OF bank send]
    have gv: "GetPeriodState env (inc_store v) = Inr (Some st)" using get sm(3) by simp
    note rd = RecordDistribution_ok [OF codec gv rec]
    let ?st = "st\<lparr>DistributedAtomic := int_dec (distributed_of st + ?n)\<rparr>"
    have "active_at h ?st" "distributed_of ?st = released_by h ?st"
      using act by (simp_all add: active_at_def released_by_def period_length_def)
    moreover have "GetTotalDistributed (inc_store t) = Inr (d + ?n)" using rd(4) sm(3) su(1) by auto
    moreover have "same_config (inc_store s) (inc_store t)" using su(3) rd(6) sm(3) same_config_trans by metis
    ultimately show ?thesis
      by (intro that [of ?n ?st st]) (use le rd(3,5) sm su(2) per in simp_all)
  qed
qed

text \<open>
  C30. Every block that the begin-block handler accepts pays exactly what is due. The period in
  which it pays is the stored one while it runs, and otherwise the one that the treasury, the bonded
  stake and the parameters give from this block on. The amount paid is the share of the period's
  provision for the blocks elapsed so far less what the period had distributed before; it leaves the
  treasury account, arrives at the fee collector and is added to the lifetime total. The period
  stored afterwards differs from it only in the distributed amount, which is that share, the whole
  provision at the period's last block; parameters and authority are untouched.
\<close>

theorem block_release_is_exact:
  assumes "period_codec env" "bank_laws ks fc" "h < 2 ^ 63"
    and "BeginBlock env ks fc h s = (Inr (), t)" "GetTotalDistributed (inc_store s) = Inr d"
  shows "\<exists>old st paid. period_at env ks h s old \<and> paid = released_by h old - distributed_of old \<and> 0 \<le> paid \<and>
    GetPeriodState env (inc_store t) = Inr (Some st) \<and> st\<lparr>DistributedAtomic := DistributedAtomic old\<rparr> = old \<and> active_at h st \<and>
    distributed_of st = released_by h st \<and> (h + 1 = uint (EndBlock st) \<longrightarrow> distributed_of st = provision_of st) \<and>
    GetTotalDistributed (inc_store t) = Inr (d + paid) \<and>
    treasury_of ks t = treasury_of ks s - paid \<and>
    module_balance ks fc (inc_world t) = module_balance ks fc (inc_world s) + paid \<and>
    GetParams (inc_store t) = GetParams (inc_store s) \<and> GetAuthority (inc_store t) = GetAuthority (inc_store s)"
proof -
  obtain st paid old where p: "0 \<le> paid" "active_at h st" "GetPeriodState env (inc_store t) = Inr (Some st)"
    "period_at env ks h s old" "st\<lparr>DistributedAtomic := DistributedAtomic old\<rparr> = old" "paid = released_by h old - distributed_of old"
    "distributed_of st = released_by h st" "GetTotalDistributed (inc_store t) = Inr (d + paid)"
    "treasury_of ks t = treasury_of ks s - paid"
    "module_balance ks fc (inc_world t) = module_balance ks fc (inc_world s) + paid"
    "same_config (inc_store s) (inc_store t)"
    by (rule ProcessBlock_effect [OF assms(1-3) assms(4) [unfolded BeginBlock_def] assms(5)])
  have "0 \<le> provision_of st" using stored_amounts(3,4) [OF GetPeriodState_valid [OF p(3)]] by linarith
  then have "h + 1 = uint (EndBlock st) \<longrightarrow> distributed_of st = provision_of st"
    using p(7) released_by_bounds(4) [OF p(2)] by simp
  then show ?thesis
    using p unfolding same_config_def by (intro exI [of _ old] exI [of _ st] exI [of _ paid] conjI) simp_all
qed

section \<open>Runs\<close>

datatype inc_event = Block int | Update MsgUpdateParams | Migrate | Deposit int

inductive inc_step :: "incentive_env \<Rightarrow> 'b keepers \<Rightarrow> string \<Rightarrow> inc_event \<Rightarrow> 'b inc_state \<Rightarrow> 'b inc_state \<Rightarrow> bool"
  for env :: incentive_env and ks :: "'b keepers" and fc :: string where
  inc_block: "h < 2 ^ 63 \<Longrightarrow> BeginBlock env ks fc h s = (Inr (), t) \<Longrightarrow> inc_step env ks fc (Block h) s t"
| inc_update: "MsgServer_UpdateParams env (Some m) s = (Inr (), t) \<Longrightarrow> inc_step env ks fc (Update m) s t"
| inc_migrate: "Migrate1to2 s = (Inr (), t) \<Longrightarrow> inc_step env ks fc Migrate s t"
| inc_deposit: "0 \<le> n \<Longrightarrow> module_balance ks TreasuryAccountName b = treasury_of ks s + n \<Longrightarrow>
    inc_step env ks fc (Deposit n) s (s\<lparr>inc_world := b\<rparr>)"

inductive_cases inc_stepE: "inc_step env ks fc l s t"

primrec deposited :: "inc_event \<Rightarrow> int" where
  "deposited (Block h) = 0"
| "deposited (Update m) = 0"
| "deposited Migrate = 0"
| "deposited (Deposit n) = n"

lemma SetParams_ok:
  assumes "SetParams p s = (Inr x, t)"
  shows "Params_Validate p = Inr ()" "GetParams (inc_store t) = p" "GetAuthority (inc_store t) = GetAuthority (inc_store s)"
    "GetTotalDistributed (inc_store t) = GetTotalDistributed (inc_store s)"
    "GetPeriodState env (inc_store t) = GetPeriodState env (inc_store s)" "inc_world t = inc_world s"
  using assms
  by (auto simp: SetParams_def handler_simps GetParams_def GetAuthority_def GetTotalDistributed_def GetPeriodState_def
      inc_keys codec_simps)

lemma MsgServer_UpdateParams_ok:
  "MsgServer_UpdateParams env (Some m) s = (Inr x, t) \<Longrightarrow> SetParams (cmd_Params (command_of m)) s = (Inr (), t)"
  by (auto simp: MsgServer_UpdateParams_def HandleUpdateParamsCommand_def UpdateParamsAuthorized_def UpdateParams_def handler_simps)

lemma Migrate1to2_ok:
  assumes "Migrate1to2 s = (Inr (), t)"
  shows "GetTotalDistributed (inc_store t) = GetTotalDistributed (inc_store s)" "inc_world t = inc_world s"
proof -
  obtain u where u: "SetParams DefaultParams s = (Inr (), u)" and t: "t = u\<lparr>inc_store := kv_delete PeriodStateKey (inc_store u)\<rparr>"
    using assms by (auto simp: Migrate1to2_def handler_simps)
  have "GetTotalDistributed (inc_store t) = GetTotalDistributed (inc_store u)"
    by (simp add: t GetTotalDistributed_def inc_keys)
  then show "GetTotalDistributed (inc_store t) = GetTotalDistributed (inc_store s)" "inc_world t = inc_world s"
    using SetParams_ok(4,6) [OF u] by (simp_all add: t)
qed

lemma inc_step_accounts:
  assumes "period_codec env" "bank_laws ks fc" "inc_step env ks fc l s t" "GetTotalDistributed (inc_store s) = Inr d"
  shows "\<exists>d'. GetTotalDistributed (inc_store t) = Inr d' \<and> d \<le> d' \<and>
    treasury_of ks t + d' = treasury_of ks s + d + deposited l"
  using assms(3)
proof cases
  case (inc_block h)
  then have "ProcessBlock env ks fc h s = (Inr (), t)" by (simp add: BeginBlock_def)
  then obtain paid where "0 \<le> paid" "GetTotalDistributed (inc_store t) = Inr (d + paid)"
    "treasury_of ks t = treasury_of ks s - paid"
    using ProcessBlock_effect [OF assms(1,2) inc_block(2) _ assms(4)] by metis
  then show ?thesis using inc_block(1) by simp
next
  case (inc_update m)
  then show ?thesis using SetParams_ok(4,6) [OF MsgServer_UpdateParams_ok [OF inc_update(2)]] assms(4) by auto
next
  case inc_migrate
  then show ?thesis using Migrate1to2_ok [OF inc_migrate(2)] assms(4) by auto
next
  case (inc_deposit n b)
  then show ?thesis using assms(4) by auto
qed

text \<open>
  C7. The treasury and the lifetime total account for each other along every run of blocks,
  parameter updates, migrations and deposits: what the treasury holds plus what was ever distributed
  grows by exactly the deposits, and the lifetime total never decreases.
\<close>

theorem treasury_accounts_for_distribution:
  assumes "run (inc_step env ks fc) s ls t" "period_codec env" "bank_laws ks fc"
    and "GetTotalDistributed (inc_store s) = Inr d"
  shows "\<exists>d'. GetTotalDistributed (inc_store t) = Inr d' \<and> d \<le> d' \<and>
    treasury_of ks t + d' = treasury_of ks s + d + sum_list (map deposited ls)"
  using assms
proof (induction arbitrary: d rule: run.induct)
  case (run_Nil s)
  then show ?case by simp
next
  case (run_Cons l s t ls u)
  obtain d' where d': "GetTotalDistributed (inc_store t) = Inr d'" "d \<le> d'"
    "treasury_of ks t + d' = treasury_of ks s + d + deposited l"
    using inc_step_accounts [OF run_Cons.prems(1,2) run_Cons.hyps(1) run_Cons.prems(3)] by blast
  from run_Cons.IH [OF run_Cons.prems(1,2) d'(1)] show ?case using d'(2,3) by auto
qed

section \<open>The begin-block handler keeps running\<close>

lemma small_prod: "0 \<le> a \<Longrightarrow> a < 2 ^ 180 \<Longrightarrow> 0 \<le> b \<Longrightarrow> b < 2 ^ 64 \<Longrightarrow> int_ok (a * b)"
proof -
  assume a: "0 \<le> a" "a < 2 ^ 180" "0 \<le> b" "b < 2 ^ 64"
  then have "a * b \<le> 2 ^ 180 * 2 ^ 64" by (intro mult_mono) auto
  then show "int_ok (a * b)" using a by (simp add: int_ok_def)
qed

lemma uint64_bounds: "0 \<le> uint (w :: uint64)" "uint (w :: uint64) < 2 ^ 64"
  using uint_lt2p [of w] uint_ge_0 [of w] by simp_all

lemma NewPeriodState_runs:
  assumes p: "Params_Validate p = Inr ()" and start: "uint start + uint (CalculationPeriodBlocks p) < 2 ^ 64"
    and e: "0 \<le> e" and t: "0 \<le> t" "t < 2 ^ 180"
  shows "\<exists>st. NewPeriodState start e t p = Inr st"
proof -
  let ?r = "uint (TreasuryReleaseRateBasisPoints p)" and ?n = "uint (CalculationPeriodBlocks p)"
  define a where "a = go_div (t * ?r) 10000"
  have r: "0 \<le> ?r" "?r \<le> 10000" using p by (simp_all add: Params_Validate_ok uint_le uint_BasisPointDenominator)
  have a: "0 \<le> a" "a < 2 ^ 180" using scaled_le(1,2) [OF t(1) r] t(2) by (simp_all add: a_def)
  have cap: "AnnualizedRewardCapacity t (TreasuryReleaseRateBasisPoints p) = Inr a"
    using small_prod [OF t, of ?r] r t p by (simp add: AnnualizedRewardCapacity_ok a_def Params_Validate_ok)
  have apy: "\<exists>y. DerivedAPYBasisPoints a e = Inr y"
    using small_prod [OF a, of 10000] a e by (cases "e = 0") (simp_all add: DerivedAPYBasisPoints_ok)
  have prov: "\<exists>q. PeriodProvision a (CalculationPeriodBlocks p) (BlocksPerYear p) = Inr q"
    using small_prod [OF a, of ?n] uint64_bounds [of "CalculationPeriodBlocks p"] a p
    by (simp add: PeriodProvision_ok Params_Validate_ok)
  have start': "\<not> start > (- 1) - CalculationPeriodBlocks p"
  proof -
    have "uint ((- 1) - CalculationPeriodBlocks p) = 2 ^ 64 - 1 - ?n"
      using uint64_bounds [of "CalculationPeriodBlocks p"]
      by (subst uint_sub_if') (simp add: unsigned_minus_1_eq_mask mask_eq_exp_minus_1)
    then show ?thesis using start by (simp add: word_less_def)
  qed
  show ?thesis
    using p start' e cap apy prov by (auto simp: NewPeriodState_def require_def thenR_def bindR_def)
qed

lemma RecordDistribution_runs:
  assumes codec: "period_codec env" and st: "GetPeriodState env (inc_store s) = Inr (Some st)"
    and total: "GetTotalDistributed (inc_store s) = Inr d" and n: "0 < n" "n \<le> provision_of st - distributed_of st"
    and ok: "int_ok (d + n)"
  shows "\<exists>t. RecordDistribution env n s = (Inr (), t)"
proof -
  let ?st = "st\<lparr>DistributedAtomic := int_dec (distributed_of st + n)\<rparr>"
  have v: "PeriodState_Validate st = Inr ()" using st by (rule GetPeriodState_valid)
  note sa = stored_amounts [OF v]
  have ok': "int_ok (distributed_of st + n)" using sa n by (intro int_ok_le [OF _ _ sa(5)]) linarith+
  then have "PeriodState_Validate ?st = Inr ()"
    using v n sa by (simp add: PeriodState_Validate_ok good_amount_int_dec)
  then obtain v where set: "SetPeriodState env ?st s = (Inr (), v)" using SetPeriodState_runs [OF codec] by blast
  have "0 \<le> d" using GetTotalDistributed_ok [OF total] by simp
  then have "\<exists>t. SetTotalDistributed (d + n) v = (Inr (), t)" using n by (simp add: SetTotalDistributed_def handler_simps)
  moreover have "RemainingProvision st = Inr (provision_of st - distributed_of st)" using v by (simp add: RemainingProvision_ok)
  ultimately show ?thesis
    using st total n ok ok' sa set by (auto simp: RecordDistribution_def handler_simps)
qed

text \<open>The next block's share is covered: what a period still owes is in the treasury.\<close>

definition owed_covered :: "'b keepers \<Rightarrow> int \<Rightarrow> PeriodState \<Rightarrow> 'b inc_state \<Rightarrow> bool" where
  "owed_covered ks h st s \<longleftrightarrow> active_at h st \<and> distributed_of st \<le> released_by h st \<and>
     provision_of st - distributed_of st \<le> treasury_of ks s \<and> provision_of st < 2 ^ 180"

definition funded :: "'b keepers \<Rightarrow> string \<Rightarrow> 'b inc_state \<Rightarrow> bool" where
  "funded ks fc s \<longleftrightarrow> treasury_of ks s + module_balance ks fc (inc_world s) < 2 ^ 180 \<and>
     (\<exists>d. GetTotalDistributed (inc_store s) = Inr d \<and> d + treasury_of ks s < 2 ^ 180)"

lemma SendToModule_runs:
  assumes "bank_laws ks fc" "0 < n" "n \<le> treasury_of ks s" "funded ks fc s"
  shows "\<exists>t. SendToModule ks fc n s = (Inr (), t)"
proof -
  have "int_ok (module_balance ks fc (inc_world s) + n)"
    using assms(2-4) bank_laws_D(4) [OF assms(1), of fc "inc_world s"] by (simp add: funded_def int_ok_def)
  from bank_laws_D(7) [OF assms(1-3) this] show ?thesis
    using assms(2,3) bank_laws_D(2) [OF assms(1)]
    by (auto simp: SendToModule_def handler_simps Balance_eq [OF assms(1)])
qed

lemma release_share_runs:
  assumes codec: "period_codec env" and bank: "bank_laws ks fc" and h: "0 \<le> h" "h < 2 ^ 63"
    and get: "GetPeriodState env (inc_store s) = Inr (Some st)" and cov: "owed_covered ks h st s" and fund: "funded ks fc s"
  shows "\<exists>t. release_share env ks fc (word_of_int h) st s = (Inr (), t)"
proof -
  let ?n = "released_by h st - distributed_of st"
  note sa = stored_amounts [OF GetPeriodState_valid [OF get]]
  have act: "active_at h st" and n0: "0 \<le> ?n" using cov by (simp_all add: owed_covered_def)
  have p0: "0 \<le> provision_of st" using sa(3,4) by linarith
  note rb = released_by_bounds [OF act p0]
  have "h - uint (StartBlock st) + 1 < 2 ^ 64" "0 \<le> h - uint (StartBlock st) + 1"
    using elapsed_word(1) [OF h act] uint64_bounds by metis+
  then have "int_ok (provision_of st * (h - uint (StartBlock st) + 1))"
    using cov p0 by (intro small_prod) (simp_all add: owed_covered_def)
  then have cum: "CumulativeProvision (provision_of st) (word_of_int h - StartBlock st + 1) (EndBlock st - StartBlock st) =
      Inr (released_by h st)"
    using CumulativeProvision_at [OF h act p0] by simp
  have ok: "int_ok ?n" using sa rb n0 by (intro int_ok_le [OF _ _ sa(5)]) linarith+
  have "\<exists>t. (if ?n = 0 then okE () else thenE (SendToModule ks fc ?n) (RecordDistribution env ?n)) s = (Inr (), t)"
  proof (cases "?n = 0")
    case True
    then show ?thesis by simp
  next
    case False
    have n: "0 < ?n" "?n \<le> treasury_of ks s" using False n0 cov rb(2) by (simp_all add: owed_covered_def)
    obtain v where send: "SendToModule ks fc ?n s = (Inr (), v)" using SendToModule_runs [OF bank n fund] by blast
    obtain d where d: "GetTotalDistributed (inc_store s) = Inr d" "d + treasury_of ks s < 2 ^ 180"
      using fund by (auto simp: funded_def)
    have "int_ok (d + ?n)" using d n GetTotalDistributed_ok [OF d(1)] by (simp add: int_ok_def)
    then have "\<exists>t. RecordDistribution env ?n v = (Inr (), t)"
      using RecordDistribution_runs [OF codec, of v st d ?n] SendToModule_ok(3) [OF bank send] get d n rb(2) by simp
    then show ?thesis using send False by (auto simp: handler_simps)
  qed
  then show ?thesis
    using active_word(1) [OF h, of st] act n0 sa(1,2) cum ok
    by (auto simp: release_share_def handler_simps)
qed

text \<open>
  A state in which the block at a height can be processed: valid parameters with a period that fits
  the height's type, a staking query that answers, funds within the integers' range, and a period
  that is over or covered.
\<close>

definition solvent :: "incentive_env \<Rightarrow> 'b keepers \<Rightarrow> string \<Rightarrow> int \<Rightarrow> 'b inc_state \<Rightarrow> bool" where
  "solvent env ks fc h s \<longleftrightarrow>
     Params_Validate (GetParams (inc_store s)) = Inr () \<and>
     uint (CalculationPeriodBlocks (GetParams (inc_store s))) < 2 ^ 63 \<and>
     (\<exists>e. TotalValidatorPower ks (inc_world s) = Inr e \<and> 0 \<le> e \<and> int_ok e) \<and> funded ks fc s \<and>
     (\<exists>found. GetPeriodState env (inc_store s) = Inr found \<and>
        (case found of None \<Rightarrow> True | Some st \<Rightarrow> uint (EndBlock st) \<le> h \<or> owed_covered ks h st s))"

lemma SnapshotPeriod_runs:
  assumes codec: "period_codec env" and bank: "bank_laws ks fc" and h: "0 \<le> h" "h < 2 ^ 63"
    and solv: "solvent env ks fc h s"
  shows "\<exists>st u. SnapshotPeriod env ks h s = (Inr st, u) \<and> owed_covered ks h st u \<and> funded ks fc u \<and>
    GetPeriodState env (inc_store u) = Inr (Some st)"
proof -
  let ?p = "GetParams (inc_store s)" and ?t = "treasury_of ks s"
  obtain e where e: "TotalValidatorPower ks (inc_world s) = Inr e" "0 \<le> e" "int_ok e"
    and p: "Params_Validate ?p = Inr ()" "uint (CalculationPeriodBlocks ?p) < 2 ^ 63" and fund: "funded ks fc s"
    using solv by (auto simp: solvent_def)
  have t: "0 \<le> ?t" "?t < 2 ^ 180" "int_ok ?t"
    using fund bank_laws_D(4,5) [OF bank, of TreasuryAccountName "inc_world s"] bank_laws_D(4) [OF bank, of fc "inc_world s"]
    by (simp_all add: funded_def)
  have w: "uint (word_of_int h :: uint64) = h" by (rule height_word [OF h])
  obtain st where st: "NewPeriodState (word_of_int h) e ?t ?p = Inr st"
    using NewPeriodState_runs [OF p(1), of "word_of_int h" e ?t] w p(2) h(2) e(2) t by auto
  note np = NewPeriodState_ok [OF st t(3) e(3)]
  obtain u where u: "SetPeriodState env st s = (Inr (), u)" using SetPeriodState_runs [OF codec np(1)] by blast
  note su = SetPeriodState_ok [OF codec u]
  have "SnapshotPeriod env ks h s = (Inr st, u)"
    using e h st u by (auto simp: SnapshotPeriod_def handler_simps Balance_eq [OF bank])
  moreover have act: "active_at h st"
    using np(2,3) w p(1) by (simp add: active_at_def Params_Validate_ok uint_pos)
  moreover have "owed_covered ks h st u"
    using act np(5,8,9) released_by_bounds(1) [OF act np(8)] su(3) t by (simp add: owed_covered_def)
  moreover have "funded ks fc u" using fund su(3,4) by (simp add: funded_def)
  ultimately show ?thesis using su(2) by blast
qed

lemma ProcessBlock_runs:
  assumes codec: "period_codec env" and bank: "bank_laws ks fc" and h: "0 \<le> h" "h < 2 ^ 63"
    and solv: "solvent env ks fc h s"
  shows "\<exists>t. ProcessBlock env ks fc h s = (Inr (), t)"
proof -
  obtain found where found: "GetPeriodState env (inc_store s) = Inr found"
    and cov: "case found of None \<Rightarrow> True | Some st \<Rightarrow> uint (EndBlock st) \<le> h \<or> owed_covered ks h st s"
    and fund: "funded ks fc s"
    using solv by (auto simp: solvent_def)
  have "\<exists>st u. (case found of
              Some st \<Rightarrow> if (word_of_int h :: uint64) \<ge> EndBlock st then SnapshotPeriod env ks h else okE st
            | None \<Rightarrow> SnapshotPeriod env ks h) s = (Inr st, u) \<and> owed_covered ks h st u \<and> funded ks fc u \<and>
      GetPeriodState env (inc_store u) = Inr (Some st)"
    using SnapshotPeriod_runs [OF codec bank h solv] found cov fund active_word(2) [OF h]
    by (auto split: option.splits)
  then obtain st u where su: "(case found of
              Some st \<Rightarrow> if (word_of_int h :: uint64) \<ge> EndBlock st then SnapshotPeriod env ks h else okE st
            | None \<Rightarrow> SnapshotPeriod env ks h) s = (Inr st, u)"
    and rel: "owed_covered ks h st u" "funded ks fc u" "GetPeriodState env (inc_store u) = Inr (Some st)"
    by blast
  obtain t where "release_share env ks fc (word_of_int h) st u = (Inr (), t)"
    using release_share_runs [OF codec bank h rel(3,1,2)] by blast
  then show ?thesis using h found su by (auto simp: ProcessBlock_def Let_def handler_simps)
qed

lemma ProcessBlock_covers:
  assumes codec: "period_codec env" and bank: "bank_laws ks fc" and h: "0 \<le> h" "h < 2 ^ 63"
    and solv: "solvent env ks fc h s" and run: "ProcessBlock env ks fc h s = (Inr (), t)"
  shows "\<exists>st. GetPeriodState env (inc_store t) = Inr (Some st) \<and> active_at h st \<and> 0 \<le> provision_of st \<and>
    distributed_of st = released_by h st \<and> provision_of st - distributed_of st \<le> treasury_of ks t \<and> provision_of st < 2 ^ 180"
proof -
  obtain st u where act: "active_at h st" and get: "GetPeriodState env (inc_store u) = Inr (Some st)"
    and u: "u = s \<or> SnapshotPeriod env ks h s = (Inr st, u)"
    and fin: "released_by h st = distributed_of st \<and> t = u \<or>
     (\<exists>v. SendToModule ks fc (released_by h st - distributed_of st) u = (Inr (), v) \<and>
          RecordDistribution env (released_by h st - distributed_of st) v = (Inr (), t))"
    using ProcessBlock_cases [OF codec bank h(2) run] by metis
  have cov: "owed_covered ks h st u"
  proof (cases "u = s")
    case True
    then show ?thesis using get solv act by (auto simp: solvent_def active_at_def)
  next
    case False
    then show ?thesis using u SnapshotPeriod_runs [OF codec bank h solv] by auto
  qed
  have p0: "0 \<le> provision_of st" using stored_amounts(3,4) [OF GetPeriodState_valid [OF get]] by linarith
  let ?n = "released_by h st - distributed_of st"
  show ?thesis
  proof (cases "released_by h st = distributed_of st \<and> t = u")
    case True
    then show ?thesis using get cov p0 by (auto simp: owed_covered_def)
  next
    case False
    then obtain v where send: "SendToModule ks fc ?n u = (Inr (), v)" and rec: "RecordDistribution env ?n v = (Inr (), t)"
      using fin by blast
    note sm = SendToModule_ok [OF bank send]
    have gv: "GetPeriodState env (inc_store v) = Inr (Some st)" using get sm(3) by simp
    note rd = RecordDistribution_ok [OF codec gv rec]
    let ?st = "st\<lparr>DistributedAtomic := int_dec (distributed_of st + ?n)\<rparr>"
    have "active_at h ?st" "distributed_of ?st = released_by h ?st" "provision_of ?st = provision_of st"
      using act by (simp_all add: active_at_def released_by_def period_length_def)
    then show ?thesis using rd(3,5) sm(4) cov p0
      by (intro exI [of _ ?st]) (simp add: owed_covered_def released_by_def period_length_def)
  qed
qed

lemma ProcessBlock_solvent:
  assumes codec: "period_codec env" and bank: "bank_laws ks fc" and h: "0 \<le> h" "h < 2 ^ 63"
    and solv: "solvent env ks fc h s" and run: "ProcessBlock env ks fc h s = (Inr (), t)"
  shows "solvent env ks fc (h + 1) t"
proof -
  obtain d where d: "GetTotalDistributed (inc_store s) = Inr d" "d + treasury_of ks s < 2 ^ 180"
    and fund: "treasury_of ks s + module_balance ks fc (inc_world s) < 2 ^ 180"
    using solv by (auto simp: solvent_def funded_def)
  obtain paid where eff: "GetTotalDistributed (inc_store t) = Inr (d + paid)" "treasury_of ks t = treasury_of ks s - paid"
    "module_balance ks fc (inc_world t) = module_balance ks fc (inc_world s) + paid"
    "TotalValidatorPower ks (inc_world t) = TotalValidatorPower ks (inc_world s)" "same_config (inc_store s) (inc_store t)"
    using ProcessBlock_effect [OF codec bank h(2) run d(1)] by metis
  have "funded ks fc t" using d fund eff by (simp add: funded_def)
  moreover obtain st where st: "GetPeriodState env (inc_store t) = Inr (Some st)" "active_at h st" "0 \<le> provision_of st"
    "distributed_of st = released_by h st" "provision_of st - distributed_of st \<le> treasury_of ks t" "provision_of st < 2 ^ 180"
    using ProcessBlock_covers [OF codec bank h solv run] by blast
  have "uint (EndBlock st) \<le> h + 1 \<or> owed_covered ks (h + 1) st t"
    using st released_by_bounds(3) [OF st(2,3)] by (auto simp: owed_covered_def active_at_def)
  ultimately show ?thesis using solv st(1) eff(4,5) by (simp add: solvent_def same_config_def)
qed

primrec process_blocks :: "incentive_env \<Rightarrow> 'b keepers \<Rightarrow> string \<Rightarrow> int \<Rightarrow> nat \<Rightarrow> ('b, unit) inc_op" where
  "process_blocks env ks fc h 0 = okE ()"
| "process_blocks env ks fc h (Suc n) = thenE (BeginBlock env ks fc h) (process_blocks env ks fc (h + 1) n)"

text \<open>
  C6. The begin-block handler, whose error would stop the chain, keeps running: from a solvent state
  any number of consecutive blocks is processed without an error, through any number of period
  changes, and ends in a solvent state.
\<close>

theorem begin_block_keeps_running:
  assumes "period_codec env" "bank_laws ks fc" "0 \<le> h" "h + int n \<le> 2 ^ 63" "solvent env ks fc h s"
  shows "\<exists>t. process_blocks env ks fc h n s = (Inr (), t) \<and> solvent env ks fc (h + int n) t"
  using assms(3-5)
proof (induction n arbitrary: h s)
  case 0
  then show ?case by simp
next
  case (Suc n)
  then have h: "0 \<le> h" "h < 2 ^ 63" by simp_all
  obtain u where u: "ProcessBlock env ks fc h s = (Inr (), u)"
    using ProcessBlock_runs [OF assms(1,2) h Suc.prems(3)] by blast
  have "\<exists>t. process_blocks env ks fc (h + 1) n u = (Inr (), t) \<and> solvent env ks fc (h + 1 + int n) t"
    using Suc.prems ProcessBlock_solvent [OF assms(1,2) h Suc.prems(3) u] by (intro Suc.IH) simp_all
  then show ?case using u by (auto simp: BeginBlock_def handler_simps add.assoc)
qed

section \<open>Parameters, provision and genesis\<close>

text \<open>
  C31. The provision of a period never exceeds what the rate allows: it is at most the treasury
  snapshot times the rate in basis points times the period's share of a year, nothing when no stake
  is bonded, and the state built from it always passes the validation that guards its storing.
\<close>

theorem period_provision_within_rate:
  assumes "NewPeriodState start e t p = Inr st" "int_ok t" "int_ok e"
  shows "PeriodState_Validate st = Inr () \<and>
    10000 * uint (BlocksPerYear p) * provision_of st \<le>
      t * uint (TreasuryReleaseRateBasisPoints p) * uint (CalculationPeriodBlocks p) \<and>
    0 \<le> provision_of st \<and> provision_of st \<le> t \<and> (e = 0 \<longrightarrow> provision_of st = 0) \<and>
    uint (EndBlock st) = uint start + uint (CalculationPeriodBlocks p)"
  using NewPeriodState_ok [OF assms] by simp

lemma command_authority [simp]: "cmd_Authority (command_of m) = mu_Authority m"
  by (simp add: command_of_def)

lemma authorized_iff:
  "RequireAuthority m c = Inr () \<longleftrightarrow> c \<noteq> [] \<and> c = GetAuthority m"
  by (auto simp: RequireAuthority_def handler_simps)

lemma cmd_ValidateBasic_ok:
  "cmd_ValidateBasic env c = Inr () \<longleftrightarrow>
     cmd_Authority c \<noteq> [] \<and> (\<exists>a. inc_AccAddressFromBech32 env (cmd_Authority c) = Inr a) \<and> Params_Validate (cmd_Params c) = Inr ()"
  by (auto simp: cmd_ValidateBasic_def validateCommandAuthority_def handler_simps split: sum.splits)

text \<open>
  C32. A parameter update is accepted exactly when it is signed by the configured authority with a
  well-formed address and both the stored and the new parameters are valid; it then changes the
  parameters and nothing else, and a refused one changes nothing.
\<close>

theorem params_update_decision:
  "(fst (MsgServer_UpdateParams env (Some m) s) = Inr () \<longleftrightarrow>
      mu_Authority m \<noteq> [] \<and> mu_Authority m = GetAuthority (inc_store s) \<and>
      (\<exists>a. inc_AccAddressFromBech32 env (mu_Authority m) = Inr a) \<and>
      Params_Validate (GetParams (inc_store s)) = Inr () \<and> Params_Validate (cmd_Params (command_of m)) = Inr ()) \<and>
   (case MsgServer_UpdateParams env (Some m) s of
      (Inl e, t) \<Rightarrow> t = s
    | (Inr _, t) \<Rightarrow> GetParams (inc_store t) = cmd_Params (command_of m) \<and>
        GetAuthority (inc_store t) = GetAuthority (inc_store s) \<and>
        GetTotalDistributed (inc_store t) = GetTotalDistributed (inc_store s) \<and>
        GetPeriodState env (inc_store t) = GetPeriodState env (inc_store s) \<and> inc_world t = inc_world s)"
proof -
  obtain r t where run: "MsgServer_UpdateParams env (Some m) s = (r, t)" by (cases "MsgServer_UpdateParams env (Some m) s")
  show ?thesis
  proof (cases r)
    case (Inl e)
    then have "t = s \<and> \<not> (RequireAuthority (inc_store s) (mu_Authority m) = Inr () \<and> cmd_ValidateBasic env (command_of m) = Inr () \<and>
        Params_Validate (GetParams (inc_store s)) = Inr ())"
      using run cmd_ValidateBasic_ok [of env "command_of m"]
      by (auto simp: MsgServer_UpdateParams_def HandleUpdateParamsCommand_def UpdateParamsAuthorized_def
          UpdateParams_def SetParams_def ValidateUpdate_def handler_simps split: sum.splits)
    then show ?thesis using Inl run by (auto simp: authorized_iff cmd_ValidateBasic_ok)
  next
    case (Inr x)
    then have ok: "MsgServer_UpdateParams env (Some m) s = (Inr (), t)" using run by simp
    then have "RequireAuthority (inc_store s) (mu_Authority m) = Inr ()" "cmd_ValidateBasic env (command_of m) = Inr ()"
      "Params_Validate (GetParams (inc_store s)) = Inr ()"
      by (auto simp: MsgServer_UpdateParams_def HandleUpdateParamsCommand_def UpdateParamsAuthorized_def
          UpdateParams_def ValidateUpdate_def handler_simps split: sum.splits)
    then show ?thesis using ok SetParams_ok [OF MsgServer_UpdateParams_ok [OF ok]]
      by (auto simp: authorized_iff cmd_ValidateBasic_ok)
  qed
qed

text \<open>
  C39. A chain restarted from its own exported genesis keeps the parameters and the authority, but
  the running period and the lifetime total are lost: the total restarts at zero whatever was
  distributed before.
\<close>

theorem genesis_forgets_distribution:
  assumes "GenesisState_Validate env (ExportGenesis m) = Inr ()"
  shows "\<exists>t. AppInitGenesis env (ExportGenesis m) \<lparr>inc_store = Map.empty, inc_world = b\<rparr> = (Inr (), t) \<and>
    ExportGenesis (inc_store t) = ExportGenesis m \<and> inc_world t = b \<and>
    GetTotalDistributed (inc_store t) = Inr 0 \<and> GetPeriodState env (inc_store t) = Inr None"
proof -
  let ?s = "\<lparr>inc_store = Map.empty, inc_world = b\<rparr>" and ?g = "ExportGenesis m"
  have v: "Params_Validate (gen_Params ?g) = Inr ()"
    using assms by (auto simp: GenesisState_Validate_def split: sum.splits)
  obtain u where u: "SetParams (gen_Params ?g) ?s = (Inr (), u)" using v by (auto simp: SetParams_def handler_simps)
  note up = SetParams_ok [OF u]
  obtain w where w: "SetTotalDistributed 0 u = (Inr (), w)" by (auto simp: SetTotalDistributed_def handler_simps)
  have ok0: "int_ok 0" by (simp add: int_ok_def)
  note wp = SetTotalDistributed_ok [OF w ok0]
  define t where "t = (if gen_Authority ?g \<noteq> [] then w\<lparr>inc_store := SetAuthority (gen_Authority ?g) (inc_store w)\<rparr> else w)"
  have init: "InitGenesis env ?g ?s = (Inr (), t)"
    using assms u w by (auto simp: InitGenesis_def handler_simps t_def)
  have auth: "GetAuthority (inc_store w) = []"
    using wp(4) up(3) by (simp add: same_config_def GetAuthority_def kv_get_def)
  have "GetParams (inc_store t) = GetParams (inc_store w)" "GetTotalDistributed (inc_store t) = GetTotalDistributed (inc_store w)"
    "GetPeriodState env (inc_store t) = GetPeriodState env (inc_store w)" "inc_world t = inc_world w"
    by (simp_all add: t_def GetParams_def GetTotalDistributed_def GetPeriodState_def SetAuthority_def inc_keys)
  moreover have "GetAuthority (inc_store t) = gen_Authority ?g"
    using auth by (simp add: t_def GetAuthority_def SetAuthority_def)
  moreover have "GetPeriodState env (inc_store ?s) = Inr None" by (simp add: GetPeriodState_def kv_get_def)
  ultimately show ?thesis
    using assms init wp up by (simp add: AppInitGenesis_def ExportGenesis_def same_config_def)
qed

section \<open>Concrete instances\<close>

text \<open>A codec, a bank with two module accounts of 256-bit balances, and a freshly funded chain.\<close>

definition demo_marshal :: "PeriodState \<Rightarrow> bytes" where
  "demo_marshal st = encode_strings [int_dec (uint (StartBlock st)), int_dec (uint (EndBlock st)), int_dec (uint (ps_Rate st)),
     TreasuryBalanceAtomic st, EligibleBondedAtomic st, AnnualizedCapacityAtomic st, ps_DerivedAPY st,
     PeriodProvisionAtomic st, DistributedAtomic st]"

definition demo_unmarshal :: "bytes \<Rightarrow> PeriodState" where
  "demo_unmarshal bz = (let f = (\<lambda>i. decode_strings bz ! i); n = (\<lambda>i. the (SetString10 (f i))) in
     \<lparr>StartBlock = word_of_int (n 0), EndBlock = word_of_int (n 1), ps_Rate = word_of_int (n 2),
      TreasuryBalanceAtomic = f 3, EligibleBondedAtomic = f 4, AnnualizedCapacityAtomic = f 5, ps_DerivedAPY = f 6,
      PeriodProvisionAtomic = f 7, DistributedAtomic = f 8\<rparr>)"

definition demo_env :: incentive_env where
  "demo_env = \<lparr>MarshalPeriod = (\<lambda>st. Inr (demo_marshal st)), UnmarshalPeriod = (\<lambda>bz. Inr (demo_unmarshal bz)),
     inc_AccAddressFromBech32 = (\<lambda>s. Inr s)\<rparr>"

type_synonym demo_bank = "uint256 \<times> uint256 \<times> int"

definition demo_collector :: string where "demo_collector = ''fee_collector''"

definition demo_send :: "int \<Rightarrow> demo_bank \<Rightarrow> unit result \<times> demo_bank" where
  "demo_send n b = (case b of (t, f, p) \<Rightarrow>
     if 0 < n \<and> n \<le> uint t \<and> uint f + n < 2 ^ 256 then (Inr (), (word_of_int (uint t - n), word_of_int (uint f + n), p))
     else (Inl (Err ''insufficient funds''), b))"

definition demo_keepers :: "demo_bank keepers" where
  "demo_keepers = \<lparr>GetModuleAddress = (\<lambda>m. m),
     GetBalance = (\<lambda>a d b. (d, if a = TreasuryAccountName then uint (fst b) else if a = demo_collector then uint (fst (snd b)) else 0)),
     SendCoinsFromModuleToAccount = (\<lambda>m a c. demo_send (snd c)), SendCoinsFromModuleToModule = (\<lambda>m m' c. demo_send (snd c)),
     TotalValidatorPower = (\<lambda>b. Inr \<bar>snd (snd b)\<bar>)\<rparr>"

definition demo_state :: "demo_bank inc_state" where
  "demo_state = \<lparr>inc_store = Map.empty, inc_world = (1000000000, 0, 5)\<rparr>"

lemma inc_demo_codec: "period_codec demo_env"
  by (simp add: period_codec_def demo_env_def demo_unmarshal_def demo_marshal_def decode_encode_strings
      encode_strings_neq_Nil codec_simps Let_def)

lemma demo_names: "TreasuryAccountName \<noteq> demo_collector" "TreasuryAccountName \<noteq> []" "demo_collector \<noteq> []"
  by (simp_all add: TreasuryAccountName_def demo_collector_def)

lemma demo_send_ok:
  "demo_send n b = (Inr (), c) \<longleftrightarrow> 0 < n \<and> n \<le> uint (fst b) \<and> uint (fst (snd b)) + n < 2 ^ 256 \<and>
     c = (word_of_int (uint (fst b) - n), word_of_int (uint (fst (snd b)) + n), snd (snd b))"
  by (auto simp: demo_send_def split: prod.splits if_splits)

lemma uint256_bounds: "0 \<le> uint (w :: uint256)" "uint (w :: uint256) < 2 ^ 256"
  using uint_lt2p [of w] uint_ge_0 [of w] by simp_all

lemma uint_of_256: "0 \<le> n \<Longrightarrow> n < 2 ^ 256 \<Longrightarrow> uint (word_of_int n :: uint256) = n"
  by (simp add: uint_word_of_int)

lemma demo_bank_laws: "bank_laws demo_keepers demo_collector"
proof -
  have moved: "uint (fst c) = uint (fst b) - n \<and> uint (fst (snd c)) = uint (fst (snd b)) + n \<and> snd (snd c) = snd (snd b)"
    if "demo_send n b = (Inr (), c)" for n b c
  proof -
    have f: "0 < n" "n \<le> uint (fst b)" "uint (fst (snd b)) + n < 2 ^ 256"
      "c = (word_of_int (uint (fst b) - n), word_of_int (uint (fst (snd b)) + n), snd (snd b))"
      using that unfolding demo_send_ok by blast+
    have "uint (word_of_int (uint (fst b) - n) :: uint256) = uint (fst b) - n"
      "uint (word_of_int (uint (fst (snd b)) + n) :: uint256) = uint (fst (snd b)) + n"
      using f(1-3) uint256_bounds [of "fst b"] uint256_bounds [of "fst (snd b)"] by (intro uint_of_256; linarith)+
    then show ?thesis unfolding f(4) fst_conv snd_conv by blast
  qed
  have ok: "int_ok (uint (w :: uint256))" for w using uint256_bounds [of w] by (simp add: int_ok_def)
  have covered: "\<exists>c. demo_send n b = (Inr (), c)" if "0 < n" "n \<le> uint (fst b)" "int_ok (uint (fst (snd b)) + n)" for n b
    using that uint256_bounds(1) [of "fst (snd b)"] by (simp add: demo_send_ok int_ok_def)
  show ?thesis
    unfolding bank_laws_def module_balance_def demo_keepers_def
    using moved covered ok demo_names by (simp add: int_ok_def [of 0] demo_names(1) [symmetric])
qed

lemma demo_solvent: "solvent demo_env demo_keepers demo_collector 1 demo_state"
proof -
  have "GetParams Map.empty = DefaultParams" "GetTotalDistributed Map.empty = Inr 0" "GetPeriodState demo_env Map.empty = Inr None"
    by (simp_all add: GetParams_def GetTotalDistributed_def GetPeriodState_def kv_get_def)
  then show ?thesis
    using demo_names DefaultParams_valid
    by (simp add: solvent_def funded_def demo_state_def module_balance_def demo_keepers_def int_ok_def
        DefaultParams_def DefaultCalculationPeriodBlocks_def)
qed

lemma demo_total: "GetTotalDistributed (inc_store demo_state) = Inr 0"
  by (simp add: demo_state_def GetTotalDistributed_def kv_get_def)

lemma demo_runs: "\<exists>t. BeginBlock demo_env demo_keepers demo_collector 1 demo_state = (Inr (), t)"
  unfolding BeginBlock_def by (rule ProcessBlock_runs [OF inc_demo_codec demo_bank_laws _ _ demo_solvent]) simp_all

theorem block_release_is_exact_witness:
  "\<exists>t old. BeginBlock demo_env demo_keepers demo_collector 1 demo_state = (Inr (), t) \<and>
    period_at demo_env demo_keepers 1 demo_state old \<and> distributed_of old = 0 \<and>
    GetTotalDistributed (inc_store t) = Inr (released_by 1 old) \<and> treasury_of demo_keepers t = 1000000000 - released_by 1 old"
proof -
  obtain t where t: "BeginBlock demo_env demo_keepers demo_collector 1 demo_state = (Inr (), t)" using demo_runs by blast
  have "treasury_of demo_keepers demo_state = 1000000000"
    by (simp add: demo_state_def demo_keepers_def module_balance_def)
  moreover have "GetPeriodState demo_env (inc_store demo_state) = Inr None"
    by (simp add: demo_state_def GetPeriodState_def kv_get_def)
  ultimately show ?thesis
    using block_release_is_exact [OF inc_demo_codec demo_bank_laws _ t demo_total] t by (auto simp: period_at_def)
qed

theorem treasury_accounts_for_distribution_witness:
  "\<exists>t d. run (inc_step demo_env demo_keepers demo_collector) demo_state [Block 1] t \<and>
    GetTotalDistributed (inc_store t) = Inr d \<and> treasury_of demo_keepers t + d = 1000000000"
proof -
  obtain t where t: "BeginBlock demo_env demo_keepers demo_collector 1 demo_state = (Inr (), t)" using demo_runs by blast
  then have run: "run (inc_step demo_env demo_keepers demo_collector) demo_state [Block 1] t"
    by (intro run_single inc_block) simp_all
  have "treasury_of demo_keepers demo_state = 1000000000"
    by (simp add: demo_state_def demo_keepers_def module_balance_def)
  then show ?thesis
    using treasury_accounts_for_distribution [OF run inc_demo_codec demo_bank_laws demo_total] run by auto
qed

theorem begin_block_keeps_running_witness:
  "\<exists>t. process_blocks demo_env demo_keepers demo_collector 1 40000 demo_state = (Inr (), t) \<and>
    solvent demo_env demo_keepers demo_collector 40001 t"
  using begin_block_keeps_running [OF inc_demo_codec demo_bank_laws _ _ demo_solvent, of 40000] by simp

theorem period_provision_within_rate_witness:
  "\<exists>st. NewPeriodState 1 5 1000000000 DefaultParams = Inr st \<and> PeriodState_Validate st = Inr () \<and>
     10000 * 6311520 * provision_of st \<le> 1000000000 * 1000 * 17280 \<and> provision_of st = 273785"
proof -
  obtain st where st: "NewPeriodState 1 5 1000000000 DefaultParams = Inr st"
    using NewPeriodState_runs [OF DefaultParams_valid, of 1 5 1000000000]
    by (auto simp: DefaultParams_def DefaultCalculationPeriodBlocks_def)
  have "provision_of st = 273785"
    using st DefaultParams_valid
    by (auto simp: NewPeriodState_def handler_simps policy_ok DefaultParams_def DefaultCalculationPeriodBlocks_def
        DefaultBlocksPerYear_def DefaultTreasuryReleaseRateBasisPoints_def go_div_def)
  then show ?thesis
    using period_provision_within_rate [OF st] st
    by (simp add: int_ok_def DefaultParams_def DefaultCalculationPeriodBlocks_def DefaultBlocksPerYear_def
        DefaultTreasuryReleaseRateBasisPoints_def)
qed

theorem genesis_forgets_distribution_witness:
  "\<exists>m t. GetTotalDistributed m = Inr 15 \<and>
    AppInitGenesis demo_env (ExportGenesis m) \<lparr>inc_store = Map.empty, inc_world = ()\<rparr> = (Inr (), t) \<and>
    GetTotalDistributed (inc_store t) = Inr 0"
proof -
  define m where "m = kv_set TotalDistributedKey (int_dec 15) Map.empty"
  have ne: "int_dec 15 \<noteq> []" by (simp add: int_dec_def)
  have "good_amount (int_dec 15)" by (simp add: good_amount_int_dec int_ok_def)
  then have total: "GetTotalDistributed m = Inr 15"
    using ne by (simp add: m_def GetTotalDistributed_def ParseStoredAtomicAmount_def good_amount_def bindR_def thenR_def require_def)
  have "GetParams m = DefaultParams" "GetAuthority m = []"
    by (simp_all add: m_def GetParams_def GetAuthority_def inc_keys) (simp_all add: kv_get_def)
  then have "GenesisState_Validate demo_env (ExportGenesis m) = Inr ()"
    using DefaultParams_valid TrimSpace_plain [of "[]"] by (simp add: ExportGenesis_def GenesisState_Validate_def)
  from genesis_forgets_distribution [OF this, of "()"] total show ?thesis by blast
qed

end
