(* ===== verification/Gas_Search.thy ===== *)
theory Gas_Search
  imports Go_Values
begin

text \<open>
  Gas estimation: the binary search of \<^verbatim>\<open>x/vm/types/utils.go\<close> and the bounds, funding cap and
  search of \<^verbatim>\<open>EstimateGasInternal\<close> in \<^verbatim>\<open>x/vm/keeper/grpc_query.go\<close>. Executing the message
  with a gas limit is the parameter \<open>executable\<close>. The search loop may run forever, so its value is
  optional: \<^const>\<open>None\<close> is a search that never returns.
\<close>

section \<open>Binary search\<close>

text \<open>The predicate returns whether the execution failed; its response is not used by the search.\<close>

partial_function (option) BinSearch :: "(uint64 \<Rightarrow> bool result) \<Rightarrow> uint64 \<Rightarrow> uint64 \<Rightarrow> uint64 result option" where
  "BinSearch executable lo hi =
     (if lo + 1 < hi
      then (let mid = (hi + lo) div 2 in
            case executable mid of
              Inl e \<Rightarrow> Some (Inl e)
            | Inr failed \<Rightarrow> if failed then BinSearch executable mid hi else BinSearch executable lo mid)
      else Some (Inr hi))"

declare BinSearch.simps [code]

section \<open>Estimation\<close>

record est_response =
  VmError :: string
  MaxUsedGas :: uint64
  Ret :: bytes

type_synonym executable = "uint64 \<Rightarrow> (bool \<times> est_response option) result"

record est_request =
  GasCap :: uint64
  ArgGas :: "uint64 option"
  ArgValue :: "int option"

record est_env =
  TxGas :: uint64
  CallStipend :: uint64
  ErrOutOfGas :: string
  ErrExecutionReverted :: string

record EstimateGasResponse =
  est_Gas :: uint64
  est_Ret :: bytes
  est_VmError :: string

definition est_gas :: "uint64 \<Rightarrow> EstimateGasResponse" where
  "est_gas g = \<lparr>est_Gas = g, est_Ret = [], est_VmError = []\<rparr>"

text \<open>The highest gas limit: the caller's, else the block's, else the cap; never above a cap that is set.\<close>

definition est_hi :: "est_env \<Rightarrow> est_request \<Rightarrow> int option \<Rightarrow> uint64" where
  "est_hi env req blockMaxGas =
     (let block = (case blockMaxGas of Some g \<Rightarrow> if g > 0 then word_of_int g else GasCap req | None \<Rightarrow> GasCap req);
          hi = (case ArgGas req of Some g \<Rightarrow> if g \<ge> TxGas env then g else block | None \<Rightarrow> block)
      in if GasCap req \<noteq> 0 \<and> hi > GasCap req then GasCap req else hi)"

text \<open>The cap given by the sender's spendable balance.\<close>

definition est_funded_hi :: "est_env \<Rightarrow> est_request \<Rightarrow> int \<Rightarrow> int \<Rightarrow> uint64 \<Rightarrow> uint64 result" where
  "est_funded_hi env req gasFeeCap balance hi =
     (if gasFeeCap = 0 then Inr hi
      else
        bindR (case ArgValue req of
                 None \<Rightarrow> Inr balance
               | Some v \<Rightarrow>
                   thenR (require (\<not> v \<ge> balance) (Err ''insufficient funds for transfer''))
                     (bindR (sdk_int v) (\<lambda>value. sdk_int (balance - value)))) (\<lambda>available.
        bindR (sdk_int gasFeeCap) (\<lambda>feeCap.
        let allowance = go_div available feeCap in
        if 0 \<le> allowance \<and> allowance < 2 ^ 64 \<and> hi > word_of_int allowance
        then thenR (require (\<not> (word_of_int allowance :: uint64) < TxGas env) (Err ''insufficient funds'')) (Inr (word_of_int allowance))
        else Inr hi)))"

definition failed_at_cap :: "est_env \<Rightarrow> uint64 \<Rightarrow> uint64 \<Rightarrow> est_response option \<Rightarrow> EstimateGasResponse result" where
  "failed_at_cap env hi gasCap result =
     (if hi = gasCap
      then (case result of
              Some r \<Rightarrow>
                if VmError r \<noteq> ErrOutOfGas env
                then if VmError r = ErrExecutionReverted env
                     then Inr \<lparr>est_Gas = 0, est_Ret = Ret r, est_VmError = VmError r\<rparr>
                     else Inl (Err (VmError r))
                else Inl (Err ''gas required exceeds allowance'')
            | None \<Rightarrow> Inl (Err ''gas required exceeds allowance''))
      else Inl (Err ''gas required exceeds allowance''))"

definition optimisticGasLimit :: "est_env \<Rightarrow> est_response \<Rightarrow> uint64" where
  "optimisticGasLimit env r = (MaxUsedGas r + CallStipend env) * 64 div 63"

definition est_narrow :: "est_env \<Rightarrow> executable \<Rightarrow> est_response \<Rightarrow> uint64 \<Rightarrow> uint64 \<Rightarrow> (uint64 \<times> uint64) result" where
  "est_narrow env executable r lo hi =
     (let g = optimisticGasLimit env r in
      if g < hi
      then bindR (executable g) (\<lambda>(failed, _). Inr (if failed then (g, hi) else (lo, g)))
      else Inr (lo, hi))"

definition est_search :: "est_env \<Rightarrow> executable \<Rightarrow> uint64 \<Rightarrow> uint64 \<Rightarrow> uint64 \<Rightarrow> EstimateGasResponse result option" where
  "est_search env executable lo hi gasCap = (case executable hi of
       Inl e \<Rightarrow> Some (Inl e)
     | Inr (failed, result) \<Rightarrow>
         if failed then Some (failed_at_cap env hi gasCap result)
         else (case result of
             None \<Rightarrow> Some (Inl (Panic ''nil pointer dereference''))
           | Some r \<Rightarrow> (case est_narrow env executable r lo hi of
                 Inl e \<Rightarrow> Some (Inl e)
               | Inr (lo', hi') \<Rightarrow>
                   map_option (\<lambda>g. bindR g (\<lambda>gas. Inr (est_gas gas)))
                     (BinSearch (\<lambda>g. bindR (executable g) (\<lambda>(failed, _). Inr failed)) lo' hi'))))"

text \<open>
  The estimation after the request was decoded: \<open>plain\<close> says that the message carries no data and its
  target is an account without code.
\<close>

definition plain_transfer_works :: "est_env \<Rightarrow> executable \<Rightarrow> bool \<Rightarrow> bool" where
  "plain_transfer_works env executable plain \<longleftrightarrow>
     plain \<and> (case executable (TxGas env) of Inl e \<Rightarrow> False | Inr (failed, _) \<Rightarrow> \<not> failed)"

definition EstimateGas ::
  "est_env \<Rightarrow> executable \<Rightarrow> est_request \<Rightarrow> int option \<Rightarrow> int \<Rightarrow> int \<Rightarrow> bool \<Rightarrow> EstimateGasResponse result option" where
  "EstimateGas env executable req blockMaxGas gasFeeCap balance plain =
     (if GasCap req < TxGas env then Some (Inl (Err ''gas cap cannot be lower than the transaction gas''))
      else
        let gasCap = est_hi env req blockMaxGas in
        case est_funded_hi env req gasFeeCap balance gasCap of
          Inl e \<Rightarrow> Some (Inl e)
        | Inr hi \<Rightarrow>
            if plain_transfer_works env executable plain
            then Some (Inr (est_gas (TxGas env)))
            else est_search env executable (TxGas env - 1) hi gasCap)"

section \<open>The search returns\<close>

lemma mid_between:
  fixes lo hi :: uint64
  assumes "lo + 1 < hi" "uint hi < 2 ^ 63" "uint lo < 2 ^ 63"
  shows "lo < (hi + lo) div 2" "(hi + lo) div 2 < hi" "uint ((hi + lo) div 2) = (uint hi + uint lo) div 2"
proof -
  have one: "uint (lo + 1) = uint lo + 1"
    using assms(3) uint_ge_0 [of lo] by (subst uint_word_ariths(1)) (simp add: mod_pos_pos_trivial)
  have sum: "uint (hi + lo) = uint hi + uint lo"
    using assms(2,3) uint_ge_0 [of lo] uint_ge_0 [of hi] by (subst uint_word_ariths(1)) (simp add: mod_pos_pos_trivial)
  show mid: "uint ((hi + lo) div 2) = (uint hi + uint lo) div 2"
    by (simp add: uint_div sum)
  have "uint lo + 1 < uint hi" using assms(1) one by (simp add: word_less_def)
  then show "lo < (hi + lo) div 2" "(hi + lo) div 2 < hi"
    unfolding word_less_def mid by linarith+
qed

text \<open>What a search between two bounds returns: a limit that executes (or the upper bound) whose predecessor does not.\<close>

definition found :: "(uint64 \<Rightarrow> bool result) \<Rightarrow> uint64 \<Rightarrow> uint64 \<Rightarrow> uint64 result \<Rightarrow> bool" where
  "found ex lo hi r = (case r of
       Inl e \<Rightarrow> \<exists>g. lo < g \<and> g < hi \<and> ex g = Inl e
     | Inr g \<Rightarrow> g \<le> hi \<and> (g \<noteq> hi \<longrightarrow> ex g = Inr False) \<and>
         (lo < hi \<longrightarrow> lo < g \<and> (g - 1 = lo \<or> ex (g - 1) = Inr True)))"

lemma found_upper: "found ex mid hi r \<Longrightarrow> lo < mid \<Longrightarrow> mid < hi \<Longrightarrow> ex mid = Inr True \<Longrightarrow> found ex lo hi r"
  by (auto simp: found_def split: sum.splits intro: order.strict_trans)

lemma found_lower: "found ex lo mid r \<Longrightarrow> lo < mid \<Longrightarrow> mid < hi \<Longrightarrow> ex mid = Inr False \<Longrightarrow> found ex lo hi r"
  by (auto simp: found_def split: sum.splits intro: order.strict_trans)

lemma adjacent:
  fixes lo hi :: uint64
  assumes "\<not> lo + 1 < hi" "lo < hi" "uint lo < 2 ^ 63"
  shows "hi - 1 = lo"
proof -
  have "uint (lo + 1) = uint lo + 1"
    using assms(3) uint_ge_0 [of lo] by (subst uint_word_ariths(1)) (simp add: mod_pos_pos_trivial)
  then have "uint hi = uint (lo + 1)" using assms(1,2) by (simp add: word_less_def)
  then have "hi = lo + 1" by (simp add: word_uint_eq_iff)
  then show ?thesis by simp
qed

lemma diff_shrinks: "lo < mid \<Longrightarrow> mid < hi \<Longrightarrow> unat (hi - mid) < unat (hi - lo) \<and> unat (mid - lo) < unat (hi - (lo :: uint64))"
  by (auto simp: unat_sub word_le_nat_alt word_less_nat_alt order_less_imp_le)

lemma BinSearch_finds:
  assumes "uint hi < 2 ^ 63" "uint lo < 2 ^ 63"
  shows "\<exists>r. BinSearch ex lo hi = Some r \<and> found ex lo hi r"
  using assms
proof (induction "unat (hi - lo)" arbitrary: lo hi rule: less_induct)
  case less
  show ?case
  proof (cases "lo + 1 < hi")
    case False
    then show ?thesis using adjacent [OF False _ less.prems(2)] by (subst BinSearch.simps) (auto simp: found_def)
  next
    case True
    define mid where "mid = (hi + lo) div 2"
    note m = mid_between [OF True less.prems, folded mid_def]
    have mb: "uint mid < 2 ^ 63" using m(2) less.prems(1) by (simp add: word_less_def)
    have sh: "unat (hi - mid) < unat (hi - lo)" "unat (mid - lo) < unat (hi - lo)" using diff_shrinks [OF m(1,2)] by blast+
    have step: "BinSearch ex lo hi = (case ex mid of Inl e \<Rightarrow> Some (Inl e)
        | Inr failed \<Rightarrow> if failed then BinSearch ex mid hi else BinSearch ex lo mid)"
      using True by (subst BinSearch.simps) (simp add: mid_def [symmetric] Let_def)
    consider e where "ex mid = Inl e" | "ex mid = Inr True" | "ex mid = Inr False" by (metis sumE)
    then show ?thesis
    proof cases
      case 1
      then show ?thesis using step m by (auto simp: found_def)
    next
      case 2
      then show ?thesis using step less.hyps [OF sh(1) less.prems(1) mb] m(1,2) 2 by (auto intro: found_upper)
    next
      case 3
      then show ?thesis using step less.hyps [OF sh(2) mb less.prems(2)] m(1,2) 3 by (auto intro: found_lower)
    qed
  qed
qed

text \<open>With an upper bound above \<open>2 ^ 63\<close> the sum of the bounds wraps before the search can close in.\<close>

definition stuck :: "(uint64 \<Rightarrow> bool result) \<Rightarrow> uint64 \<Rightarrow> uint64 \<Rightarrow> bool" where
  "stuck ex lo hi \<longleftrightarrow> 2 ^ 63 < uint hi \<and> (\<forall>g. g < hi \<longrightarrow> ex g = Inr True) \<and> lo + 1 < hi"

lemma mid_wraps:
  fixes lo hi :: uint64
  assumes "2 ^ 63 < uint hi"
  shows "(hi + lo) div 2 + 1 < hi" "(hi + lo) div 2 < hi"
proof -
  have "uint ((hi + lo) div 2) = uint (hi + lo) div 2" by (simp add: uint_div)
  moreover have "uint (hi + lo) < 2 ^ 64" using uint_lt2p [of "hi + lo"] by simp
  ultimately have b: "uint ((hi + lo) div 2) < 2 ^ 63" by simp
  then have "uint ((hi + lo) div 2 + 1) = uint ((hi + lo) div 2) + 1"
    using uint_ge_0 [of "(hi + lo) div 2"] by (subst uint_word_ariths(1)) (simp add: mod_pos_pos_trivial)
  then show "(hi + lo) div 2 + 1 < hi" "(hi + lo) div 2 < hi" using b assms unfolding word_less_def by linarith+
qed

lemma BinSearch_not_stuck: "BinSearch ex lo hi = Some r \<Longrightarrow> \<not> stuck ex lo hi"
proof (rule BinSearch.raw_induct [where P = "\<lambda>ex lo hi r. \<not> stuck ex lo hi"])
  fix search ex lo hi r
  assume IH: "\<And>ex lo hi r. search ex lo hi = Some r \<Longrightarrow> \<not> stuck ex lo hi"
    and body: "(if lo + 1 < hi then let mid = (hi + lo) div 2 in
      case ex mid of Inl e \<Rightarrow> Some (Inl e) | Inr failed \<Rightarrow> if failed then search ex mid hi else search ex lo mid
      else Some (Inr hi)) = Some r"
  show "\<not> stuck ex lo hi"
  proof
    assume s: "stuck ex lo hi"
    then have "search ex ((hi + lo) div 2) hi = Some r"
      using body mid_wraps(2) [of hi lo] by (auto simp: stuck_def Let_def)
    moreover have "stuck ex ((hi + lo) div 2) hi" using s mid_wraps(1) [of hi lo] by (auto simp: stuck_def)
    ultimately show False using IH by blast
  qed
qed

lemma BinSearch_diverges: "stuck ex lo hi \<Longrightarrow> BinSearch ex lo hi = None"
  using BinSearch_not_stuck by (cases "BinSearch ex lo hi") auto

section \<open>Properties\<close>

definition failing :: "executable \<Rightarrow> uint64 \<Rightarrow> bool result" where
  "failing ex g = bindR (ex g) (\<lambda>(failed, _). Inr failed)"

lemma est_hi_le_cap: "GasCap req \<noteq> 0 \<Longrightarrow> est_hi env req m \<le> GasCap req"
  by (simp add: est_hi_def Let_def not_less)

lemma est_funded_hi_le: "est_funded_hi env req f b hi = Inr h \<Longrightarrow> h \<le> hi"
  by (auto simp: est_funded_hi_def Let_def handler_simps split: if_splits option.splits)

text \<open>
  What an estimate promises: its gas limit executes, and when more gas never makes an execution fail
  and the limit below the base cost fails, every smaller limit fails.
\<close>

definition more_gas_helps :: "executable \<Rightarrow> bool" where
  "more_gas_helps ex \<longleftrightarrow> (\<forall>g g'. failing ex g = Inr True \<and> g' \<le> g \<longrightarrow> failing ex g' = Inr True)"

definition good_estimate :: "est_env \<Rightarrow> executable \<Rightarrow> uint64 \<Rightarrow> bool" where
  "good_estimate env ex g \<longleftrightarrow> failing ex g = Inr False \<and>
     (more_gas_helps ex \<and> failing ex (TxGas env - 1) = Inr True \<longrightarrow> (\<forall>g' < g. failing ex g' = Inr True))"

lemma uint_pred: "g \<noteq> 0 \<Longrightarrow> uint (g - 1 :: uint64) = uint g - 1"
proof -
  assume "g \<noteq> 0"
  then have "0 < uint g" by (simp add: less_le unsigned_eq_0_iff)
  moreover have "uint g < 2 ^ 64" using uint_lt2p [of g] by simp
  ultimately show ?thesis by (subst uint_word_ariths(2)) (simp add: mod_pos_pos_trivial)
qed

lemma good_estimateI:
  assumes "failing ex g = Inr False"
    and "more_gas_helps ex \<Longrightarrow> failing ex (TxGas env - 1) = Inr True \<Longrightarrow> failing ex (g - 1) = Inr True"
  shows "good_estimate env ex g"
proof -
  have "g' \<le> g - 1" if "g' < g" for g' :: uint64
  proof -
    have "g \<noteq> 0" using that by auto
    then show ?thesis using that by (simp add: word_le_def word_less_def uint_pred)
  qed
  then show ?thesis using assms by (auto simp: good_estimate_def more_gas_helps_def)
qed

lemma est_narrow_ok:
  assumes "est_narrow env ex r lo hi = Inr (lo', hi')" "failing ex hi = Inr False"
  shows "failing ex hi' = Inr False" "hi' \<le> hi" "lo' = lo \<or> failing ex lo' = Inr True \<and> lo' < hi"
  using assms by (auto simp: est_narrow_def Let_def handler_simps failing_def split: if_splits)

lemma found_good:
  assumes f: "found (failing ex) lo hi (Inr g)" and hi: "failing ex hi = Inr False"
    and lo: "lo = TxGas env - 1 \<or> failing ex lo = Inr True"
  shows "good_estimate env ex g"
proof (rule good_estimateI)
  show "failing ex g = Inr False" using f hi by (auto simp: found_def)
  assume m: "more_gas_helps ex" and t: "failing ex (TxGas env - 1) = Inr True"
  then have "failing ex lo = Inr True" using lo by auto
  then have "\<not> hi \<le> lo" using m hi unfolding more_gas_helps_def by (metis Inr_inject)
  then have "lo < hi" by simp
  then show "failing ex (g - 1) = Inr True" using f \<open>failing ex lo = Inr True\<close> by (auto simp: found_def)
qed

lemma est_search_returns:
  assumes lo: "uint (TxGas env - 1) < 2 ^ 63" and hi: "uint hi < 2 ^ 63"
  shows "\<exists>r. est_search env ex (TxGas env - 1) hi cap = Some r \<and>
    (\<forall>resp. r = Inr resp \<longrightarrow> est_VmError resp = ErrExecutionReverted env \<or> good_estimate env ex (est_Gas resp))"
proof -
  show ?thesis
  proof (cases "\<exists>res. ex hi = Inr (False, Some res)")
    case False
    then show ?thesis
      by (auto simp: est_search_def failed_at_cap_def split: sum.splits option.splits)
  next
    case True
    then obtain res where 4: "ex hi = Inr (False, Some res)" by blast
    then have ok: "failing ex hi = Inr False" by (simp add: failing_def bindR_def)
    show ?thesis
    proof (cases "est_narrow env ex res (TxGas env - 1) hi")
      case (Inr b)
      obtain lo' hi' where b: "b = (lo', hi')" by (cases b)
      note nw = est_narrow_ok [OF Inr [unfolded b] ok]
      have small: "uint hi' < 2 ^ 63" "uint lo' < 2 ^ 63" using nw(2,3) hi lo by (auto simp: word_le_def word_less_def)
      obtain r where r: "BinSearch (failing ex) lo' hi' = Some r" "found (failing ex) lo' hi' r"
        using BinSearch_finds [OF small] by blast
      have "good_estimate env ex g" if "r = Inr g" for g using found_good [OF r(2) [unfolded that] nw(1)] nw(3) by blast
      then show ?thesis using 4 Inr b r(1)
        by (auto simp: est_search_def failing_def [abs_def] bindR_def est_gas_def split: sum.splits)
    qed (simp add: est_search_def 4)
  qed
qed

lemma gas_estimation_good:
  assumes cap: "uint (GasCap req) < 2 ^ 63" and base: "TxGas env \<noteq> 0"
  shows "\<exists>r. EstimateGas env ex req m feeCap balance plain = Some r \<and>
    (\<forall>resp. r = Inr resp \<longrightarrow> est_VmError resp = ErrExecutionReverted env \<or> good_estimate env ex (est_Gas resp))"
proof (cases "GasCap req < TxGas env")
  case True
  then show ?thesis by (simp add: EstimateGas_def plain_transfer_works_def)
next
  case False
  then have "uint (TxGas env) < 2 ^ 63" using cap by (simp add: word_less_def)
  then have lo: "uint (TxGas env - 1) < 2 ^ 63"
    using uint_pred [OF base] by linarith
  show ?thesis
  proof (cases "est_funded_hi env req feeCap balance (est_hi env req m)")
    case (Inl e)
    then show ?thesis using False by (simp add: EstimateGas_def plain_transfer_works_def Let_def)
  next
    case (Inr hi)
    have "GasCap req \<noteq> 0" using False base by (auto simp: not_less)
    then have "hi \<le> GasCap req" by (rule order_trans [OF est_funded_hi_le [OF Inr] est_hi_le_cap])
    then have hi: "uint hi < 2 ^ 63" using cap by (simp add: word_le_def)
    have "good_estimate env ex (TxGas env)" if "ex (TxGas env) = Inr (False, res)" for res
      using that by (intro good_estimateI) (auto simp: failing_def bindR_def)
    then show ?thesis using False Inr est_search_returns [OF lo hi]
      by (auto simp: EstimateGas_def plain_transfer_works_def Let_def est_gas_def split: sum.splits)
  qed
qed

text \<open>
  C8. Gas estimation always returns when the gas cap is below \<open>2 ^ 63\<close>, whatever the executions do. An
  estimate it returns, unless it reports a revert at the cap, is a limit with which the execution
  succeeds. It is the least such limit when more gas never makes the execution fail and the execution
  fails just below the intrinsic gas of a transfer; without that condition it is only some limit that
  works.
\<close>

theorem gas_estimation_returns:
  assumes cap: "uint (GasCap req) < 2 ^ 63" and base: "TxGas env \<noteq> 0"
  shows "\<exists>r. EstimateGas env ex req m feeCap balance plain = Some r \<and>
    (\<forall>resp. r = Inr resp \<longrightarrow> est_VmError resp = ErrExecutionReverted env \<or>
       failing ex (est_Gas resp) = Inr False \<and>
       (more_gas_helps ex \<and> failing ex (TxGas env - 1) = Inr True \<longrightarrow> (\<forall>g' < est_Gas resp. failing ex g' = Inr True)))"
  by (rule gas_estimation_good [unfolded good_estimate_def, OF assms])

text \<open>
  C40. With a gas cap above \<open>2 ^ 63\<close>, which the request chooses, estimation can run forever: when the
  message executes only with the full cap, the sum of the search bounds wraps around and the search
  never returns.
\<close>

theorem gas_estimation_overflow_diverges:
  assumes cap: "2 ^ 63 < uint (GasCap req)" "ArgGas req = Some (GasCap req)" "TxGas env \<le> GasCap req"
    and top: "ex (GasCap req) = Inr (False, Some r)" and below: "\<forall>g < GasCap req. \<exists>res. ex g = Inr (True, res)"
    and opt: "uint (optimisticGasLimit env r) + 1 < uint (GasCap req)"
  shows "EstimateGas env ex req m 0 balance False = None"
proof -
  let ?o = "optimisticGasLimit env r"
  have hi: "est_hi env req m = GasCap req" using cap by (simp add: est_hi_def Let_def)
  have wrap: "uint (?o + 1) = uint ?o + 1"
    using opt uint_lt2p [of "GasCap req"] uint_ge_0 [of ?o]
    by (subst uint_word_ariths(1)) (simp add: mod_pos_pos_trivial)
  have "?o < GasCap req" using opt by (simp add: word_less_def)
  then have "est_narrow env ex r (TxGas env - 1) (GasCap req) = Inr (?o, GasCap req)"
    using below by (auto simp: est_narrow_def bindR_def)
  moreover have "stuck (failing ex) ?o (GasCap req)"
    using cap(1) below opt wrap
    by (simp add: stuck_def word_less_def [of "?o + 1"]) (auto simp: failing_def bindR_def)
  ultimately show ?thesis
    using cap(3) hi top BinSearch_diverges
    by (simp add: EstimateGas_def plain_transfer_works_def est_funded_hi_def est_search_def failing_def [abs_def] not_less [symmetric])
qed

section \<open>Concrete instances\<close>

definition demo_est :: est_env where
  "demo_est = \<lparr>TxGas = 21000, CallStipend = 2300, ErrOutOfGas = ''out of gas'', ErrExecutionReverted = ''execution reverted''\<rparr>"

definition demo_response :: est_response where
  "demo_response = \<lparr>VmError = [], MaxUsedGas = 30000, Ret = []\<rparr>"

text \<open>A message that needs a given amount of gas.\<close>

definition demo_needs :: "uint64 \<Rightarrow> executable" where
  "demo_needs n g = (if g < n then Inr (True, None) else Inr (False, Some demo_response))"

definition demo_request :: "uint64 \<Rightarrow> est_request" where
  "demo_request cap = \<lparr>GasCap = cap, ArgGas = Some cap, ArgValue = None\<rparr>"

lemma demo_estimate:
  "EstimateGas demo_est (demo_needs 31234) (demo_request 50000) None 0 0 False = Some (Inr (est_gas 31234))"
  by code_simp

lemma demo_monotone: "more_gas_helps (demo_needs n)" "failing (demo_needs 31234) 20999 = Inr True"
  by (auto simp: more_gas_helps_def failing_def demo_needs_def bindR_def split: if_splits)

theorem gas_estimation_returns_witness:
  "EstimateGas demo_est (demo_needs 31234) (demo_request 50000) None 0 0 False = Some (Inr (est_gas 31234)) \<and>
   failing (demo_needs 31234) 31234 = Inr False \<and> failing (demo_needs 31234) 31233 = Inr True"
  using gas_estimation_returns [of "demo_request 50000" demo_est "demo_needs 31234" None 0 0 False] demo_estimate demo_monotone
  by (auto simp: demo_request_def demo_est_def est_gas_def)

theorem gas_estimation_overflow_diverges_witness:
  "EstimateGas demo_est (demo_needs 9223372036854775810) (demo_request 9223372036854775810) None 0 0 False = None"
  by (rule gas_estimation_overflow_diverges [where r = demo_response])
    (simp_all add: demo_est_def demo_needs_def demo_request_def demo_response_def optimisticGasLimit_def)

end
