(* ===== verification/Ante_Cosmos.thy ===== *)
theory Ante_Cosmos
  imports Admission Feemarket
begin

text \<open>
  The ante handler for Cosmos transactions (\<^verbatim>\<open>ante/ante.go\<close>, \<^verbatim>\<open>ante/cosmos.go\<close>,
  \<^verbatim>\<open>ante/cosmos\<close>) and the dynamic fee checker (\<^verbatim>\<open>ante/evm/fee_checker.go\<close>), wrapped by the
  admission handler as \<^verbatim>\<open>evmd/app.go\<close> does. The decorators of the SDK and of IBC, coin sets and
  the chaining of decorators are outside code.
\<close>

section \<open>Messages\<close>

text \<open>
  A message of a transaction: an \<^verbatim>\<open>authz.MsgExec\<close> with the messages it unpacks to (or one
  whose content cannot be unpacked), an \<^verbatim>\<open>authz.MsgGrant\<close> with the type its authorization
  names, an Ethereum transaction, or any other message with its type URL.
\<close>

datatype tx_msg =
    MsgExec "tx_msg list"
  | MsgExecUndecodable
  | MsgGrant "string option"
  | MsgEthereumTx
  | PlainMsg sdk_msg string

definition EthereumTxURL :: string where "EthereumTxURL = ''/cosmos.evm.vm.v1.MsgEthereumTx''"

fun MsgTypeURL :: "tx_msg \<Rightarrow> string" where
  "MsgTypeURL MsgEthereumTx = EthereumTxURL"
| "MsgTypeURL (PlainMsg m url) = url"
| "MsgTypeURL (MsgGrant a) = ''/cosmos.authz.v1beta1.MsgGrant''"
| "MsgTypeURL m = ''/cosmos.authz.v1beta1.MsgExec''"

text \<open>What the type switch of the admission handler sees.\<close>

fun top_msg :: "tx_msg \<Rightarrow> sdk_msg" where
  "top_msg (PlainMsg m url) = m"
| "top_msg m = OtherMsg"

section \<open>Decorators\<close>

record fee_tx =
  GetFee :: "coin list option"
  GetGas :: uint64
  DynamicFeeOptions :: "dec option option list"

record cosmos_tx =
  GetMsgs :: "tx_msg list"
  FeeTx :: "fee_tx option"
  ExtensionOptionURLs :: "string list"

type_synonym 'c ante_handler = "cosmos_tx \<Rightarrow> bool \<Rightarrow> ('c, unit) handler"
type_synonym 'c decorator = "'c ante_handler \<Rightarrow> 'c ante_handler"

text \<open>A decorator that only checks: on an error the context it was called with is returned.\<close>

definition checked :: "unit result \<Rightarrow> ('c, unit) handler \<Rightarrow> ('c, unit) handler" where
  "checked r nxt ctx = (case r of Inl e \<Rightarrow> (Inl e, ctx) | Inr _ \<Rightarrow> nxt ctx)"

definition RejectMessages :: "'c decorator" where
  "RejectMessages nxt tx simulate =
     checked (require (MsgEthereumTx \<notin> set (GetMsgs tx))
       (Err ''MsgEthereumTx needs to be contained within a tx with ExtensionOptionsEthereumTx option''))
       (nxt tx simulate)"

subsection \<open>Authz limiter\<close>

definition maxNestedMsgs :: nat where "maxNestedMsgs = 7"

definition isDisabledMsg :: "string list \<Rightarrow> string \<Rightarrow> bool" where
  "isDisabledMsg disabled url \<longleftrightarrow> url \<in> set disabled"

text \<open>
  The recursion of \<^verbatim>\<open>checkDisabledMsgs\<close>: the level is checked on entry, and the loop increments
  it at every \<^verbatim>\<open>MsgExec\<close> it meets, so the siblings after it see the higher level too.
\<close>

function (sequential)
  checkDisabledMsgs :: "string list \<Rightarrow> tx_msg list \<Rightarrow> bool \<Rightarrow> nat \<Rightarrow> unit result" and
  check_loop :: "string list \<Rightarrow> tx_msg list \<Rightarrow> bool \<Rightarrow> nat \<Rightarrow> unit result" where
  "checkDisabledMsgs disabled msgs inner nestedLvl =
     thenR (require (\<not> nestedLvl \<ge> maxNestedMsgs) (Err ''found more nested msgs than permitted''))
       (check_loop disabled msgs inner nestedLvl)"
| "check_loop disabled [] inner nestedLvl = Inr ()"
| "check_loop disabled (MsgExec ms # rest) inner nestedLvl =
     thenR (checkDisabledMsgs disabled ms True (nestedLvl + 1)) (check_loop disabled rest inner (nestedLvl + 1))"
| "check_loop disabled (MsgExecUndecodable # rest) inner nestedLvl = Inl (Err ''messages cannot be unpacked'')"
| "check_loop disabled (MsgGrant None # rest) inner nestedLvl = Inl (Err ''invalid authorization'')"
| "check_loop disabled (MsgGrant (Some url) # rest) inner nestedLvl =
     thenR (require (\<not> isDisabledMsg disabled url) (Err ''found disabled msg type'')) (check_loop disabled rest inner nestedLvl)"
| "check_loop disabled (m # rest) inner nestedLvl =
     thenR (require (\<not> (inner \<and> isDisabledMsg disabled (MsgTypeURL m))) (Err ''found disabled msg type''))
       (check_loop disabled rest inner nestedLvl)"
  by pat_completeness auto

termination
  by (relation "measure (\<lambda>x. case x of Inl (d, msgs, i, n) \<Rightarrow> 2 * size_list size msgs + 1 | Inr (d, msgs, i, n) \<Rightarrow> 2 * size_list size msgs)")
    (auto simp: size_list_conv_sum_list)

definition AuthzLimiter :: "string list \<Rightarrow> 'c decorator" where
  "AuthzLimiter disabled nxt tx simulate =
     checked (checkDisabledMsgs disabled (GetMsgs tx) False 1) (nxt tx simulate)"

section \<open>Fees\<close>

record fee_env =
  fee_dec :: dec_ops
  AmountOf :: "coin list \<Rightarrow> string \<Rightarrow> int"
  IsAnyGTE :: "coin list \<Rightarrow> coin list \<Rightarrow> bool"
  NewCoin :: "string \<Rightarrow> int \<Rightarrow> coin result"
  DefaultBondDenom :: string
  DefaultPriorityReduction :: int
  IsLondon :: "int \<Rightarrow> bool"

subsection \<open>Minimum gas price\<close>

definition required_fees :: "fee_env \<Rightarrow> string \<Rightarrow> dec \<Rightarrow> uint64 \<Rightarrow> coin list result" where
  "required_fees env denom minGasPrice gas =
     bindR (DMul (fee_dec env) minGasPrice (LegacyNewDec (uint gas))) (\<lambda>x.
     let fee = DCeilInt (fee_dec env) x in
     Inr (if fee > 0 then [(denom, fee)] else []))"

definition min_gas_price_check :: "fee_env \<Rightarrow> EvmCoinInfo option \<Rightarrow> Feemarket.Params \<Rightarrow> cosmos_tx \<Rightarrow> bool \<Rightarrow> unit result" where
  "min_gas_price_check env coin params tx simulate = (case FeeTx tx of
       None \<Rightarrow> Inl (Err ''invalid transaction type, expected sdk.FeeTx'')
     | Some feeTx \<Rightarrow>
         bindR (GetEVMCoinDenom coin) (\<lambda>evmDenom.
         let feeCoins = (case GetFee feeTx of None \<Rightarrow> [] | Some cs \<Rightarrow> cs);
             validFees = (length feeCoins = 0 \<or> (length feeCoins = 1 \<and> fst (feeCoins ! 0) \<in> {evmDenom, DefaultBondDenom env}))
         in thenR (require (\<not> (\<not> validFees \<and> \<not> simulate)) (Err ''expected only native token for fee'')) (
         bindR (the_dec (MinGasPrice params)) (\<lambda>minGasPrice.
         if minGasPrice = 0 \<or> simulate then Inr ()
         else
           bindR (required_fees env evmDenom minGasPrice (GetGas feeTx)) (\<lambda>required.
           case GetFee feeTx of
             None \<Rightarrow> Inl (Err ''fee not provided'')
           | Some cs \<Rightarrow> require (IsAnyGTE env cs required) (Err ''provided fee < minimum global fee''))))))"

definition MinGasPriceDecorator :: "fee_env \<Rightarrow> EvmCoinInfo option \<Rightarrow> Feemarket.Params \<Rightarrow> 'c decorator" where
  "MinGasPriceDecorator env coin params nxt tx simulate =
     checked (min_gas_price_check env coin params tx simulate) (nxt tx simulate)"

subsection \<open>Dynamic fee checker\<close>

record fee_ctx =
  fc_BlockHeight :: int
  fc_IsCheckTx :: bool
  fc_MinGasPrices :: "(string \<times> dec) list"

definition effectiveGasPriceLegacyDec :: "fee_env \<Rightarrow> dec \<Rightarrow> dec \<Rightarrow> dec \<Rightarrow> dec result" where
  "effectiveGasPriceLegacyDec env baseFee feeCap tipCap =
     bindR (DAdd (fee_dec env) tipCap baseFee) (\<lambda>x. Inr (min x feeCap))"

definition to_int64 :: "int \<Rightarrow> int" where
  "to_int64 n = (if - (2 ^ 63) \<le> n \<and> n < 2 ^ 63 then n else MaxInt64)"

text \<open>The naive priority: the least gas price over the fee coins, in units of the priority reduction.\<close>

fun getTxPriority :: "fee_env \<Rightarrow> coin list \<Rightarrow> int \<Rightarrow> int \<Rightarrow> int result" where
  "getTxPriority env [] gas priority = Inr priority"
| "getTxPriority env (fee # fees) gas priority =
     thenR (require (gas \<noteq> 0) (Panic ''division by zero'')) (
     let p = to_int64 (go_div (go_div (snd fee) gas) (DefaultPriorityReduction env)) in
     getTxPriority env fees gas (if priority = 0 \<or> p < priority then p else priority))"

fun min_fees :: "fee_env \<Rightarrow> dec \<Rightarrow> (string \<times> dec) list \<Rightarrow> coin list result" where
  "min_fees env glDec [] = Inr []"
| "min_fees env glDec ((denom, price) # rest) =
     bindR (DMul (fee_dec env) price glDec) (\<lambda>fee.
     bindR (NewCoin env denom (DCeilInt (fee_dec env) fee)) (\<lambda>c.
     bindR (min_fees env glDec rest) (\<lambda>cs. Inr (c # cs))))"

definition checkTxFeeWithValidatorMinGasPrices :: "fee_env \<Rightarrow> fee_ctx \<Rightarrow> fee_tx \<Rightarrow> (coin list \<times> int) result" where
  "checkTxFeeWithValidatorMinGasPrices env ctx tx =
     (let feeCoins = (case GetFee tx of None \<Rightarrow> [] | Some cs \<Rightarrow> cs); gas = sint (GetGas tx) in
      thenR (if fc_IsCheckTx ctx \<and> \<not> list_all (\<lambda>(d, p). p = 0) (fc_MinGasPrices ctx)
             then bindR (min_fees env (LegacyNewDec gas) (fc_MinGasPrices ctx)) (\<lambda>required.
                  require (IsAnyGTE env feeCoins required) (Err ''insufficient fees''))
             else Inr ()) (
      bindR (getTxPriority env feeCoins gas 0) (\<lambda>priority. Inr (feeCoins, priority))))"

fun max_priority_price :: "dec option option list \<Rightarrow> dec" where
  "max_priority_price [] = LegacyNewDec MaxInt64"
| "max_priority_price (Some p # opts) = (case p of None \<Rightarrow> 0 | Some d \<Rightarrow> d)"
| "max_priority_price (None # opts) = max_priority_price opts"

definition FeeChecker :: "fee_env \<Rightarrow> fee_ctx \<Rightarrow> Feemarket.Params \<Rightarrow> string \<Rightarrow> fee_tx \<Rightarrow> (coin list \<times> int) result" where
  "FeeChecker env ctx params denom tx =
     (if \<not> IsLondon env (fc_BlockHeight ctx) then checkTxFeeWithValidatorMinGasPrices env ctx tx
      else
        let baseFee = (if IsBaseFeeEnabled params (fc_BlockHeight ctx) then (case BaseFee params of None \<Rightarrow> 0 | Some f \<Rightarrow> f) else 0);
            maxPriorityPrice = max_priority_price (DynamicFeeOptions tx);
            gas = uint (GetGas tx);
            feeCoins = (case GetFee tx of None \<Rightarrow> [] | Some cs \<Rightarrow> cs)
        in
        thenR (require (\<not> maxPriorityPrice < 0) (Err ''max priority price cannot be negative'')) (
        thenR (require (gas \<noteq> 0) (Err ''gas cannot be zero'')) (
        bindR (DQuoInt (fee_dec env) (LegacyNewDec (AmountOf env feeCoins denom)) gas) (\<lambda>feeCap.
        thenR (require (\<not> feeCap < baseFee) (Err ''gas prices too low'')) (
        bindR (effectiveGasPriceLegacyDec env baseFee feeCap maxPriorityPrice) (\<lambda>effectivePrice.
        bindR (DMulInt (fee_dec env) effectivePrice gas) (\<lambda>total.
        bindR (DSub (fee_dec env) effectivePrice baseFee) (\<lambda>tip.
        bindR (DQuoInt (fee_dec env) tip (DefaultPriorityReduction env)) (\<lambda>p.
        Inr ([(denom, DCeilInt (fee_dec env) total)], to_int64 (DTruncateInt (fee_dec env) p)))))))))))"

definition NewDynamicFeeChecker ::
  "fee_env \<Rightarrow> EvmCoinInfo option \<Rightarrow> Feemarket.Params \<Rightarrow> fee_ctx \<Rightarrow> cosmos_tx \<Rightarrow> (coin list \<times> int) result" where
  "NewDynamicFeeChecker env coin params ctx tx = (case FeeTx tx of
       None \<Rightarrow> Inl (Err ''Tx must be a FeeTx'')
     | Some feeTx \<Rightarrow>
         if fc_BlockHeight ctx = 0 then checkTxFeeWithValidatorMinGasPrices env ctx feeTx
         else bindR (GetEVMCoinDenom coin) (\<lambda>denom. FeeChecker env ctx params denom feeTx))"

section \<open>The handler\<close>

text \<open>
  The SDK and IBC decorators before and after the minimum gas price, the SDK's function that chains
  decorators, the two type URLs that the limiter takes from other modules, and the two extension
  options.
\<close>

record 'c ante_options =
  ChainAnteDecorators :: "'c decorator list \<Rightarrow> 'c ante_handler"
  sdk_before :: "'c decorator list"
  sdk_after :: "'c decorator list"
  VestingAccountURL :: string
  SubmitProposalURL :: string
  OptionsEthereumTxURL :: string
  OptionDynamicFeeTxURL :: string
  EvmAnteHandler :: "'c ante_handler"

definition disabled_urls :: "'c ante_options \<Rightarrow> string list" where
  "disabled_urls opts = [EthereumTxURL, VestingAccountURL opts, SubmitProposalURL opts]"

definition newCosmosAnteHandler :: "fee_env \<Rightarrow> EvmCoinInfo option \<Rightarrow> Feemarket.Params \<Rightarrow> 'c ante_options \<Rightarrow> 'c ante_handler" where
  "newCosmosAnteHandler env coin params opts =
     ChainAnteDecorators opts
       ([RejectMessages, AuthzLimiter (disabled_urls opts)] @ sdk_before opts @
        [MinGasPriceDecorator env coin params] @ sdk_after opts)"

definition NewAnteHandler ::
  "fee_env \<Rightarrow> EvmCoinInfo option \<Rightarrow> ('c \<Rightarrow> Feemarket.Params) \<Rightarrow> 'c ante_options \<Rightarrow> 'c ante_handler" where
  "NewAnteHandler env coin paramsOf opts tx simulate ctx =
     (case ExtensionOptionURLs tx of
        [] \<Rightarrow> newCosmosAnteHandler env coin (paramsOf ctx) opts tx simulate ctx
      | url # _ \<Rightarrow>
          if url = OptionsEthereumTxURL opts then EvmAnteHandler opts tx simulate ctx
          else if url = OptionDynamicFeeTxURL opts then newCosmosAnteHandler env coin (paramsOf ctx) opts tx simulate ctx
          else (Inl (Err ''rejecting tx with unsupported extension option''), ctx))"

text \<open>The application's handler: the admission policy around the handler above.\<close>

definition setAnteHandler ::
  "admission_env \<Rightarrow> ('c \<Rightarrow> kv) \<Rightarrow> fee_env \<Rightarrow> EvmCoinInfo option \<Rightarrow> ('c \<Rightarrow> Feemarket.Params) \<Rightarrow> 'c ante_options \<Rightarrow> bool \<Rightarrow> 'c ante_handler" where
  "setAnteHandler aenv storeOf env coin paramsOf opts allowGovernance =
     NewAdmissionAnteHandler aenv storeOf (\<lambda>tx. map top_msg (GetMsgs tx)) (NewAnteHandler env coin paramsOf opts) [allowGovernance]"

end
