(* ===== verification/Ante_Properties.thy ===== *)
theory Ante_Properties
  imports Ante_Cosmos Admission_Properties
begin

text \<open>
  Properties of the Cosmos ante handler: what the authz limiter lets through, that a message wrapped
  in an authz execution never meets the admission policy, and the fee that the dynamic fee checker
  charges.
\<close>

section \<open>Authz limiter\<close>

text \<open>A message with everything it contains at any depth, and the depth of its executions.\<close>

fun unwrap :: "tx_msg \<Rightarrow> tx_msg list" where
  "unwrap (MsgExec ms) = MsgExec ms # concat (map unwrap ms)"
| "unwrap m = [m]"

fun exec_depth :: "tx_msg \<Rightarrow> nat" where
  "exec_depth (MsgExec ms) = Suc (foldr max (map exec_depth ms) 0)"
| "exec_depth m = 0"

fun contents :: "tx_msg \<Rightarrow> tx_msg list" where
  "contents (MsgExec ms) = concat (map unwrap ms)"
| "contents m = []"

text \<open>A message that may appear inside an execution.\<close>

fun allowed_inside :: "string list \<Rightarrow> tx_msg \<Rightarrow> bool" where
  "allowed_inside disabled (MsgExec ms) \<longleftrightarrow> True"
| "allowed_inside disabled MsgExecUndecodable \<longleftrightarrow> False"
| "allowed_inside disabled (MsgGrant a) \<longleftrightarrow> (case a of None \<Rightarrow> False | Some url \<Rightarrow> \<not> isDisabledMsg disabled url)"
| "allowed_inside disabled m \<longleftrightarrow> \<not> isDisabledMsg disabled (MsgTypeURL m)"

fun allowed_outside :: "string list \<Rightarrow> tx_msg \<Rightarrow> bool" where
  "allowed_outside disabled MsgExecUndecodable \<longleftrightarrow> False"
| "allowed_outside disabled (MsgGrant a) \<longleftrightarrow> (case a of None \<Rightarrow> False | Some url \<Rightarrow> \<not> isDisabledMsg disabled url)"
| "allowed_outside disabled m \<longleftrightarrow> True"

lemma set_unwrap: "set (unwrap m) = insert m (set (contents m))"
  by (cases m) auto

lemma depth_foldr: "foldr max (map exec_depth ms) 0 \<le> n \<longleftrightarrow> (\<forall>m\<in>set ms. exec_depth m \<le> n)"
  by (induction ms) auto

lemma limiter_sound:
  "checkDisabledMsgs d ms i n = Inr () \<Longrightarrow>
     n < maxNestedMsgs \<and> (\<forall>m\<in>set ms. n + exec_depth m < maxNestedMsgs \<and> (\<forall>x\<in>set (contents m). allowed_inside d x) \<and>
       (if i then allowed_inside d m else allowed_outside d m))"
  "check_loop d ms i n = Inr () \<Longrightarrow> n < maxNestedMsgs \<Longrightarrow>
     (\<forall>m\<in>set ms. n + exec_depth m < maxNestedMsgs \<and> (\<forall>x\<in>set (contents m). allowed_inside d x) \<and>
       (if i then allowed_inside d m else allowed_outside d m))"
proof (induction d ms i n and d ms i n rule: checkDisabledMsgs_check_loop.induct)
  case (1 d ms i n)
  then show ?case by (auto simp: handler_simps)
next
  case (3 d ms rest i n)
  have inner: "Suc n < maxNestedMsgs" "\<forall>m\<in>set ms. Suc n + exec_depth m < maxNestedMsgs \<and>
      (\<forall>x\<in>set (contents m). allowed_inside d x) \<and> allowed_inside d m"
    using 3 by (auto simp: handler_simps)
  have rest: "\<forall>m\<in>set rest. Suc n + exec_depth m < maxNestedMsgs \<and> (\<forall>x\<in>set (contents m). allowed_inside d x) \<and>
       (if i then allowed_inside d m else allowed_outside d m)"
    using 3 inner(1) by (auto simp: handler_simps)
  have "\<forall>m\<in>set ms. exec_depth m \<le> maxNestedMsgs - Suc (Suc n)" using inner by force
  then have depth: "n + exec_depth (MsgExec ms) < maxNestedMsgs"
    using inner(1) depth_foldr [of ms "maxNestedMsgs - Suc (Suc n)"] by simp
  have "allowed_inside d x" if "m \<in> set ms" "x \<in> set (unwrap m)" for m x
    using that inner(2) by (auto simp: set_unwrap)
  then show ?case using rest depth by auto
qed (auto simp: handler_simps split: option.splits)

fun is_exec :: "tx_msg \<Rightarrow> bool" where
  "is_exec (MsgExec ms) = True"
| "is_exec m = False"

lemma limiter_siblings: "check_loop d ms i n = Inr () \<Longrightarrow> n < maxNestedMsgs \<Longrightarrow> n + length (filter is_exec ms) < maxNestedMsgs"
proof (induction ms arbitrary: n)
  case Nil
  then show ?case by simp
next
  case (Cons m ms)
  show ?case
  proof (cases m)
    case (MsgExec inner)
    then have "Suc n < maxNestedMsgs" "check_loop d ms i (Suc n) = Inr ()" using Cons.prems by (auto simp: handler_simps)
    then show ?thesis using Cons.IH [of "Suc n"] MsgExec by simp
  next
    case (MsgGrant a)
    then show ?thesis using Cons by (cases a) (auto simp: handler_simps)
  qed (use Cons in \<open>auto simp: handler_simps\<close>)
qed

text \<open>
  C21. In a transaction that passes the authz limiter, no grant for a disabled type and nothing that
  cannot be unpacked occurs anywhere, neither as a message of the transaction nor at any depth inside
  an authz execution; and inside the executions, at any depth, there is no message of a disabled type
  (one sent directly is not the limiter's concern and passes). Executions nest at most five deep; the
  level also counts executions side by side, so there are at most five of those even when none
  contains another.
\<close>

theorem authz_limiter_blocks_disabled:
  assumes "fst (AuthzLimiter disabled nxt tx simulate ctx) = Inr ()" "m \<in> set (GetMsgs tx)"
  shows "exec_depth m \<le> 5 \<and> length (filter is_exec (GetMsgs tx)) \<le> 5 \<and>
    (\<forall>x\<in>set (unwrap m). x \<noteq> MsgExecUndecodable \<and>
       (\<forall>a. x = MsgGrant a \<longrightarrow> (\<exists>url. a = Some url \<and> url \<notin> set disabled))) \<and>
    (\<forall>x\<in>set (contents m). (\<forall>k url. x = PlainMsg k url \<longrightarrow> url \<notin> set disabled) \<and>
       (x = MsgEthereumTx \<longrightarrow> EthereumTxURL \<notin> set disabled))"
proof -
  have ok: "checkDisabledMsgs disabled (GetMsgs tx) False 1 = Inr ()"
    using assms(1) by (auto simp: AuthzLimiter_def checked_def split: sum.splits)
  have "1 + exec_depth m < 7" "\<forall>x\<in>set (contents m). allowed_inside disabled x" "allowed_outside disabled m"
    using limiter_sound(1) [OF ok] assms(2) by (auto simp: maxNestedMsgs_def)
  moreover have "1 + length (filter is_exec (GetMsgs tx)) < 7"
    using ok limiter_siblings [of disabled "GetMsgs tx" False 1] by (simp add: maxNestedMsgs_def handler_simps)
  ultimately show ?thesis by (force simp: isDisabledMsg_def set_unwrap split: option.splits)
qed

section \<open>Executions and the admission policy\<close>

text \<open>The documented behaviour of chaining: the first decorator runs with the rest of the chain as its next handler.\<close>

definition chain_law :: "'c ante_options \<Rightarrow> bool" where
  "chain_law opts \<longleftrightarrow> (\<forall>d ds. ChainAnteDecorators opts (d # ds) = d (ChainAnteDecorators opts ds))"

lemma plain_inner_ok:
  "\<forall>m\<in>set ms. \<exists>k url. m = PlainMsg k url \<and> url \<notin> set d \<Longrightarrow> check_loop d ms True n = Inr ()"
  by (induction ms) (auto simp: thenR_def bindR_def require_def isDisabledMsg_def)

text \<open>The rest of the handler after the two message filters.\<close>

definition after_filters :: "fee_env \<Rightarrow> EvmCoinInfo option \<Rightarrow> Feemarket.Params \<Rightarrow> 'c ante_options \<Rightarrow> 'c ante_handler" where
  "after_filters env coin params opts =
     ChainAnteDecorators opts (sdk_before opts @ [MinGasPriceDecorator env coin params] @ sdk_after opts)"

text \<open>
  C22. The admission policy and the authz limiter do not see through an authz execution to the messages
  the policy is about: a Cosmos transaction whose only message is an execution of plain messages of
  types the limiter does not disable reaches the rest of the handler whatever the admission store
  says, while the same message sent directly is refused when the policy forbids it.
\<close>

theorem exec_bypasses_admission:
  assumes "chain_law opts" "ExtensionOptionURLs tx = []" "GetMsgs tx = [MsgExec ms]"
    and "\<forall>m\<in>set ms. \<exists>k url. m = PlainMsg k url \<and> url \<notin> set (disabled_urls opts)"
  shows "setAnteHandler aenv storeOf env coin paramsOf opts allow tx simulate ctx =
      after_filters env coin (paramsOf ctx) opts tx simulate ctx \<and>
    (PlainMsg k url \<in> set ms \<and> ante_msg aenv allow (storeOf ctx) k = Inl e \<longrightarrow>
       setAnteHandler aenv storeOf env coin paramsOf opts allow (tx\<lparr>GetMsgs := [PlainMsg k url]\<rparr>) simulate ctx = (Inl e, ctx))"
proof -
  have "checkDisabledMsgs (disabled_urls opts) [MsgExec ms] False 1 = Inr ()"
    using plain_inner_ok [OF assms(4)] by (simp add: thenR_def bindR_def require_def maxNestedMsgs_def)
  moreover have "NewAdmissionAnteHandler aenv storeOf (\<lambda>tx. map top_msg (GetMsgs tx)) nxt [allow] tx simulate ctx = nxt tx simulate ctx" for nxt
    using assms(3) by (simp add: NewAdmissionAnteHandler_def thenR_def bindR_def)
  moreover have "ChainAnteDecorators opts (RejectMessages # AuthzLimiter (disabled_urls opts) # ds) =
      RejectMessages (AuthzLimiter (disabled_urls opts) (ChainAnteDecorators opts ds))" for ds
    using assms(1) by (simp add: chain_law_def)
  ultimately show ?thesis
    using assms(2,3)
    by (simp add: setAnteHandler_def NewAnteHandler_def newCosmosAnteHandler_def after_filters_def RejectMessages_def
        AuthzLimiter_def checked_def require_def NewAdmissionAnteHandler_def thenR_def bindR_def)
qed

section \<open>The dynamic fee\<close>

definition base_fee_at :: "Feemarket.Params \<Rightarrow> int \<Rightarrow> dec" where
  "base_fee_at params height =
     (if IsBaseFeeEnabled params height then (case BaseFee params of None \<Rightarrow> 0 | Some f \<Rightarrow> f) else 0)"

definition offered :: "fee_env \<Rightarrow> string \<Rightarrow> fee_tx \<Rightarrow> int" where
  "offered env denom tx = AmountOf env (case GetFee tx of None \<Rightarrow> [] | Some cs \<Rightarrow> cs) denom"

lemma ceil_bounds: "a \<le> dec_unit * - ((- a) div dec_unit)" "a \<le> n * dec_unit \<Longrightarrow> - ((- a) div dec_unit) \<le> n"
proof -
  have m: "dec_unit * ((- a) div dec_unit) + (- a) mod dec_unit = - a" by (rule mult_div_mod_eq)
  have r: "0 \<le> (- a) mod dec_unit" "(- a) mod dec_unit < dec_unit" by simp_all
  have "dec_unit * - ((- a) div dec_unit) = - (dec_unit * ((- a) div dec_unit))" by simp
  then show "a \<le> dec_unit * - ((- a) div dec_unit)" using m r by linarith
  assume "a \<le> n * dec_unit"
  then have "(- n) * dec_unit \<le> - a" by simp
  then have "(- n) * dec_unit div dec_unit \<le> (- a) div dec_unit" by (intro zdiv_mono1) simp_all
  moreover have "(- n) * dec_unit div dec_unit = - n" by (rule nonzero_mult_div_cancel_right) simp
  ultimately show "- ((- a) div dec_unit) \<le> n" by linarith
qed

text \<open>
  C23. After the London fork the fee that the dynamic fee checker charges is one coin of the fee
  denomination, at most what the transaction offered and at least the base fee for all of its gas,
  and the priority is a non-negative 64-bit number.
\<close>

theorem dynamic_fee_within_offer:
  assumes laws: "dec_laws (fee_dec env)" and red: "0 < DefaultPriorityReduction env"
    and london: "IsLondon env (fc_BlockHeight ctx)" and off: "0 \<le> offered env denom tx"
    and run: "FeeChecker env ctx params denom tx = Inr (coins, priority)"
  shows "\<exists>fee. coins = [(denom, fee)] \<and> fee \<le> offered env denom tx \<and>
    base_fee_at params (fc_BlockHeight ctx) * uint (GetGas tx) \<le> fee * dec_unit \<and> 0 \<le> priority \<and> priority \<le> MaxInt64"
proof -
  let ?base = "base_fee_at params (fc_BlockHeight ctx)" and ?gas = "uint (GetGas tx)" and ?tip = "max_priority_price (DynamicFeeOptions tx)"
  define cap where "cap = go_div (LegacyNewDec (offered env denom tx)) ?gas"
  define eff where "eff = min (?tip + ?base) cap"
  have g: "0 < ?gas" and tip: "0 \<le> ?tip" and cap: "?base \<le> cap"
    and coins: "coins = [(denom, - ((- (eff * ?gas)) div dec_unit))]"
    and prio: "priority = to_int64 (go_div (go_div (eff - ?base) (DefaultPriorityReduction env)) dec_unit)"
    using run london uint_ge_0 [of "GetGas tx"]
    by (auto simp: FeeChecker_def Let_def handler_simps effectiveGasPriceLegacyDec_def dec_laws_ops [OF laws] less_le
        base_fee_at_def offered_def cap_def eff_def split: if_splits)
  have lower: "?base \<le> eff" using tip cap by (simp add: eff_def)
  have num: "0 \<le> LegacyNewDec (offered env denom tx)" using off less_imp_le [OF dec_unit_pos(1)] by (simp add: LegacyNewDec_def)
  have "cap * ?gas \<le> offered env denom tx * dec_unit"
  proof -
    let ?x = "LegacyNewDec (offered env denom tx)"
    have "?x div ?gas * ?gas \<le> ?x"
      using div_mult_mod_eq [of ?x ?gas] pos_mod_sign [OF g, of ?x] by linarith
    then show ?thesis using num g by (simp add: cap_def go_div_nonneg) (simp add: LegacyNewDec_def)
  qed
  moreover have "eff * ?gas \<le> cap * ?gas" using g by (intro mult_right_mono) (auto simp: eff_def)
  ultimately have "- ((- (eff * ?gas)) div dec_unit) \<le> offered env denom tx" using ceil_bounds(2) by (meson order_trans)
  moreover have "?base * ?gas \<le> eff * ?gas" using lower g by (intro mult_right_mono) auto
  then have "?base * ?gas \<le> dec_unit * - ((- (eff * ?gas)) div dec_unit)" using ceil_bounds(1) order_trans by blast
  moreover have "0 \<le> priority \<and> priority \<le> MaxInt64"
  proof -
    have "0 \<le> go_div (eff - ?base) (DefaultPriorityReduction env)"
      using go_div_bounds [of "eff - ?base" "DefaultPriorityReduction env"] lower red by simp
    then have "0 \<le> go_div (go_div (eff - ?base) (DefaultPriorityReduction env)) dec_unit"
      using go_div_bounds [of _ dec_unit] by simp
    then show ?thesis by (simp add: prio to_int64_def MaxInt64_def)
  qed
  ultimately show ?thesis by (simp add: coins mult.commute)
qed

section \<open>Concrete instances\<close>

definition demo_fee_env :: fee_env where
  "demo_fee_env = \<lparr>fee_dec = int_dec_ops, AmountOf = (\<lambda>cs d. sum_list (map snd (filter (\<lambda>c. fst c = d) cs))),
     IsAnyGTE = (\<lambda>cs ds. ds = [] \<or> (\<exists>c\<in>set cs. \<exists>d\<in>set ds. fst c = fst d \<and> snd d \<le> snd c)),
     NewCoin = (\<lambda>d n. if n < 0 then Inl (Panic ''negative coin amount'') else Inr (d, n)),
     DefaultBondDenom = ''stake'', DefaultPriorityReduction = 1000000, IsLondon = (\<lambda>h. True)\<rparr>"

definition demo_params :: Feemarket.Params where
  "demo_params = \<lparr>NoBaseFee = False, BaseFeeChangeDenominator = 8, ElasticityMultiplier = 2, BaseFee = Some (10 * dec_unit),
     EnableHeight = 0, MinGasPrice = Some 0, MinGasMultiplier = Some 0\<rparr>"

definition demo_options :: "unit ante_options" where
  "demo_options = \<lparr>ChainAnteDecorators = (\<lambda>ds. foldr (\<lambda>d nxt. d nxt) ds (\<lambda>tx simulate. okE ())), sdk_before = [], sdk_after = [],
     VestingAccountURL = ''/cosmos.vesting.v1beta1.MsgCreateVestingAccount'', SubmitProposalURL = ''/cosmos.gov.v1.MsgSubmitProposal'',
     OptionsEthereumTxURL = ''/cosmos.evm.vm.v1.ExtensionOptionsEthereumTx'',
     OptionDynamicFeeTxURL = ''/cosmos.evm.ante.v1.ExtensionOptionDynamicFeeTx'', EvmAnteHandler = (\<lambda>tx simulate. okE ())\<rparr>"

definition demo_fee_tx :: fee_tx where
  "demo_fee_tx = \<lparr>GetFee = Some [(''axtc'', 2000)], GetGas = 100, DynamicFeeOptions = [Some (Some (3 * dec_unit))]\<rparr>"

definition demo_create :: tx_msg where
  "demo_create = PlainMsg (MsgCreateValidator ''mallory'' (''axtc'', 1)) ''/cosmos.staking.v1beta1.MsgCreateValidator''"

definition demo_exec_tx :: cosmos_tx where
  "demo_exec_tx = \<lparr>GetMsgs = [MsgExec [demo_create]], FeeTx = Some demo_fee_tx, ExtensionOptionURLs = []\<rparr>"

theorem authz_limiter_blocks_disabled_witness:
  "AuthzLimiter (disabled_urls demo_options) (\<lambda>tx simulate. okE ()) demo_exec_tx False () = (Inr (), ()) \<and>
   exec_depth (MsgExec [demo_create]) \<le> 5 \<and> ''/cosmos.staking.v1beta1.MsgCreateValidator'' \<notin> set (disabled_urls demo_options)"
proof -
  have "AuthzLimiter (disabled_urls demo_options) (\<lambda>tx simulate. okE ()) demo_exec_tx False () = (Inr (), ())"
    by (simp add: AuthzLimiter_def checked_def demo_exec_tx_def demo_create_def demo_options_def disabled_urls_def
        isDisabledMsg_def maxNestedMsgs_def thenR_def bindR_def require_def EthereumTxURL_def)
  then show ?thesis
    using authz_limiter_blocks_disabled [of "disabled_urls demo_options" "\<lambda>tx simulate. okE ()" demo_exec_tx False "()" "MsgExec [demo_create]"]
    by (simp add: demo_exec_tx_def demo_create_def)
qed

theorem exec_bypasses_admission_witness:
  "setAnteHandler demo_admission (\<lambda>_. Map.empty) demo_fee_env (Some demo_coin) (\<lambda>_. demo_params) demo_options False
     demo_exec_tx False () = (Inr (), ()) \<and>
   setAnteHandler demo_admission (\<lambda>_. Map.empty) demo_fee_env (Some demo_coin) (\<lambda>_. demo_params) demo_options False
     (demo_exec_tx\<lparr>GetMsgs := [demo_create]\<rparr>) False () = (Inl (Err ''Validator Admission: validator is not approved by Xitcoin''), ())"
proof -
  have law: "chain_law demo_options" by (simp add: chain_law_def demo_options_def)
  have inner: "\<forall>m\<in>set [demo_create]. \<exists>k url. m = PlainMsg k url \<and> url \<notin> set (disabled_urls demo_options)"
    by (simp add: demo_create_def disabled_urls_def demo_options_def EthereumTxURL_def)
  have rest: "after_filters demo_fee_env (Some demo_coin) demo_params demo_options demo_exec_tx False () = (Inr (), ())"
    by (simp add: after_filters_def demo_options_def MinGasPriceDecorator_def min_gas_price_check_def demo_exec_tx_def demo_fee_tx_def
        demo_params_def demo_coin_def GetEVMCoinDenom_def getCoinInfo_def of_option_def bindR_def thenR_def require_def
        the_dec_def checked_def demo_fee_env_def)
  have refused: "ante_msg demo_admission False Map.empty (MsgCreateValidator ''mallory'' (''axtc'', 1)) =
      Inl (Err ''Validator Admission: validator is not approved by Xitcoin'')"
    by (simp add: IsApprovedValidator_def kv_has_def kv_get_def thenR_def bindR_def require_def)
  show ?thesis
    using exec_bypasses_admission [OF law _ _ inner, of demo_exec_tx demo_admission "\<lambda>_. Map.empty" demo_fee_env "Some demo_coin"
        "\<lambda>_. demo_params" False False "()" "MsgCreateValidator ''mallory'' (''axtc'', 1)"
        "''/cosmos.staking.v1beta1.MsgCreateValidator''" "Err ''Validator Admission: validator is not approved by Xitcoin''"] rest refused
    by (simp add: demo_exec_tx_def demo_create_def)
qed

theorem dynamic_fee_within_offer_witness:
  "FeeChecker demo_fee_env \<lparr>fc_BlockHeight = 5, fc_IsCheckTx = True, fc_MinGasPrices = []\<rparr> demo_params ''axtc'' demo_fee_tx =
     Inr ([(''axtc'', 1300)], 0) \<and> (1300 :: int) \<le> offered demo_fee_env ''axtc'' demo_fee_tx"
proof -
  have run: "FeeChecker demo_fee_env \<lparr>fc_BlockHeight = 5, fc_IsCheckTx = True, fc_MinGasPrices = []\<rparr> demo_params ''axtc'' demo_fee_tx =
     Inr ([(''axtc'', 1300)], 0)"
    by (simp add: FeeChecker_def demo_fee_env_def demo_params_def demo_fee_tx_def IsBaseFeeEnabled_def int_dec_ops_def
        effectiveGasPriceLegacyDec_def bindR_def thenR_def require_def dec_result_def dec_fits_def LegacyNewDec_def dec_unit_def
        go_div_def to_int64_def)
  show ?thesis
    using dynamic_fee_within_offer [OF _ _ _ _ run] run
    by (simp add: demo_fee_env_def int_dec_laws offered_def demo_fee_tx_def)
qed

end
