(* ===== verification/Ante_Evm.thy ===== *)
theory Ante_Evm
  imports Feemarket StateDB Admission
begin

text \<open>
  The ante handler for Ethereum transactions: the mono decorator of \<^verbatim>\<open>ante/evm\<close> with every check it
  calls, the message accessors of \<^verbatim>\<open>x/vm/types/msg.go\<close> and the fee verification of
  \<^verbatim>\<open>x/vm/keeper/fees.go\<close>. Outside code: go-ethereum's transaction validation, signature recovery,
  intrinsic gas and chain rules; the account keeper, and the parts of the EVM keeper that reach the
  bank.
\<close>

section \<open>Transactions and messages\<close>

text \<open>A go-ethereum transaction by the values of its accessors.\<close>

record Transaction =
  tx_To :: "address option"
  tx_Gas :: uint64
  tx_Nonce :: uint64
  tx_Type :: nat
  tx_GasPrice :: int
  tx_GasFeeCap :: int
  tx_GasTipCap :: int
  tx_Value :: int
  tx_Cost :: int
  tx_Hash :: hash

record EthMsg =
  em_From :: bytes
  em_Raw :: Transaction

record Fee =
  fee_Amount :: "coin list"
  fee_GasLimit :: uint64
  fee_Payer :: string
  fee_Granter :: string

text \<open>
  A Cosmos transaction as the decorator inspects it; a message that is not an Ethereum transaction is
  \<^const>\<open>None\<close>, repeated fields are given by their length.
\<close>

record eth_cosmos_tx =
  etx_ValidateBasic :: "unit result"
  etx_IsProtoTx :: bool
  etx_IsGasTx :: bool
  etx_Memo :: string
  etx_TimeoutHeight :: uint64
  etx_NonCriticalExtensionOptions :: nat
  etx_ExtensionOptions :: nat
  etx_SignerInfos :: nat
  etx_Fee :: "Fee option"
  etx_Tip :: bool
  etx_Signatures :: nat
  etx_Msgs :: "EthMsg option list"

record rules =
  r_IsLondon :: bool
  r_IsHomestead :: bool
  r_IsIstanbul :: bool
  r_IsShanghai :: bool

record eth_env =
  eth_dec :: dec_ops
  ErrNoSignatures :: "err \<Rightarrow> bool"
  eth_AmountOf :: "coin list \<Rightarrow> string \<Rightarrow> int"
  ChainRules :: "int \<Rightarrow> int \<Rightarrow> rules"
  CfgIsLondon :: "int \<Rightarrow> bool"
  TxpoolValidate :: "Transaction \<Rightarrow> int option \<Rightarrow> int \<Rightarrow> int \<Rightarrow> unit result"
  EffectiveGasTip :: "Transaction \<Rightarrow> int option \<Rightarrow> int"
  EthSender :: "Transaction \<Rightarrow> int \<Rightarrow> int \<Rightarrow> address result"
  AddressBytes :: "address \<Rightarrow> bytes"
  BytesToAddress :: "bytes \<Rightarrow> address"
  IntrinsicGas :: "Transaction \<Rightarrow> rules \<Rightarrow> uint64 result"
  eth_EmptyCodeHash :: hash
  ParseDelegation :: "bytes \<Rightarrow> bool"
  DynamicFeeTxType :: nat
  eth_PriorityReduction :: int
  HashString :: "hash \<Rightarrow> string"
  CoinsString :: "coin list \<Rightarrow> string"

text \<open>The account keeper (\<open>'a\<close> is an account object) and the EVM keeper; \<open>'w\<close> is what they store.\<close>

record ('w, 'a) eth_keepers =
  AccGet :: "bytes \<Rightarrow> 'w \<Rightarrow> 'a option"
  AccSet :: "'a \<Rightarrow> 'w \<Rightarrow> 'w"
  AccNew :: "bytes \<Rightarrow> 'w \<Rightarrow> 'a \<times> 'w"
  GetSequence :: "'a \<Rightarrow> uint64"
  SetSequence :: "uint64 \<Rightarrow> 'a \<Rightarrow> 'a result"
  EvmGetAccount :: "address \<Rightarrow> 'w \<Rightarrow> Account option"
  EvmGetCode :: "hash \<Rightarrow> 'w \<Rightarrow> bytes"
  DeductTxCosts :: "coin list \<Rightarrow> address \<Rightarrow> 'w \<Rightarrow> unit result \<times> 'w"

record 'w eth_ctx =
  ec_BlockHeight :: int
  ec_BlockTime :: int
  ec_IsCheckTx :: bool
  ec_IsReCheckTx :: bool
  ec_IsSigverifyTx :: bool
  ec_SigCache :: "unit result option"
  ec_MinGasPrice :: dec
  ec_ConsMaxGas :: "int option"
  ec_TxIndex :: uint64
  ec_GasLimit :: "uint64 option"
  ec_Priority :: int
  ec_events :: "event list"
  ec_world :: 'w

type_synonym ('w, 'b) eth_op = "('w eth_ctx, 'b) handler"

definition ethE :: "('w \<Rightarrow> unit result \<times> 'w) \<Rightarrow> ('w, unit) eth_op" where
  "ethE f s = (case f (ec_world s) of (r, w) \<Rightarrow> (r, s\<lparr>ec_world := w\<rparr>))"

definition eth_emit :: "event \<Rightarrow> ('w, unit) eth_op" where
  "eth_emit e = modifyE (\<lambda>s. s\<lparr>ec_events := ec_events s @ [e]\<rparr>)"

subsection \<open>Message accessors\<close>

definition GetFee :: "EthMsg \<Rightarrow> int" where
  "GetFee m = uint (tx_Gas (em_Raw m)) * tx_GasPrice (em_Raw m)"

definition GetEffectiveFee :: "eth_env \<Rightarrow> EthMsg \<Rightarrow> int \<Rightarrow> int" where
  "GetEffectiveFee env m baseFee = uint (tx_Gas (em_Raw m)) * (EffectiveGasTip env (em_Raw m) (Some baseFee) + baseFee)"

definition VerifySender :: "eth_env \<Rightarrow> int \<Rightarrow> int \<Rightarrow> EthMsg \<Rightarrow> unit result" where
  "VerifySender env height time m =
     bindR (EthSender env (em_Raw m) height time) (\<lambda>from.
     require (em_From m = AddressBytes env from) (Err ''sender verification failed''))"

definition UnpackEthMsg :: "EthMsg option \<Rightarrow> EthMsg result" where
  "UnpackEthMsg m = of_option (Err ''invalid message type'') m"

definition GetTxPriority :: "eth_env \<Rightarrow> Transaction \<Rightarrow> int option \<Rightarrow> int result" where
  "GetTxPriority env tx baseFee =
     thenR (require (eth_PriorityReduction env \<noteq> 0) (Panic ''division by zero'')) (
     let p = go_div (EffectiveGasTip env tx baseFee) (eth_PriorityReduction env) in
     Inr (if - (2 ^ 63) \<le> p \<and> p < 2 ^ 63 then p else MaxInt64))"

section \<open>Checks\<close>

definition ValidateTx :: "eth_env \<Rightarrow> eth_cosmos_tx \<Rightarrow> Fee result" where
  "ValidateTx env tx =
     thenR (case etx_ValidateBasic tx of
              Inl e \<Rightarrow> if ErrNoSignatures env e then Inr () else Inl (Err ''tx basic validation failed'')
            | Inr _ \<Rightarrow> Inr ()) (
     thenR (require (etx_IsProtoTx tx) (Err ''invalid tx type, not a ProtoTxProvider'')) (
     thenR (require (\<not> (etx_Memo tx \<noteq> [] \<or> etx_TimeoutHeight tx \<noteq> 0 \<or> etx_NonCriticalExtensionOptions tx > 0))
       (Err ''for eth tx body Memo TimeoutHeight NonCriticalExtensionOptions should be empty'')) (
     thenR (require (etx_ExtensionOptions tx = 1) (Err ''for eth tx length of ExtensionOptions should be 1'')) (
     thenR (require (\<not> etx_SignerInfos tx > 0) (Err ''for eth tx AuthInfo SignerInfos should be empty'')) (
     bindR (of_option (Err ''authInfo.Fee should not be nil'') (etx_Fee tx)) (\<lambda>fee.
     thenR (require (\<not> (fee_Payer fee \<noteq> [] \<or> fee_Granter fee \<noteq> []))
       (Err ''for eth tx AuthInfo Fee payer and granter should be empty'')) (
     thenR (require (\<not> etx_Tip tx) (Err ''authInfo.Tip must be nil'')) (
     thenR (require (\<not> etx_Signatures tx > 0) (Err ''for eth tx Signatures should be empty'')) (Inr fee)))))))))"

definition CheckMempoolFee :: "dec_ops \<Rightarrow> dec \<Rightarrow> dec \<Rightarrow> dec \<Rightarrow> bool \<Rightarrow> unit result" where
  "CheckMempoolFee D fee mempoolMinGasPrice gasLimit isLondon =
     (if isLondon then Inr ()
      else bindR (DMul D mempoolMinGasPrice gasLimit) (\<lambda>required. require (\<not> fee < required) (Err ''insufficient fee'')))"

definition CheckGlobalFee :: "dec_ops \<Rightarrow> dec \<Rightarrow> dec \<Rightarrow> dec \<Rightarrow> unit result" where
  "CheckGlobalFee D fee globalMinGasPrice gasLimit =
     (if globalMinGasPrice = 0 then Inr ()
      else bindR (DMul D globalMinGasPrice gasLimit) (\<lambda>required.
           require (\<not> fee < required) (Err ''provided fee < minimum global fee'')))"

record AccessControl =
  Create_AccessType :: nat
  Call_AccessType :: nat

definition AccessTypeRestricted :: nat where "AccessTypeRestricted = 1"

definition checkDisabledCreateCall :: "Transaction \<Rightarrow> AccessControl \<Rightarrow> unit result" where
  "checkDisabledCreateCall tx permissions =
     (if Create_AccessType permissions = AccessTypeRestricted \<and> tx_To tx = None
      then Inl (Err ''failed to create new contract'')
      else if Call_AccessType permissions = AccessTypeRestricted \<and> tx_To tx \<noteq> None
      then Inl (Err ''failed to perform a call'')
      else Inr ())"

definition ValidateMsg :: "AccessControl \<Rightarrow> Transaction option \<Rightarrow> unit result" where
  "ValidateMsg permissions ethTx = (case ethTx of
       None \<Rightarrow> Inl (Err ''transaction is nil'')
     | Some tx \<Rightarrow> checkDisabledCreateCall tx permissions)"

definition CheckTxFee :: "eth_env \<Rightarrow> EvmCoinInfo option \<Rightarrow> Fee option \<Rightarrow> int \<Rightarrow> uint64 \<Rightarrow> unit result" where
  "CheckTxFee env coin txFeeInfo txFee txGasLimit = (case txFeeInfo of
       None \<Rightarrow> Inr ()
     | Some info \<Rightarrow>
         bindR (GetEVMCoinExtendedDenom coin) (\<lambda>denom.
         bindR (sdk_int txFee) (\<lambda>fee.
         thenR (require (eth_AmountOf env (fee_Amount info) denom = fee) (Err ''invalid AuthInfo Fee Amount''))
           (require (fee_GasLimit info = txGasLimit) (Err ''invalid AuthInfo Fee GasLimit'')))))"

text \<open>The cached signature check: the verdict is stored in the context and reused.\<close>

definition verifyEthSigCached :: "('w eth_ctx \<Rightarrow> unit result) \<Rightarrow> ('w, unit) eth_op" where
  "verifyEthSigCached verify s =
     (if \<not> ec_IsSigverifyTx s then (Inr (), s)
      else (case ec_SigCache s of
              Some r \<Rightarrow> (r, s)
            | None \<Rightarrow> (verify s, s\<lparr>ec_SigCache := Some (verify s)\<rparr>)))"

definition SignatureVerification :: "eth_env \<Rightarrow> EthMsg \<Rightarrow> 'w eth_ctx \<Rightarrow> unit result" where
  "SignatureVerification env m s = (case VerifySender env (ec_BlockHeight s) (ec_BlockTime s) m of
       Inl e \<Rightarrow> Inl (Err ''signature verification failed'') | Inr _ \<Rightarrow> Inr ())"

definition CheckSenderBalance :: "int \<Rightarrow> Transaction \<Rightarrow> unit result" where
  "CheckSenderBalance balance tx =
     thenR (require (\<not> tx_Cost tx < 0) (Err ''tx cost is negative and invalid''))
       (require (\<not> (balance < 0 \<or> balance < tx_Cost tx)) (Err ''sender balance < tx cost''))"

definition account_balance :: "Account option \<Rightarrow> int result" where
  "account_balance acc = (case acc of
       None \<Rightarrow> Inl (Panic ''nil pointer dereference'')
     | Some a \<Rightarrow> (case acc_Balance a of None \<Rightarrow> Inl (Panic ''nil pointer dereference'') | Some b \<Rightarrow> Inr (uint b)))"

definition HasCodeHash :: "eth_env \<Rightarrow> Account \<Rightarrow> bool" where
  "HasCodeHash env a \<longleftrightarrow> acc_CodeHash a \<noteq> Some (eth_EmptyCodeHash env)"

definition VerifyAccountBalance ::
  "eth_env \<Rightarrow> ('w, 'a) eth_keepers \<Rightarrow> Account option \<Rightarrow> address \<Rightarrow> Transaction \<Rightarrow> ('w, unit) eth_op" where
  "VerifyAccountBalance env ks account from tx = (case account of
       None \<Rightarrow>
         thenE (ethE (\<lambda>w. case AccNew ks (AddressBytes env from) w of (acc, w') \<Rightarrow> (Inr (), AccSet ks acc w')))
           (liftE (CheckSenderBalance 0 tx))
     | Some a \<Rightarrow>
         bindE (getsE (\<lambda>s. EvmGetCode ks (case acc_CodeHash a of None \<Rightarrow> 0 | Some h \<Rightarrow> h) (ec_world s))) (\<lambda>code.
         thenE (requireE (\<not> (HasCodeHash env a \<and> length code > 0 \<and> \<not> ParseDelegation env code)) (Err ''the sender is not EOA'')) (
         bindE (liftE (account_balance (Some a))) (\<lambda>balance.
         liftE (CheckSenderBalance balance tx)))))"

definition CanTransfer :: "('w, 'a) eth_keepers \<Rightarrow> address \<Rightarrow> Transaction \<Rightarrow> int option \<Rightarrow> bool \<Rightarrow> ('w, unit) eth_op" where
  "CanTransfer ks from tx baseFee isLondon =
     thenE (liftE (if isLondon
                   then (case baseFee of
                           None \<Rightarrow> Inl (Panic ''nil pointer dereference'')
                         | Some f \<Rightarrow> require (\<not> tx_GasFeeCap tx < f) (Err ''max fee per gas less than block base fee''))
                   else Inr ())) (
     thenE (requireE (\<not> tx_Value tx < 0) (Err ''trying to convert negative big.Int to uint256.Int'')) (
     thenE (requireE (tx_Value tx < 2 ^ 256) (Err ''overflow trying to convert big.Int to uint256.Int'')) (
     if tx_Value tx > 0
     then bindE (readE (\<lambda>s. account_balance (EvmGetAccount ks from (ec_world s)))) (\<lambda>balance.
          requireE (\<not> balance < tx_Value tx) (Err ''failed to transfer using the EVM block context transfer function''))
     else okE ())))"

definition VerifyFee :: "eth_env \<Rightarrow> Transaction \<Rightarrow> string \<Rightarrow> int option \<Rightarrow> rules \<Rightarrow> bool \<Rightarrow> coin list result" where
  "VerifyFee env tx denom baseFee rs isCheckTx = (case IntrinsicGas env tx rs of
       Inl e \<Rightarrow> Inl (Err ''failed to retrieve intrinsic gas'')
     | Inr intrinsic \<Rightarrow>
         thenR (require (\<not> (isCheckTx \<and> tx_Gas tx < intrinsic)) (Err ''gas limit too low'')) (
         case baseFee of
           None \<Rightarrow> Inl (Panic ''nil pointer dereference'')
         | Some base \<Rightarrow>
             thenR (require (\<not> tx_GasFeeCap tx < base) (Err ''the tx gasfeecap is lower than the tx baseFee'')) (
             let feeAmt = uint (tx_Gas tx) * (EffectiveGasTip env tx (Some base) + base) in
             if feeAmt = 0 then Inr []
             else bindR (sdk_int feeAmt) (\<lambda>amt. Inr [(denom, amt)]))))"

definition UpdateCumulativeGasWanted :: "bool \<Rightarrow> uint64 \<Rightarrow> uint64 \<Rightarrow> uint64 \<Rightarrow> uint64" where
  "UpdateCumulativeGasWanted isCheckTx msgGasWanted maxTxGasWanted cumulative =
     (if isCheckTx \<and> maxTxGasWanted \<noteq> 0
      then if msgGasWanted > maxTxGasWanted then cumulative + maxTxGasWanted else cumulative + msgGasWanted
      else cumulative + msgGasWanted)"

text \<open>\<^verbatim>\<open>fees.IsZero()\<close> holds when no coin has a non-zero amount.\<close>

definition deductFees :: "eth_env \<Rightarrow> ('w, 'a) eth_keepers \<Rightarrow> coin list \<Rightarrow> bytes \<Rightarrow> ('w, unit) eth_op" where
  "deductFees env ks fees payer =
     (if list_all (\<lambda>c. snd c = 0) fees then okE () else ethE (DeductTxCosts ks fees (BytesToAddress env payer)))"

definition ConsumeFeesAndEmitEvent :: "eth_env \<Rightarrow> ('w, 'a) eth_keepers \<Rightarrow> coin list \<Rightarrow> bytes \<Rightarrow> ('w, unit) eth_op" where
  "ConsumeFeesAndEmitEvent env ks fees from =
     thenE (deductFees env ks fees from) (eth_emit (''tx'', [(''fee'', CoinsString env fees)]))"

definition GetMsgPriority :: "eth_env \<Rightarrow> Transaction \<Rightarrow> int \<Rightarrow> int option \<Rightarrow> int result" where
  "GetMsgPriority env tx minPriority baseFee =
     bindR (GetTxPriority env tx baseFee) (\<lambda>p. Inr (if p < minPriority then p else minPriority))"

definition BlockGasLimit :: "int option \<Rightarrow> uint64" where
  "BlockGasLimit maxGas = (case maxGas of
       None \<Rightarrow> 0
     | Some g \<Rightarrow> if g = - 1 then - 1 else if g > 0 then word_of_int g else 0)"

definition CheckBlockGasLimit :: "uint64 \<Rightarrow> int \<Rightarrow> ('w, unit) eth_op" where
  "CheckBlockGasLimit gasWanted minPriority =
     bindE (getsE (\<lambda>s. BlockGasLimit (ec_ConsMaxGas s))) (\<lambda>limit.
     thenE (requireE (\<not> gasWanted > limit) (Err ''tx gas exceeds block gas limit''))
       (modifyE (\<lambda>s. s\<lparr>ec_GasLimit := Some gasWanted, ec_Priority := minPriority\<rparr>)))"

definition IncrementNonce :: "('w, 'a) eth_keepers \<Rightarrow> 'a \<Rightarrow> uint64 \<Rightarrow> ('w, unit) eth_op" where
  "IncrementNonce ks account txNonce =
     thenE (requireE (\<not> txNonce > GetSequence ks account) (Err ''tx nonce is higher than account nonce'')) (
     thenE (requireE (\<not> txNonce < GetSequence ks account) (Err ''tx nonce is lower than account nonce'')) (
     thenE (requireE (GetSequence ks account \<noteq> - 1) (Err ''nonce overflow'')) (
     bindE (liftE (SetSequence ks (GetSequence ks account + 1) account)) (\<lambda>account'.
     ethE (\<lambda>w. (Inr (), AccSet ks account' w))))))"

definition EmitTxHashEvent :: "eth_env \<Rightarrow> EthMsg \<Rightarrow> ('w, unit) eth_op" where
  "EmitTxHashEvent env m s =
     eth_emit (''ethereum_tx'', [(''ethereumTxHash'', HashString env (tx_Hash (em_Raw m))), (''txIndex'', nat_dec (unat (ec_TxIndex s)))]) s"

section \<open>The decorator\<close>

definition SetupContextAndResetTransientGas :: "eth_cosmos_tx \<Rightarrow> ('w, unit) eth_op" where
  "SetupContextAndResetTransientGas tx =
     thenE (requireE (etx_IsGasTx tx) (Err ''invalid transaction type, expected GasTx''))
       (modifyE (\<lambda>s. s\<lparr>ec_GasLimit := None\<rparr>))"

record DecoratorUtils =
  u_Rules :: rules
  u_BaseFee :: "int option"
  u_MempoolMinGasPrice :: dec
  u_GlobalMinGasPrice :: "dec option"

definition NewMonoDecoratorUtils :: "eth_env \<Rightarrow> EvmCoinInfo option \<Rightarrow> Feemarket.Params \<Rightarrow> 'w eth_ctx \<Rightarrow> DecoratorUtils result" where
  "NewMonoDecoratorUtils env coin params s =
     thenR (GetEVMCoinDenom coin) (
     let rs = ChainRules env (ec_BlockHeight s) (ec_BlockTime s) in
     bindR (EvmGetBaseFee (eth_dec env) coin (CfgIsLondon env (ec_BlockHeight s)) params) (\<lambda>baseFee.
     thenR (require (\<not> (r_IsLondon rs \<and> baseFee = None)) (Err ''base fee is supported but evm block context value is nil'')) (
     bindR (ConvertAmountTo18DecimalsLegacy (eth_dec env) coin (ec_MinGasPrice s)) (\<lambda>mempool.
     Inr \<lparr>u_Rules = rs, u_BaseFee = baseFee, u_MempoolMinGasPrice = mempool, u_GlobalMinGasPrice = MinGasPrice params\<rparr>))))"

text \<open>The checks of price and content (steps 2 to 4), which read no store.\<close>

definition fee_checks :: "eth_env \<Rightarrow> AccessControl \<Rightarrow> DecoratorUtils \<Rightarrow> bool \<Rightarrow> EthMsg \<Rightarrow> unit result" where
  "fee_checks env access u mempool m =
     (let tx = em_Raw m; gasLimit = LegacyNewDec (uint (tx_Gas tx));
          fee = (case u_BaseFee u of
                   Some base \<Rightarrow> if tx_Type tx \<ge> DynamicFeeTxType env then GetEffectiveFee env m base else GetFee m
                 | None \<Rightarrow> GetFee m)
      in
      thenR (if mempool
             then CheckMempoolFee (eth_dec env) (LegacyNewDec (GetFee m)) (u_MempoolMinGasPrice u) gasLimit (r_IsLondon (u_Rules u))
             else Inr ()) (
      bindR (the_dec (u_GlobalMinGasPrice u)) (\<lambda>globalMinGasPrice.
      thenR (CheckGlobalFee (eth_dec env) (LegacyNewDec fee) globalMinGasPrice gasLimit)
        (ValidateMsg access (Some tx)))))"

text \<open>The steps on the sender's account (5 to 9): signature, balance, transfer, fees and nonce.\<close>

definition account_steps ::
  "eth_env \<Rightarrow> ('w, 'a) eth_keepers \<Rightarrow> string \<Rightarrow> DecoratorUtils \<Rightarrow> EthMsg \<Rightarrow> ('w, int) eth_op" where
  "account_steps env ks evmDenom u m =
     (let tx = em_Raw m; fromAddr = BytesToAddress env (em_From m) in
      thenE (verifyEthSigCached (SignatureVerification env m)) (
      bindE (getsE (\<lambda>s. EvmGetAccount ks fromAddr (ec_world s))) (\<lambda>account.
      thenE (VerifyAccountBalance env ks account fromAddr tx) (
      thenE (CanTransfer ks fromAddr tx (u_BaseFee u) (r_IsLondon (u_Rules u))) (
      bindE (readE (\<lambda>s. VerifyFee env tx evmDenom (u_BaseFee u) (u_Rules u) (ec_IsCheckTx s))) (\<lambda>fees.
      thenE (ConsumeFeesAndEmitEvent env ks fees (em_From m)) (
      bindE (liftE (GetMsgPriority env tx MaxInt64 (u_BaseFee u))) (\<lambda>minPriority.
      bindE (readE (\<lambda>s. of_option (Err ''account does not exist'') (AccGet ks (em_From m) (ec_world s)))) (\<lambda>acc.
      thenE (IncrementNonce ks acc (tx_Nonce tx)) (okE minPriority))))))))))"

definition MonoAnteHandle ::
  "eth_env \<Rightarrow> ('w, 'a) eth_keepers \<Rightarrow> EvmCoinInfo option \<Rightarrow> uint64 \<Rightarrow> AccessControl \<Rightarrow> Feemarket.Params \<Rightarrow>
   (eth_cosmos_tx \<Rightarrow> bool \<Rightarrow> ('w, unit) eth_op) \<Rightarrow> eth_cosmos_tx \<Rightarrow> bool \<Rightarrow> ('w, unit) eth_op" where
  "MonoAnteHandle env ks coin maxGasWanted access params nxt tx simulate =
     bindE (readE (\<lambda>s. if ec_IsReCheckTx s then Inr None else bindR (ValidateTx env tx) (\<lambda>fee. Inr (Some fee)))) (\<lambda>txFeeInfo.
     bindE (liftE (GetEVMCoinDenom coin)) (\<lambda>evmDenom.
     thenE (SetupContextAndResetTransientGas tx) (
     bindE (readE (NewMonoDecoratorUtils env coin params)) (\<lambda>u.
     thenE (requireE (length (etx_Msgs tx) = 1) (Err ''expected 1 message'')) (
     bindE (liftE (UnpackEthMsg (etx_Msgs tx ! 0))) (\<lambda>m.
     thenE (readE (\<lambda>s. TxpoolValidate env (em_Raw m) (u_BaseFee u) (ec_BlockHeight s) (ec_BlockTime s))) (
     thenE (readE (\<lambda>s. fee_checks env access u (ec_IsCheckTx s \<and> \<not> simulate) m)) (
     bindE (account_steps env ks evmDenom u m) (\<lambda>minPriority.
     thenE (EmitTxHashEvent env m) (
     thenE (liftE (CheckTxFee env coin txFeeInfo (GetFee m) (tx_Gas (em_Raw m)))) (
     bindE (getsE (\<lambda>s. UpdateCumulativeGasWanted (ec_IsCheckTx s) (tx_Gas (em_Raw m)) maxGasWanted 0)) (\<lambda>gasWanted.
     thenE (CheckBlockGasLimit gasWanted minPriority) (
     nxt tx simulate)))))))))))))"

end
