(* ===== verification/Ante_Evm_Properties.thy ===== *)
theory Ante_Evm_Properties
  imports Ante_Evm
begin

text \<open>
  Properties of the Ethereum ante handler: a sender's nonce is accepted once in any run, and what an
  accepted transaction has been checked and charged for.
\<close>

section \<open>Steps\<close>

lemma ethE_ok [handler_simps]:
  "ethE f s = (Inr x, t) \<longleftrightarrow> (\<exists>w. f (ec_world s) = (Inr x, w) \<and> t = s\<lparr>ec_world := w\<rparr>)"
  by (auto simp: ethE_def split: prod.splits)

lemma eth_emit_eq [handler_simps]: "eth_emit e s = (r, t) \<longleftrightarrow> r = Inr () \<and> t = s\<lparr>ec_events := ec_events s @ [e]\<rparr>"
  by (auto simp: eth_emit_def)

lemma EmitTxHashEvent_world: "EmitTxHashEvent env m s = (r, t) \<Longrightarrow> ec_world t = ec_world s"
  by (auto simp: EmitTxHashEvent_def handler_simps)

definition seq_of :: "('w, 'a) eth_keepers \<Rightarrow> bytes \<Rightarrow> 'w \<Rightarrow> uint64" where
  "seq_of ks b w = (case AccGet ks b w of None \<Rightarrow> 0 | Some a \<Rightarrow> GetSequence ks a)"

text \<open>
  What the keepers promise about sequences: storing an account with a new sequence changes that
  sequence only, a fresh account for an address the EVM does not know leaves the sequences as they
  were, and so does deducting fees.
\<close>

definition seq_laws :: "eth_env \<Rightarrow> ('w, 'a) eth_keepers \<Rightarrow> bool" where
  "seq_laws env ks \<longleftrightarrow>
     (\<forall>b w a n a'. AccGet ks b w = Some a \<and> SetSequence ks n a = Inr a' \<longrightarrow>
        seq_of ks b (AccSet ks a' w) = n \<and> (\<forall>c. c \<noteq> b \<longrightarrow> seq_of ks c (AccSet ks a' w) = seq_of ks c w)) \<and>
     (\<forall>b w a w'. EvmGetAccount ks b w = None \<and> AccNew ks (AddressBytes env b) w = (a, w') \<longrightarrow>
        (\<forall>c. seq_of ks c (AccSet ks a w') = seq_of ks c w)) \<and>
     (\<forall>fees b w w'. DeductTxCosts ks fees b w = (Inr (), w') \<longrightarrow> (\<forall>c. seq_of ks c w' = seq_of ks c w))"

lemma seq_laws_new:
  "seq_laws env ks \<Longrightarrow> EvmGetAccount ks b w = None \<Longrightarrow> AccNew ks (AddressBytes env b) w = (a, w') \<Longrightarrow>
     seq_of ks c (AccSet ks a w') = seq_of ks c w"
  unfolding seq_laws_def by blast

definition same_seqs :: "('w, 'a) eth_keepers \<Rightarrow> 'w eth_ctx \<Rightarrow> 'w eth_ctx \<Rightarrow> bool" where
  "same_seqs ks s t \<longleftrightarrow> (\<forall>c. seq_of ks c (ec_world t) = seq_of ks c (ec_world s))"

lemma same_seqs_trans: "same_seqs ks s t \<Longrightarrow> same_seqs ks t u \<Longrightarrow> same_seqs ks s u"
  by (simp add: same_seqs_def)

lemma same_world_seqs: "ec_world t = ec_world s \<Longrightarrow> same_seqs ks s t"
  by (simp add: same_seqs_def)

lemma verifyEthSigCached_ok:
  "verifyEthSigCached v s = (Inr x, t) \<Longrightarrow> ec_world t = ec_world s \<and> ec_BlockHeight t = ec_BlockHeight s \<and>
     (ec_IsSigverifyTx s \<and> ec_SigCache s = None \<longrightarrow> v s = Inr ())"
  by (auto simp: verifyEthSigCached_def split: if_splits option.splits)

lemma VerifyAccountBalance_ok:
  assumes "seq_laws env ks" "VerifyAccountBalance env ks acc from tx s = (Inr x, t)" "acc = EvmGetAccount ks from (ec_world s)"
  shows "same_seqs ks s t" "0 \<le> tx_Cost tx"
    "tx_Cost tx \<le> (case acc of None \<Rightarrow> 0 | Some a \<Rightarrow> (case acc_Balance a of None \<Rightarrow> 0 | Some b \<Rightarrow> uint b))"
proof -
  show "same_seqs ks s t"
  proof (cases acc)
    case None
    obtain a w where n: "AccNew ks (AddressBytes env from) (ec_world s) = (a, w)" by (cases "AccNew ks (AddressBytes env from) (ec_world s)")
    then have "ec_world t = AccSet ks a w" using assms(2) None by (auto simp: VerifyAccountBalance_def handler_simps)
    then show ?thesis using seq_laws_new [OF assms(1) _ n] assms(3) None by (simp add: same_seqs_def)
  next
    case (Some a)
    then show ?thesis using assms(2) by (auto simp: VerifyAccountBalance_def handler_simps same_seqs_def)
  qed
  show "0 \<le> tx_Cost tx" "tx_Cost tx \<le> (case acc of None \<Rightarrow> 0 | Some a \<Rightarrow> (case acc_Balance a of None \<Rightarrow> 0 | Some b \<Rightarrow> uint b))"
    using assms(2)
    by (auto simp: VerifyAccountBalance_def handler_simps CheckSenderBalance_def account_balance_def split: option.splits)
qed

lemma CanTransfer_ok:
  "CanTransfer ks from tx baseFee london s = (Inr x, t) \<Longrightarrow> t = s \<and> (london \<longrightarrow> (\<exists>f. baseFee = Some f \<and> f \<le> tx_GasFeeCap tx))"
  by (auto simp: CanTransfer_def handler_simps split: if_splits option.splits)

lemma ConsumeFees_ok:
  "seq_laws env ks \<Longrightarrow> ConsumeFeesAndEmitEvent env ks fees from s = (Inr x, t) \<Longrightarrow> same_seqs ks s t"
  by (auto simp: ConsumeFeesAndEmitEvent_def deductFees_def handler_simps same_seqs_def seq_laws_def split: if_splits)

lemma IncrementNonce_ok:
  assumes "seq_laws env ks" "IncrementNonce ks acc n s = (Inr x, t)" "AccGet ks b (ec_world s) = Some acc"
  shows "seq_of ks b (ec_world s) = n" "n \<noteq> - 1" "seq_of ks b (ec_world t) = n + 1"
    "c \<noteq> b \<Longrightarrow> seq_of ks c (ec_world t) = seq_of ks c (ec_world s)"
proof -
  obtain acc' where q: "GetSequence ks acc = n" "n \<noteq> - 1" and set: "SetSequence ks (n + 1) acc = Inr acc'"
    and t: "ec_world t = AccSet ks acc' (ec_world s)"
    using assms(2) by (auto simp: IncrementNonce_def handler_simps)
  show "seq_of ks b (ec_world s) = n" "n \<noteq> - 1" using q assms(3) by (simp_all add: seq_of_def)
  show "seq_of ks b (ec_world t) = n + 1" "c \<noteq> b \<Longrightarrow> seq_of ks c (ec_world t) = seq_of ks c (ec_world s)"
    using assms(1,3) set by (simp_all add: seq_laws_def t)
qed

text \<open>The account steps move the sender's sequence from the transaction's nonce to the next one.\<close>

lemma account_steps_ok:
  assumes laws: "seq_laws env ks" and run: "account_steps env ks denom u m s = (Inr p, t)"
  shows "seq_of ks (em_From m) (ec_world s) = tx_Nonce (em_Raw m)" "tx_Nonce (em_Raw m) \<noteq> - 1"
    "seq_of ks (em_From m) (ec_world t) = tx_Nonce (em_Raw m) + 1"
    "c \<noteq> em_From m \<Longrightarrow> seq_of ks c (ec_world t) = seq_of ks c (ec_world s)"
    "ec_IsSigverifyTx s \<and> ec_SigCache s = None \<longrightarrow> SignatureVerification env m s = Inr ()"
    "0 \<le> tx_Cost (em_Raw m)"
    "tx_Cost (em_Raw m) \<le> (case EvmGetAccount ks (BytesToAddress env (em_From m)) (ec_world s) of None \<Rightarrow> 0
       | Some a \<Rightarrow> (case acc_Balance a of None \<Rightarrow> 0 | Some b \<Rightarrow> uint b))"
    "r_IsLondon (u_Rules u) \<longrightarrow> (\<exists>f. u_BaseFee u = Some f \<and> f \<le> tx_GasFeeCap (em_Raw m))"
proof -
  let ?tx = "em_Raw m" and ?a = "BytesToAddress env (em_From m)"
  obtain s1 s2 s3 s4 fees acc where
    sig: "verifyEthSigCached (SignatureVerification env m) s = (Inr (), s1)" and
    bal: "VerifyAccountBalance env ks (EvmGetAccount ks ?a (ec_world s1)) ?a ?tx s1 = (Inr (), s2)" and
    can: "CanTransfer ks ?a ?tx (u_BaseFee u) (r_IsLondon (u_Rules u)) s2 = (Inr (), s3)" and
    pay: "ConsumeFeesAndEmitEvent env ks fees (em_From m) s3 = (Inr (), s4)" and
    acc: "AccGet ks (em_From m) (ec_world s4) = Some acc" and
    inc: "IncrementNonce ks acc (tx_Nonce ?tx) s4 = (Inr (), t)"
    using run by (auto simp: account_steps_def Let_def handler_simps)
  note s1 = verifyEthSigCached_ok [OF sig]
  note s2 = VerifyAccountBalance_ok [OF laws bal refl]
  note s3 = CanTransfer_ok [OF can]
  have seqs: "same_seqs ks s s4"
    using s1 s2(1) s3 ConsumeFees_ok [OF laws pay] same_world_seqs [of s1 s ks] by (metis same_seqs_trans)
  note inc' = IncrementNonce_ok [OF laws inc acc]
  show "seq_of ks (em_From m) (ec_world s) = tx_Nonce ?tx" "tx_Nonce ?tx \<noteq> - 1"
    "seq_of ks (em_From m) (ec_world t) = tx_Nonce ?tx + 1"
    "c \<noteq> em_From m \<Longrightarrow> seq_of ks c (ec_world t) = seq_of ks c (ec_world s)"
    using inc' seqs by (simp_all add: same_seqs_def)
  show "ec_IsSigverifyTx s \<and> ec_SigCache s = None \<longrightarrow> SignatureVerification env m s = Inr ()" using s1 by blast
  show "0 \<le> tx_Cost ?tx" "r_IsLondon (u_Rules u) \<longrightarrow> (\<exists>f. u_BaseFee u = Some f \<and> f \<le> tx_GasFeeCap ?tx)" using s2 s3 by blast+
  show "tx_Cost ?tx \<le> (case EvmGetAccount ks ?a (ec_world s) of None \<Rightarrow> 0
       | Some a \<Rightarrow> (case acc_Balance a of None \<Rightarrow> 0 | Some b \<Rightarrow> uint b))"
    using s2(3) s1 by simp
qed

lemma MonoAnteHandle_ok:
  assumes "MonoAnteHandle env ks coin maxGas access params (\<lambda>tx simulate. okE ()) tx simulate s = (Inr (), t)"
  obtains m u denom p s1 s2 feeInfo where "etx_Msgs tx = [Some m]" "GetEVMCoinDenom coin = Inr denom"
    "s1 = s\<lparr>ec_GasLimit := None\<rparr>" "NewMonoDecoratorUtils env coin params s1 = Inr u"
    "TxpoolValidate env (em_Raw m) (u_BaseFee u) (ec_BlockHeight s) (ec_BlockTime s) = Inr ()"
    "fee_checks env access u (ec_IsCheckTx s \<and> \<not> simulate) m = Inr ()"
    "account_steps env ks denom u m s1 = (Inr p, s2)"
    "if ec_IsReCheckTx s then feeInfo = None else \<exists>fee. ValidateTx env tx = Inr fee \<and> feeInfo = Some fee"
    "CheckTxFee env coin feeInfo (GetFee m) (tx_Gas (em_Raw m)) = Inr ()"
    "ec_world t = ec_world s2"
    "ec_GasLimit t = Some (UpdateCumulativeGasWanted (ec_IsCheckTx s2) (tx_Gas (em_Raw m)) maxGas 0)"
    "UpdateCumulativeGasWanted (ec_IsCheckTx s2) (tx_Gas (em_Raw m)) maxGas 0 \<le> BlockGasLimit (ec_ConsMaxGas s2)"
proof -
  obtain feeInfo denom u m p s2 where
    info: "(if ec_IsReCheckTx s then Inr None else bindR (ValidateTx env tx) (\<lambda>fee. Inr (Some fee))) = Inr feeInfo"
    and denom: "GetEVMCoinDenom coin = Inr denom"
    and u: "NewMonoDecoratorUtils env coin params (s\<lparr>ec_GasLimit := None\<rparr>) = Inr u"
    and len: "length (etx_Msgs tx) = Suc 0" and m: "etx_Msgs tx ! 0 = Some m"
    and pool: "TxpoolValidate env (em_Raw m) (u_BaseFee u) (ec_BlockHeight s) (ec_BlockTime s) = Inr ()"
    and fees: "fee_checks env access u (ec_IsCheckTx s \<and> \<not> simulate) m = Inr ()"
    and steps: "account_steps env ks denom u m (s\<lparr>ec_GasLimit := None\<rparr>) = (Inr p, s2)"
    and check: "CheckTxFee env coin feeInfo (GetFee m) (tx_Gas (em_Raw m)) = Inr ()"
    and fin: "\<not> UpdateCumulativeGasWanted (ec_IsCheckTx s2) (tx_Gas (em_Raw m)) maxGas 0 > BlockGasLimit (ec_ConsMaxGas s2)"
      "ec_world t = ec_world s2" "ec_GasLimit t = Some (UpdateCumulativeGasWanted (ec_IsCheckTx s2) (tx_Gas (em_Raw m)) maxGas 0)"
    using assms
    by (auto simp: MonoAnteHandle_def SetupContextAndResetTransientGas_def CheckBlockGasLimit_def UnpackEthMsg_def
        EmitTxHashEvent_def handler_simps)
  have "etx_Msgs tx = [Some m]" using len m by (cases "etx_Msgs tx") auto
  moreover have "if ec_IsReCheckTx s then feeInfo = None else \<exists>fee. ValidateTx env tx = Inr fee \<and> feeInfo = Some fee"
    using info by (auto simp: handler_simps split: if_splits)
  ultimately show thesis using that denom u pool fees steps check fin by (simp add: not_less)
qed

section \<open>Replay protection\<close>

datatype eth_label = Deliver bytes uint64 | Elsewhere

text \<open>
  A run of the chain as the sequences see it: an accepted Ethereum transaction, or anything else,
  which never lowers a sequence.
\<close>

definition eth_step ::
  "eth_env \<Rightarrow> ('w, 'a) eth_keepers \<Rightarrow> EvmCoinInfo option \<Rightarrow> uint64 \<Rightarrow> AccessControl \<Rightarrow> Feemarket.Params \<Rightarrow>
   eth_label \<Rightarrow> 'w eth_ctx \<Rightarrow> 'w eth_ctx \<Rightarrow> bool" where
  "eth_step env ks coin maxGas access params l s t \<longleftrightarrow> seq_laws env ks \<and> (case l of
       Deliver sender n \<Rightarrow> \<exists>tx m. etx_Msgs tx = [Some m] \<and> em_From m = sender \<and> tx_Nonce (em_Raw m) = n \<and>
         MonoAnteHandle env ks coin maxGas access params (\<lambda>tx simulate. okE ()) tx False s = (Inr (), t)
     | Elsewhere \<Rightarrow> \<forall>c. seq_of ks c (ec_world s) \<le> seq_of ks c (ec_world t))"

definition nonce_used :: "('w, 'a) eth_keepers \<Rightarrow> 'w eth_ctx \<Rightarrow> bytes \<times> uint64 \<Rightarrow> bool" where
  "nonce_used ks s k \<longleftrightarrow> snd k < seq_of ks (fst k) (ec_world s)"

primrec delivered :: "eth_label \<Rightarrow> (bytes \<times> uint64) option" where
  "delivered (Deliver sender n) = Some (sender, n)"
| "delivered Elsewhere = None"

lemma less_succ: "n \<noteq> - 1 \<Longrightarrow> n < n + (1 :: uint64)"
proof -
  assume "n \<noteq> - 1"
  then have "1 + n \<noteq> 0" by (simp add: add_eq_0_iff add.commute)
  then show ?thesis using unatSuc [of n] by (simp add: word_less_nat_alt add.commute)
qed

lemma Deliver_seqs:
  assumes "eth_step env ks coin maxGas access params (Deliver sender n) s t"
  shows "seq_of ks sender (ec_world s) = n" "n \<noteq> - 1" "seq_of ks sender (ec_world t) = n + 1"
    "c \<noteq> sender \<Longrightarrow> seq_of ks c (ec_world t) = seq_of ks c (ec_world s)"
proof -
  obtain tx m where laws: "seq_laws env ks" and m: "etx_Msgs tx = [Some m]" "em_From m = sender" "tx_Nonce (em_Raw m) = n"
    and run: "MonoAnteHandle env ks coin maxGas access params (\<lambda>tx simulate. okE ()) tx False s = (Inr (), t)"
    using assms by (auto simp: eth_step_def)
  obtain u denom p s2 where st: "account_steps env ks denom u m (s\<lparr>ec_GasLimit := None\<rparr>) = (Inr p, s2)" "ec_world t = ec_world s2"
  proof (rule MonoAnteHandle_ok [OF run])
    fix m' u denom p s1 s2
    assume "etx_Msgs tx = [Some m']" "s1 = s\<lparr>ec_GasLimit := None\<rparr>" "account_steps env ks denom u m' s1 = (Inr p, s2)"
      "ec_world t = ec_world s2"
    then show thesis using that m(1) by simp
  qed
  note a = account_steps_ok [OF laws st(1)]
  show "seq_of ks sender (ec_world s) = n" "n \<noteq> - 1" "seq_of ks sender (ec_world t) = n + 1"
    "c \<noteq> sender \<Longrightarrow> seq_of ks c (ec_world t) = seq_of ks c (ec_world s)"
    using a(1-3) a(4) [of c] st(2) m(2,3) by simp_all
qed

interpretation eth: once_only "eth_step env ks coin maxGas access params" "nonce_used ks" delivered
  for env ks coin maxGas access params
proof
  fix l s t k
  assume step: "eth_step env ks coin maxGas access params l s t"
  { assume "delivered l = Some k"
    then obtain sender n where l: "l = Deliver sender n" "k = (sender, n)" by (cases l) auto
    note d = Deliver_seqs [OF step [unfolded l(1)]]
    show "\<not> nonce_used ks s k" "nonce_used ks t k"
      using d(1-3) less_succ by (simp_all add: nonce_used_def l(2)) }
  assume used: "nonce_used ks s k"
  show "nonce_used ks t k"
  proof (cases l)
    case (Deliver sender n)
    note d = Deliver_seqs [OF step [unfolded Deliver]]
    show ?thesis
    proof (cases "fst k = sender")
      case True
      then show ?thesis using used d(1-3) less_succ [OF d(2)] by (auto simp: nonce_used_def intro: order.strict_trans)
    next
      case False
      then show ?thesis using used d(4) [of "fst k"] by (simp add: nonce_used_def)
    qed
  next
    case Elsewhere
    then have "seq_of ks (fst k) (ec_world s) \<le> seq_of ks (fst k) (ec_world t)" using step by (simp add: eth_step_def)
    then show ?thesis using used by (auto simp: nonce_used_def intro: order.strict_trans2)
  qed
qed

text \<open>
  C5. An Ethereum transaction is not replayed: along every run of accepted transactions and other
  activity that never lowers a sequence, no pair of sender and nonce is accepted twice, and every
  accepted nonce is below the sender's sequence afterwards.
\<close>

theorem eth_nonce_accepted_once:
  assumes "run (eth_step env ks coin maxGas access params) s ls t"
  shows "distinct (List.map_filter delivered ls) \<and> (\<forall>k\<in>set (List.map_filter delivered ls). nonce_used ks t k)"
  using eth.run_distinct [OF assms] eth.run_consumed_marked [OF assms] by blast

section \<open>What acceptance means\<close>

definition same_block :: "'w eth_ctx \<Rightarrow> 'w eth_ctx \<Rightarrow> bool" where
  "same_block s t \<longleftrightarrow> ec_ConsMaxGas t = ec_ConsMaxGas s \<and> ec_IsCheckTx t = ec_IsCheckTx s"

lemma account_steps_block: "account_steps env ks denom u m s = (Inr p, t) \<Longrightarrow> same_block s t"
proof -
  assume run: "account_steps env ks denom u m s = (Inr p, t)"
  let ?tx = "em_Raw m" and ?a = "BytesToAddress env (em_From m)"
  obtain s1 s2 s3 s4 fees acc where
    "verifyEthSigCached (SignatureVerification env m) s = (Inr (), s1)"
    "VerifyAccountBalance env ks (EvmGetAccount ks ?a (ec_world s1)) ?a ?tx s1 = (Inr (), s2)"
    "CanTransfer ks ?a ?tx (u_BaseFee u) (r_IsLondon (u_Rules u)) s2 = (Inr (), s3)"
    "ConsumeFeesAndEmitEvent env ks fees (em_From m) s3 = (Inr (), s4)"
    "IncrementNonce ks acc (tx_Nonce ?tx) s4 = (Inr (), t)"
    using run by (auto simp: account_steps_def Let_def handler_simps)
  moreover have "same_block x y" if "verifyEthSigCached v x = (Inr (), y)" for v x y
    using that by (auto simp: verifyEthSigCached_def same_block_def split: if_splits option.splits)
  moreover have "same_block x y" if "VerifyAccountBalance env ks acc a tx x = (Inr (), y)" for acc a tx x y
    using that by (auto simp: VerifyAccountBalance_def handler_simps same_block_def split: option.splits)
  moreover have "same_block x y" if "CanTransfer ks a tx b l x = (Inr (), y)" for a tx b l x y
    using CanTransfer_ok [OF that] by (simp add: same_block_def)
  moreover have "same_block x y" if "ConsumeFeesAndEmitEvent env ks f a x = (Inr (), y)" for f a x y
    using that by (auto simp: ConsumeFeesAndEmitEvent_def deductFees_def handler_simps same_block_def split: if_splits)
  moreover have "same_block x y" if "IncrementNonce ks a n x = (Inr (), y)" for a n x y
    using that by (auto simp: IncrementNonce_def handler_simps same_block_def)
  ultimately show "same_block s t" by (metis (no_types, lifting) same_block_def)
qed

text \<open>The price a transaction pays: its fee cap price before the London fork, the effective price after it.\<close>

definition fee_of :: "eth_env \<Rightarrow> DecoratorUtils \<Rightarrow> EthMsg \<Rightarrow> int" where
  "fee_of env u m = (case u_BaseFee u of
       Some base \<Rightarrow> if tx_Type (em_Raw m) \<ge> DynamicFeeTxType env then GetEffectiveFee env m base else GetFee m
     | None \<Rightarrow> GetFee m)"

lemma fee_checks_ok:
  assumes "dec_laws (eth_dec env)" "fee_checks env access u b m = Inr ()"
  shows "\<exists>price. u_GlobalMinGasPrice u = Some price \<and> (price = 0 \<or> price * uint (tx_Gas (em_Raw m)) \<le> fee_of env u m * dec_unit)"
    "checkDisabledCreateCall (em_Raw m) access = Inr ()"
proof -
  obtain price where price: "u_GlobalMinGasPrice u = Some price"
    and g: "CheckGlobalFee (eth_dec env) (LegacyNewDec (fee_of env u m)) price (LegacyNewDec (uint (tx_Gas (em_Raw m)))) = Inr ()"
    and v: "ValidateMsg access (Some (em_Raw m)) = Inr ()"
    using assms(2) by (auto simp: fee_checks_def Let_def handler_simps the_dec_def fee_of_def)
  show "checkDisabledCreateCall (em_Raw m) access = Inr ()" using v by (simp add: ValidateMsg_def)
  show "\<exists>price. u_GlobalMinGasPrice u = Some price \<and> (price = 0 \<or> price * uint (tx_Gas (em_Raw m)) \<le> fee_of env u m * dec_unit)"
    using price g
    by (auto simp: CheckGlobalFee_def handler_simps dec_mul_whole(2) [OF assms(1)] LegacyNewDec_def [of "fee_of env u m"] mult.commute
        split: if_splits)
qed

text \<open>
  C20. What acceptance of an Ethereum transaction has established: it carries exactly one Ethereum
  message; its sender is the one recovered from the signature, unless the context says the signature
  needs no check or has a cached verdict; its nonce was the sender's sequence; the sender's balance
  covers its cost; its fee meets the global minimum gas price and, under the London rules, its fee cap
  meets the base fee; creation or calls are not disabled for it; and the gas it may use is within the
  block's limit.
\<close>

theorem accepted_eth_tx_checked:
  assumes laws: "seq_laws env ks" "dec_laws (eth_dec env)"
    and run: "MonoAnteHandle env ks coin maxGas access params (\<lambda>tx simulate. okE ()) tx simulate s = (Inr (), t)"
  shows "\<exists>m u. etx_Msgs tx = [Some m] \<and> NewMonoDecoratorUtils env coin params (s\<lparr>ec_GasLimit := None\<rparr>) = Inr u \<and>
    (ec_IsSigverifyTx s \<and> ec_SigCache s = None \<longrightarrow>
      (\<exists>a. EthSender env (em_Raw m) (ec_BlockHeight s) (ec_BlockTime s) = Inr a \<and> em_From m = AddressBytes env a)) \<and>
    seq_of ks (em_From m) (ec_world s) = tx_Nonce (em_Raw m) \<and>
    tx_Cost (em_Raw m) \<le> (case EvmGetAccount ks (BytesToAddress env (em_From m)) (ec_world s) of None \<Rightarrow> 0
       | Some a \<Rightarrow> (case acc_Balance a of None \<Rightarrow> 0 | Some b \<Rightarrow> uint b)) \<and>
    (\<exists>price. MinGasPrice params = Some price \<and> (price = 0 \<or> price * uint (tx_Gas (em_Raw m)) \<le> fee_of env u m * dec_unit)) \<and>
    (r_IsLondon (u_Rules u) \<longrightarrow> (\<exists>f. u_BaseFee u = Some f \<and> f \<le> tx_GasFeeCap (em_Raw m))) \<and>
    checkDisabledCreateCall (em_Raw m) access = Inr () \<and>
    (\<exists>g. ec_GasLimit t = Some g \<and> g \<le> BlockGasLimit (ec_ConsMaxGas s))"
proof (rule MonoAnteHandle_ok [OF run])
  fix m u denom p s1 s2 feeInfo
  assume m: "etx_Msgs tx = [Some m]" and s1: "s1 = s\<lparr>ec_GasLimit := None\<rparr>" and u: "NewMonoDecoratorUtils env coin params s1 = Inr u"
    and fees: "fee_checks env access u (ec_IsCheckTx s \<and> \<not> simulate) m = Inr ()"
    and steps: "account_steps env ks denom u m s1 = (Inr p, s2)"
    and gas: "ec_GasLimit t = Some (UpdateCumulativeGasWanted (ec_IsCheckTx s2) (tx_Gas (em_Raw m)) maxGas 0)"
      "UpdateCumulativeGasWanted (ec_IsCheckTx s2) (tx_Gas (em_Raw m)) maxGas 0 \<le> BlockGasLimit (ec_ConsMaxGas s2)"
  have price: "u_GlobalMinGasPrice u = MinGasPrice params"
    using u by (auto simp: NewMonoDecoratorUtils_def Let_def handler_simps)
  have block: "ec_ConsMaxGas s2 = ec_ConsMaxGas s" using account_steps_block [OF steps] by (simp add: same_block_def s1)
  note a = account_steps_ok [OF laws(1) steps]
  have sig: "ec_IsSigverifyTx s \<and> ec_SigCache s = None \<longrightarrow>
      (\<exists>a. EthSender env (em_Raw m) (ec_BlockHeight s) (ec_BlockTime s) = Inr a \<and> em_From m = AddressBytes env a)"
    using a(5) by (auto simp: s1 SignatureVerification_def VerifySender_def handler_simps split: sum.splits)
  show ?thesis
    using m u [unfolded s1] sig a(1,7,8) fee_checks_ok [OF laws(2) fees] gas
    unfolding price block by (intro exI [of _ m] exI [of _ u]) (simp add: s1)
qed

section \<open>Concrete instances\<close>

text \<open>Accounts are pairs of address and sequence, kept in a list with the balances in a function.\<close>

type_synonym demo_world = "(bytes \<rightharpoonup> uint64) \<times> uint256"

definition demo_keepers :: "(demo_world, bytes \<times> uint64) eth_keepers" where
  "demo_keepers = \<lparr>AccGet = (\<lambda>b w. map_option (\<lambda>n. (b, n)) (fst w b)), AccSet = (\<lambda>a w. ((fst w)(fst a \<mapsto> snd a), snd w)),
     AccNew = (\<lambda>b w. ((b, case fst w b of None \<Rightarrow> 0 | Some n \<Rightarrow> n), w)), GetSequence = snd, SetSequence = (\<lambda>n a. Inr (fst a, n)),
     EvmGetAccount = (\<lambda>a w. Some \<lparr>acc_Nonce = 0, acc_Balance = Some (snd w), acc_CodeHash = Some 7, acc_lockedBalance = None\<rparr>),
     EvmGetCode = (\<lambda>h w. []), DeductTxCosts = (\<lambda>cs a w. (Inr (), w))\<rparr>"

definition demo_eth :: eth_env where
  "demo_eth = \<lparr>eth_dec = int_dec_ops, ErrNoSignatures = (\<lambda>e. e = Err ''no signatures supplied''),
     eth_AmountOf = (\<lambda>cs d. sum_list (map snd (filter (\<lambda>c. fst c = d) cs))),
     ChainRules = (\<lambda>h t. \<lparr>r_IsLondon = True, r_IsHomestead = True, r_IsIstanbul = True, r_IsShanghai = True\<rparr>),
     CfgIsLondon = (\<lambda>h. True), TxpoolValidate = (\<lambda>tx b h t. Inr ()),
     EffectiveGasTip = (\<lambda>tx b. case b of None \<Rightarrow> tx_GasTipCap tx | Some f \<Rightarrow> min (tx_GasTipCap tx) (tx_GasFeeCap tx - f)),
     EthSender = (\<lambda>tx h t. Inr 42), AddressBytes = (\<lambda>a. be_fixed 20 (unat a)), BytesToAddress = (\<lambda>b. of_nat (SetBytes b)),
     IntrinsicGas = (\<lambda>tx rs. Inr 21000), eth_EmptyCodeHash = 7, ParseDelegation = (\<lambda>c. False), DynamicFeeTxType = 2,
     eth_PriorityReduction = 1000000, HashString = (\<lambda>h. nat_dec (unat h)), CoinsString = (\<lambda>cs. [])\<rparr>"

definition demo_sender :: bytes where "demo_sender = be_fixed 20 42"

definition demo_params :: Feemarket.Params where
  "demo_params = \<lparr>NoBaseFee = False, BaseFeeChangeDenominator = 8, ElasticityMultiplier = 2, BaseFee = Some (10 * dec_unit),
     EnableHeight = 0, MinGasPrice = Some 0, MinGasMultiplier = Some 0\<rparr>"

definition demo_transaction :: "uint64 \<Rightarrow> Transaction" where
  "demo_transaction n = \<lparr>tx_To = Some 1, tx_Gas = 21000, tx_Nonce = n, tx_Type = 2, tx_GasPrice = 15, tx_GasFeeCap = 15, tx_GasTipCap = 2,
     tx_Value = 0, tx_Cost = 315000, tx_Hash = 0\<rparr>"

definition demo_tx :: "uint64 \<Rightarrow> eth_cosmos_tx" where
  "demo_tx n = \<lparr>etx_ValidateBasic = Inr (), etx_IsProtoTx = True, etx_IsGasTx = True, etx_Memo = [], etx_TimeoutHeight = 0,
     etx_NonCriticalExtensionOptions = 0, etx_ExtensionOptions = 1, etx_SignerInfos = 0,
     etx_Fee = Some \<lparr>fee_Amount = [(''axtc'', 315000)], fee_GasLimit = 21000, fee_Payer = [], fee_Granter = []\<rparr>,
     etx_Tip = False, etx_Signatures = 0, etx_Msgs = [Some \<lparr>em_From = demo_sender, em_Raw = demo_transaction n\<rparr>]\<rparr>"

definition demo_ctx :: "demo_world \<Rightarrow> demo_world eth_ctx" where
  "demo_ctx w = \<lparr>ec_BlockHeight = 5, ec_BlockTime = 100, ec_IsCheckTx = False, ec_IsReCheckTx = False, ec_IsSigverifyTx = True,
     ec_SigCache = None, ec_MinGasPrice = 0, ec_ConsMaxGas = Some 1000000, ec_TxIndex = 0, ec_GasLimit = None, ec_Priority = 0,
     ec_events = [], ec_world = w\<rparr>"

definition demo_access :: AccessControl where
  "demo_access = \<lparr>Create_AccessType = 0, Call_AccessType = 0\<rparr>"

lemma demo_seq_laws: "seq_laws demo_eth demo_keepers"
  by (auto simp: seq_laws_def seq_of_def demo_keepers_def split: option.splits)

lemma demo_utils:
  "NewMonoDecoratorUtils demo_eth (Some demo_coin) demo_params s =
     Inr \<lparr>u_Rules = \<lparr>r_IsLondon = True, r_IsHomestead = True, r_IsIstanbul = True, r_IsShanghai = True\<rparr>, u_BaseFee = Some 10,
          u_MempoolMinGasPrice = ec_MinGasPrice s, u_GlobalMinGasPrice = Some 0\<rparr>" if "dec_fits (ec_MinGasPrice s)"
  using that
  by (simp add: NewMonoDecoratorUtils_def GetEVMCoinDenom_def getCoinInfo_def demo_coin_def of_option_def bindR_def thenR_def
      require_def demo_eth_def demo_params_def EvmGetBaseFee_def the_dec_def ConvertAmountTo18DecimalsLegacy_def coin_factor_def
      GetEVMCoinDecimals_def ConversionFactor_def int_dec_ops_def dec_result_def dec_fits_def dec_unit_def go_div_def)

lemma demo_account_steps:
  "account_steps demo_eth demo_keepers denom
     \<lparr>u_Rules = \<lparr>r_IsLondon = True, r_IsHomestead = True, r_IsIstanbul = True, r_IsShanghai = True\<rparr>, u_BaseFee = Some 10,
      u_MempoolMinGasPrice = 0, u_GlobalMinGasPrice = Some 0\<rparr>
     \<lparr>em_From = demo_sender, em_Raw = demo_transaction 3\<rparr> (demo_ctx ([demo_sender \<mapsto> 3], 400000)) =
   (Inr 0, demo_ctx ([demo_sender \<mapsto> 4], 400000)\<lparr>ec_SigCache := Some (Inr ()), ec_events := [(''tx'', [(''fee'', [])])]\<rparr>)"
proof -
  have sender: "demo_sender = be_fixed 20 42" by (simp add: demo_sender_def)
  then show ?thesis
    by (simp add: account_steps_def demo_transaction_def demo_ctx_def thenE_def bindE_def verifyEthSigCached_def
        SignatureVerification_def VerifySender_def demo_eth_def bindR_def require_def demo_keepers_def VerifyAccountBalance_def
        requireE_def HasCodeHash_def account_balance_def CheckSenderBalance_def thenR_def CanTransfer_def VerifyFee_def sdk_int_def int_ok_def
        ConsumeFeesAndEmitEvent_def deductFees_def ethE_def eth_emit_def GetMsgPriority_def GetTxPriority_def go_div_def MaxInt64_def
        of_option_def IncrementNonce_def Let_def getsE_def readE_def liftE_def okE_def)
qed

lemma demo_accepts:
  "\<exists>t. MonoAnteHandle demo_eth demo_keepers (Some demo_coin) 0 demo_access demo_params (\<lambda>tx simulate. okE ()) (demo_tx 3) False
     (demo_ctx ([demo_sender \<mapsto> 3], 400000)) = (Inr (), t) \<and> ec_world t = ([demo_sender \<mapsto> 4], 400000)"
proof -
  let ?u = "\<lparr>u_Rules = \<lparr>r_IsLondon = True, r_IsHomestead = True, r_IsIstanbul = True, r_IsShanghai = True\<rparr>, u_BaseFee = Some 10,
      u_MempoolMinGasPrice = 0, u_GlobalMinGasPrice = Some 0\<rparr>"
  let ?m = "\<lparr>em_From = demo_sender, em_Raw = demo_transaction 3\<rparr>" and ?s = "demo_ctx ([demo_sender \<mapsto> 3], 400000)"
  have s: "?s\<lparr>ec_GasLimit := None\<rparr> = ?s" by (simp add: demo_ctx_def)
  have u: "NewMonoDecoratorUtils demo_eth (Some demo_coin) demo_params ?s = Inr ?u"
    by (subst demo_utils) (simp_all add: demo_ctx_def dec_fits_def)
  have fees: "fee_checks demo_eth demo_access ?u False ?m = Inr ()"
    by (simp add: fee_checks_def Let_def thenR_def bindR_def the_dec_def of_option_def CheckGlobalFee_def ValidateMsg_def
        checkDisabledCreateCall_def demo_access_def AccessTypeRestricted_def)
  have tx: "ValidateTx demo_eth (demo_tx 3) = Inr \<lparr>fee_Amount = [(''axtc'', 315000)], fee_GasLimit = 21000, fee_Payer = [], fee_Granter = []\<rparr>"
    by (simp add: ValidateTx_def demo_tx_def thenR_def bindR_def require_def of_option_def)
  have fee: "CheckTxFee demo_eth (Some demo_coin) (Some \<lparr>fee_Amount = [(''axtc'', 315000)], fee_GasLimit = 21000, fee_Payer = [], fee_Granter = []\<rparr>)
      (GetFee ?m) (tx_Gas (em_Raw ?m)) = Inr ()"
    by (simp add: CheckTxFee_def GetFee_def demo_transaction_def GetEVMCoinExtendedDenom_def getCoinInfo_def demo_coin_def of_option_def
        bindR_def thenR_def require_def sdk_int_def int_ok_def demo_eth_def)
  have "GetEVMCoinDenom (Some demo_coin) = Inr ''axtc''"
    by (simp add: GetEVMCoinDenom_def getCoinInfo_def demo_coin_def of_option_def bindR_def)
  moreover have "etx_Msgs (demo_tx 3) = [Some ?m]" "etx_IsGasTx (demo_tx 3)" by (simp_all add: demo_tx_def)
  moreover have "\<not> ec_IsReCheckTx ?s" "\<not> ec_IsCheckTx ?s" "TxpoolValidate demo_eth a b c d = Inr ()" for a b c d
    by (simp_all add: demo_ctx_def demo_eth_def)
  ultimately show ?thesis
    using u fees tx fee demo_account_steps [of "''axtc''"] s
    by (simp add: MonoAnteHandle_def SetupContextAndResetTransientGas_def UnpackEthMsg_def of_option_def thenE_def bindE_def
        requireE_def getsE_def readE_def liftE_def okE_def modifyE_def bindR_def EmitTxHashEvent_def eth_emit_def CheckBlockGasLimit_def
        UpdateCumulativeGasWanted_def BlockGasLimit_def demo_transaction_def)
      (simp add: demo_ctx_def)
qed

theorem eth_nonce_accepted_once_witness:
  "\<exists>t. run (eth_step demo_eth demo_keepers (Some demo_coin) 0 demo_access demo_params) (demo_ctx ([demo_sender \<mapsto> 3], 400000))
     [Deliver demo_sender 3] t \<and> nonce_used demo_keepers t (demo_sender, 3)"
proof -
  obtain t where t: "MonoAnteHandle demo_eth demo_keepers (Some demo_coin) 0 demo_access demo_params (\<lambda>tx simulate. okE ()) (demo_tx 3) False
     (demo_ctx ([demo_sender \<mapsto> 3], 400000)) = (Inr (), t)" using demo_accepts by blast
  have "eth_step demo_eth demo_keepers (Some demo_coin) 0 demo_access demo_params (Deliver demo_sender 3)
      (demo_ctx ([demo_sender \<mapsto> 3], 400000)) t"
    using t demo_seq_laws
    by (auto simp: eth_step_def demo_tx_def demo_transaction_def intro!: exI [of _ "demo_tx 3"] exI [of _ "\<lparr>em_From = demo_sender, em_Raw = demo_transaction 3\<rparr>"])
  then have run: "run (eth_step demo_eth demo_keepers (Some demo_coin) 0 demo_access demo_params) (demo_ctx ([demo_sender \<mapsto> 3], 400000))
      [Deliver demo_sender 3] t"
    by (rule run_single)
  from eth_nonce_accepted_once [OF run] run show ?thesis
    by (auto simp: List.map_filter_simps)
qed

theorem accepted_eth_tx_checked_witness:
  "\<exists>t m. MonoAnteHandle demo_eth demo_keepers (Some demo_coin) 0 demo_access demo_params (\<lambda>tx simulate. okE ()) (demo_tx 3) False
     (demo_ctx ([demo_sender \<mapsto> 3], 400000)) = (Inr (), t) \<and> etx_Msgs (demo_tx 3) = [Some m] \<and>
     seq_of demo_keepers (em_From m) ([demo_sender \<mapsto> 3], 400000) = tx_Nonce (em_Raw m)"
proof -
  obtain t where t: "MonoAnteHandle demo_eth demo_keepers (Some demo_coin) 0 demo_access demo_params (\<lambda>tx simulate. okE ()) (demo_tx 3) False
     (demo_ctx ([demo_sender \<mapsto> 3], 400000)) = (Inr (), t)" using demo_accepts by blast
  have D: "dec_laws (eth_dec demo_eth)" by (simp add: demo_eth_def int_dec_laws)
  have "ec_world (demo_ctx w) = w" for w by (simp add: demo_ctx_def)
  then show ?thesis using accepted_eth_tx_checked [OF demo_seq_laws D t] t by auto
qed

end
