(* ===== verification/Vm_Store.thy ===== *)
theory Vm_Store
  imports StateDB Evm_Denom Store_Iteration
begin

text \<open>
  The store side of the EVM module: the key prefixes of \<^verbatim>\<open>x/vm/types/key.go\<close>, the bank wrapper of
  \<^verbatim>\<open>x/vm/wrappers/bank.go\<close>, and the methods of \<^verbatim>\<open>x/vm/keeper/statedb.go\<close> and
  \<^verbatim>\<open>keeper.go\<close> with which the state database reads accounts, code and storage and writes them
  back. The account keeper and the bank keeper of the SDK, the hash function and the recognition of
  delegated code (go-ethereum) are the parameter \<open>vm_keepers\<close>; their state is the type variable
  \<open>'w\<close>. The denominations of the EVM coin are set at start-up and are a field of the same record.
\<close>

section \<open>Outside code\<close>

record ('w, 'a) vm_keepers =
  ak_GetAccount :: "bytes \<Rightarrow> 'w \<Rightarrow> 'a option"
  ak_NewAccountWithAddress :: "bytes \<Rightarrow> 'w \<Rightarrow> 'a \<times> 'w"
  ak_SetAccount :: "'a \<Rightarrow> 'w \<Rightarrow> 'w"
  ak_RemoveAccount :: "'a \<Rightarrow> 'w \<Rightarrow> 'w"
  ak_GetAddress :: "'a \<Rightarrow> bytes"
  ak_GetSequence :: "'a \<Rightarrow> uint64"
  ak_SetSequence :: "uint64 \<Rightarrow> 'a \<Rightarrow> 'a result"
  ak_IsModuleAccount :: "'a \<Rightarrow> bool"
  ak_NewBaseAccount :: "bytes \<Rightarrow> 'a \<Rightarrow> 'a"
  bk_GetBalance :: "bytes \<Rightarrow> string \<Rightarrow> 'w \<Rightarrow> int"
  bk_SpendableCoin :: "bytes \<Rightarrow> string \<Rightarrow> 'w \<Rightarrow> int"
  bk_LockedCoins :: "bytes \<Rightarrow> string \<Rightarrow> 'w \<Rightarrow> int"
  bk_BlockedAddr :: "bytes \<Rightarrow> bool"
  bk_UncheckedSetBalance :: "bytes \<Rightarrow> string \<times> int \<Rightarrow> 'w \<Rightarrow> unit result \<times> 'w"
  bk_SendCoinsFromAccountToModule :: "bytes \<Rightarrow> string \<Rightarrow> (string \<times> int) list \<Rightarrow> 'w \<Rightarrow> unit result \<times> 'w"
  bk_SendCoinsFromModuleToAccount :: "string \<Rightarrow> bytes \<Rightarrow> (string \<times> int) list \<Rightarrow> 'w \<Rightarrow> unit result \<times> 'w"
  bk_SortCoins :: "(string \<times> int) list \<Rightarrow> (string \<times> int) list"
  vm_Keccak256 :: "bytes \<Rightarrow> hash"
  vm_ParseDelegation :: "bytes \<Rightarrow> address option"
  vk_coin :: EvmCoinInfo
  ak_GetModuleAddress :: "string \<Rightarrow> bytes"
  bk_SendCoinsFromAccountToModuleVirtual :: "bytes \<Rightarrow> string \<Rightarrow> (string \<times> int) list \<Rightarrow> 'w \<Rightarrow> unit result \<times> 'w"
  bk_SendCoinsFromModuleToAccountVirtual :: "string \<Rightarrow> bytes \<Rightarrow> (string \<times> int) list \<Rightarrow> 'w \<Rightarrow> unit result \<times> 'w"
  bk_DenomUnits :: "string \<Rightarrow> 'w \<Rightarrow> (string \<times> uint32) list option"
  Coins_IsValid :: "(string \<times> int) list \<Rightarrow> bool"
  auth_GetSignerAcc :: "bytes \<Rightarrow> 'w \<Rightarrow> 'a result"
  auth_DeductFees :: "((string \<times> int) list \<Rightarrow> 'w \<Rightarrow> unit result \<times> 'w) \<Rightarrow> (string \<times> int) list \<Rightarrow> 'w \<Rightarrow> unit result \<times> 'w"
  vk_virtualFeeCollection :: bool

text \<open>
  The context of a transaction, as far as the EVM keeper uses it: the module's store, the state of
  the other modules, the object store that is reset after each block, and the emitted events.
\<close>

datatype object = ObjBloom nat | ObjGas uint64

record 'w vm_ctx =
  vc_store :: kv
  vc_world :: 'w
  vc_objects :: "bytes \<rightharpoonup> object"
  vc_events :: "event list"

type_synonym ('w, 'r) vm_op = "('w vm_ctx, 'r) handler"

definition vmW :: "('w \<Rightarrow> 'r result \<times> 'w) \<Rightarrow> ('w, 'r) vm_op" where
  "vmW f c = (case f (vc_world c) of (r, w) \<Rightarrow> (r, c\<lparr>vc_world := w\<rparr>))"

definition vmS :: "(kv \<Rightarrow> kv) \<Rightarrow> ('w, unit) vm_op" where
  "vmS f = modifyE (\<lambda>c. c\<lparr>vc_store := f (vc_store c)\<rparr>)"

section \<open>Keys\<close>

definition AddrBytes :: "address \<Rightarrow> bytes" where
  "AddrBytes a = be_fixed 20 (unat a)"

text \<open>Longer byte strings lose their first bytes, shorter ones are padded on the left.\<close>

definition BytesToHash :: "bytes \<Rightarrow> hash" where
  "BytesToHash b = word_of_nat (SetBytes b)"

definition KeyPrefixCode :: bytes where "KeyPrefixCode = [CHR 0x01]"
definition KeyPrefixStorage :: bytes where "KeyPrefixStorage = [CHR 0x02]"
definition KeyPrefixCodeHash :: bytes where "KeyPrefixCodeHash = [CHR 0x04]"

definition AddressStoragePrefix :: "address \<Rightarrow> bytes" where
  "AddressStoragePrefix a = KeyPrefixStorage @ AddrBytes a"

definition StateKey :: "address \<Rightarrow> bytes \<Rightarrow> bytes" where
  "StateKey a key = AddressStoragePrefix a @ key"

definition ObjectGasUsedKey :: "nat \<Rightarrow> bytes" where
  "ObjectGasUsedKey txIndex = CHR 0x02 # PutUint64 (word_of_nat txIndex)"

definition ObjectBloomKey :: "nat \<Rightarrow> nat \<Rightarrow> bytes" where
  "ObjectBloomKey txIndex msgIndex = CHR 0x01 # PutUint64 (word_of_nat txIndex) @ PutUint64 (word_of_nat msgIndex)"

section \<open>Bank wrapper\<close>

definition EvmDenom :: "('w, 'a) vm_keepers \<Rightarrow> string" where
  "EvmDenom ks = ci_Denom (vk_coin ks)"

definition WSetBalance :: "('w, 'a) vm_keepers \<Rightarrow> bytes \<Rightarrow> int \<Rightarrow> 'w \<Rightarrow> unit result \<times> 'w" where
  "WSetBalance ks account amt =
     bindE (liftE (sdk_int amt)) (\<lambda>amount.
     bindE (liftE (ConvertEvmCoinDenomToExtendedDenom (Some (vk_coin ks)) (EvmDenom ks, amount))) (\<lambda>convertedCoin.
     bk_UncheckedSetBalance ks account convertedCoin))"

definition WGetBalance :: "('w, 'a) vm_keepers \<Rightarrow> bytes \<Rightarrow> string \<Rightarrow> 'w \<Rightarrow> int result" where
  "WGetBalance ks addr denom w =
     thenR (require (denom = EvmDenom ks) (Panic ''expected evm denom''))
       (Inr (bk_GetBalance ks addr (ci_ExtendedDenom (vk_coin ks)) w))"

definition WSpendableCoin :: "('w, 'a) vm_keepers \<Rightarrow> bytes \<Rightarrow> string \<Rightarrow> 'w \<Rightarrow> int result" where
  "WSpendableCoin ks addr denom w =
     thenR (require (denom = EvmDenom ks) (Panic ''expected evm denom''))
       (Inr (bk_SpendableCoin ks addr (ci_ExtendedDenom (vk_coin ks)) w))"

text \<open>The error of the conversion is dropped: it occurs only for other denominations, which the loop leaves alone.\<close>

definition ConvertCoinsDenomToExtendedDenom :: "('w, 'a) vm_keepers \<Rightarrow> (string \<times> int) list \<Rightarrow> (string \<times> int) list" where
  "ConvertCoinsDenomToExtendedDenom ks coins =
     bk_SortCoins ks (map (\<lambda>c. if fst c = EvmDenom ks
       then (case ConvertEvmCoinDenomToExtendedDenom (Some (vk_coin ks)) c of Inr d \<Rightarrow> d | Inl _ \<Rightarrow> ([], 0)) else c) coins)"

definition coins_zero :: "(string \<times> int) list \<Rightarrow> bool" where
  "coins_zero coins \<longleftrightarrow> (\<forall>c\<in>set coins. snd c = 0)"

definition WSendCoinsFromAccountToModule ::
  "('w, 'a) vm_keepers \<Rightarrow> bytes \<Rightarrow> string \<Rightarrow> (string \<times> int) list \<Rightarrow> 'w \<Rightarrow> unit result \<times> 'w" where
  "WSendCoinsFromAccountToModule ks senderAddr recipientModule coins =
     (let convertedCoins = ConvertCoinsDenomToExtendedDenom ks coins in
      if coins_zero convertedCoins then okE ()
      else bk_SendCoinsFromAccountToModule ks senderAddr recipientModule convertedCoins)"

definition WSendCoinsFromModuleToAccount ::
  "('w, 'a) vm_keepers \<Rightarrow> string \<Rightarrow> bytes \<Rightarrow> (string \<times> int) list \<Rightarrow> 'w \<Rightarrow> unit result \<times> 'w" where
  "WSendCoinsFromModuleToAccount ks senderModule recipientAddr coins =
     (let convertedCoins = ConvertCoinsDenomToExtendedDenom ks coins in
      if coins_zero convertedCoins then okE ()
      else bk_SendCoinsFromModuleToAccount ks senderModule recipientAddr convertedCoins)"

section \<open>Reading accounts, code and storage\<close>

definition Uint256FromBigInt :: "int \<Rightarrow> uint256 result" where
  "Uint256FromBigInt i =
     thenR (require (\<not> i < 0) (Err ''trying to convert negative big.Int to uint256.Int'')) (
     thenR (require (i < 2 ^ 256) (Err ''overflow trying to convert big.Int to uint256.Int''))
       (Inr (word_of_int i)))"

text \<open>Nil when the balance does not fit; the wrapper's panic cannot occur, because the denomination is its own.\<close>

definition KSpendableCoin :: "('w, 'a) vm_keepers \<Rightarrow> address \<Rightarrow> 'w vm_ctx \<Rightarrow> uint256 option" where
  "KSpendableCoin ks addr c =
     (case bindR (WSpendableCoin ks (AddrBytes addr) (EvmDenom ks) (vc_world c)) Uint256FromBigInt of
        Inr b \<Rightarrow> Some b | Inl _ \<Rightarrow> None)"

definition KGetBalance :: "('w, 'a) vm_keepers \<Rightarrow> address \<Rightarrow> 'w vm_ctx \<Rightarrow> uint256 option" where
  "KGetBalance ks addr c =
     (case bindR (WGetBalance ks (AddrBytes addr) (EvmDenom ks) (vc_world c)) Uint256FromBigInt of
        Inr b \<Rightarrow> Some b | Inl _ \<Rightarrow> None)"

definition lockedCoin :: "('w, 'a) vm_keepers \<Rightarrow> address \<Rightarrow> 'w vm_ctx \<Rightarrow> int" where
  "lockedCoin ks addr c = bk_LockedCoins ks (AddrBytes addr) (EvmDenom ks) (vc_world c)"

definition KGetCodeHash :: "('w, 'a) vm_keepers \<Rightarrow> address \<Rightarrow> 'w vm_ctx \<Rightarrow> hash" where
  "KGetCodeHash ks addr c =
     (let bz = kv_get (vc_store c) (KeyPrefixCodeHash @ AddrBytes addr) in
      if length bz = 0 then vm_Keccak256 ks [] else BytesToHash bz)"

definition KeeperGetAccount :: "('w, 'a) vm_keepers \<Rightarrow> 'w vm_ctx \<Rightarrow> address \<Rightarrow> Account option" where
  "KeeperGetAccount ks c addr = (case ak_GetAccount ks (AddrBytes addr) (vc_world c) of
       None \<Rightarrow> None
     | Some acct \<Rightarrow> Some \<lparr>acc_Nonce = ak_GetSequence ks acct, acc_Balance = KSpendableCoin ks addr c,
         acc_CodeHash = Some (KGetCodeHash ks addr c), acc_lockedBalance = Some (lockedCoin ks addr c)\<rparr>)"

definition GetAccountWithoutBalance :: "('w, 'a) vm_keepers \<Rightarrow> 'w vm_ctx \<Rightarrow> address \<Rightarrow> Account option" where
  "GetAccountWithoutBalance ks c addr = (case ak_GetAccount ks (AddrBytes addr) (vc_world c) of
       None \<Rightarrow> None
     | Some acct \<Rightarrow> Some \<lparr>acc_Nonce = ak_GetSequence ks acct, acc_Balance = None,
         acc_CodeHash = Some (KGetCodeHash ks addr c), acc_lockedBalance = None\<rparr>)"

definition GetAccountOrEmpty :: "('w, 'a) vm_keepers \<Rightarrow> 'w vm_ctx \<Rightarrow> address \<Rightarrow> Account" where
  "GetAccountOrEmpty ks c addr = (case KeeperGetAccount ks c addr of
       Some acct \<Rightarrow> acct
     | None \<Rightarrow> \<lparr>acc_Nonce = 0, acc_Balance = Some 0, acc_CodeHash = Some (vm_Keccak256 ks []), acc_lockedBalance = None\<rparr>)"

definition KGetNonce :: "('w, 'a) vm_keepers \<Rightarrow> 'w vm_ctx \<Rightarrow> address \<Rightarrow> uint64" where
  "KGetNonce ks c addr = (case ak_GetAccount ks (AddrBytes addr) (vc_world c) of
       None \<Rightarrow> 0 | Some acct \<Rightarrow> ak_GetSequence ks acct)"

definition KeeperGetState :: "'w vm_ctx \<Rightarrow> address \<Rightarrow> hash \<Rightarrow> hash" where
  "KeeperGetState c addr key =
     (let v = kv_get (vc_store c) (StateKey addr (HashBytes key)) in
      if length v = 0 then 0 else BytesToHash v)"

definition GetFastState :: "'w vm_ctx \<Rightarrow> address \<Rightarrow> hash \<Rightarrow> bytes option" where
  "GetFastState c addr key = vc_store c (StateKey addr (HashBytes key))"

definition KeeperGetCode :: "'w vm_ctx \<Rightarrow> hash \<Rightarrow> bytes option" where
  "KeeperGetCode c codeHash = vc_store c (KeyPrefixCode @ HashBytes codeHash)"

definition ForEachStorage :: "'w vm_ctx \<Rightarrow> address \<Rightarrow> (hash \<times> hash) list" where
  "ForEachStorage c addr =
     map (\<lambda>k. (BytesToHash k, BytesToHash (kv_get (vc_store c) k))) (prefix_keys (vc_store c) (AddressStoragePrefix addr))"

definition IsContract :: "('w, 'a) vm_keepers \<Rightarrow> 'w vm_ctx \<Rightarrow> address \<Rightarrow> bool" where
  "IsContract ks c addr =
     (let code = (case KeeperGetCode c (KGetCodeHash ks addr c) of None \<Rightarrow> [] | Some b \<Rightarrow> b) in
      length code > 0 \<and> vm_ParseDelegation ks code = None)"

section \<open>Writing accounts, code and storage\<close>

definition SetBalanceWithLocked ::
  "('w, 'a) vm_keepers \<Rightarrow> address \<Rightarrow> uint256 option \<Rightarrow> int \<Rightarrow> ('w, unit) vm_op" where
  "SetBalanceWithLocked ks addr amount locked = (case amount of
       None \<Rightarrow> okE ()
     | Some amt \<Rightarrow>
         (let cosmosAddr = AddrBytes addr in
          bindE (getsE (\<lambda>c. case ak_GetAccount ks cosmosAddr (vc_world c) of
              None \<Rightarrow> False | Some acct \<Rightarrow> ak_IsModuleAccount ks acct)) (\<lambda>isModule.
          bindE (readE (\<lambda>c. WSpendableCoin ks cosmosAddr (EvmDenom ks) (vc_world c))) (\<lambda>coin.
          thenE (requireE (\<not> (isModule \<or> bk_BlockedAddr ks cosmosAddr \<and> uint amt \<noteq> coin))
            (Err ''account is not allowed to receive funds'')) (
          vmW (WSetBalance ks cosmosAddr (uint amt + locked)))))))"

definition KSetBalance :: "('w, 'a) vm_keepers \<Rightarrow> address \<Rightarrow> uint256 option \<Rightarrow> ('w, unit) vm_op" where
  "KSetBalance ks addr amount =
     bindE (getsE (lockedCoin ks addr)) (\<lambda>locked. SetBalanceWithLocked ks addr amount locked)"

definition SetAccountBalance :: "('w, 'a) vm_keepers \<Rightarrow> address \<Rightarrow> Account \<Rightarrow> ('w, unit) vm_op" where
  "SetAccountBalance ks addr account = (case acc_lockedBalance account of
       None \<Rightarrow> KSetBalance ks addr (acc_Balance account)
     | Some locked \<Rightarrow> SetBalanceWithLocked ks addr (acc_Balance account) locked)"

definition SetCodeHash :: "address \<Rightarrow> hash \<Rightarrow> ('w, unit) vm_op" where
  "SetCodeHash addr h = vmS (kv_set (KeyPrefixCodeHash @ AddrBytes addr) (HashBytes h))"

definition DeleteCodeHash :: "address \<Rightarrow> ('w, unit) vm_op" where
  "DeleteCodeHash addr = vmS (kv_delete (KeyPrefixCodeHash @ AddrBytes addr))"

text \<open>A store panics when a nil value is set.\<close>

definition KeeperSetAccount :: "('w, 'a) vm_keepers \<Rightarrow> address \<Rightarrow> Account \<Rightarrow> ('w, unit) vm_op" where
  "KeeperSetAccount ks addr account =
     bindE (\<lambda>c. case ak_GetAccount ks (AddrBytes addr) (vc_world c) of
         Some acct \<Rightarrow> (Inr acct, c)
       | None \<Rightarrow> vmW (\<lambda>w. case ak_NewAccountWithAddress ks (AddrBytes addr) w of (acct, w') \<Rightarrow> (Inr acct, w')) c) (\<lambda>acct0.
     bindE (liftE (ak_SetSequence ks (acc_Nonce account) acct0)) (\<lambda>acct.
     thenE (case acc_CodeHash account of
         None \<Rightarrow> failE (Panic ''value is nil'')
       | Some h \<Rightarrow> if h = vm_Keccak256 ks [] then DeleteCodeHash addr else SetCodeHash addr h) (
     thenE (vmW (\<lambda>w. (Inr (), ak_SetAccount ks acct w)))
       (SetAccountBalance ks addr account))))"

definition KeeperSetState :: "address \<Rightarrow> hash \<Rightarrow> bytes \<Rightarrow> 'w vm_ctx \<Rightarrow> 'w vm_ctx" where
  "KeeperSetState addr key val c = c\<lparr>vc_store := kv_set (StateKey addr (HashBytes key)) val (vc_store c)\<rparr>"

definition KeeperDeleteState :: "address \<Rightarrow> hash \<Rightarrow> 'w vm_ctx \<Rightarrow> 'w vm_ctx" where
  "KeeperDeleteState addr key c = c\<lparr>vc_store := kv_delete (StateKey addr (HashBytes key)) (vc_store c)\<rparr>"

definition KeeperSetCode :: "hash \<Rightarrow> bytes \<Rightarrow> 'w vm_ctx \<Rightarrow> 'w vm_ctx" where
  "KeeperSetCode codeHash code c = c\<lparr>vc_store := kv_set (KeyPrefixCode @ HashBytes codeHash) code (vc_store c)\<rparr>"

definition KeeperDeleteCode :: "hash \<Rightarrow> 'w vm_ctx \<Rightarrow> 'w vm_ctx" where
  "KeeperDeleteCode codeHash c = c\<lparr>vc_store := kv_delete (KeyPrefixCode @ HashBytes codeHash) (vc_store c)\<rparr>"

definition KeeperDeleteAccount :: "('w, 'a) vm_keepers \<Rightarrow> address \<Rightarrow> ('w, unit) vm_op" where
  "KeeperDeleteAccount ks addr =
     bindE (getsE (\<lambda>c. ak_GetAccount ks (AddrBytes addr) (vc_world c))) (\<lambda>found. case found of
       None \<Rightarrow> okE ()
     | Some acct \<Rightarrow>
         thenE (readE (\<lambda>c. require (IsContract ks c addr) (Err ''only smart contracts can be self-destructed''))) (
         thenE (vmW (\<lambda>w. (Inr (), ak_SetAccount ks (ak_NewBaseAccount ks (AddrBytes addr) acct) w))) (
         thenE (SetBalanceWithLocked ks addr (Some 0) 0) (
         thenE (modifyE (\<lambda>c. fold (KeeperDeleteState addr) (map fst (ForEachStorage c addr)) c)) (
         thenE (DeleteCodeHash addr)
           (vmW (\<lambda>w. (Inr (), ak_RemoveAccount ks acct w))))))))"

section \<open>The keeper as the interface of the state database\<close>

definition keeper_reader :: "('w, 'a) vm_keepers \<Rightarrow> 'w vm_ctx \<Rightarrow> reader" where
  "keeper_reader ks c = \<lparr>KGetAccount = KeeperGetAccount ks c, KGetState = KeeperGetState c,
     KGetCode = KeeperGetCode c, KForEachStorage = ForEachStorage c, Keccak256 = vm_Keccak256 ks\<rparr>"

definition keeper_writer :: "('w, 'a) vm_keepers \<Rightarrow> 'w vm_ctx writer" where
  "keeper_writer ks = \<lparr>KSetAccount = KeeperSetAccount ks, KDeleteState = KeeperDeleteState,
     KSetState = KeeperSetState, KDeleteCode = KeeperDeleteCode, KSetCode = KeeperSetCode,
     KDeleteAccount = KeeperDeleteAccount ks\<rparr>"

end
