(* ===== verification/StateDB_Shape.thy ===== *)
theory StateDB_Shape
  imports StateDB_Properties
begin

text \<open>
  What the commit of a state database relies on: the caches of a state object agree with the keeper,
  its code belongs to its code hash, and an account that no journal entry dirties shows what the
  keeper holds. All of it is invariant under the operations of the EVM, snapshots and reverts.
\<close>

section \<open>Caches and code of the objects\<close>

text \<open>The code of a hash that the keeper stores or the object carries.\<close>

definition code_known :: "reader \<Rightarrow> bytes option \<Rightarrow> hash \<Rightarrow> bool" where
  "code_known rd code h \<longleftrightarrow> (\<forall>c. code = Some c \<longrightarrow> Keccak256 rd c = h) \<and>
     (h = EmptyCodeHash rd \<or> code \<noteq> None \<or> (\<exists>c. KGetCode rd h = Some c))"

definition obj_inv :: "reader \<Rightarrow> stateObject \<Rightarrow> bool" where
  "obj_inv rd obj \<longleftrightarrow> overrideStorage obj = None \<and> finite (dom (dirtyStorage obj)) \<and>
     (\<forall>k v. originStorage obj k = Some v \<longrightarrow> v = KGetState rd (so_address obj) k) \<and>
     code_known rd (so_code obj) (so_CodeHash obj) \<and>
     (\<not> dirtyCode obj \<longrightarrow> so_CodeHash obj = EmptyCodeHash rd \<or> (\<exists>c. KGetCode rd (so_CodeHash obj) = Some c)) \<and>
     (\<forall>l. so_lockedBalance obj = Some l \<longrightarrow>
        (\<exists>acct. KGetAccount rd (so_address obj) = Some acct \<and> acc_lockedBalance acct = Some l))"

fun entry_inv :: "reader \<Rightarrow> JournalEntry \<Rightarrow> bool" where
  "entry_inv rd (codeChange a code h) \<longleftrightarrow> code_known rd code h"
| "entry_inv rd _ \<longleftrightarrow> True"

text \<open>With no multi-store to cache, the cache context stays closed.\<close>

definition shape :: "reader \<Rightarrow> 'l ctx_stores \<Rightarrow> 'l StateDB \<Rightarrow> bool" where
  "shape rd cc s \<longleftrightarrow> (\<forall>a obj. stateObjects s a = Some obj \<longrightarrow> obj_inv rd obj \<and> so_address obj = a) \<and>
     (\<forall>e\<in>set (entries (jrnl s)). entry_inv rd e) \<and> finite (dom (dirties (jrnl s))) \<and> (cc = None \<longrightarrow> cacheCtx s = None)"

text \<open>The keeper stores the code of each account under its hash.\<close>

definition codes_ok :: "reader \<Rightarrow> bool" where
  "codes_ok rd \<longleftrightarrow> (\<forall>h c. KGetCode rd h = Some c \<longrightarrow> Keccak256 rd c = h) \<and>
     (\<forall>a acct h. KGetAccount rd a = Some acct \<longrightarrow> acc_CodeHash acct = Some h \<longrightarrow>
        h = EmptyCodeHash rd \<or> (\<exists>c. KGetCode rd h = Some c))"

section \<open>Handlers that keep the shape\<close>

named_theorems keeps_intros \<open>handlers that keep the shape of a state database\<close>

text \<open>\<open>gives rd cc m P\<close>: \<open>m\<close> keeps the shape and returns only values with \<open>P\<close>.\<close>

definition gives :: "reader \<Rightarrow> 'l ctx_stores \<Rightarrow> ('l, 'x) sdb \<Rightarrow> ('x \<Rightarrow> bool) \<Rightarrow> bool" where
  "gives rd cc m P \<longleftrightarrow> (\<forall>s r t. shape rd cc s \<longrightarrow> m s = (r, t) \<longrightarrow> shape rd cc t \<and> (\<forall>x. r = Inr x \<longrightarrow> P x))"

abbreviation keeps :: "reader \<Rightarrow> 'l ctx_stores \<Rightarrow> ('l, 'x) sdb \<Rightarrow> bool" where
  "keeps rd cc m \<equiv> gives rd cc m (\<lambda>_. True)"

lemma gives_bind:
  assumes "gives rd cc m P" "\<And>x. P x \<Longrightarrow> gives rd cc (f x) Q"
  shows "gives rd cc (bindE m f) Q"
  unfolding gives_def
proof (intro allI impI)
  fix s r t
  assume s: "shape rd cc s" "bindE m f s = (r, t)"
  obtain q u where q: "m s = (q, u)" by (cases "m s")
  show "shape rd cc t \<and> (\<forall>x. r = Inr x \<longrightarrow> Q x)"
  proof (cases q)
    case (Inl e)
    then show ?thesis using s q assms(1) by (auto simp: gives_def bindE_def)
  next
    case (Inr x)
    then have "shape rd cc u" "P x" "f x u = (r, t)" using s q assms(1) by (auto simp: gives_def bindE_def)
    then show ?thesis using assms(2) [of x] by (simp add: gives_def)
  qed
qed

lemma gives_then [keeps_intros]: "keeps rd cc m \<Longrightarrow> gives rd cc n Q \<Longrightarrow> gives rd cc (thenE m n) Q"
  unfolding thenE_def by (rule gives_bind)

lemma gives_ok: "P x \<Longrightarrow> gives rd cc (okE x) P"
  by (simp add: gives_def okE_def)

lemma keeps_simple [keeps_intros]:
  "keeps rd cc (okE x)" "keeps rd cc (failE e)" "keeps rd cc (liftE r)" "keeps rd cc (getsE f)" "keeps rd cc (readE g)" "keeps rd cc (requireE b e)"
  by (auto simp: gives_def requireE_def okE_def failE_def getsE_def)

lemma keeps_bind [keeps_intros]: "keeps rd cc m \<Longrightarrow> (\<And>x. gives rd cc (f x) Q) \<Longrightarrow> gives rd cc (bindE m f) Q"
  by (rule gives_bind)

lemma keeps_modify: "(\<And>s. shape rd cc s \<Longrightarrow> shape rd cc (f s)) \<Longrightarrow> keeps rd cc (modifyE f)"
  by (auto simp: gives_def)

lemma keeps_if [keeps_intros]: "(b \<Longrightarrow> gives rd cc m P) \<Longrightarrow> (\<not> b \<Longrightarrow> gives rd cc n P) \<Longrightarrow> gives rd cc (if b then m else n) P"
  by simp

lemma keeps_quiet [keeps_intros]: "keeps rd cc m \<Longrightarrow> keeps rd cc (quiet m)"
  unfolding quiet_def by (intro keeps_intros)

lemma keeps_journal [keeps_intros]: "entry_inv rd e \<Longrightarrow> keeps rd cc (journalE e)"
  unfolding journalE_def by (rule keeps_modify) (auto simp: shape_def append_entry_def)

lemma keeps_setStateObject [keeps_intros]: "obj_inv rd obj \<Longrightarrow> keeps rd cc (setStateObject obj)"
  unfolding setStateObject_def by (rule keeps_modify) (auto simp: shape_def)

section \<open>Objects\<close>

lemma newObject_inv:
  assumes "codes_ok rd" "KGetAccount rd a = Some acct"
  shows "obj_inv rd (newObject rd a acct)"
  using assms by (auto simp: obj_inv_def newObject_def code_known_def codes_ok_def split: option.splits)

lemma createdObject_inv:
  "obj_inv rd (newObject rd a \<lparr>acc_Nonce = n, acc_Balance = b, acc_CodeHash = None, acc_lockedBalance = None\<rparr>)"
  by (simp add: obj_inv_def newObject_def code_known_def)

lemma obj_inv_updates [simp]:
  "obj_inv rd (setBalance b obj) = obj_inv rd obj" "obj_inv rd (setNonce n obj) = obj_inv rd obj"
  "obj_inv rd (setState k v obj) = obj_inv rd obj" "obj_inv rd (markSelfDestructed obj) = obj_inv rd obj"
  "obj_inv rd (obj\<lparr>selfDestructed := x\<rparr>) = obj_inv rd obj" "obj_inv rd (obj\<lparr>newContract := x\<rparr>) = obj_inv rd obj"
  by (simp_all add: obj_inv_def setBalance_def setNonce_def setState_def markSelfDestructed_def)

lemma obj_inv_setCode: "obj_inv rd obj \<Longrightarrow> code_known rd code h \<Longrightarrow> obj_inv rd (setCode h code obj)"
  by (simp add: obj_inv_def setCode_def)

lemma so_Code_known:
  assumes "codes_ok rd" "obj_inv rd obj"
  shows "code_known rd (fst (so_Code rd obj)) (so_CodeHash obj)"
  using assms by (auto simp: so_Code_def obj_inv_def code_known_def codes_ok_def Let_def IsEmptyCodeHash_def)

lemma obj_inv_caches:
  assumes "codes_ok rd" "obj_inv rd obj"
  shows "obj_inv rd (snd (so_Code rd obj))" "obj_inv rd (snd (so_GetCommittedState rd k obj))"
    "obj_inv rd (snd (so_GetState rd k obj))"
proof -
  show "obj_inv rd (snd (so_Code rd obj))"
    using assms by (auto simp: so_Code_def obj_inv_def code_known_def codes_ok_def Let_def IsEmptyCodeHash_def)
  show c: "obj_inv rd (snd (so_GetCommittedState rd k obj))"
    using assms(2) by (auto simp: so_GetCommittedState_def obj_inv_def Let_def split: option.splits)
  then show "obj_inv rd (snd (so_GetState rd k obj))"
    using assms(2) by (auto simp: so_GetState_def split: option.splits)
qed

lemma gives_getStateObject:
  assumes "codes_ok rd"
  shows "gives rd cc (getStateObject rd a) (\<lambda>found. \<forall>obj. found = Some obj \<longrightarrow> obj_inv rd obj)"
  unfolding gives_def
proof (intro allI impI)
  fix s r t
  assume s: "shape rd cc s" "getStateObject rd a s = (r, t)"
  show "shape rd cc t \<and> (\<forall>x. r = Inr x \<longrightarrow> (\<forall>obj. x = Some obj \<longrightarrow> obj_inv rd obj))"
  proof (cases "stateObjects s a = None \<and> KGetAccount rd a \<noteq> None")
    case True
    then obtain acct where acct: "KGetAccount rd a = Some acct" by blast
    define obj where "obj = newObject rd a acct"
    have "obj_inv rd obj" "so_address obj = a"
      using newObject_inv [OF assms acct] by (simp_all add: obj_def newObject_def)
    moreover have "r = Inr (Some obj)" "t = s\<lparr>stateObjects := (stateObjects s)(so_address obj \<mapsto> obj)\<rparr>"
      using s True acct
      by (auto simp: getStateObject_def thenE_def bindE_def setStateObject_def Let_def obj_def)
    ultimately show ?thesis using s(1) by (auto simp: shape_def)
  next
    case False
    then show ?thesis using s by (auto simp: getStateObject_def shape_def split: option.splits)
  qed
qed

lemma gives_createObject: "gives rd cc (createObject rd a) (obj_inv rd)"
  unfolding createObject_def Let_def
  by (intro keeps_intros gives_ok) (simp_all add: createdObject_inv)

lemma gives_getOrNew: "codes_ok rd \<Longrightarrow> gives rd cc (getOrNewStateObject rd a) (obj_inv rd)"
  unfolding getOrNewStateObject_def
  by (rule gives_bind [OF gives_getStateObject])
    (auto split: option.split intro: gives_ok gives_createObject)

lemma gives_lift: "(\<And>x. r = Inr x \<Longrightarrow> P x) \<Longrightarrow> gives rd cc (liftE r) P"
  by (auto simp: gives_def)

lemma gives_theObject: "codes_ok rd \<Longrightarrow> gives rd cc (theObject rd a) (obj_inv rd)"
  unfolding theObject_def
  by (rule gives_bind [OF gives_getStateObject]) (auto intro!: gives_lift simp: handler_simps)

lemma keeps_readObject:
  assumes "codes_ok rd" "\<And>obj. obj_inv rd obj \<Longrightarrow> obj_inv rd (snd (f obj))"
  shows "keeps rd cc (readObject rd a d f)"
  unfolding readObject_def
proof (rule gives_bind [OF gives_getStateObject [OF assms(1)]])
  fix found :: "stateObject option"
  assume ok: "\<forall>obj. found = Some obj \<longrightarrow> obj_inv rd obj"
  show "keeps rd cc (case found of None \<Rightarrow> okE d | Some obj \<Rightarrow> let (v, obj') = f obj in thenE (setStateObject obj') (okE v))"
  proof (cases found)
    case None
    then show ?thesis by (simp add: keeps_simple)
  next
    case (Some obj)
    then have "obj_inv rd (snd (f obj))" using ok assms(2) by blast
    then show ?thesis
      unfolding Some by (cases "f obj") (simp, intro gives_then keeps_setStateObject keeps_simple)
  qed
qed


section \<open>Operations\<close>

lemma keeps_obj_ops:
  assumes "obj_inv rd obj"
  shows "keeps rd cc (so_SetBalance b obj)" "keeps rd cc (so_AddBalance b obj)" "keeps rd cc (so_SubBalance b obj)"
    "keeps rd cc (so_SetNonce n obj)"
proof -
  show b: "keeps rd cc (so_SetBalance b obj)" for b
    unfolding so_SetBalance_def using assms by (intro keeps_intros) simp_all
  show "keeps rd cc (so_AddBalance b obj)"
    unfolding so_AddBalance_def by (intro keeps_if b keeps_simple)
  show "keeps rd cc (so_SubBalance b obj)"
    unfolding so_SubBalance_def by (intro keeps_if b keeps_simple)
  show "keeps rd cc (so_SetNonce n obj)"
    unfolding so_SetNonce_def using assms by (intro keeps_intros) simp_all
qed

lemma keeps_so_SetCode:
  assumes "codes_ok rd" "obj_inv rd obj" "code_known rd code h"
  shows "keeps rd cc (so_SetCode rd h code obj)"
proof -
  obtain c obj' where o: "so_Code rd obj = (c, obj')" by (cases "so_Code rd obj")
  have k: "code_known rd c (so_CodeHash obj')"
    using so_Code_known [OF assms(1,2)] so_CodeHash_cached [of rd obj] o by simp
  have i: "obj_inv rd obj'" using obj_inv_caches(1) [OF assms(1,2)] o by simp
  show ?thesis
    unfolding so_SetCode_def Let_def o prod.case
    by (intro keeps_intros obj_inv_setCode i assms(3)) (simp add: k)
qed

lemma keeps_so_SetState:
  assumes "codes_ok rd" "obj_inv rd obj"
  shows "keeps rd cc (so_SetState rd k v obj)"
proof -
  obtain p obj' where o: "so_GetState rd k obj = (p, obj')" by (cases "so_GetState rd k obj")
  have i: "obj_inv rd obj'" using obj_inv_caches(3) [OF assms] o by (metis snd_conv)
  show ?thesis
    unfolding so_SetState_def Let_def o prod.case using i by (intro keeps_intros) simp_all
qed

lemma keeps_cached_reads:
  assumes "codes_ok rd"
  shows "keeps rd cc (GetCode rd a)" "keeps rd cc (GetCodeSize rd a)" "keeps rd cc (GetState rd a k)"
    "keeps rd cc (GetCommittedState rd a k)" "keeps rd cc (GetStateAndCommittedState rd a k)"
    "keeps rd cc (GetBalance rd a)" "keeps rd cc (GetNonce rd a)" "keeps rd cc (GetCodeHash rd a)"
    "keeps rd cc (HasSelfDestructed rd a)" "keeps rd cc (IsNewContract rd a)"
  unfolding GetCode_def GetCodeSize_def GetState_def GetCommittedState_def GetStateAndCommittedState_def
    GetBalance_def GetNonce_def GetCodeHash_def HasSelfDestructed_def IsNewContract_def
  using obj_inv_caches [OF assms]
  by (auto intro!: keeps_readObject [OF assms] split: prod.split) (metis snd_conv)+

lemma keeps_exists:
  assumes "codes_ok rd"
  shows "keeps rd cc (Exist rd a)" "keeps rd cc (Empty rd a)"
  unfolding Exist_def Empty_def by (rule gives_bind [OF gives_getStateObject [OF assms]], rule keeps_simple)+

lemma keeps_setters:
  assumes "codes_ok rd"
  shows "keeps rd cc (CreateAccount rd a)" "keeps rd cc (CreateContract rd a)" "keeps rd cc (AddBalance rd a b)"
    "keeps rd cc (SubBalance rd a b)" "keeps rd cc (StateDB.SetBalance rd a b)" "keeps rd cc (SetNonce rd a n)"
    "keeps rd cc (SetState rd a k v)"
proof -
  note new = gives_bind [OF gives_getOrNew [OF assms]]
  show "keeps rd cc (CreateAccount rd a)"
    unfolding CreateAccount_def thenE_def by (rule gives_bind [OF gives_createObject keeps_simple(1)])
  show "keeps rd cc (CreateContract rd a)"
    unfolding CreateContract_def
    by (rule gives_bind [OF gives_theObject [OF assms]], intro keeps_if keeps_simple gives_then keeps_setStateObject keeps_journal) simp_all
  show "keeps rd cc (AddBalance rd a b)" unfolding AddBalance_def by (rule new, rule keeps_obj_ops)
  show "keeps rd cc (SubBalance rd a b)"
    unfolding SubBalance_def by (rule new, intro keeps_if keeps_simple keeps_obj_ops)
  show "keeps rd cc (StateDB.SetBalance rd a b)"
    unfolding StateDB.SetBalance_def by (rule new, intro gives_then keeps_simple keeps_obj_ops)
  show "keeps rd cc (SetNonce rd a n)" unfolding SetNonce_def by (rule new, rule keeps_obj_ops)
  show "keeps rd cc (SetState rd a k v)" unfolding SetState_def by (rule new, rule keeps_so_SetState [OF assms])
qed

lemma keeps_SetCode:
  assumes "codes_ok rd"
  shows "keeps rd cc (SetCode rd a code)"
  unfolding SetCode_def
  by (rule gives_bind [OF gives_getOrNew [OF assms]], intro gives_then keeps_simple keeps_so_SetCode [OF assms])
    (auto simp: code_known_def EmptyCodeHash_def)

lemma keeps_SelfDestruct:
  assumes "codes_ok rd"
  shows "keeps rd cc (SelfDestruct rd a)"
  unfolding SelfDestruct_def
proof (rule gives_bind [OF gives_getStateObject [OF assms]])
  fix found :: "stateObject option"
  assume "\<forall>obj. found = Some obj \<longrightarrow> obj_inv rd obj"
  then show "keeps rd cc (case found of None \<Rightarrow> okE ()
      | Some obj \<Rightarrow> thenE (journalE (selfDestructChange a)) (setStateObject (markSelfDestructed obj)))"
    by (cases found) (simp_all add: keeps_simple gives_then keeps_journal keeps_setStateObject)
qed

lemma keeps_others:
  "keeps rd cc (SetTransientState a k v)" "keeps rd cc (AddLog l)" "keeps rd cc (AddRefund g)" "keeps rd cc (SubRefund g)"
  "keeps rd cc (AddAddressToAccessList a)" "keeps rd cc (AddSlotToAccessList a k)" "keeps rd cc Snapshot"
  by (auto simp: gives_def SetTransientState_def AddLog_def AddRefund_def SubRefund_def AddAddressToAccessList_def
      AddSlotToAccessList_def Snapshot_def thenE_def bindE_def setTransientState_def getsE_def journalE_def requireE_def
      shape_def append_entry_def split: if_splits prod.splits)

lemma keeps_cache:
  "(\<And>s r t. m s = (r, t) \<Longrightarrow> stateObjects t = stateObjects s \<and> entries (jrnl t) = entries (jrnl s) \<and>
     (finite (dom (dirties (jrnl s))) \<longrightarrow> finite (dom (dirties (jrnl t)))) \<and> (cc = None \<and> cacheCtx s = None \<longrightarrow> cacheCtx t = None)) \<Longrightarrow>
   keeps rd cc m"
  by (auto simp: gives_def shape_def)

lemma keeps_precompile: "keeps rd cc (PrecompileCall cw cc ws evs n)"
proof -
  have "keeps rd cc (GetCacheContext cc)"
    by (rule keeps_cache) (auto simp: GetCacheContext_def cache_def split: option.splits if_splits)
  moreover have "keeps rd cc (MultiStoreSnapshot cw)"
    by (rule keeps_cache) (auto simp: MultiStoreSnapshot_def split: option.splits sum.splits)
  moreover have "keeps rd cc (AddPrecompileFn i)" for i
    by (auto simp: gives_def AddPrecompileFn_def thenE_def bindE_def journalE_def append_entry_def shape_def require_def
        split: option.splits if_splits)
  moreover have "keeps rd cc (modifyE (\<lambda>s. s\<lparr>cacheCtx := map_option g (cacheCtx s), processedEventsCount := n\<rparr>))" for g
    by (rule keeps_cache) auto
  ultimately show ?thesis unfolding PrecompileCall_def by (intro gives_then keeps_bind)
qed

section \<open>Reverts\<close>

lemma keeps_fields:
  "keeps rd cc (modifyE (\<lambda>s. s\<lparr>jrnl := (jrnl s)\<lparr>dirties := undirty e (dirties (jrnl s))\<rparr>\<rparr>))" "keeps rd cc (RevertMultiStore i)"
  "keeps rd cc (modifyE (\<lambda>s. s\<lparr>cacheCtx := map_option g (cacheCtx s), processedEventsCount := n\<rparr>))"
  "keeps rd cc (modifyE (\<lambda>s. s\<lparr>logs := l s\<rparr>))" "keeps rd cc (modifyE (\<lambda>s. s\<lparr>accList := al s\<rparr>))"
  "keeps rd cc (modifyE (\<lambda>s. s\<lparr>validRevisions := v s\<rparr>))" "keeps rd cc (modifyE (\<lambda>s. s\<lparr>st_transient := tr s\<rparr>))"
  "keeps rd cc (modifyE (refund_update (\<lambda>_. x)))"
  by (rule keeps_cache, auto simp: RevertMultiStore_def undirty_def split: option.splits sum.splits)+

lemma keeps_on_object:
  assumes "codes_ok rd" "\<And>obj. obj_inv rd obj \<Longrightarrow> obj_inv rd (f obj)"
  shows "keeps rd cc (bindE (theObject rd a) (\<lambda>obj. setStateObject (f obj)))"
  by (rule gives_bind [OF gives_theObject [OF assms(1)]]) (rule keeps_setStateObject [OF assms(2)])

lemma keeps_Revert:
  assumes "codes_ok rd" "entry_inv rd e"
  shows "keeps rd cc (Revert rd e)"
proof (cases e)
  case (selfDestructChange a)
  then show ?thesis
    by simp (rule gives_bind [OF gives_getStateObject [OF assms(1)]],
      auto split: option.split intro: keeps_simple keeps_setStateObject)
next
  case (precompileCallChange i evs n)
  then show ?thesis by (simp add: gives_then keeps_fields)
next
  case addLogChange
  then show ?thesis by (simp add: gives_then keeps_simple keeps_fields)
next
  case (accessListAddSlotChange a k)
  then show ?thesis by (simp add: keeps_bind keeps_simple keeps_fields)
next
  case (createObjectChange a)
  then show ?thesis by (auto simp: shape_def intro!: keeps_modify split: if_splits)
qed (use assms(2) in \<open>simp_all add: keeps_on_object [OF assms(1)] obj_inv_setCode setTransientState_def keeps_fields\<close>)

lemma keeps_revert_loop:
  assumes "codes_ok rd" "\<forall>e\<in>set es. entry_inv rd e"
  shows "keeps rd cc (revert_loop rd es)"
  using assms(2)
proof (induction es)
  case (Cons e es)
  then show ?case
    by (simp add: gives_then keeps_fields keeps_Revert [OF assms(1)])
qed (simp add: keeps_simple)

lemma keeps_RevertToSnapshot:
  assumes "codes_ok rd" "shape rd cc s" "RevertToSnapshot rd i s = (r, t)"
  shows "shape rd cc t"
proof -
  have "keeps rd cc (modifyE (\<lambda>s. s\<lparr>jrnl := (jrnl s)\<lparr>entries := take n (entries (jrnl s))\<rparr>\<rparr>))" for n
    by (rule keeps_modify) (auto simp: shape_def dest: in_set_takeD)
  then have j: "keeps rd cc (thenE (revert_loop rd (rev (drop n (entries (jrnl s)))))
       (modifyE (\<lambda>s. s\<lparr>jrnl := (jrnl s)\<lparr>entries := take n (entries (jrnl s))\<rparr>\<rparr>)))" for n
    using assms(2) by (intro gives_then keeps_revert_loop [OF assms(1)]) (auto simp: shape_def dest: in_set_dropD)
  have u: "shape rd cc u" if "journal_Revert rd n s = (q, u)" for n q u
    using j [of n] assms(2) that unfolding gives_def journal_Revert_def by blast
  show ?thesis
    using assms(2,3) u
    by (auto simp: RevertToSnapshot_def Let_def thenE_def bindE_def shape_def split: if_splits prod.splits sum.splits)
qed

lemma keeps_exec_op:
  assumes "codes_ok rd" "\<And>i. op \<noteq> OpRevert i"
  shows "keeps rd cc (exec_op rd cw cc op)"
  by (cases op) (simp_all add: assms(2) keeps_quiet keeps_cached_reads [OF assms(1)] keeps_exists [OF assms(1)] keeps_setters [OF assms(1)]
    keeps_SetCode [OF assms(1)] keeps_SelfDestruct [OF assms(1)] keeps_others keeps_precompile)

lemma exec_op_shape:
  assumes "codes_ok rd" "shape rd cc s" "exec_op rd cw cc op s = (r, t)"
  shows "shape rd cc t"
proof (cases "\<exists>i. op = OpRevert i")
  case True
  then show ?thesis using keeps_RevertToSnapshot [OF assms(1,2)] assms(3) by auto
next
  case False
  then show ?thesis using keeps_exec_op [OF assms(1)] assms(2,3) unfolding gives_def by blast
qed


section \<open>Clean accounts\<close>

text \<open>
  The whole journal undoes the run: rewinding it leads back to what the new state database showed.
\<close>

definition from_start :: "reader \<Rightarrow> 'l ctx_stores \<Rightarrow> 'l world \<Rightarrow> 'l StateDB \<Rightarrow> bool" where
  "from_start rd cc w0 s \<longleftrightarrow> sdb_ok rd cc s \<and> rewinds rd (rev (entries (jrnl s))) (world_of rd cc s) w0"

lemma step_from_start:
  assumes "sdb_step rd cw cc op s t" "from_start rd cc w0 s"
  shows "from_start rd cc w0 t"
proof -
  have s: "sdb_ok rd cc s" "rewinds rd (rev (entries (jrnl s))) (world_of rd cc s) w0"
    using assms(2) by (simp_all add: from_start_def)
  have t: "sdb_ok rd cc t" using step_ok [OF assms(1) s(1)] .
  consider (snap) "op = OpSnapshot" | (rev) i where "op = OpRevert i" | (other) "op \<noteq> OpSnapshot" "\<And>i. op \<noteq> OpRevert i"
    by blast
  then show ?thesis
  proof cases
    case snap
    then obtain i where i: "Snapshot s = (Inr i, t)" using assms(1) by (auto simp: sdb_step_def quiet_ok)
    have "entries (jrnl t) = entries (jrnl s)" using i by (auto simp: Snapshot_def)
    then show ?thesis using Snapshot_ok [OF s(1) i] s t by (simp add: from_start_def)
  next
    case (rev i)
    then have "RevertToSnapshot rd i s = (Inr (), t)" using assms(1) by (simp add: sdb_step_def)
    from RevertToSnapshot_ok [OF s(1) this] obtain j where
      j: "rewinds rd (List.rev (drop j (entries (jrnl s)))) (world_of rd cc s) (world_of rd cc t)"
      "entries (jrnl t) = take j (entries (jrnl s))" by metis
    have "rewinds rd (List.rev (drop j (entries (jrnl s))) @ List.rev (take j (entries (jrnl s)))) (world_of rd cc s) w0"
      using s(2) by (simp flip: rev_append)
    then show ?thesis using j t by (auto simp: from_start_def rewinds_append dest: rewinds_det)
  next
    case other
    then have "ext rd cc s t" using op_ext [of rd cc s cw op t] assms(1) s(1) by (simp add: sdb_step_def sdb_ok_def)
    then show ?thesis using s(2) t by (auto simp: from_start_def ext_def rewinds_append)
  qed
qed

interpretation from_start_run: invariant_system "sdb_step rd cw cc" "from_start rd cc w0"
  for rd :: reader and cw :: "'l cache_wrap" and cc :: "'l ctx_stores" and w0 :: "'l world"
  by unfold_locales (rule step_from_start)

interpretation shape_run: invariant_system "sdb_step rd cw cc" "\<lambda>s. codes_ok rd \<and> shape rd cc s"
  for rd :: reader and cw :: "'l cache_wrap" and cc :: "'l ctx_stores"
  by unfold_locales (auto simp: sdb_step_def intro: exec_op_shape)

text \<open>Only the mark of a new contract is not counted as dirty.\<close>

definition old_view :: "obj_view option \<Rightarrow> obj_view option" where
  "old_view v = map_option (\<lambda>v. v\<lparr>v_new := False\<rparr>) v"

lemma undo_clean:
  "undo rd e w = Some u \<Longrightarrow> Dirtied e \<noteq> Some a \<Longrightarrow> old_view (w_acct u a) = old_view (w_acct w a)"
  by (cases e) (auto simp: on_acct_def old_view_def split: if_splits option.splits sum.splits)

lemma rewinds_clean:
  "rewinds rd es w v \<Longrightarrow> \<forall>e\<in>set es. Dirtied e \<noteq> Some a \<Longrightarrow> old_view (w_acct v a) = old_view (w_acct w a)"
proof (induction es arbitrary: w)
  case (Cons e es)
  then show ?case using undo_clean [of rd e w _ a] by fastforce
qed simp

lemma dirty_counts_dom: "dirty_counts es a = None \<longleftrightarrow> (\<forall>e\<in>set es. Dirtied e \<noteq> Some a)"
proof (induction es rule: rev_induct)
  case Nil
  then show ?case by (simp add: dirty_counts_def)
next
  case (snoc e es)
  then show ?case by (auto simp: dirty_counts_snoc split: option.splits)
qed

lemma dirty_counts_finite: "finite (dom (dirty_counts es))"
proof (induction es rule: rev_induct)
  case Nil
  then show ?case by (simp add: dirty_counts_def)
next
  case (snoc e es)
  then show ?case by (auto simp: dirty_counts_snoc split: option.splits)
qed

lemma clean_account:
  assumes "from_start rd cc (world_of rd cc s0) s" "stateObjects s0 = Map.empty" "dirties (jrnl s) a = None"
  shows "old_view (w_acct (world_of rd cc s) a) = old_view (loaded rd a)"
proof -
  have "dirties (jrnl s) = dirty_counts (entries (jrnl s))"
    using assms(1) by (simp add: from_start_def sdb_ok_def sdb_pre_def)
  then have "\<forall>e\<in>set (rev (entries (jrnl s))). Dirtied e \<noteq> Some a"
    using assms(3) by (simp add: dirty_counts_dom)
  then have "old_view (w_acct (world_of rd cc s0) a) = old_view (w_acct (world_of rd cc s) a)"
    using assms(1) rewinds_clean by (metis from_start_def)
  then show ?thesis using assms(2) by (simp add: world_of_def)
qed

text \<open>A state database without objects and journal: as it is opened, or after it is prepared for a transaction.\<close>

definition fresh :: "reader \<Rightarrow> 'l ctx_stores \<Rightarrow> 'l StateDB \<Rightarrow> bool" where
  "fresh rd cc s \<longleftrightarrow> stateObjects s = Map.empty \<and> jrnl s = newJournal \<and> cacheCtx s = None \<and> sdb_ok rd cc s"

lemma fresh_New: "ctx_ok cc \<Longrightarrow> fresh rd cc (NewStateDB n m)"
  using New_ok [of cc rd n m] by (simp add: fresh_def) (simp add: NewStateDB_def)

lemma run_facts:
  assumes ok: "codes_ok rd" and fresh: "fresh rd cc s0" and run: "run (sdb_step rd cw cc) s0 ops s"
  shows "from_start rd cc (world_of rd cc s0) s" "shape rd cc s" "addressed s"
    "distinct (sortedDirties (jrnl s))" "set (sortedDirties (jrnl s)) = dom (dirties (jrnl s))"
proof -
  have e: "entries (jrnl s0) = []" using fresh by (simp add: fresh_def newJournal_def)
  have "sdb_ok rd cc s0" using fresh by (simp add: fresh_def)
  moreover from this have "\<exists>w. rewinds rd [] (world_of rd cc s0) w" by (simp add: sdb_ok_def e)
  ultimately have "from_start rd cc (world_of rd cc s0) s0" by (auto simp: from_start_def e)
  then show fs: "from_start rd cc (world_of rd cc s0) s" using from_start_run.run_inv [OF run] by blast
  have "shape rd cc s0" using fresh by (simp add: shape_def fresh_def newJournal_def)
  then show "shape rd cc s" using shape_run.run_inv [OF run] ok by blast
  have "dirties (jrnl s) = dirty_counts (entries (jrnl s))" and "addressed s"
    using fs by (simp_all add: from_start_def sdb_ok_def sdb_pre_def)
  then show "addressed s" "distinct (sortedDirties (jrnl s))" "set (sortedDirties (jrnl s)) = dom (dirties (jrnl s))"
    using dirty_counts_finite by (simp_all add: sortedDirties_def)
qed

section \<open>Unrestricted runs\<close>

text \<open>
  Any sequence of operations, with no condition on them: accounts may be created over existing ones
  and destructed again. Such a run need not be undone correctly by a revert, but it keeps the shape.
\<close>

definition free_step :: "reader \<Rightarrow> 'l cache_wrap \<Rightarrow> 'l ctx_stores \<Rightarrow> 'l sdb_op \<Rightarrow> 'l StateDB \<Rightarrow> 'l StateDB \<Rightarrow> bool" where
  "free_step rd cw cc op s t \<longleftrightarrow> exec_op rd cw cc op s = (Inr (), t)"

interpretation free_run: invariant_system "free_step rd cw cc" "\<lambda>s. codes_ok rd \<and> shape rd cc s"
  for rd :: reader and cw :: "'l cache_wrap" and cc :: "'l ctx_stores"
  by unfold_locales (auto simp: free_step_def intro: exec_op_shape)

lemma free_facts:
  assumes "codes_ok rd" "fresh rd cc s0" "run (free_step rd cw cc) s0 ops s"
  shows "shape rd cc s" "distinct (sortedDirties (jrnl s))" "cc = None \<Longrightarrow> cacheCtx s = None"
proof -
  have "shape rd cc s0" using assms(2) by (simp add: shape_def fresh_def newJournal_def)
  then show "shape rd cc s" using free_run.run_inv [OF assms(3)] assms(1) by blast
  then show "cc = None \<Longrightarrow> cacheCtx s = None" by (simp add: shape_def)
  show "distinct (sortedDirties (jrnl s))" by (simp add: sortedDirties_def)
qed

end
