(* ===== verification/Vm_Commit.thy ===== *)
theory Vm_Commit
  imports Vm_Store StateDB_Shape
begin

text \<open>
  The commit of a state database through the keeper: each write of an account, its code and its
  storage is read back by the keeper and touches no other account, so a state database opened on the
  committed store shows what the committed one showed.
\<close>

section \<open>Keys\<close>

lemma AddrBytes_inj [simp]: "AddrBytes a = AddrBytes b \<longleftrightarrow> a = b"
proof
  assume "AddrBytes a = AddrBytes b"
  moreover have "unat a < 256 ^ 20" "unat b < 256 ^ 20" using unsigned_less [of a] unsigned_less [of b] by simp_all
  ultimately have "unat a = unat b" unfolding AddrBytes_def by (metis be_fixed_inj)
  then show "a = b" by (rule unsigned_word_eqI)
qed simp

lemma HashBytes_inj [simp]: "HashBytes h = HashBytes g \<longleftrightarrow> h = g"
proof
  assume "HashBytes h = HashBytes g"
  moreover have "unat h < 256 ^ 32" "unat g < 256 ^ 32" using unsigned_less [of h] unsigned_less [of g] by simp_all
  ultimately have "unat h = unat g" unfolding HashBytes_def by (metis be_fixed_inj)
  then show "h = g" by (rule unsigned_word_eqI)
qed simp

lemma length_key_bytes [simp]: "length (AddrBytes a) = 20" "length (HashBytes h) = 32"
  by (simp_all add: AddrBytes_def HashBytes_def)

lemma SetBytes_append: "SetBytes (xs @ ys) = SetBytes xs * 256 ^ length ys + SetBytes ys"
proof (induction ys rule: rev_induct)
  case (snoc y ys)
  have "SetBytes (xs @ ys @ [y]) = SetBytes (xs @ ys) * 256 + nat_of_byte y"
    using SetBytes_snoc [of "xs @ ys" y] by simp
  then show ?case using snoc SetBytes_snoc [of ys y] by (simp add: algebra_simps)
qed simp

lemma BytesToHash_suffix [simp]: "BytesToHash (p @ HashBytes h) = h"
proof -
  have "unat h < 2 ^ 256" using unsigned_less [of h] by simp
  then have "SetBytes (HashBytes h) = unat h"
    by (simp add: HashBytes_def codec_simps)
  then have "BytesToHash (p @ HashBytes h) = word_of_nat (SetBytes p * 256 ^ 32 + unat h)"
    by (simp add: BytesToHash_def SetBytes_append)
  moreover have "(word_of_nat (SetBytes p * 256 ^ 32) :: hash) = 0"
  proof -
    have "(256 :: nat) ^ 32 = 2 ^ LENGTH(256)" by simp
    then show ?thesis by (simp only: word_of_nat_eq_0_iff dvd_triv_right)
  qed
  ultimately show ?thesis by (simp only: of_nat_add add_0_left) simp
qed

lemma BytesToHash_HashBytes [simp]: "BytesToHash (HashBytes h) = h"
  using BytesToHash_suffix [of "[]" h] by simp

lemma HashBytes_neq_Nil [simp]: "HashBytes h \<noteq> []"
  using length_key_bytes(2) [of h] by (metis length_0_conv zero_neq_numeral)

lemmas key_defs = StateKey_def AddressStoragePrefix_def KeyPrefixStorage_def KeyPrefixCode_def KeyPrefixCodeHash_def

lemma StateKey_inj [simp]: "StateKey a (HashBytes k) = StateKey b (HashBytes l) \<longleftrightarrow> a = b \<and> k = l"
  by (simp add: key_defs)

section \<open>Laws of the outside keepers\<close>

definition same_bank :: "('w, 'a) vm_keepers \<Rightarrow> bytes \<Rightarrow> 'w \<Rightarrow> 'w \<Rightarrow> bool" where
  "same_bank ks a w w' \<longleftrightarrow> (\<forall>d. bk_SpendableCoin ks a d w' = bk_SpendableCoin ks a d w \<and>
     bk_LockedCoins ks a d w' = bk_LockedCoins ks a d w \<and> bk_GetBalance ks a d w' = bk_GetBalance ks a d w)"

text \<open>
  The account keeper: an account is stored under its address; setting the sequence changes nothing
  else; storing an account with a new sequence, or a fresh account, changes nobody's coins; storing
  or removing an account touches no other address.
\<close>

definition account_laws :: "('w, 'a) vm_keepers \<Rightarrow> bool" where
  "account_laws ks \<longleftrightarrow>
     (\<forall>a w x. ak_GetAccount ks a w = Some x \<longrightarrow> ak_GetAddress ks x = a) \<and>
     (\<forall>a w x w'. ak_NewAccountWithAddress ks a w = (x, w') \<longrightarrow> ak_GetAddress ks x = a \<and>
        (\<forall>b. ak_GetAccount ks b w' = ak_GetAccount ks b w \<and> same_bank ks b w w')) \<and>
     (\<forall>x w a. ak_GetAccount ks a (ak_SetAccount ks x w) = (if a = ak_GetAddress ks x then Some x else ak_GetAccount ks a w)) \<and>
     (\<forall>x w a. a \<noteq> ak_GetAddress ks x \<longrightarrow> same_bank ks a w (ak_SetAccount ks x w)) \<and>
     (\<forall>n x y. ak_SetSequence ks n x = Inr y \<longrightarrow> ak_GetAddress ks y = ak_GetAddress ks x \<and> ak_GetSequence ks y = n) \<and>
     (\<forall>n x y w. ak_SetSequence ks n x = Inr y \<longrightarrow>
        ak_GetAccount ks (ak_GetAddress ks x) w = Some x \<or>
        ak_GetAccount ks (ak_GetAddress ks x) w = None \<and> (\<exists>v v'. ak_NewAccountWithAddress ks (ak_GetAddress ks x) v = (x, v')) \<longrightarrow>
        same_bank ks (ak_GetAddress ks x) w (ak_SetAccount ks y w)) \<and>
     (\<forall>x w a. ak_GetAccount ks a (ak_RemoveAccount ks x w) = (if a = ak_GetAddress ks x then None else ak_GetAccount ks a w)) \<and>
     (\<forall>x w a. a \<noteq> ak_GetAddress ks x \<longrightarrow> same_bank ks a w (ak_RemoveAccount ks x w)) \<and>
     (\<forall>a x. ak_GetAddress ks (ak_NewBaseAccount ks a x) = a)"

text \<open>The bank keeper: setting one balance makes all of it above the locked part spendable, and changes nothing else.\<close>

definition bank_laws :: "('w, 'a) vm_keepers \<Rightarrow> bool" where
  "bank_laws ks \<longleftrightarrow> (\<forall>a d n w w'. bk_UncheckedSetBalance ks a (d, n) w = (Inr (), w') \<longrightarrow>
     (\<forall>b. ak_GetAccount ks b w' = ak_GetAccount ks b w) \<and>
     (\<forall>b e. bk_LockedCoins ks b e w' = bk_LockedCoins ks b e w) \<and>
     (\<forall>b e. bk_GetBalance ks b e w' = (if b = a \<and> e = d then n else bk_GetBalance ks b e w)) \<and>
     (\<forall>b e. bk_SpendableCoin ks b e w' =
        (if b = a \<and> e = d then max 0 (n - bk_LockedCoins ks a d w) else bk_SpendableCoin ks b e w)))"

definition keeper_laws :: "('w, 'a) vm_keepers \<Rightarrow> bool" where
  "keeper_laws ks \<longleftrightarrow> account_laws ks \<and> bank_laws ks \<and> ci_Denom (vk_coin ks) = ci_ExtendedDenom (vk_coin ks)"

lemma account_lawsD:
  assumes "account_laws ks"
  shows "ak_GetAccount ks a w = Some x \<Longrightarrow> ak_GetAddress ks x = a"
    and "ak_NewAccountWithAddress ks a w = (x, w') \<Longrightarrow> ak_GetAddress ks x = a"
    and "ak_NewAccountWithAddress ks a w = (x, w') \<Longrightarrow> ak_GetAccount ks b w' = ak_GetAccount ks b w"
    and "ak_NewAccountWithAddress ks a w = (x, w') \<Longrightarrow> same_bank ks b w w'"
    and "ak_GetAccount ks a (ak_SetAccount ks x w) = (if a = ak_GetAddress ks x then Some x else ak_GetAccount ks a w)"
    and "a \<noteq> ak_GetAddress ks x \<Longrightarrow> same_bank ks a w (ak_SetAccount ks x w)"
    and "ak_SetSequence ks n x = Inr y \<Longrightarrow> ak_GetAddress ks y = ak_GetAddress ks x"
    and "ak_SetSequence ks n x = Inr y \<Longrightarrow> ak_GetSequence ks y = n"
    and "ak_SetSequence ks n x = Inr y \<Longrightarrow> ak_GetAccount ks (ak_GetAddress ks x) w = Some x \<Longrightarrow>
      same_bank ks (ak_GetAddress ks x) w (ak_SetAccount ks y w)"
    and "ak_SetSequence ks n x = Inr y \<Longrightarrow> ak_GetAccount ks (ak_GetAddress ks x) w = None \<Longrightarrow>
      ak_NewAccountWithAddress ks (ak_GetAddress ks x) v = (x, v') \<Longrightarrow> same_bank ks (ak_GetAddress ks x) w (ak_SetAccount ks y w)"
    and "ak_GetAccount ks a (ak_RemoveAccount ks x w) = (if a = ak_GetAddress ks x then None else ak_GetAccount ks a w)"
    and "a \<noteq> ak_GetAddress ks x \<Longrightarrow> same_bank ks a w (ak_RemoveAccount ks x w)"
    and "ak_GetAddress ks (ak_NewBaseAccount ks a x) = a"
proof -
  note l = assms [unfolded account_laws_def]
  show "ak_GetAccount ks a w = Some x \<Longrightarrow> ak_GetAddress ks x = a"
    using l [THEN conjunct1] by blast
  show "ak_NewAccountWithAddress ks a w = (x, w') \<Longrightarrow> ak_GetAddress ks x = a"
    using l [THEN conjunct2, THEN conjunct1] by blast
  show "ak_NewAccountWithAddress ks a w = (x, w') \<Longrightarrow> ak_GetAccount ks b w' = ak_GetAccount ks b w"
    using l [THEN conjunct2, THEN conjunct1] by blast
  show "ak_NewAccountWithAddress ks a w = (x, w') \<Longrightarrow> same_bank ks b w w'"
    using l [THEN conjunct2, THEN conjunct1] by blast
  show "ak_GetAccount ks a (ak_SetAccount ks x w) = (if a = ak_GetAddress ks x then Some x else ak_GetAccount ks a w)"
    using l [THEN conjunct2, THEN conjunct2, THEN conjunct1] by blast
  show "a \<noteq> ak_GetAddress ks x \<Longrightarrow> same_bank ks a w (ak_SetAccount ks x w)"
    using l [THEN conjunct2, THEN conjunct2, THEN conjunct2, THEN conjunct1] by blast
  show "ak_SetSequence ks n x = Inr y \<Longrightarrow> ak_GetAddress ks y = ak_GetAddress ks x"
    using l [THEN conjunct2, THEN conjunct2, THEN conjunct2, THEN conjunct2, THEN conjunct1] by blast
  show "ak_SetSequence ks n x = Inr y \<Longrightarrow> ak_GetSequence ks y = n"
    using l [THEN conjunct2, THEN conjunct2, THEN conjunct2, THEN conjunct2, THEN conjunct1] by blast
  show "ak_SetSequence ks n x = Inr y \<Longrightarrow> ak_GetAccount ks (ak_GetAddress ks x) w = Some x \<Longrightarrow>
      same_bank ks (ak_GetAddress ks x) w (ak_SetAccount ks y w)"
    using l [THEN conjunct2, THEN conjunct2, THEN conjunct2, THEN conjunct2, THEN conjunct2, THEN conjunct1] by blast
  show "ak_SetSequence ks n x = Inr y \<Longrightarrow> ak_GetAccount ks (ak_GetAddress ks x) w = None \<Longrightarrow>
      ak_NewAccountWithAddress ks (ak_GetAddress ks x) v = (x, v') \<Longrightarrow> same_bank ks (ak_GetAddress ks x) w (ak_SetAccount ks y w)"
    using l [THEN conjunct2, THEN conjunct2, THEN conjunct2, THEN conjunct2, THEN conjunct2, THEN conjunct1] by blast
  show "ak_GetAccount ks a (ak_RemoveAccount ks x w) = (if a = ak_GetAddress ks x then None else ak_GetAccount ks a w)"
    using l [THEN conjunct2, THEN conjunct2, THEN conjunct2, THEN conjunct2, THEN conjunct2, THEN conjunct2, THEN conjunct1] by blast
  show "a \<noteq> ak_GetAddress ks x \<Longrightarrow> same_bank ks a w (ak_RemoveAccount ks x w)"
    using l [THEN conjunct2, THEN conjunct2, THEN conjunct2, THEN conjunct2, THEN conjunct2, THEN conjunct2, THEN conjunct2, THEN conjunct1] by blast
  show "ak_GetAddress ks (ak_NewBaseAccount ks a x) = a"
    using l [THEN conjunct2, THEN conjunct2, THEN conjunct2, THEN conjunct2, THEN conjunct2, THEN conjunct2, THEN conjunct2, THEN conjunct2] by blast
qed

lemma same_bank_refl [simp]: "same_bank ks a w w"
  by (simp add: same_bank_def)

lemma same_bank_trans: "same_bank ks a u v \<Longrightarrow> same_bank ks a v w \<Longrightarrow> same_bank ks a u w"
  by (simp add: same_bank_def)

section \<open>What a context shows of an account\<close>

text \<open>The part of a context that holds one account: its account, its coins, its code hash and its storage.\<close>

definition same_account :: "('w, 'a) vm_keepers \<Rightarrow> address \<Rightarrow> 'w vm_ctx \<Rightarrow> 'w vm_ctx \<Rightarrow> bool" where
  "same_account ks a c c' \<longleftrightarrow>
     ak_GetAccount ks (AddrBytes a) (vc_world c') = ak_GetAccount ks (AddrBytes a) (vc_world c) \<and>
     same_bank ks (AddrBytes a) (vc_world c) (vc_world c') \<and> KeeperGetAccount ks c' a = KeeperGetAccount ks c a \<and>
     lockedCoin ks a c' = lockedCoin ks a c \<and> (\<forall>k. KeeperGetState c' a k = KeeperGetState c a k)"

lemma same_account_refl [simp]: "same_account ks a c c"
  by (simp add: same_account_def)

lemma same_account_trans: "same_account ks a c d \<Longrightarrow> same_account ks a d e \<Longrightarrow> same_account ks a c e"
  by (auto simp: same_account_def same_bank_def)

lemma same_account_store:
  assumes "\<And>k. kv_get m (StateKey a (HashBytes k)) = kv_get (vc_store c) (StateKey a (HashBytes k))"
    and "kv_get m (KeyPrefixCodeHash @ AddrBytes a) = kv_get (vc_store c) (KeyPrefixCodeHash @ AddrBytes a)"
  shows "same_account ks a c (c\<lparr>vc_store := m\<rparr>)"
  using assms by (simp add: same_account_def KeeperGetAccount_def KSpendableCoin_def KGetCodeHash_def lockedCoin_def KeeperGetState_def split: option.split)

lemma same_account_world:
  assumes "ak_GetAccount ks (AddrBytes a) w = ak_GetAccount ks (AddrBytes a) (vc_world c)" "same_bank ks (AddrBytes a) (vc_world c) w"
  shows "same_account ks a c (c\<lparr>vc_world := w\<rparr>)"
  using assms
  by (simp add: same_account_def same_bank_def KeeperGetAccount_def KSpendableCoin_def WSpendableCoin_def KGetCodeHash_def
      lockedCoin_def KeeperGetState_def split: option.split)

text \<open>Codes live under their own prefix.\<close>

lemma code_of_store [simp]:
  "KeeperGetCode (c\<lparr>vc_world := w\<rparr>) h = KeeperGetCode c h"
  "KeeperGetCode (KeeperSetCode g code c) h = (if h = g then Some code else KeeperGetCode c h)"
  "KeeperGetCode (KeeperDeleteCode g c) h = (if h = g then None else KeeperGetCode c h)"
  "KeeperGetCode (KeeperSetState a k v c) h = KeeperGetCode c h"
  "KeeperGetCode (KeeperDeleteState a k c) h = KeeperGetCode c h"
  by (simp_all add: KeeperGetCode_def KeeperSetCode_def KeeperDeleteCode_def KeeperSetState_def KeeperDeleteState_def
      kv_set_def kv_delete_def key_defs)

lemma same_account_code [simp]:
  "same_account ks a c (KeeperSetCode h code c)" "same_account ks a c (KeeperDeleteCode h c)"
  unfolding KeeperSetCode_def KeeperDeleteCode_def by (rule same_account_store; simp add: key_defs)+

lemma same_account_state:
  "b \<noteq> a \<Longrightarrow> same_account ks b c (KeeperSetState a k v c)" "b \<noteq> a \<Longrightarrow> same_account ks b c (KeeperDeleteState a k c)"
  unfolding KeeperSetState_def KeeperDeleteState_def by (rule same_account_store; simp add: key_defs)+

lemma own_state [simp]:
  "KeeperGetState (KeeperSetState a k v c) a l = (if l = k then (if v = [] then 0 else BytesToHash v) else KeeperGetState c a l)"
  "KeeperGetState (KeeperDeleteState a k c) a l = (if l = k then 0 else KeeperGetState c a l)"
  "KeeperGetAccount ks (KeeperSetState a k v c) b = KeeperGetAccount ks c b"
  "KeeperGetAccount ks (KeeperDeleteState a k c) b = KeeperGetAccount ks c b"
  "lockedCoin ks b (KeeperSetState a k v c) = lockedCoin ks b c"
  "lockedCoin ks b (KeeperDeleteState a k c) = lockedCoin ks b c"
  by (simp_all add: KeeperGetState_def KeeperSetState_def KeeperDeleteState_def KeeperGetAccount_def KSpendableCoin_def
      KGetCodeHash_def lockedCoin_def key_defs Let_def split: option.split)

section \<open>Writing an account\<close>

lemmas law_defs = keeper_laws_def account_laws_def bank_laws_def

lemma SetBalance_effect:
  assumes "keeper_laws ks" "SetBalanceWithLocked ks a (Some amt) l c = (Inr (), c')"
  obtains w where "c' = c\<lparr>vc_world := w\<rparr>" "\<And>b. ak_GetAccount ks b w = ak_GetAccount ks b (vc_world c)"
    "\<And>b. b \<noteq> AddrBytes a \<Longrightarrow> same_bank ks b (vc_world c) w"
    "\<And>b e. bk_LockedCoins ks b e w = bk_LockedCoins ks b e (vc_world c)"
    "bk_SpendableCoin ks (AddrBytes a) (ci_ExtendedDenom (vk_coin ks)) w = max 0 (uint amt + l - lockedCoin ks a c)"
proof -
  have d: "ci_Denom (vk_coin ks) = ci_ExtendedDenom (vk_coin ks)" and bank: "bank_laws ks"
    using assms(1) by (simp_all add: keeper_laws_def)
  obtain w where w: "c' = c\<lparr>vc_world := w\<rparr>"
    "bk_UncheckedSetBalance ks (AddrBytes a) (ci_ExtendedDenom (vk_coin ks), uint amt + l) (vc_world c) = (Inr (), w)"
    using assms(2)
    by (auto simp: SetBalanceWithLocked_def Let_def handler_simps vmW_def WSetBalance_def EvmDenom_def
        ConvertEvmCoinDenomToExtendedDenom_def GetEVMCoinDenom_def GetEVMCoinExtendedDenom_def getCoinInfo_def
        split: prod.splits)
  show thesis
    by (rule that [OF w(1)]) (use bank w(2) d in \<open>auto simp: bank_laws_def same_bank_def lockedCoin_def EvmDenom_def\<close>)
qed

text \<open>What the keeper reads of an account just written.\<close>

lemma SetAccountBalance_effect:
  assumes "keeper_laws ks" "SetAccountBalance ks a account c = (Inr (), c')" "acc_Balance account = Some bal"
    and "acc_lockedBalance account \<in> {None, Some (lockedCoin ks a c)}"
  obtains w where "c' = c\<lparr>vc_world := w\<rparr>" "\<And>b. ak_GetAccount ks b w = ak_GetAccount ks b (vc_world c)"
    "\<And>b. b \<noteq> AddrBytes a \<Longrightarrow> same_bank ks b (vc_world c) w"
    "\<And>b e. bk_LockedCoins ks b e w = bk_LockedCoins ks b e (vc_world c)"
    "KSpendableCoin ks a c' = Some bal"
proof -
  have "SetBalanceWithLocked ks a (Some bal) (lockedCoin ks a c) c = (Inr (), c')"
    using assms(2-4) by (auto simp: SetAccountBalance_def KSetBalance_def handler_simps split: option.splits)
  from SetBalance_effect [OF assms(1) this] obtain w where
    w: "c' = c\<lparr>vc_world := w\<rparr>" "\<And>b. ak_GetAccount ks b w = ak_GetAccount ks b (vc_world c)"
    "\<And>b. b \<noteq> AddrBytes a \<Longrightarrow> same_bank ks b (vc_world c) w"
    "\<And>b e. bk_LockedCoins ks b e w = bk_LockedCoins ks b e (vc_world c)"
    "bk_SpendableCoin ks (AddrBytes a) (ci_ExtendedDenom (vk_coin ks)) w = max 0 (uint bal + lockedCoin ks a c - lockedCoin ks a c)"
    by blast
  have "uint bal < 2 ^ 256" using uint_lt2p [of bal] by simp
  then have "KSpendableCoin ks a c' = Some bal"
    using w(1,5) by (simp add: KSpendableCoin_def WSpendableCoin_def Uint256FromBigInt_def bindR_def thenR_def require_def)
  then show thesis using that w(1-4) by blast
qed

lemma KeeperSetAccount_effect:
  assumes laws: "keeper_laws ks" and set: "KeeperSetAccount ks a account c = (Inr (), c')"
    and account: "acc_Balance account = Some bal" "acc_CodeHash account = Some h"
    and locked: "acc_lockedBalance account \<in> {None, Some (lockedCoin ks a c)}"
  shows "KeeperGetAccount ks c' a = Some \<lparr>acc_Nonce = acc_Nonce account, acc_Balance = Some bal,
      acc_CodeHash = Some h, acc_lockedBalance = Some (lockedCoin ks a c)\<rparr>" (is ?own)
    and "KeeperGetState c' a k = KeeperGetState c a k" and "KeeperGetCode c' g = KeeperGetCode c g"
    and "b \<noteq> a \<Longrightarrow> same_account ks b c c'" and "lockedCoin ks a c' = lockedCoin ks a c"
    and "finite (dom (vc_store c)) \<Longrightarrow> finite (dom (vc_store c'))"
proof -
  have acc: "account_laws ks" using laws by (simp add: keeper_laws_def)
  define start where "start = (\<lambda>c. case ak_GetAccount ks (AddrBytes a) (vc_world c) of
         Some acct \<Rightarrow> (Inr acct, c)
       | None \<Rightarrow> vmW (\<lambda>w. case ak_NewAccountWithAddress ks (AddrBytes a) w of (acct, w') \<Rightarrow> (Inr acct, w')) c)"
  obtain x c1 y where one: "start c = (Inr x, c1)" and y: "ak_SetSequence ks (acc_Nonce account) x = Inr y"
    and rest: "thenE (if h = vm_Keccak256 ks [] then DeleteCodeHash a else SetCodeHash a h)
       (thenE (vmW (\<lambda>w. (Inr (), ak_SetAccount ks y w))) (SetAccountBalance ks a account)) c1 = (Inr (), c')"
    using set unfolding KeeperSetAccount_def start_def [symmetric] account(2) option.case bindE_ok [of start]
    by (simp only: bindE_ok liftE_eq) metis
  obtain w1 where c1: "c1 = c\<lparr>vc_world := w1\<rparr>" and
    x: "ak_GetAccount ks (AddrBytes a) (vc_world c) = Some x \<and> w1 = vc_world c \<or>
        ak_GetAccount ks (AddrBytes a) (vc_world c) = None \<and> ak_NewAccountWithAddress ks (AddrBytes a) (vc_world c) = (x, w1)"
    using one by (auto simp: start_def vmW_def split: option.splits prod.splits)
  define c3 where c3: "c3 = c\<lparr>vc_store := (if h = vm_Keccak256 ks [] then kv_delete (KeyPrefixCodeHash @ AddrBytes a)
        else kv_set (KeyPrefixCodeHash @ AddrBytes a) (HashBytes h)) (vc_store c), vc_world := ak_SetAccount ks y w1\<rparr>"
  have bal: "SetAccountBalance ks a account c3 = (Inr (), c')"
    using rest unfolding c1 c3 by (auto simp: thenE_def bindE_def DeleteCodeHash_def SetCodeHash_def vmS_def vmW_def split: if_splits)
  note law = account_lawsD [OF acc]
  have w1: "ak_GetAccount ks b w1 = ak_GetAccount ks b (vc_world c)" "same_bank ks b (vc_world c) w1" for b
    using x law(3,4) by auto
  have ax: "ak_GetAddress ks x = AddrBytes a" using x law(1,2) by blast
  have ay: "ak_GetAddress ks y = AddrBytes a" "ak_GetSequence ks y = acc_Nonce account"
    using law(7,8) [OF y] ax by simp_all
  have own: "same_bank ks (AddrBytes a) w1 (ak_SetAccount ks y w1)"
    using x law(9,10) [OF y, of w1] w1(1) ax by auto
  have bank: "same_bank ks b (vc_world c) (ak_SetAccount ks y w1)" for b
    using same_bank_trans [OF w1(2)] own law(6) ay(1) by (cases "b = AddrBytes a") auto
  then have locked3: "lockedCoin ks b c3 = lockedCoin ks b c" for b by (simp add: c3 lockedCoin_def same_bank_def)
  obtain w where w: "c' = c3\<lparr>vc_world := w\<rparr>" "\<And>b. ak_GetAccount ks b w = ak_GetAccount ks b (vc_world c3)"
    "\<And>b. b \<noteq> AddrBytes a \<Longrightarrow> same_bank ks b (vc_world c3) w"
    "\<And>b e. bk_LockedCoins ks b e w = bk_LockedCoins ks b e (vc_world c3)" "KSpendableCoin ks a c' = Some bal"
    using SetAccountBalance_effect [OF laws bal account(1)] locked locked3 by metis
  have ya: "ak_GetAccount ks (AddrBytes a) (vc_world c') = Some y" using w(1,2) law(5) ay(1) by (simp add: c3)
  have lk: "lockedCoin ks a c' = lockedCoin ks a c" using w(1,4) locked3 by (simp add: lockedCoin_def)
  then show "lockedCoin ks a c' = lockedCoin ks a c" .
  have "KGetCodeHash ks a c' = h" by (simp add: KGetCodeHash_def w(1) c3)
  then show ?own using ya ay(2) lk w(5) by (simp add: KeeperGetAccount_def)
  show "KeeperGetState c' a k = KeeperGetState c a k" by (simp add: KeeperGetState_def w(1) c3 key_defs)
  show "KeeperGetCode c' g = KeeperGetCode c g" by (simp add: KeeperGetCode_def w(1) c3 key_defs kv_set_def kv_delete_def)
  show "finite (dom (vc_store c)) \<Longrightarrow> finite (dom (vc_store c'))" by (simp add: w(1) c3)
  show "same_account ks b c c'" if "b \<noteq> a"
  proof -
    have st: "same_account ks b c (c\<lparr>vc_store := vc_store c'\<rparr>)"
      using that by (intro same_account_store) (simp_all add: w(1) c3 key_defs)
    have "same_account ks b (c\<lparr>vc_store := vc_store c'\<rparr>) (c\<lparr>vc_store := vc_store c'\<rparr>\<lparr>vc_world := w\<rparr>)"
    proof (rule same_account_world)
      have "same_bank ks (AddrBytes b) (vc_world c3) w" using w(3) that by simp
      then show "same_bank ks (AddrBytes b) (vc_world (c\<lparr>vc_store := vc_store c'\<rparr>)) w"
        using same_bank_trans [OF bank, of "AddrBytes b" w] by (simp add: c3)
      show "ak_GetAccount ks (AddrBytes b) w = ak_GetAccount ks (AddrBytes b) (vc_world (c\<lparr>vc_store := vc_store c'\<rparr>))"
        using that w(2) law(5) ay(1) w1(1) by (simp add: c3)
    qed
    moreover have "c\<lparr>vc_store := vc_store c'\<rparr>\<lparr>vc_world := w\<rparr> = c'" by (simp add: w(1) c3)
    ultimately show ?thesis using st same_account_trans by metis
  qed
qed


section \<open>Deleting an account\<close>

lemma delete_all_state:
  "KeeperGetState (fold (KeeperDeleteState a) ks c) a k = (if k \<in> set ks then 0 else KeeperGetState c a k)"
  "KeeperGetCode (fold (KeeperDeleteState a) ks c) h = KeeperGetCode c h"
  "b \<noteq> a \<Longrightarrow> same_account kps b c (fold (KeeperDeleteState a) ks c)"
  "vc_world (fold (KeeperDeleteState a) ks c) = vc_world c"
  "finite (dom (vc_store c)) \<Longrightarrow> finite (dom (vc_store (fold (KeeperDeleteState a) ks c)))"
proof (induction ks arbitrary: c)
  case (Cons x ks)
  { case 1 then show ?case using Cons(1) by simp }
  { case 2 then show ?case using Cons(2) by simp }
  { case 3 then show ?case using same_account_trans [OF same_account_state(2) [of b a kps c x] Cons(3)] by simp }
  { case 4 then show ?case using Cons(4) by (simp add: KeeperDeleteState_def) }
  { case 5 then show ?case using Cons(5) by (simp add: KeeperDeleteState_def) }
qed simp_all

lemma stored_key_listed:
  assumes "finite (dom (vc_store c))" "KeeperGetState c a k \<noteq> 0"
  shows "k \<in> set (map fst (ForEachStorage c a))"
proof -
  have "kv_has (vc_store c) (StateKey a (HashBytes k))"
    using assms(2) by (auto simp: KeeperGetState_def kv_has_def kv_get_def Let_def split: option.splits)
  then have "StateKey a (HashBytes k) \<in> set (prefix_keys (vc_store c) (AddressStoragePrefix a))"
    using prefix_keys_props(1) [OF assms(1)] by (simp add: HasPrefix_def StateKey_def)
  moreover have "BytesToHash (StateKey a (HashBytes k)) = k" by (simp add: StateKey_def)
  ultimately show ?thesis unfolding ForEachStorage_def by force
qed

lemma KeeperDeleteAccount_effect:
  assumes laws: "keeper_laws ks" and del: "KeeperDeleteAccount ks a c = (Inr (), c')" and fin: "finite (dom (vc_store c))"
  shows "KeeperGetAccount ks c' a = None" and "KeeperGetCode c' g = KeeperGetCode c g"
    and "b \<noteq> a \<Longrightarrow> same_account ks b c c'"
    and "KeeperGetAccount ks c a \<noteq> None \<Longrightarrow> KeeperGetState c' a k = 0"
    and "finite (dom (vc_store c'))"
proof -
  have acc: "account_laws ks" using laws by (simp add: keeper_laws_def)
  have "KeeperGetAccount ks c' a = None \<and> KeeperGetCode c' g = KeeperGetCode c g \<and> (b \<noteq> a \<longrightarrow> same_account ks b c c') \<and>
    (KeeperGetAccount ks c a \<noteq> None \<longrightarrow> KeeperGetState c' a k = 0) \<and> finite (dom (vc_store c'))"
  proof (cases "ak_GetAccount ks (AddrBytes a) (vc_world c)")
    case None
    then have "c' = c" using del by (simp add: KeeperDeleteAccount_def bindE_def getsE_def)
    then show ?thesis using None fin by (simp add: KeeperGetAccount_def)
  next
    case (Some x)
    define w1 where "w1 = ak_SetAccount ks (ak_NewBaseAccount ks (AddrBytes a) x) (vc_world c)"
    define clear where "clear = (\<lambda>c :: 'a vm_ctx. fold (KeeperDeleteState a) (map fst (ForEachStorage c a)) c)"
    obtain c2 where bal: "SetBalanceWithLocked ks a (Some 0) 0 (c\<lparr>vc_world := w1\<rparr>) = (Inr (), c2)"
      and c': "c' = (clear c2)\<lparr>vc_store := kv_delete (KeyPrefixCodeHash @ AddrBytes a) (vc_store (clear c2)),
           vc_world := ak_RemoveAccount ks x (vc_world c2)\<rparr>"
    proof -
      have "thenE (SetBalanceWithLocked ks a (Some 0) 0) (thenE (modifyE clear) (thenE (DeleteCodeHash a)
          (vmW (\<lambda>w. (Inr (), ak_RemoveAccount ks x w))))) (c\<lparr>vc_world := w1\<rparr>) = (Inr (), c')"
        using del Some unfolding KeeperDeleteAccount_def clear_def [symmetric]
        by (auto simp: bindE_ok getsE_eq thenE_ok [of "readE _"] thenE_ok [of "vmW _"] readE_eq require_ok vmW_def w1_def)
      moreover have "vc_world (clear u) = vc_world u" for u by (simp add: clear_def delete_all_state(4))
      ultimately show thesis using that by (auto simp: thenE_ok modifyE_eq DeleteCodeHash_def vmS_def vmW_def)
    qed
    from SetBalance_effect [OF laws bal] obtain w where
      w: "c2 = c\<lparr>vc_world := w\<rparr>" "\<And>b. ak_GetAccount ks b w = ak_GetAccount ks b w1"
      "\<And>b. b \<noteq> AddrBytes a \<Longrightarrow> same_bank ks b w1 w" by auto
    define d where "d = fold (KeeperDeleteState a) (map fst (ForEachStorage c2 a)) c2"
    have d: "c' = d\<lparr>vc_store := kv_delete (KeyPrefixCodeHash @ AddrBytes a) (vc_store d)\<rparr>\<lparr>vc_world := ak_RemoveAccount ks x w\<rparr>"
      using c' w(1) by (simp add: d_def clear_def)
    note law = account_lawsD [OF acc]
    have ax: "ak_GetAddress ks x = AddrBytes a" using Some law(1) by blast
    have dw: "vc_world d = w" using w(1) by (simp add: d_def delete_all_state(4))
    have "KeeperGetAccount ks c' a = None" using ax by (simp add: d KeeperGetAccount_def law(11))
    moreover have "KeeperGetCode c' g = KeeperGetCode c g"
    proof -
      have "KeeperGetCode d g = KeeperGetCode c g" by (simp add: d_def delete_all_state(2) w(1))
      then show ?thesis by (simp add: d KeeperGetCode_def key_defs kv_delete_def)
    qed
    moreover have "KeeperGetState c' a k = 0"
    proof -
      have "KeeperGetState d a k = 0"
        using stored_key_listed [of c2 a k] fin w(1) by (auto simp: d_def delete_all_state(1))
      then show ?thesis by (simp add: d KeeperGetState_def key_defs)
    qed
    moreover have "finite (dom (vc_store c'))"
    proof -
      have "finite (dom (vc_store d))" unfolding d_def by (rule delete_all_state(5)) (use fin w(1) in simp)
      then show ?thesis by (simp add: d)
    qed
    moreover have "same_account ks b c c'" if b: "b \<noteq> a"
    proof -
      have nb: "AddrBytes b \<noteq> ak_GetAddress ks (ak_NewBaseAccount ks (AddrBytes a) x)" "AddrBytes b \<noteq> ak_GetAddress ks x"
        using b ax law(13) by simp_all
      have "same_account ks b c c2"
        unfolding w(1)
      proof (rule same_account_world)
        show "ak_GetAccount ks (AddrBytes b) w = ak_GetAccount ks (AddrBytes b) (vc_world c)"
          using nb(1) w(2) law(5) by (simp add: w1_def)
        show "same_bank ks (AddrBytes b) (vc_world c) w"
          using same_bank_trans [OF law(6) [OF nb(1)] w(3) [unfolded w1_def]] b by simp
      qed
      moreover have "same_account ks b c2 d" unfolding d_def by (rule delete_all_state(3) [OF b])
      moreover have "same_account ks b d (d\<lparr>vc_store := kv_delete (KeyPrefixCodeHash @ AddrBytes a) (vc_store d)\<rparr>)"
        using b by (intro same_account_store) (simp_all add: key_defs)
      moreover have "same_account ks b (d\<lparr>vc_store := kv_delete (KeyPrefixCodeHash @ AddrBytes a) (vc_store d)\<rparr>) c'"
        unfolding d using nb(2) dw law(11) law(12) [OF nb(2)] by (intro same_account_world) simp_all
      ultimately show ?thesis using same_account_trans by blast
    qed
    ultimately show ?thesis by blast
  qed
  then show "KeeperGetAccount ks c' a = None" "KeeperGetCode c' g = KeeperGetCode c g"
    "b \<noteq> a \<Longrightarrow> same_account ks b c c'" "KeeperGetAccount ks c a \<noteq> None \<Longrightarrow> KeeperGetState c' a k = 0"
    "finite (dom (vc_store c'))" by blast+
qed

end
