(* ===== verification/Vm_Demo.thy ===== *)
theory Vm_Demo
  imports Vm_Commit
begin

text \<open>
  A concrete account and bank keeper for the examples: accounts are pairs of an address and a
  sequence, balances a function, nothing is locked; the account at address 9 belongs to the modules. It satisfies the laws that the EVM keeper
  relies on.
\<close>

type_synonym demo_world = "(bytes \<rightharpoonup> uint64) \<times> (bytes \<Rightarrow> string \<Rightarrow> int)"

definition demo_send :: "bytes \<Rightarrow> bytes \<Rightarrow> (string \<times> int) list \<Rightarrow> demo_world \<Rightarrow> unit result \<times> demo_world" where
  "demo_send from to coins w =
     (if \<exists>c\<in>set coins. snd w from (fst c) < snd c then (Inl (Err ''insufficient funds''), w)
      else (Inr (), fst w, fold (\<lambda>(d, n) b. let b' = b(from := (b from)(d := b from d - n)) in
              b'(to := (b' to)(d := b' to d + n))) coins (snd w)))"

definition demo_keepers :: "(demo_world, bytes \<times> uint64) vm_keepers" where
  "demo_keepers = \<lparr>
     ak_GetAccount = \<lambda>a w. map_option (Pair a) (fst w a),
     ak_NewAccountWithAddress = \<lambda>a w. ((a, 0), w),
     ak_SetAccount = \<lambda>x w. ((fst w)(fst x \<mapsto> snd x), snd w),
     ak_RemoveAccount = \<lambda>x w. ((fst w)(fst x := None), snd w),
     ak_GetAddress = fst, ak_GetSequence = snd,
     ak_SetSequence = \<lambda>n x. Inr (fst x, n),
     ak_IsModuleAccount = \<lambda>x. fst x = AddrBytes 9,
     ak_NewBaseAccount = \<lambda>a x. (a, snd x),
     bk_GetBalance = \<lambda>a d w. snd w a d,
     bk_SpendableCoin = \<lambda>a d w. max 0 (snd w a d),
     bk_LockedCoins = \<lambda>a d w. 0,
     bk_BlockedAddr = \<lambda>a. False,
     bk_UncheckedSetBalance = \<lambda>a c w. (Inr (), fst w, (snd w)(a := (snd w a)(fst c := snd c))),
     bk_SendCoinsFromAccountToModule = \<lambda>a m. demo_send a (AddrBytes 9),
     bk_SendCoinsFromModuleToAccount = \<lambda>m a. demo_send (AddrBytes 9) a,
     bk_SortCoins = \<lambda>cs. cs,
     vm_Keccak256 = \<lambda>b. if b = [] then 0 else 1,
     vm_ParseDelegation = \<lambda>b. None,
     vk_coin = \<lparr>ci_Denom = ''axit'', ci_ExtendedDenom = ''axit'', ci_DisplayDenom = ''xit'', ci_Decimals = 18\<rparr>,
     ak_GetModuleAddress = \<lambda>m. AddrBytes 9,
     bk_SendCoinsFromAccountToModuleVirtual = \<lambda>a m. demo_send a (AddrBytes 9),
     bk_SendCoinsFromModuleToAccountVirtual = \<lambda>m a. demo_send (AddrBytes 9) a,
     bk_DenomUnits = \<lambda>d w. None,
     Coins_IsValid = \<lambda>cs. \<forall>c\<in>set cs. snd c > 0,
     auth_GetSignerAcc = \<lambda>a w. of_option (Err ''unknown address'') (map_option (Pair a) (fst w a)),
     auth_DeductFees = \<lambda>send fees. send fees,
     vk_virtualFeeCollection = False\<rparr>"

lemma demo_keepers_simps [simp]:
  "ak_GetAccount demo_keepers a w = map_option (Pair a) (fst w a)" "ak_NewAccountWithAddress demo_keepers a w = ((a, 0), w)"
  "ak_SetAccount demo_keepers x w = ((fst w)(fst x \<mapsto> snd x), snd w)" "ak_RemoveAccount demo_keepers x w = ((fst w)(fst x := None), snd w)"
  "ak_GetAddress demo_keepers x = fst x" "ak_GetSequence demo_keepers x = snd x" "ak_SetSequence demo_keepers n x = Inr (fst x, n)"
  "ak_IsModuleAccount demo_keepers x \<longleftrightarrow> fst x = AddrBytes 9" "ak_NewBaseAccount demo_keepers a x = (a, snd x)" "bk_GetBalance demo_keepers a d w = snd w a d"
  "bk_SpendableCoin demo_keepers a d w = max 0 (snd w a d)" "bk_LockedCoins demo_keepers a d w = 0" "\<not> bk_BlockedAddr demo_keepers a"
  "bk_UncheckedSetBalance demo_keepers a c w = (Inr (), fst w, (snd w)(a := (snd w a)(fst c := snd c)))"
  "bk_SendCoinsFromAccountToModule demo_keepers a m = demo_send a (AddrBytes 9)"
  "bk_SendCoinsFromModuleToAccount demo_keepers m a = demo_send (AddrBytes 9) a"
  "bk_SortCoins demo_keepers cs = cs" "vm_Keccak256 demo_keepers b = (if b = [] then 0 else 1)" "vm_ParseDelegation demo_keepers b = None"
  "ci_Denom (vk_coin demo_keepers) = ''axit''" "ci_Decimals (vk_coin demo_keepers) = 18" "ci_ExtendedDenom (vk_coin demo_keepers) = ''axit''"
  "ak_GetModuleAddress demo_keepers m = AddrBytes 9" "Coins_IsValid demo_keepers cs \<longleftrightarrow> (\<forall>c\<in>set cs. snd c > 0)" "\<not> vk_virtualFeeCollection demo_keepers"
  "auth_GetSignerAcc demo_keepers a w = of_option (Err ''unknown address'') (map_option (Pair a) (fst w a))"
  "auth_DeductFees demo_keepers send fees = send fees"
  by (simp_all add: demo_keepers_def)

lemma demo_keeper_laws: "keeper_laws demo_keepers"
  by (auto simp: keeper_laws_def account_laws_def bank_laws_def same_bank_def)

text \<open>An empty chain with a funded address.\<close>

definition demo_ctx :: "demo_world vm_ctx" where
  "demo_ctx = \<lparr>vc_store = Map.empty, vc_world = (Map.empty, \<lambda>a d. if a = AddrBytes 1 then 1000 else 0),
     vc_objects = Map.empty, vc_events = []\<rparr>"

end
