(* ===== verification/Vm_Commit_Properties.thy ===== *)
theory Vm_Commit_Properties
  imports Vm_Demo
begin

text \<open>
  The state database and the EVM keeper together: what a run of the EVM leaves in the state database
  is what a state database opened after the commit shows.
\<close>

section \<open>Committing one object\<close>

lemma set_all_state:
  defines "put \<equiv> \<lambda>a f k. KeeperSetState a k (HashBytes (f k))"
  shows "KeeperGetState (fold (put a f) keys c) a k = (if k \<in> set keys then f k else KeeperGetState c a k)"
    and "KeeperGetCode (fold (put a f) keys c) h = KeeperGetCode c h"
    and "KeeperGetAccount ks (fold (put a f) keys c) b = KeeperGetAccount ks c b"
    and "lockedCoin ks b (fold (put a f) keys c) = lockedCoin ks b c"
    and "b \<noteq> a \<Longrightarrow> same_account ks b c (fold (put a f) keys c)"
    and "finite (dom (vc_store c)) \<Longrightarrow> finite (dom (vc_store (fold (put a f) keys c)))"
proof (induction keys arbitrary: c)
  case (Cons x keys)
  { case 1 then show ?case using Cons(1) by (auto simp: put_def) }
  { case 2 then show ?case using Cons(2) by (simp add: put_def) }
  { case 3 then show ?case using Cons(3) by (simp add: put_def) }
  { case 4 then show ?case using Cons(4) by (simp add: put_def) }
  { case 5 then show ?case using same_account_trans [OF same_account_state(1) [of b a] Cons(5)] by (simp add: put_def) }
  { case 6 then show ?case using Cons(6) by (simp add: put_def KeeperSetState_def) }
qed simp_all

lemma commit_storage_fold:
  "commit_storage (keeper_writer ks) obj keys c = (Inr (), c') \<Longrightarrow>
   c' = fold (\<lambda>k. KeeperSetState (so_address obj) k (HashBytes (case dirtyStorage obj k of None \<Rightarrow> 0 | Some v \<Rightarrow> v))) keys c"
  by (induction keys arbitrary: c) (auto simp: thenE_def bindE_def keeper_writer_def Let_def)

lemma commit_storage_effect:
  assumes "commit_storage (keeper_writer ks) obj keys c = (Inr (), c')"
  shows "KeeperGetState c' (so_address obj) k =
      (if k \<in> set keys then (case dirtyStorage obj k of None \<Rightarrow> 0 | Some v \<Rightarrow> v) else KeeperGetState c (so_address obj) k)"
    and "KeeperGetCode c' h = KeeperGetCode c h" and "KeeperGetAccount ks c' b = KeeperGetAccount ks c b"
    and "lockedCoin ks b c' = lockedCoin ks b c" and "b \<noteq> so_address obj \<Longrightarrow> same_account ks b c c'"
    and "finite (dom (vc_store c)) \<Longrightarrow> finite (dom (vc_store c'))"
  unfolding commit_storage_fold [OF assms] by (rule set_all_state; assumption?)+

text \<open>The effect of committing an object on the stored codes.\<close>

definition code_write :: "stateObject \<Rightarrow> (hash \<rightharpoonup> bytes) \<Rightarrow> (hash \<rightharpoonup> bytes)" where
  "code_write obj f = (case so_code obj of
       Some code \<Rightarrow>
         if \<not> dirtyCode obj then f
         else if code \<noteq> [] then f(so_CodeHash obj \<mapsto> code)
         else if selfDestructed obj then f else f(so_CodeHash obj := None)
     | None \<Rightarrow> f)"

lemma commit_object_live:
  assumes laws: "keeper_laws ks" and com: "commit_object (keeper_writer ks) obj c = (Inr (), c')" and "\<not> selfDestructed obj"
    and locked: "so_lockedBalance obj \<in> {None, Some (lockedCoin ks (so_address obj) c)}" and fin: "finite (dom (dirtyStorage obj))"
  shows "KeeperGetAccount ks c' (so_address obj) = Some \<lparr>acc_Nonce = so_Nonce obj, acc_Balance = Some (so_Balance obj),
      acc_CodeHash = Some (so_CodeHash obj), acc_lockedBalance = Some (lockedCoin ks (so_address obj) c)\<rparr>"
    and "KeeperGetState c' (so_address obj) k =
      (case dirtyStorage obj k of Some v \<Rightarrow> v | None \<Rightarrow> KeeperGetState c (so_address obj) k)"
    and "KeeperGetCode c' = code_write obj (KeeperGetCode c)"
    and "b \<noteq> so_address obj \<Longrightarrow> same_account ks b c c'"
    and "finite (dom (vc_store c)) \<Longrightarrow> finite (dom (vc_store c'))"
proof -
  let ?a = "so_address obj"
  obtain c1 c2 where
    c1: "c1 = (case so_code obj of
           Some code \<Rightarrow> if dirtyCode obj then (if code = [] then KeeperDeleteCode (so_CodeHash obj) c
             else KeeperSetCode (so_CodeHash obj) code c) else c | None \<Rightarrow> c)"
    and c2: "KeeperSetAccount ks ?a (so_account obj) c1 = (Inr (), c2)"
    and st: "commit_storage (keeper_writer ks) obj (SortedKeys (dirtyStorage obj)) c2 = (Inr (), c')"
    using com assms(3)
    by (auto simp: commit_object_def thenE_ok keeper_writer_def modifyE_def split: option.splits if_splits)
  have same1: "same_account ks b c c1" for b
    by (auto simp: c1 split: option.splits)
  then have l1: "lockedCoin ks ?a c1 = lockedCoin ks ?a c" by (simp add: same_account_def)
  have f1: "finite (dom (vc_store c)) \<Longrightarrow> finite (dom (vc_store c1))"
    by (auto simp: c1 KeeperDeleteCode_def KeeperSetCode_def split: option.splits)
  have acc: "acc_Balance (so_account obj) = Some (so_Balance obj)" "acc_CodeHash (so_account obj) = Some (so_CodeHash obj)"
    "acc_lockedBalance (so_account obj) \<in> {None, Some (lockedCoin ks ?a c1)}" "acc_Nonce (so_account obj) = so_Nonce obj"
    using locked l1 by (simp_all add: so_account_def NewAccount_def)
  note set = KeeperSetAccount_effect [OF laws c2 acc(1-3)]
  note sto = commit_storage_effect [OF st]
  have keys: "set (SortedKeys (dirtyStorage obj)) = dom (dirtyStorage obj)" using fin by (simp add: SortedKeys_def)
  show "KeeperGetAccount ks c' ?a = Some \<lparr>acc_Nonce = so_Nonce obj, acc_Balance = Some (so_Balance obj),
      acc_CodeHash = Some (so_CodeHash obj), acc_lockedBalance = Some (lockedCoin ks ?a c)\<rparr>"
    using set(1) sto(3) l1 acc(4) by simp
  show "KeeperGetState c' ?a k = (case dirtyStorage obj k of Some v \<Rightarrow> v | None \<Rightarrow> KeeperGetState c ?a k)"
    using sto(1) [of k] keys set(2) [of k] same1 [of ?a] by (auto simp: same_account_def domIff split: option.splits)
  show "KeeperGetCode c' = code_write obj (KeeperGetCode c)"
    using sto(2) set(3) assms(3) by (auto simp: fun_eq_iff c1 code_write_def split: option.splits)
  show "same_account ks b c c'" if "b \<noteq> ?a"
    using same_account_trans [OF same_account_trans [OF same1 set(4) [OF that]] sto(5) [OF that]] .
  show "finite (dom (vc_store c)) \<Longrightarrow> finite (dom (vc_store c'))" using f1 set(6) sto(6) by blast
qed

lemma commit_object_destructed:
  assumes laws: "keeper_laws ks" and com: "commit_object (keeper_writer ks) obj c = (Inr (), c')" and "selfDestructed obj"
    and locked: "so_lockedBalance obj \<in> {None, Some (lockedCoin ks (so_address obj) c)}" and fin: "finite (dom (vc_store c))"
  shows "KeeperGetAccount ks c' (so_address obj) = None"
    and "KeeperGetCode c' = code_write obj (KeeperGetCode c)"
    and "b \<noteq> so_address obj \<Longrightarrow> same_account ks b c c'"
    and "finite (dom (vc_store c'))"
proof -
  let ?a = "so_address obj"
  obtain c2 where del: "KeeperDeleteAccount ks ?a c2 = (Inr (), c')" and
    c2: "c2 = c \<and> code_write obj (KeeperGetCode c) = KeeperGetCode c \<or>
      (\<exists>code. code_write obj (KeeperGetCode c) = (KeeperGetCode c)(so_CodeHash obj \<mapsto> code) \<and>
         KeeperSetAccount ks ?a (so_account obj) (KeeperSetCode (so_CodeHash obj) code c) = (Inr (), c2))"
    using com assms(3)
    by (auto simp: commit_object_def thenE_ok keeper_writer_def modifyE_def code_write_def split: option.splits if_splits)
  have two: "KeeperGetCode c2 = code_write obj (KeeperGetCode c) \<and> (b \<noteq> ?a \<longrightarrow> same_account ks b c c2) \<and> finite (dom (vc_store c2))"
    using c2
  proof
    assume "\<exists>code. code_write obj (KeeperGetCode c) = (KeeperGetCode c)(so_CodeHash obj \<mapsto> code) \<and>
         KeeperSetAccount ks ?a (so_account obj) (KeeperSetCode (so_CodeHash obj) code c) = (Inr (), c2)"
    then obtain code where code: "code_write obj (KeeperGetCode c) = (KeeperGetCode c)(so_CodeHash obj \<mapsto> code)"
      "KeeperSetAccount ks ?a (so_account obj) (KeeperSetCode (so_CodeHash obj) code c) = (Inr (), c2)" by blast
    have l: "lockedCoin ks ?a (KeeperSetCode (so_CodeHash obj) code c) = lockedCoin ks ?a c"
      by (simp add: lockedCoin_def KeeperSetCode_def)
    have acc: "acc_Balance (so_account obj) = Some (so_Balance obj)" "acc_CodeHash (so_account obj) = Some (so_CodeHash obj)"
      "acc_lockedBalance (so_account obj) \<in> {None, Some (lockedCoin ks ?a (KeeperSetCode (so_CodeHash obj) code c))}"
      using locked l by (simp_all add: so_account_def NewAccount_def)
    note set = KeeperSetAccount_effect [OF laws code(2) acc]
    have "finite (dom (vc_store (KeeperSetCode (so_CodeHash obj) code c)))" using fin by (simp add: KeeperSetCode_def)
    then show ?thesis
      using set(3,6) code(1) same_account_trans [OF same_account_code(1) set(4)] by (auto simp: fun_eq_iff)
  qed (use fin in simp)
  then have fin2: "finite (dom (vc_store c2))" by blast
  note gone = KeeperDeleteAccount_effect [OF laws del]
  show "KeeperGetAccount ks c' ?a = None" "finite (dom (vc_store c'))" using gone fin2 by blast+
  show "KeeperGetCode c' = code_write obj (KeeperGetCode c)" using two gone(2) fin2 by (simp add: fun_eq_iff)
  show "same_account ks b c c'" if "b \<noteq> ?a" using same_account_trans two gone(3) fin2 that by blast
qed


section \<open>The loop over the dirty accounts\<close>

text \<open>What the commit of an account leaves, in terms of the context before.\<close>

definition committed :: "('w, 'a) vm_keepers \<Rightarrow> 'w vm_ctx \<Rightarrow> stateObject \<Rightarrow> 'w vm_ctx \<Rightarrow> bool" where
  "committed ks c obj c' \<longleftrightarrow>
     (if selfDestructed obj then KeeperGetAccount ks c' (so_address obj) = None
      else KeeperGetAccount ks c' (so_address obj) = Some \<lparr>acc_Nonce = so_Nonce obj, acc_Balance = Some (so_Balance obj),
             acc_CodeHash = Some (so_CodeHash obj), acc_lockedBalance = Some (lockedCoin ks (so_address obj) c)\<rparr> \<and>
        (\<forall>k. KeeperGetState c' (so_address obj) k =
           (case dirtyStorage obj k of Some v \<Rightarrow> v | None \<Rightarrow> KeeperGetState c (so_address obj) k)))"

definition committable :: "('w, 'a) vm_keepers \<Rightarrow> 'w vm_ctx \<Rightarrow> address \<Rightarrow> stateObject \<Rightarrow> bool" where
  "committable ks c a obj \<longleftrightarrow> so_address obj = a \<and> finite (dom (dirtyStorage obj)) \<and>
     so_lockedBalance obj \<in> {None, Some (lockedCoin ks a c)}"

lemma commit_object_effect:
  assumes "keeper_laws ks" "commit_object (keeper_writer ks) obj c = (Inr (), c')" "committable ks c a obj" "finite (dom (vc_store c))"
  shows "committed ks c obj c'" "KeeperGetCode c' = code_write obj (KeeperGetCode c)" "finite (dom (vc_store c'))"
    "\<And>b. b \<noteq> a \<Longrightarrow> same_account ks b c c'"
  using commit_object_live [OF assms(1,2)] commit_object_destructed [OF assms(1,2)] assms(3,4)
  unfolding committed_def committable_def by (cases "selfDestructed obj"; simp)+

lemma committed_frame:
  "same_account ks (so_address obj) c c1 \<Longrightarrow> committed ks c1 obj c' \<Longrightarrow> committed ks c obj c'"
  "same_account ks (so_address obj) c1 c' \<Longrightarrow> committed ks c obj c1 \<Longrightarrow> committed ks c obj c'"
  by (auto simp: committed_def same_account_def split: if_splits option.splits)

lemma commit_loop_effect:
  assumes "keeper_laws ks" "commit_loop (keeper_writer ks) objs as c = (Inr (), c')" "distinct as" "finite (dom (vc_store c))"
    and "\<And>a obj. a \<in> set as \<Longrightarrow> objs a = Some obj \<Longrightarrow> committable ks c a obj"
  shows "(\<forall>a\<in>set as. \<exists>obj. objs a = Some obj \<and> committed ks c obj c') \<and> (\<forall>b. b \<notin> set as \<longrightarrow> same_account ks b c c') \<and>
    KeeperGetCode c' = fold (\<lambda>a. code_write (the (objs a))) as (KeeperGetCode c) \<and> finite (dom (vc_store c'))"
  using assms(2-)
proof (induction as arbitrary: c)
  case (Cons a as)
  obtain obj c1 where obj: "objs a = Some obj" and one: "commit_object (keeper_writer ks) obj c = (Inr (), c1)"
    and rest: "commit_loop (keeper_writer ks) objs as c1 = (Inr (), c')"
    using Cons.prems(1) by (auto simp: thenE_ok split: option.splits)
  have ca: "committable ks c a obj" using Cons.prems(4) obj by simp
  note e = commit_object_effect [OF assms(1) one ca Cons.prems(3)]
  have "committable ks c1 b o'" if "b \<in> set as" "objs b = Some o'" for b o'
  proof -
    have "b \<noteq> a" "committable ks c b o'" using Cons.prems(2,4) that by auto
    then show ?thesis using e(4) by (simp add: committable_def same_account_def)
  qed
  from Cons.IH [OF rest _ e(3) this] have IH:
    "\<forall>a\<in>set as. \<exists>obj. objs a = Some obj \<and> committed ks c1 obj c'" "\<forall>b. b \<notin> set as \<longrightarrow> same_account ks b c1 c'"
    "KeeperGetCode c' = fold (\<lambda>a. code_write (the (objs a))) as (KeeperGetCode c1)" "finite (dom (vc_store c'))"
    using Cons.prems(2) by simp_all
  have ad: "so_address obj = a" using ca by (simp add: committable_def)
  have "committed ks c obj c'" using committed_frame(2) [OF _ e(1)] IH(2) Cons.prems(2) ad by simp
  moreover have "\<exists>o'. objs b = Some o' \<and> committed ks c o' c'" if "b \<in> set as" for b
  proof -
    obtain o' where o': "objs b = Some o'" "committed ks c1 o' c'" using IH(1) \<open>b \<in> set as\<close> by blast
    have "so_address o' = b" "b \<noteq> a" using Cons.prems(2,4) o'(1) that by (auto simp: committable_def)
    then show ?thesis using o' committed_frame(1) e(4) by blast
  qed
  moreover have "same_account ks b c c'" if "b \<notin> set (a # as)" for b
    using same_account_trans [OF e(4)] IH(2) that by simp
  ultimately show ?case using IH(3,4) e(2) obj by simp
qed (simp)


section \<open>The stored form of a slot\<close>

abbreviation slot :: "'w vm_ctx \<Rightarrow> address \<Rightarrow> hash \<Rightarrow> bytes option" where
  "slot c a k \<equiv> vc_store c (StateKey a (HashBytes k))"

lemma slot_writes:
  "slot (KeeperSetState a k v c) b l = (if b = a \<and> l = k then Some v else slot c b l)"
  "b \<noteq> a \<Longrightarrow> slot (KeeperDeleteState a k c) b l = slot c b l"
  "slot (KeeperSetCode h code c) b l = slot c b l" "slot (KeeperDeleteCode h c) b l = slot c b l"
  by (simp_all add: KeeperSetState_def KeeperDeleteState_def KeeperSetCode_def KeeperDeleteCode_def kv_set_def kv_delete_def key_defs)

lemma SetAccountBalance_store: "SetAccountBalance ks a account c = (Inr (), c') \<Longrightarrow> vc_store c' = vc_store c"
  "SetBalanceWithLocked ks a amt l c = (Inr (), c') \<Longrightarrow> vc_store c' = vc_store c"
  by (auto simp: SetAccountBalance_def KSetBalance_def SetBalanceWithLocked_def Let_def handler_simps vmW_def split: option.splits prod.splits)

lemma KeeperSetAccount_slot: "KeeperSetAccount ks a account c = (Inr (), c') \<Longrightarrow> slot c' b k = slot c b k"
  by (auto simp: KeeperSetAccount_def handler_simps vmW_def DeleteCodeHash_def SetCodeHash_def vmS_def kv_set_def kv_delete_def key_defs
      split: option.splits prod.splits if_splits dest!: SetAccountBalance_store(1))

lemma KeeperDeleteAccount_slot:
  fixes c :: "'w vm_ctx"
  assumes "KeeperDeleteAccount ks a c = (Inr (), c')" "b \<noteq> a"
  shows "slot c' b k = slot c b k"
proof -
  have "slot (fold (KeeperDeleteState a) ls d) b k = slot d b k" for ls and d :: "'w vm_ctx"
    using assms(2) by (induction ls arbitrary: d) (simp_all add: slot_writes)
  then show ?thesis
    using assms(1)
    by (auto simp: KeeperDeleteAccount_def handler_simps vmW_def DeleteCodeHash_def vmS_def kv_delete_def key_defs
        split: option.splits dest!: SetAccountBalance_store(2))
qed

lemma commit_storage_slot:
  assumes "commit_storage (keeper_writer ks) obj keys c = (Inr (), c')"
  shows "slot c' b k = (if b = so_address obj \<and> k \<in> set keys
     then Some (HashBytes (case dirtyStorage obj k of None \<Rightarrow> 0 | Some v \<Rightarrow> v)) else slot c b k)"
  unfolding commit_storage_fold [OF assms]
  by (induction keys arbitrary: c) (auto simp: slot_writes)

lemma keeper_writer_simps [simp]:
  "KSetAccount (keeper_writer ks) = KeeperSetAccount ks" "KSetCode (keeper_writer ks) = KeeperSetCode"
  "KDeleteCode (keeper_writer ks) = KeeperDeleteCode" "KDeleteAccount (keeper_writer ks) = KeeperDeleteAccount ks"
  by (simp_all add: keeper_writer_def)

lemma commit_object_slot:
  assumes "commit_object (keeper_writer ks) obj c = (Inr (), c')" "finite (dom (dirtyStorage obj))"
  shows "b \<noteq> so_address obj \<Longrightarrow> slot c' b k = slot c b k"
    and "\<not> selfDestructed obj \<Longrightarrow> dirtyStorage obj k = Some v \<Longrightarrow> slot c' (so_address obj) k = Some (HashBytes v)"
proof -
  show "slot c' b k = slot c b k" if "b \<noteq> so_address obj"
    using assms(1) that
    by (auto simp: commit_object_def handler_simps slot_writes split: option.splits if_splits
        dest!: KeeperSetAccount_slot [where b = b and k = k] KeeperDeleteAccount_slot [where b = b and k = k] commit_storage_slot [where b = b and k = k])
  show "slot c' (so_address obj) k = Some (HashBytes v)" if live: "\<not> selfDestructed obj" and v: "dirtyStorage obj k = Some v"
  proof -
    obtain d where "commit_storage (keeper_writer ks) obj (SortedKeys (dirtyStorage obj)) d = (Inr (), c')"
      using assms(1) live by (auto simp: commit_object_def thenE_ok)
    from commit_storage_slot [OF this, of "so_address obj" k] show ?thesis
      using assms(2) v by (auto simp: SortedKeys_def)
  qed
qed

lemma commit_loop_slot:
  assumes "commit_loop (keeper_writer ks) objs as c = (Inr (), c')" "distinct as"
    and "\<And>a obj. objs a = Some obj \<Longrightarrow> so_address obj = a \<and> finite (dom (dirtyStorage obj))"
  shows "(b \<notin> set as \<longrightarrow> slot c' b k = slot c b k) \<and>
    (\<forall>obj v. b \<in> set as \<and> objs b = Some obj \<and> \<not> selfDestructed obj \<and> dirtyStorage obj k = Some v \<longrightarrow> slot c' b k = Some (HashBytes v))"
  using assms(1,2)
proof (induction as arbitrary: c)
  case (Cons a as)
  obtain obj c1 where obj: "objs a = Some obj" and one: "commit_object (keeper_writer ks) obj c = (Inr (), c1)"
    and rest: "commit_loop (keeper_writer ks) objs as c1 = (Inr (), c')"
    using Cons.prems(1) by (auto simp: thenE_ok split: option.splits)
  have a: "so_address obj = a" "finite (dom (dirtyStorage obj))" using assms(3) [OF obj] by simp_all
  note IH = Cons.IH [OF rest] and o = commit_object_slot [OF one a(2)]
  show ?case using IH Cons.prems(2) obj a(1) o by (cases "b = a") auto
qed simp

section \<open>Codes\<close>

lemma code_fold:
  assumes inj: "inj_on kec C" "[] \<in> C" and K: "\<forall>h c. K h = Some c \<longrightarrow> kec c = h \<and> c \<in> C"
    and os: "\<forall>a\<in>set as. \<forall>code. so_code (ob a) = Some code \<longrightarrow> kec code = so_CodeHash (ob a) \<and> code \<in> C"
  defines "K' \<equiv> fold (\<lambda>a. code_write (ob a)) as K"
  shows "(\<forall>h c. K' h = Some c \<longrightarrow> kec c = h \<and> c \<in> C) \<and>
    (\<forall>h c. h \<noteq> kec [] \<longrightarrow> K h = Some c \<longrightarrow> K' h = Some c) \<and>
    (\<forall>a\<in>set as. \<forall>code. so_code (ob a) = Some code \<longrightarrow> dirtyCode (ob a) \<longrightarrow> code \<noteq> [] \<longrightarrow> K' (so_CodeHash (ob a)) = Some code)"
  using K os unfolding K'_def
proof (induction as arbitrary: K)
  case (Cons a as)
  let ?K = "code_write (ob a) K"
  have upd: "code_write (ob a) K = K \<or> code_write (ob a) K = K(kec [] := None) \<or>
     (\<exists>code. so_code (ob a) = Some code \<and> code_write (ob a) K = K(so_CodeHash (ob a) \<mapsto> code))"
    using Cons.prems(2) by (auto simp: code_write_def split: option.splits)
  have own: "kec code = so_CodeHash (ob a)" "code \<in> C" if "so_code (ob a) = Some code" for code
    using Cons.prems(2) that by auto
  have valid: "\<forall>h c. ?K h = Some c \<longrightarrow> kec c = h \<and> c \<in> C"
    using upd
  proof (elim disjE exE conjE)
    fix code assume "so_code (ob a) = Some code" "?K = K(so_CodeHash (ob a) \<mapsto> code)"
    then show ?thesis using own Cons.prems(1) by simp
  qed (simp_all add: Cons.prems(1))
  have keep: "?K h = Some c" if h: "h \<noteq> kec []" "K h = Some c" for h c
    using upd
  proof (elim disjE exE conjE)
    fix code assume code: "so_code (ob a) = Some code" "?K = K(so_CodeHash (ob a) \<mapsto> code)"
    have "code = c" if "h = so_CodeHash (ob a)"
      using inj_onD [OF inj(1), of code c] own [OF code(1)] Cons.prems(1) h(2) that by metis
    then show ?thesis using code(2) h(2) by auto
  qed (use h in simp_all)
  have put: "?K (so_CodeHash (ob a)) = Some code" "so_CodeHash (ob a) \<noteq> kec []"
    if "so_code (ob a) = Some code" "dirtyCode (ob a)" "code \<noteq> []" for code
    using that own [OF that(1)] inj_onD [OF inj(1), of code "[]"] inj(2) by (simp_all add: code_write_def) metis
  have tl: "\<forall>a\<in>set as. \<forall>code. so_code (ob a) = Some code \<longrightarrow> kec code = so_CodeHash (ob a) \<and> code \<in> C"
    using Cons.prems(2) by (meson list.set_intros(2))
  note IH = Cons.IH [OF valid tl]
  have step: "fold (\<lambda>a. code_write (ob a)) (a # as) K = fold (\<lambda>a. code_write (ob a)) as ?K" by simp
  show ?case unfolding step list.set ball_simps using IH keep put by blast
qed simp


section \<open>The commit persists the state database\<close>

text \<open>The codes whose hashes the run compares: the empty one, the stored ones and those of the objects.\<close>

definition codes_of :: "reader \<Rightarrow> 'l StateDB \<Rightarrow> bytes set" where
  "codes_of rd s = {[]} \<union> ran (KGetCode rd) \<union> {code. \<exists>a obj. stateObjects s a = Some obj \<and> so_code obj = Some code}"

text \<open>What a later state database shows of an account: a self-destructed one is gone; no code and empty code are the same.\<close>

definition code_bytes :: "bytes option \<Rightarrow> bytes" where
  "code_bytes code = (case code of None \<Rightarrow> [] | Some c \<Rightarrow> c)"

fun persisted :: "obj_view option \<Rightarrow> obj_view option \<Rightarrow> bool" where
  "persisted None u \<longleftrightarrow> u = None"
| "persisted (Some v) u \<longleftrightarrow>
     (if v_destructed v then u = None
      else \<exists>x. u = Some x \<and> v_nonce x = v_nonce v \<and> v_balance x = v_balance v \<and> v_codehash x = v_codehash v \<and>
        code_bytes (v_code x) = code_bytes (v_code v) \<and>
        v_state x = v_state v \<and> v_committed x = v_state v \<and> \<not> v_destructed x \<and> \<not> v_new x)"

lemma commit_facts:
  fixes cc :: "'l ctx_stores" and ks :: "('w, 'a) vm_keepers" and c :: "'w vm_ctx"
  defines "rd \<equiv> keeper_reader ks c"
  assumes laws: "keeper_laws ks" and fin: "finite (dom (vc_store c))" and ok: "codes_ok rd" and start: "fresh rd cc s0"
    and run: "run (sdb_step rd cw cc) s0 ops s"
    and com: "commitWithCtx (keeper_writer ks) s c = (Inr (), c')"
    and inj: "inj_on (vm_Keccak256 ks) (codes_of rd s)"
  shows "finite (dom (vc_store c'))"
    and "\<And>a. dirties (jrnl s) a = None \<Longrightarrow>
       same_account ks a c c' \<and> old_view (w_acct (world_of rd cc s) a) = old_view (loaded rd a)"
    and "\<And>a. dirties (jrnl s) a \<noteq> None \<Longrightarrow>
       \<exists>obj. stateObjects s a = Some obj \<and> so_address obj = a \<and> obj_inv rd obj \<and> committed ks c obj c' \<and>
         (\<forall>code. so_code obj = Some code \<longrightarrow> dirtyCode obj \<longrightarrow> code \<noteq> [] \<longrightarrow> KeeperGetCode c' (so_CodeHash obj) = Some code)"
    and "\<And>h code. KeeperGetCode c' h = Some code \<Longrightarrow> vm_Keccak256 ks code = h \<and> code \<in> codes_of rd s"
    and "\<And>h code. h \<noteq> vm_Keccak256 ks [] \<Longrightarrow> KeeperGetCode c h = Some code \<Longrightarrow> KeeperGetCode c' h = Some code"
proof -
  let ?as = "sortedDirties (jrnl s)" and ?ob = "\<lambda>a. the (stateObjects s a)"
  note facts = run_facts [OF ok start run]
  have obj: "so_address obj = a" "obj_inv rd obj" if "stateObjects s a = Some obj" for a obj
    using facts(2,3) that by (auto simp: addressed_def shape_def)
  have able: "committable ks c a obj" if "stateObjects s a = Some obj" for a obj
    using obj [OF that]
    by (cases "so_lockedBalance obj")
      (auto simp: committable_def obj_inv_def rd_def keeper_reader_def KeeperGetAccount_def split: option.splits)
  have loop: "\<forall>a\<in>set ?as. \<exists>obj. stateObjects s a = Some obj \<and> committed ks c obj c'" "\<forall>b. b \<notin> set ?as \<longrightarrow> same_account ks b c c'"
    "KeeperGetCode c' = fold (\<lambda>a. code_write (?ob a)) ?as (KeeperGetCode c)" "finite (dom (vc_store c'))"
    using commit_loop_effect [OF laws com [unfolded commitWithCtx_def] facts(4) fin able] by auto
  have K: "\<forall>h code. KeeperGetCode c h = Some code \<longrightarrow> vm_Keccak256 ks code = h \<and> code \<in> codes_of rd s"
    using ok by (auto simp: codes_ok_def rd_def keeper_reader_def codes_of_def ran_def)
  have "\<forall>a\<in>set ?as. \<forall>code. so_code (?ob a) = Some code \<longrightarrow>
      vm_Keccak256 ks code = so_CodeHash (?ob a) \<and> code \<in> codes_of rd s"
  proof (intro ballI allI impI)
    fix a code assume a: "a \<in> set ?as" "so_code (?ob a) = Some code"
    then obtain o' where o': "stateObjects s a = Some o'" using loop(1) by blast
    then have "Keccak256 rd code = so_CodeHash o'" "code \<in> codes_of rd s"
      using obj(2) a(2) unfolding obj_inv_def code_known_def codes_of_def by auto
    then show "vm_Keccak256 ks code = so_CodeHash (?ob a) \<and> code \<in> codes_of rd s"
      using o' by (simp add: rd_def keeper_reader_def)
  qed
  note fold = code_fold [OF inj _ K this, folded loop(3)]
  have "[] \<in> codes_of rd s" by (simp add: codes_of_def)
  note fold = fold [OF this]
  show "\<And>h code. KeeperGetCode c' h = Some code \<Longrightarrow> vm_Keccak256 ks code = h \<and> code \<in> codes_of rd s"
    "\<And>h code. h \<noteq> vm_Keccak256 ks [] \<Longrightarrow> KeeperGetCode c h = Some code \<Longrightarrow> KeeperGetCode c' h = Some code"
    using fold by blast+
  show "\<exists>obj. stateObjects s a = Some obj \<and> so_address obj = a \<and> obj_inv rd obj \<and> committed ks c obj c' \<and>
       (\<forall>code. so_code obj = Some code \<longrightarrow> dirtyCode obj \<longrightarrow> code \<noteq> [] \<longrightarrow> KeeperGetCode c' (so_CodeHash obj) = Some code)"
    if "dirties (jrnl s) a \<noteq> None" for a
  proof -
    have a: "a \<in> set ?as" using that facts(5) by blast
    then obtain o' where o': "stateObjects s a = Some o'" "committed ks c o' c'" using loop(1) by blast
    then show ?thesis using obj [OF o'(1)] bspec [OF fold [THEN conjunct2, THEN conjunct2] a] by simp
  qed
  show "same_account ks a c c' \<and> old_view (w_acct (world_of rd cc s) a) = old_view (loaded rd a)"
    if "dirties (jrnl s) a = None" for a
    using that facts(5) loop(2) clean_account [OF facts(1) _ that] start by (auto simp: fresh_def)
  show "finite (dom (vc_store c'))" by (rule loop(4))
qed

lemma keeper_reader_simps [simp]:
  "KGetAccount (keeper_reader ks c) = KeeperGetAccount ks c" "KGetState (keeper_reader ks c) = KeeperGetState c"
  "KGetCode (keeper_reader ks c) = KeeperGetCode c" "Keccak256 (keeper_reader ks c) = vm_Keccak256 ks"
  by (simp_all add: keeper_reader_def)

lemma loaded_view:
  "loaded (keeper_reader ks c) a = map_option (\<lambda>acct.
     let h = (case acc_CodeHash acct of None \<Rightarrow> vm_Keccak256 ks [] | Some h \<Rightarrow> h) in
     \<lparr>v_nonce = acc_Nonce acct, v_balance = (case acc_Balance acct of None \<Rightarrow> 0 | Some b \<Rightarrow> b), v_codehash = h,
      v_locked = acc_lockedBalance acct, v_code = (if h = vm_Keccak256 ks [] then None else KeeperGetCode c h),
      v_state = KeeperGetState c a, v_committed = KeeperGetState c a, v_destructed = False, v_new = False\<rparr>)
     (KeeperGetAccount ks c a)"
  by (auto simp: loaded_def keeper_reader_def view_obj_def newObject_def so_Code_def so_GetState_def so_GetCommittedState_def
      IsEmptyCodeHash_def EmptyCodeHash_def Let_def fun_eq_iff intro!: map_option_cong split: option.split)

lemma view_state_obj:
  "obj_inv rd obj \<Longrightarrow> v_state (view_obj rd obj) k =
     (case dirtyStorage obj k of Some v \<Rightarrow> v | None \<Rightarrow> KGetState rd (so_address obj) k)"
  by (auto simp: view_obj_def so_GetState_def so_GetCommittedState_def obj_inv_def Let_def split: option.splits)

text \<open>The code a committed object shows is the one stored under its hash.\<close>

lemma committed_code:
  assumes inv: "obj_inv (keeper_reader ks c) obj" and inj: "inj_on (vm_Keccak256 ks) C" "[] \<in> C"
    and C: "\<And>code. so_code obj = Some code \<Longrightarrow> code \<in> C"
    and put: "\<And>code. so_code obj = Some code \<Longrightarrow> dirtyCode obj \<Longrightarrow> code \<noteq> [] \<Longrightarrow> K (so_CodeHash obj) = Some code"
    and keep: "\<And>h code. h \<noteq> vm_Keccak256 ks [] \<Longrightarrow> KeeperGetCode c h = Some code \<Longrightarrow> K h = Some code"
    and K: "\<And>h code. K h = Some code \<Longrightarrow> vm_Keccak256 ks code = h \<and> code \<in> C"
  defines "code \<equiv> fst (so_Code (keeper_reader ks c) obj)"
  shows "if so_CodeHash obj = vm_Keccak256 ks [] then code_bytes code = [] else code \<noteq> None \<and> K (so_CodeHash obj) = code"
proof (cases "so_code obj")
  case None
  then show ?thesis
    using inv keep by (auto simp: code_def so_Code_def IsEmptyCodeHash_def EmptyCodeHash_def keeper_reader_def code_bytes_def
        Let_def obj_inv_def code_known_def)
next
  case (Some d)
  then have h: "vm_Keccak256 ks d = so_CodeHash obj" "code = Some d"
    using inv by (auto simp: obj_inv_def code_known_def keeper_reader_def code_def so_Code_def)
  show ?thesis
  proof (cases "d = []")
    case True
    then show ?thesis using h by (simp add: code_bytes_def)
  next
    case False
    then have ne: "so_CodeHash obj \<noteq> vm_Keccak256 ks []" using inj_onD [OF inj(1) _ C [OF Some] inj(2)] h(1) by metis
    have "K (so_CodeHash obj) = Some d"
    proof (cases "dirtyCode obj")
      case True
      then show ?thesis using put Some False by blast
    next
      case False
      then obtain e where "KeeperGetCode c (so_CodeHash obj) = Some e"
        using inv ne by (auto simp: obj_inv_def keeper_reader_def EmptyCodeHash_def)
      then have e: "K (so_CodeHash obj) = Some e" using keep ne by blast
      then have "e = d" using K inj_onD [OF inj(1)] C [OF Some] h(1) by metis
      then show ?thesis using e by simp
    qed
    then show ?thesis using ne h by simp
  qed
qed

lemma persisted_old: "persisted (old_view v) u \<longleftrightarrow> persisted v u"
  by (cases v) (simp_all add: old_view_def)

lemma persisted_clean:
  assumes same: "same_account ks a c c'" and ok: "codes_ok (keeper_reader ks c)"
    and keep: "\<And>h code. h \<noteq> vm_Keccak256 ks [] \<Longrightarrow> KeeperGetCode c h = Some code \<Longrightarrow> KeeperGetCode c' h = Some code"
  shows "persisted (loaded (keeper_reader ks c) a) (loaded (keeper_reader ks c') a)"
proof (cases "KeeperGetAccount ks c a")
  case None
  then show ?thesis using same by (simp add: loaded_view same_account_def)
next
  case (Some acct)
  define h where "h = (case acc_CodeHash acct of None \<Rightarrow> vm_Keccak256 ks [] | Some h \<Rightarrow> h)"
  have "h = vm_Keccak256 ks [] \<or> (\<exists>code. KeeperGetCode c h = Some code)"
    using ok Some by (auto simp: codes_ok_def keeper_reader_def h_def EmptyCodeHash_def split: option.split)
  then have "h \<noteq> vm_Keccak256 ks [] \<Longrightarrow> KeeperGetCode c' h = KeeperGetCode c h" using keep by fastforce
  then show ?thesis
    using same Some unfolding loaded_view Let_def
    by (auto simp: same_account_def fun_eq_iff h_def [symmetric])
qed

lemma persisted_dirty:
  assumes inv: "obj_inv (keeper_reader ks c) obj" and com: "committed ks c obj c'"
    and code: "if so_CodeHash obj = vm_Keccak256 ks [] then code_bytes (fst (so_Code (keeper_reader ks c) obj)) = []
      else fst (so_Code (keeper_reader ks c) obj) \<noteq> None \<and> KeeperGetCode c' (so_CodeHash obj) = fst (so_Code (keeper_reader ks c) obj)"
  shows "persisted (Some (view_obj (keeper_reader ks c) obj)) (loaded (keeper_reader ks c') (so_address obj))"
proof (cases "selfDestructed obj")
  case True
  then show ?thesis using com by (simp add: committed_def loaded_view view_obj_def)
next
  case False
  let ?v = "view_obj (keeper_reader ks c) obj"
  have st: "v_state ?v = KeeperGetState c' (so_address obj)"
    using view_state_obj [OF inv] com False by (simp add: fun_eq_iff committed_def split: option.split)
  have "v_code ?v = fst (so_Code (keeper_reader ks c) obj)" "v_nonce ?v = so_Nonce obj" "v_balance ?v = so_Balance obj"
    "v_codehash ?v = so_CodeHash obj" "\<not> v_destructed ?v" using False by (simp_all add: view_obj_def)
  then show ?thesis
    using com False st code by (auto simp: committed_def loaded_view Let_def code_bytes_def)
qed

lemma commit_shows_run:
  fixes cc :: "'l ctx_stores" and ks :: "('w, 'a) vm_keepers"
  assumes "keeper_laws ks" "finite (dom (vc_store c))" "codes_ok (keeper_reader ks c)" "fresh (keeper_reader ks c) cc s0"
    and "run (sdb_step (keeper_reader ks c) cw cc) s0 ops s"
    and com: "commitWithCtx (keeper_writer ks) s c = (Inr (), c')"
    and inj: "inj_on (vm_Keccak256 ks) (codes_of (keeper_reader ks c) s)"
  shows "finite (dom (vc_store c')) \<and> codes_ok (keeper_reader ks c') \<and>
    (\<forall>a. persisted (w_acct (world_of (keeper_reader ks c) cc s) a) (loaded (keeper_reader ks c') a))"
proof -
  let ?rd = "keeper_reader ks c" and ?C = "codes_of (keeper_reader ks c) s"
  note facts = commit_facts [OF assms(1-5) com inj]
  have nil: "[] \<in> ?C" by (simp add: codes_of_def)
  have dirty: "\<exists>obj. stateObjects s a = Some obj \<and> so_address obj = a \<and> obj_inv ?rd obj \<and> committed ks c obj c' \<and>
      (if so_CodeHash obj = vm_Keccak256 ks [] then code_bytes (fst (so_Code ?rd obj)) = []
       else fst (so_Code ?rd obj) \<noteq> None \<and> KeeperGetCode c' (so_CodeHash obj) = fst (so_Code ?rd obj))"
    if d: "dirties (jrnl s) a \<noteq> None" for a
  proof -
    obtain obj where obj: "stateObjects s a = Some obj" "so_address obj = a" "obj_inv ?rd obj" "committed ks c obj c'"
      "\<And>code. so_code obj = Some code \<Longrightarrow> dirtyCode obj \<Longrightarrow> code \<noteq> [] \<Longrightarrow> KeeperGetCode c' (so_CodeHash obj) = Some code"
      using facts(3) [OF d] by blast
    have "\<And>code. so_code obj = Some code \<Longrightarrow> code \<in> ?C" using obj(1) by (auto simp: codes_of_def)
    from committed_code [where K = "KeeperGetCode c'", OF obj(3) inj nil this obj(5) facts(5,4)] show ?thesis using obj by blast
  qed
  have "persisted (w_acct (world_of ?rd cc s) a) (loaded (keeper_reader ks c') a)" for a
  proof (cases "dirties (jrnl s) a = None")
    case True
    then show ?thesis
      using facts(2) persisted_clean [OF _ assms(3) facts(5)] persisted_old by metis
  next
    case False
    then show ?thesis using dirty persisted_dirty by (fastforce simp: world_of_def)
  qed
  moreover have "acc_CodeHash acct = Some h \<Longrightarrow> h = vm_Keccak256 ks [] \<or> (\<exists>code. KeeperGetCode c' h = Some code)"
    if acct: "KeeperGetAccount ks c' a = Some acct" for a acct h
  proof (cases "dirties (jrnl s) a = None")
    case True
    then have "KeeperGetAccount ks c a = Some acct" using facts(2) acct by (simp add: same_account_def)
    moreover assume "acc_CodeHash acct = Some h"
    ultimately show ?thesis using assms(3) facts(5) by (fastforce simp: codes_ok_def EmptyCodeHash_def)
  next
    case False
    assume "acc_CodeHash acct = Some h"
    then show ?thesis using dirty [OF False] acct by (auto simp: committed_def split: if_splits)
  qed
  ultimately show ?thesis
    using facts(1,4) by (simp add: codes_ok_def EmptyCodeHash_def)
qed

text \<open>
  C13. The commit persists the EVM's run. Take a state database opened on the keeper at a context, run
  any sequence of its operations, snapshots and reverts included, that creates accounts only where
  none exist, self-destructs none twice and leaves the cache context of precompile calls closed, and
  let \<^verbatim>\<open>Commit\<close> succeed. Then a state database opened on the keeper at the committed context shows
  for every account the nonce, balance, code hash, code and storage that the run left, as its
  committed state; an account that self-destructed is gone, and one the run did not touch is as
  before. Every slot that the run wrote in a surviving account is in the store in its 32-byte form,
  also when its value is zero. The keeper keeps storing each code under its hash. The accounts and
  the bank are parameters with the laws of their documentation, and no two codes that occur share a
  hash.
\<close>
theorem commit_persists:
  fixes cc :: "'l ctx_stores" and ks :: "('w, 'a) vm_keepers"
  assumes "keeper_laws ks" "finite (dom (vc_store c))" "codes_ok (keeper_reader ks c)" "ctx_ok cc"
    and "run (\<lambda>op s t. allowed (keeper_reader ks c) op s \<and> exec_op (keeper_reader ks c) cw cc op s = (Inr (), t)) (NewStateDB n m) ops s"
    and "cacheCtx s = None" "Commit cw sync (keeper_writer ks) s c = (Inr (), c')"
    and inj: "inj_on (vm_Keccak256 ks) (codes_of (keeper_reader ks c) s)"
  shows "finite (dom (vc_store c')) \<and> codes_ok (keeper_reader ks c') \<and>
    (\<forall>a. persisted (w_acct (world_of (keeper_reader ks c) cc s) a)
            (w_acct (world_of (keeper_reader ks c') cc (NewStateDB n' m' :: 'l StateDB)) a)) \<and>
    (\<forall>a obj k v. dirties (jrnl s) a \<noteq> None \<and> stateObjects s a = Some obj \<and> \<not> selfDestructed obj \<and> dirtyStorage obj k = Some v \<longrightarrow>
       vc_store c' (StateKey a (HashBytes k)) = Some (HashBytes v))"
proof -
  note run = assms(5) [unfolded sdb_step_eq] and fresh = fresh_New [OF assms(4)]
  have com: "commitWithCtx (keeper_writer ks) s c = (Inr (), c')" using assms(6,7) by (simp add: Commit_def)
  note facts = run_facts [OF assms(3) fresh run]
  have "so_address obj = a \<and> finite (dom (dirtyStorage obj))" if "stateObjects s a = Some obj" for a obj
    using facts(2) that by (auto simp: shape_def obj_inv_def)
  note slots = commit_loop_slot [OF com [unfolded commitWithCtx_def] facts(4) this]
  have "slot c' a k = Some (HashBytes v)"
    if "dirties (jrnl s) a \<noteq> None" "stateObjects s a = Some obj" "\<not> selfDestructed obj" "dirtyStorage obj k = Some v" for a obj k v
    using slots [of a k] facts(5) that by auto
  then show ?thesis
    using commit_shows_run [OF assms(1-3) fresh run com inj]
    by (simp add: world_of_def [of "keeper_reader ks c'"] NewStateDB_def)
qed

text \<open>A run that funds an account and gives it code.\<close>

definition demo_run_sdb :: "(bytes \<rightharpoonup> bytes option) StateDB" where
  "demo_run_sdb =
     (let rd = keeper_reader demo_keepers demo_ctx in
      snd (SetCode rd 1 (Some ''a'') (snd (AddBalance rd 1 5 (NewStateDB 0 0)))))"

lemmas demo_commit_eval = AddBalance_def SetCode_def getOrNewStateObject_def getStateObject_def createObject_def so_AddBalance_def
  so_SetBalance_def so_SetCode_def so_Code_def sdb_eval NewStateDB_def newObject_def newJournal_def keeper_reader_def
  KeeperGetAccount_def demo_ctx_def EmptyCodeHash_def IsEmptyCodeHash_def setBalance_def setCode_def
  append_entry_def

lemma demo_run:
  "run (sdb_step (keeper_reader demo_keepers demo_ctx) map_cache None) (NewStateDB 0 0)
     [OpAddBalance 1 5, OpSetCode 1 (Some ''a'')] demo_run_sdb"
  by (rule run_Cons, simp_all add: sdb_step_def demo_commit_eval)
    (rule run_single, simp add: sdb_step_def demo_run_sdb_def demo_commit_eval)

lemma demo_run_state:
  "cacheCtx demo_run_sdb = None" "sortedDirties (jrnl demo_run_sdb) = [1]"
  "stateObjects demo_run_sdb = [1 \<mapsto> \<lparr>so_address = 1, so_Nonce = 0, so_Balance = 5, so_CodeHash = 1, so_lockedBalance = None,
     so_code = Some ''a'', originStorage = Map.empty, dirtyStorage = Map.empty, overrideStorage = None,
     dirtyCode = True, selfDestructed = False, newContract = False\<rparr>]"
  by (simp_all add: demo_run_sdb_def demo_commit_eval sortedDirties_def)

lemma demo_commit:
  "\<exists>c'. Commit map_cache (\<lambda>m evs c. c) (keeper_writer demo_keepers) demo_run_sdb demo_ctx = (Inr (), c')"
  by (simp add: Commit_def demo_run_state commitWithCtx_def commit_object_def keeper_writer_def thenE_def bindE_def modifyE_def
      KeeperSetAccount_def so_account_def NewAccount_def demo_ctx_def KeeperSetCode_def vmW_def SetCodeHash_def vmS_def
      SetAccountBalance_def KSetBalance_def getsE_def SetBalanceWithLocked_def readE_def WSpendableCoin_def EvmDenom_def
      lockedCoin_def WSetBalance_def sdk_int_def liftE_def ConvertEvmCoinDenomToExtendedDenom_def thenR_def bindR_def require_def
      GetEVMCoinDenom_def GetEVMCoinExtendedDenom_def getCoinInfo_def of_option_def requireE_def SortedKeys_def okE_def
      int_ok_def Let_def comp_def)

theorem commit_persists_witness:
  "\<exists>c'. Commit map_cache (\<lambda>m evs c. c) (keeper_writer demo_keepers) demo_run_sdb demo_ctx = (Inr (), c') \<and>
     persisted (w_acct (world_of (keeper_reader demo_keepers demo_ctx) None demo_run_sdb) 1)
       (w_acct (world_of (keeper_reader demo_keepers c') None (NewStateDB 0 0 :: (bytes \<rightharpoonup> bytes option) StateDB)) 1) \<and>
     w_acct (world_of (keeper_reader demo_keepers demo_ctx) None demo_run_sdb) 1 \<noteq> None"
proof -
  obtain c' where c': "Commit map_cache (\<lambda>m evs c. c) (keeper_writer demo_keepers) demo_run_sdb demo_ctx = (Inr (), c')"
    using demo_commit by blast
  have fin: "finite (dom (vc_store demo_ctx))" and no: "KeeperGetCode demo_ctx = Map.empty" "KeeperGetAccount demo_keepers demo_ctx = Map.empty"
    by (simp_all add: demo_ctx_def KeeperGetCode_def KeeperGetAccount_def fun_eq_iff)
  have codes: "codes_ok (keeper_reader demo_keepers demo_ctx)" by (simp add: codes_ok_def no)
  have "codes_of (keeper_reader demo_keepers demo_ctx) demo_run_sdb = {[], ''a''}"
    by (auto simp: codes_of_def no demo_run_state split: if_splits)
  then have inj: "inj_on (vm_Keccak256 demo_keepers) (codes_of (keeper_reader demo_keepers demo_ctx) demo_run_sdb)" by simp
  have "ctx_ok (None :: (bytes \<rightharpoonup> bytes option) ctx_stores)" by (simp add: ctx_ok_def)
  from commit_persists [OF demo_keeper_laws fin codes this demo_run [folded sdb_step_eq] demo_run_state(1) c' inj, of 0 0] c'
  have "persisted (w_acct (world_of (keeper_reader demo_keepers demo_ctx) None demo_run_sdb) 1)
       (w_acct (world_of (keeper_reader demo_keepers c') None (NewStateDB 0 0 :: (bytes \<rightharpoonup> bytes option) StateDB)) 1)" by blast
  moreover have "w_acct (world_of (keeper_reader demo_keepers demo_ctx) None demo_run_sdb) 1 \<noteq> None"
    by (simp add: world_of_def demo_run_state)
  ultimately show ?thesis using c' by blast
qed

end
