(* ===== verification/Vm_Gas.thy ===== *)
theory Vm_Gas
  imports Vm_Store Dec Feemarket
begin

text \<open>
  Gas and fees of EVM transactions: the gas meter of \<^verbatim>\<open>x/vm/types/gasmeter.go\<close>, the refund rules
  of \<^verbatim>\<open>x/vm/keeper/gas.go\<close>, the deduction of fees (\<^verbatim>\<open>fees.go\<close>), and the values that a block's
  transactions share in the object store: the gas used by the messages of one Cosmos transaction and
  the bloom filters of the logs (\<^verbatim>\<open>keeper.go\<close>).
\<close>

section \<open>Wrapped errors\<close>

text \<open>\<^verbatim>\<open>errorsmod.Wrap\<close> puts the description in front of the error; a panic is not an error value.\<close>

fun Wrap :: "string \<Rightarrow> err \<Rightarrow> err" where
  "Wrap m (Err e) = Err (m @ '': '' @ e)"
| "Wrap m (Panic p) = Panic p"

definition wrapE :: "string \<Rightarrow> ('s, 'a) handler \<Rightarrow> ('s, 'a) handler" where
  "wrapE m h s = (case h s of (Inl e, t) \<Rightarrow> (Inl (Wrap m e), t) | (Inr x, t) \<Rightarrow> (Inr x, t))"

text \<open>Wrapping a registered error with the text of another error.\<close>

definition asE :: "string \<Rightarrow> ('s, 'a) handler \<Rightarrow> ('s, 'a) handler" where
  "asE m h s = (case h s of (Inl (Err e), t) \<Rightarrow> (Inl (Err (e @ '': '' @ m)), t) | r \<Rightarrow> r)"

lemma wrapE_ok [handler_simps]: "wrapE m h s = (Inr x, t) \<longleftrightarrow> h s = (Inr x, t)"
  by (auto simp: wrapE_def split: prod.splits sum.splits)

lemma asE_ok [handler_simps]: "asE m h s = (Inr x, t) \<longleftrightarrow> h s = (Inr x, t)"
  by (auto simp: asE_def split: prod.splits sum.splits err.splits)

lemma wrap_state [simp]: "snd (wrapE m h s) = snd (h s)" "snd (asE m h s) = snd (h s)"
  by (simp_all add: wrapE_def asE_def split: prod.split sum.split err.split)

section \<open>Gas meter\<close>

record gas_meter =
  gm_consumed :: uint64
  gm_limit :: uint64

definition NewInfiniteGasMeterWithLimit :: "uint64 \<Rightarrow> gas_meter" where
  "NewInfiniteGasMeterWithLimit limit = \<lparr>gm_consumed = 0, gm_limit = limit\<rparr>"

definition addUint64Overflow :: "uint64 \<Rightarrow> uint64 \<Rightarrow> uint64 \<times> bool" where
  "addUint64Overflow a b = (if (- 1) - a < b then (0, True) else (a + b, False))"

text \<open>The consumed gas is overwritten before the overflow is noticed.\<close>

definition MeterConsumeGas :: "uint64 \<Rightarrow> (gas_meter, unit) handler" where
  "MeterConsumeGas amount g =
     (case addUint64Overflow (gm_consumed g) amount of (c, overflow) \<Rightarrow>
      (if overflow then Inl (Panic ''ErrorGasOverflow'') else Inr (), g\<lparr>gm_consumed := c\<rparr>))"

definition MeterRefundGas :: "uint64 \<Rightarrow> (gas_meter, unit) handler" where
  "MeterRefundGas amount =
     bindE (getsE gm_consumed) (\<lambda>consumed.
     thenE (requireE (\<not> consumed < amount) (Panic ''ErrorNegativeGasConsumed''))
       (modifyE (\<lambda>g. g\<lparr>gm_consumed := gm_consumed g - amount\<rparr>)))"

definition GasRemaining :: "gas_meter \<Rightarrow> uint64" where
  "GasRemaining g = (if gm_consumed g > gm_limit g then 0 else gm_limit g - gm_consumed g)"

definition ResetGasMeterAndConsumeGas :: "uint64 \<Rightarrow> (gas_meter, unit) handler" where
  "ResetGasMeterAndConsumeGas gasUsed =
     bindE (getsE gm_consumed) (\<lambda>consumed. thenE (MeterRefundGas consumed) (MeterConsumeGas gasUsed))"

lemma addUint64Overflow_exact:
  "addUint64Overflow a b = (if uint a + uint b < 2 ^ 64 then (a + b, False) else (0, True))"
  "uint a + uint b < 2 ^ 64 \<Longrightarrow> uint (a + b) = uint a + uint b"
proof -
  have r: "uint a < 18446744073709551616" "0 \<le> uint a" using uint_lt2p [of a] by simp_all
  have "uint ((- 1) - a :: uint64) = 2 ^ 64 - 1 - uint a"
    by (simp add: uint_word_ariths unsigned_minus_1_eq_mask mask_eq_exp_minus_1, intro mod_pos_pos_trivial)
      (use r in linarith)+
  then show "addUint64Overflow a b = (if uint a + uint b < 2 ^ 64 then (a + b, False) else (0, True))"
    by (auto simp: addUint64Overflow_def word_less_def)
  show "uint a + uint b < 2 ^ 64 \<Longrightarrow> uint (a + b) = uint a + uint b"
    by (simp add: uint_word_ariths)
qed

text \<open>A reset meter shows exactly the new gas, whatever it held.\<close>

lemma ResetGasMeter_effect: "ResetGasMeterAndConsumeGas gas g = (Inr (), g\<lparr>gm_consumed := gas\<rparr>)"
  using uint_lt2p [of gas]
  by (simp add: ResetGasMeterAndConsumeGas_def MeterRefundGas_def MeterConsumeGas_def thenE_def bindE_def getsE_def requireE_def
      addUint64Overflow_exact(1))

section \<open>Refunds\<close>

text \<open>An integer division by zero is a panic.\<close>

definition GasToRefund :: "uint64 \<Rightarrow> uint64 \<Rightarrow> uint64 \<Rightarrow> uint64 result" where
  "GasToRefund availableRefund gasConsumed refundQuotient =
     thenR (require (refundQuotient \<noteq> 0) (Panic ''integer divide by zero'')) (
     let refund = gasConsumed div refundQuotient in
     Inr (if refund > availableRefund then availableRefund else refund))"

lemma GasToRefund_bound:
  assumes "GasToRefund available consumed q = Inr r"
  shows "r \<le> available" "r \<le> consumed" "uint r * uint q \<le> uint consumed"
proof -
  have q: "q \<noteq> 0" and r: "r = (if consumed div q > available then available else consumed div q)"
    using assms by (auto simp: GasToRefund_def Let_def handler_simps)
  have d: "uint (consumed div q) = uint consumed div uint q" by (simp add: uint_div_distrib)
  show "r \<le> available" using r by auto
  have le: "uint r \<le> uint consumed div uint q" using r by (auto simp: word_less_def d)
  have pos: "0 < uint q" using q uint_nonnegative [of q] by (metis order_le_imp_less_or_eq unsigned_eq_0_iff)
  have "uint r * uint q \<le> uint consumed div uint q * uint q" using le by (rule mult_right_mono) simp
  then show "uint r * uint q \<le> uint consumed"
    using div_mult_mod_eq [of "uint consumed" "uint q"] pos_mod_sign [OF pos, of "uint consumed"] by linarith
  have "uint consumed div uint q \<le> uint consumed" using zdiv_mono2 [of "uint consumed" 1 "uint q"] pos by simp
  then show "r \<le> consumed" using le by (simp add: word_le_def)
qed

section \<open>Fees\<close>

definition FeeCollectorName :: string where "FeeCollectorName = ''fee_collector''"

definition vm_refund_send :: "('w, 'a) vm_keepers \<Rightarrow> bytes \<Rightarrow> (string \<times> int) list \<Rightarrow> ('w, unit) vm_op" where
  "vm_refund_send ks to coins =
     (if vk_virtualFeeCollection ks
      then vmW (bk_SendCoinsFromModuleToAccountVirtual ks FeeCollectorName to coins)
      else vmW (WSendCoinsFromModuleToAccount ks FeeCollectorName to coins))"

definition RefundGas :: "('w, 'a) vm_keepers \<Rightarrow> address \<Rightarrow> int \<Rightarrow> uint64 \<Rightarrow> string \<Rightarrow> ('w, unit) vm_op" where
  "RefundGas ks from gasPrice leftoverGas denom =
     (let remaining = uint leftoverGas * gasPrice in
      if remaining < 0 then failE (Err ''refunded amount value cannot be negative: invalid gas refund amount'')
      else if remaining > 0
      then bindE (liftE (sdk_int remaining)) (\<lambda>amount.
           wrapE ''failed to refund leftover gas'' (asE ''insufficient funds'' (wrapE ''fee collector account failed to refund fees''
             (vm_refund_send ks (AddrBytes from) [(denom, amount)]))))
      else okE ())"

text \<open>Virtual fee collection keeps amounts of 18 decimals, so it refuses a fee whose display unit has another exponent.\<close>

fun fee_units_ok :: "('w, 'a) vm_keepers \<Rightarrow> 'w \<Rightarrow> (string \<times> int) list \<Rightarrow> bool" where
  "fee_units_ok ks w [] \<longleftrightarrow> True"
| "fee_units_ok ks w (coin # fees) \<longleftrightarrow>
     (case bk_DenomUnits ks (fst coin) w of None \<Rightarrow> True
      | Some units \<Rightarrow> \<forall>u\<in>set units. \<not> (fst u = ci_DisplayDenom (vk_coin ks) \<and> snd u \<noteq> EighteenDecimals)) \<and>
     fee_units_ok ks w fees"

definition DeductFees :: "('w, 'a) vm_keepers \<Rightarrow> 'a \<Rightarrow> (string \<times> int) list \<Rightarrow> 'w \<Rightarrow> unit result \<times> 'w" where
  "DeductFees ks acc fees =
     thenE (requireE (Coins_IsValid ks fees) (Err ''invalid fee amount: insufficient fee'')) (
     thenE (readE (\<lambda>w. require (fee_units_ok ks w fees) (Panic ''Cannot use virtual fee collection''))) (
     asE ''insufficient funds'' (bk_SendCoinsFromAccountToModuleVirtual ks (ak_GetAddress ks acc) FeeCollectorName fees)))"

definition DeductTxCostsFromUserBalance ::
  "('w, 'a) vm_keepers \<Rightarrow> (string \<times> int) list \<Rightarrow> address \<Rightarrow> 'w \<Rightarrow> unit result \<times> 'w" where
  "DeductTxCostsFromUserBalance ks fees from =
     bindE (wrapE ''account not found for sender'' (readE (auth_GetSignerAcc ks (AddrBytes from)))) (\<lambda>signerAcc.
     wrapE ''failed to deduct full gas cost'' (
     if vk_virtualFeeCollection ks then DeductFees ks signerAcc fees
     else auth_DeductFees ks (WSendCoinsFromAccountToModule ks (ak_GetAddress ks signerAcc) FeeCollectorName) fees))"

section \<open>Values shared by the transactions of a block\<close>

definition GetTransientGasUsed :: "nat \<Rightarrow> 'w vm_ctx \<Rightarrow> uint64 result" where
  "GetTransientGasUsed txIndex c = (case vc_objects c (ObjectGasUsedKey txIndex) of
       None \<Rightarrow> Inr 0 | Some (ObjGas g) \<Rightarrow> Inr g | Some (ObjBloom b) \<Rightarrow> Inl (Panic ''interface conversion''))"

definition SetTransientGasUsed :: "nat \<Rightarrow> uint64 \<Rightarrow> ('w, unit) vm_op" where
  "SetTransientGasUsed txIndex gasUsed =
     modifyE (\<lambda>c. c\<lparr>vc_objects := (vc_objects c)(ObjectGasUsedKey txIndex \<mapsto> ObjGas gasUsed)\<rparr>)"

definition AddTransientGasUsed :: "nat \<Rightarrow> uint64 \<Rightarrow> ('w, uint64) vm_op" where
  "AddTransientGasUsed txIndex gasUsed =
     bindE (readE (GetTransientGasUsed txIndex)) (\<lambda>before.
     let result = before + gasUsed in
     if result < gasUsed then failE (Err ''transient gas used: gas overflow'')
     else thenE (SetTransientGasUsed txIndex result) (okE result))"

definition SetTxBloom :: "nat \<Rightarrow> nat \<Rightarrow> nat \<Rightarrow> ('w, unit) vm_op" where
  "SetTxBloom txIndex msgIndex bloom =
     modifyE (\<lambda>c. c\<lparr>vc_objects := (vc_objects c)(ObjectBloomKey txIndex msgIndex \<mapsto> ObjBloom bloom)\<rparr>)"

definition KeyPrefixObjectBloom :: bytes where "KeyPrefixObjectBloom = [CHR 0x01]"

definition bloom_keys :: "(bytes \<rightharpoonup> object) \<Rightarrow> bytes list" where
  "bloom_keys m = filter (\<lambda>k. HasPrefix k KeyPrefixObjectBloom) (sorted_list_of_set (dom m))"

fun collect_blooms :: "bytes list \<Rightarrow> nat \<Rightarrow> ('w, nat) vm_op" where
  "collect_blooms [] bloom = okE bloom"
| "collect_blooms (k # ks) bloom =
     bindE (readE (\<lambda>c. case vc_objects c k of Some (ObjBloom b) \<Rightarrow> Inr b | _ \<Rightarrow> Inl (Panic ''interface conversion''))) (\<lambda>b.
     thenE (modifyE (\<lambda>c. c\<lparr>vc_objects := (vc_objects c)(k := None)\<rparr>)) (collect_blooms ks (Bit_Operations.or bloom b)))"

definition EmitBlockBloomEvent :: "bytes \<Rightarrow> ('w, unit) vm_op" where
  "EmitBlockBloomEvent bloom =
     modifyE (\<lambda>c. c\<lparr>vc_events := vc_events c @ [(''block_bloom'', [(''bloom'', bloom)])]\<rparr>)"

definition CollectTxBloom :: "('w, unit) vm_op" where
  "CollectTxBloom =
     bindE (getsE (\<lambda>c. bloom_keys (vc_objects c))) (\<lambda>keys.
     bindE (collect_blooms keys 0) (\<lambda>bloom. EmitBlockBloomEvent (Bytes bloom)))"

lemma AddTransientGasUsed_exact:
  assumes "AddTransientGasUsed i g c = (Inr n, c')"
  shows "\<exists>m. GetTransientGasUsed i c = Inr m \<and> uint n = uint m + uint g \<and>
    c' = c\<lparr>vc_objects := (vc_objects c)(ObjectGasUsedKey i \<mapsto> ObjGas n)\<rparr>"
proof -
  obtain m where m: "GetTransientGasUsed i c = Inr m" and n: "n = m + g" "\<not> m + g < g"
    and c': "c' = c\<lparr>vc_objects := (vc_objects c)(ObjectGasUsedKey i \<mapsto> ObjGas n)\<rparr>"
    using assms by (auto simp: AddTransientGasUsed_def SetTransientGasUsed_def Let_def handler_simps split: if_splits)
  have "g \<le> m + g" using n(2) by simp
  then have "uint (m + g) = uint m + uint g" using uint_plus_simple [of g m] by (simp add: add.commute)
  then show ?thesis using m n(1) c' by auto
qed

end
