(* ===== verification/Vm_Transition.thy ===== *)
theory Vm_Transition
  imports Vm_Gas Ante_Evm
begin

text \<open>
  The state transition of the EVM module (\<^verbatim>\<open>x/vm/keeper/state_transition.go\<close>, \<^verbatim>\<open>config.go\<close>,
  \<^verbatim>\<open>call_evm.go\<close>, \<^verbatim>\<open>msg_server.go\<close>): applying a message to a state database, delegating code by
  signed authorizations, and running a transaction with its refund and gas accounting. The EVM of
  go-ethereum, its gas tables and signatures are parameters; the EVM acts on the state database.
\<close>

section \<open>Messages, configuration and outside code\<close>

record SetCodeAuthorization =
  au_ChainID :: uint256
  au_Address :: address
  au_Nonce :: uint64
  au_Signature :: bytes

record core_message =
  msg_From :: address
  msg_To :: "address option"
  msg_Nonce :: uint64
  msg_Value :: int
  msg_GasLimit :: uint64
  msg_GasPrice :: int
  msg_Data :: bytes
  msg_AccessList :: "(address \<times> hash list) list"
  msg_SetCodeAuthorizations :: "SetCodeAuthorization list"

record EVMConfig =
  cfg_FeeMarketParams :: Feemarket.Params
  cfg_CoinBase :: address
  cfg_BaseFee :: "int option"

text \<open>What a call or creation returns; \<^verbatim>\<open>er_err\<close> is the error of the execution, if any.\<close>

record evm_result =
  er_ret :: bytes
  er_gas :: uint64
  er_err :: "string option"
  er_ReturnData :: bytes

record MsgEthereumTxResponse =
  res_GasUsed :: uint64
  res_MaxUsedGas :: uint64
  res_VmError :: string
  res_Ret :: bytes
  res_Logs :: "Log list"
  res_Hash :: string

definition res_Failed :: "MsgEthereumTxResponse \<Rightarrow> bool" where
  "res_Failed res \<longleftrightarrow> length (res_VmError res) > 0"

record Receipt =
  rc_Type :: nat
  rc_CumulativeGasUsed :: uint64
  rc_Logs :: "Log list"
  rc_TxHash :: hash
  rc_ContractAddress :: address
  rc_GasUsed :: uint64
  rc_Success :: bool

text \<open>The parts of the context that no message changes.\<close>

record tx_context =
  tc_TxIndex :: nat
  tc_MsgIndex :: nat
  tc_ProposerAddress :: bytes
  tc_TxBytes :: bytes

record ('l, 'w) evm_env =
  ev_feemarket :: feemarket_env
  ev_Create :: "core_message \<Rightarrow> EVMConfig \<Rightarrow> address \<Rightarrow> bytes \<Rightarrow> uint64 \<Rightarrow> uint256 \<Rightarrow> ('l, evm_result) sdb"
  ev_Call :: "core_message \<Rightarrow> EVMConfig \<Rightarrow> address \<Rightarrow> address \<Rightarrow> bytes \<Rightarrow> uint64 \<Rightarrow> uint256 \<Rightarrow> ('l, evm_result) sdb"
  ev_ActivePrecompiles :: "address list"
  ev_IntrinsicGas :: "bytes \<Rightarrow> (address \<times> hash list) list \<Rightarrow> SetCodeAuthorization list \<Rightarrow> bool \<Rightarrow> Ante_Evm.rules \<Rightarrow> uint64 result"
  ev_FloorDataGas :: "bytes \<Rightarrow> uint64 result"
  ev_rules :: StateDB.rules
  ev_gas_rules :: Ante_Evm.rules
  ev_IsPrague :: bool
  ev_IsAmsterdam :: bool
  ev_ChainID :: int
  ev_Authority :: "SetCodeAuthorization \<Rightarrow> address result"
  ev_AddressToDelegation :: "address \<Rightarrow> bytes"
  ev_burnLog :: "address \<Rightarrow> uint256 \<Rightarrow> Log"
  ev_BloomAdd :: "bytes \<Rightarrow> nat \<Rightarrow> nat"
  ev_CreateAddress :: "address \<Rightarrow> uint64 \<Rightarrow> address"
  ev_TransactionToMessage :: "Transaction \<Rightarrow> int option \<Rightarrow> core_message result"
  ev_Sender :: "Transaction \<Rightarrow> address result"
  ev_HashHex :: "hash \<Rightarrow> string"
  ev_AddrHex :: "address \<Rightarrow> string"
  ev_CmtTxHash :: "bytes \<Rightarrow> bytes"
  ev_flush :: "('l MultiStore \<times> event list) writer"
  ev_cache :: "'l cache_wrap"
  ev_sync :: "'l MultiStore \<Rightarrow> event list \<Rightarrow> 'w vm_ctx \<Rightarrow> 'w vm_ctx"
  ev_GetValidatorByConsAddr :: "bytes \<Rightarrow> 'w \<Rightarrow> string result"
  ev_ValAddressFromBech32 :: "string \<Rightarrow> bytes result"
  ev_feemarket_store :: "'w \<Rightarrow> kv"
  ev_hooks :: "(address \<Rightarrow> core_message \<Rightarrow> Receipt \<Rightarrow> 'w vm_ctx \<Rightarrow> (unit result \<times> Receipt) \<times> 'w vm_ctx) option"

type_synonym ('l, 'w, 'r) evm_op = "('l StateDB \<times> 'w vm_ctx, 'r) handler"

definition onDB :: "('l, 'r) sdb \<Rightarrow> ('l, 'w, 'r) evm_op" where
  "onDB m s = (case m (fst s) of (r, d) \<Rightarrow> (r, (d, snd s)))"

definition onCtx :: "('w, 'r) vm_op \<Rightarrow> ('l, 'w, 'r) evm_op" where
  "onCtx m s = (case m (snd s) of (r, c) \<Rightarrow> (r, (fst s, c)))"

lemma onDB_ok [handler_simps]: "onDB m s = (r, t) \<longleftrightarrow> m (fst s) = (r, fst t) \<and> snd t = snd s"
  by (cases t) (auto simp: onDB_def split: prod.splits)

lemma onCtx_ok [handler_simps]: "onCtx m s = (r, t) \<longleftrightarrow> m (snd s) = (r, snd t) \<and> fst t = fst s"
  by (cases t) (auto simp: onCtx_def split: prod.splits)

section \<open>Configuration\<close>

definition AddressOfBytes :: "bytes \<Rightarrow> address" where
  "AddressOfBytes b = word_of_nat (SetBytes b)"

definition GetProposerAddress :: "tx_context \<Rightarrow> bytes \<Rightarrow> bytes" where
  "GetProposerAddress tc proposerAddress = (if length proposerAddress = 0 then tc_ProposerAddress tc else proposerAddress)"

definition GetCoinbaseAddress :: "('l, 'w) evm_env \<Rightarrow> tx_context \<Rightarrow> bytes \<Rightarrow> ('w, address) vm_op" where
  "GetCoinbaseAddress ev tc proposerAddress =
     (let proposer = GetProposerAddress tc proposerAddress in
      if length proposer = 0 then okE 0
      else bindE (asE ''validator does not exist'' (readE (\<lambda>c. ev_GetValidatorByConsAddr ev proposer (vc_world c)))) (\<lambda>operator.
           bindE (wrapE ''failed to convert validator operator address to bytes'' (liftE (ev_ValAddressFromBech32 ev operator)))
             (\<lambda>bz. okE (AddressOfBytes bz))))"

definition KGetBaseFee :: "('l, 'w) evm_env \<Rightarrow> ('w, 'a) vm_keepers \<Rightarrow> 'w vm_ctx \<Rightarrow> int option result" where
  "KGetBaseFee ev ks c =
     (if \<not> r_IsLondon (ev_gas_rules ev) then Inr None
      else bindR (WGetBaseFee (ev_feemarket ev) (ev_feemarket_store ev (vc_world c)) (ci_Decimals (vk_coin ks))) (\<lambda>fee. Inr (Some fee)))"

definition mkEVMConfig :: "('l, 'w) evm_env \<Rightarrow> ('w, 'a) vm_keepers \<Rightarrow> tx_context \<Rightarrow> bytes \<Rightarrow> ('w, EVMConfig) vm_op" where
  "mkEVMConfig ev ks tc proposerAddress =
     bindE (readE (\<lambda>c. WGetParams (ev_feemarket ev) (Some (vk_coin ks)) (ev_feemarket_store ev (vc_world c)))) (\<lambda>feemarketParams.
     bindE (wrapE ''failed to obtain coinbase address'' (GetCoinbaseAddress ev tc proposerAddress)) (\<lambda>coinbase.
     bindE (readE (KGetBaseFee ev ks)) (\<lambda>baseFee.
     okE \<lparr>cfg_FeeMarketParams = feemarketParams, cfg_CoinBase = coinbase, cfg_BaseFee = baseFee\<rparr>)))"

definition GetEthIntrinsicGas :: "('l, 'w) evm_env \<Rightarrow> core_message \<Rightarrow> bool \<Rightarrow> uint64 result" where
  "GetEthIntrinsicGas ev msg isContractCreation =
     ev_IntrinsicGas ev (msg_Data msg) (msg_AccessList msg) (msg_SetCodeAuthorizations msg) isContractCreation (ev_gas_rules ev)"

section \<open>Code delegation\<close>

definition CallNewAccountGas :: uint64 where "CallNewAccountGas = 25000"
definition TxAuthTupleGas :: uint64 where "TxAuthTupleGas = 12500"

definition validateAuthorization ::
  "('l, 'w) evm_env \<Rightarrow> ('w, 'a) vm_keepers \<Rightarrow> reader \<Rightarrow> SetCodeAuthorization \<Rightarrow> ('l, address) sdb" where
  "validateAuthorization ev ks rd auth =
     thenE (requireE (\<not> (au_ChainID auth \<noteq> 0 \<and> uint (au_ChainID auth) \<noteq> ev_ChainID ev)) (Err ''EIP-7702 authorization chain ID mismatch'')) (
     thenE (requireE (\<not> au_Nonce auth + 1 < au_Nonce auth) (Err ''EIP-7702 authorization nonce > 64 bit'')) (
     bindE (wrapE ''EIP-7702 authorization has invalid signature'' (liftE (ev_Authority ev auth))) (\<lambda>authority.
     thenE (AddAddressToAccessList authority) (
     bindE (GetCode rd authority) (\<lambda>codeBz.
     let code = (case codeBz of None \<Rightarrow> [] | Some b \<Rightarrow> b) in
     thenE (requireE (\<not> (length code \<noteq> 0 \<and> vm_ParseDelegation ks code = None)) (Err ''EIP-7702 authorization destination is a contract'')) (
     bindE (GetNonce rd authority) (\<lambda>have_nonce.
     thenE (requireE (have_nonce = au_Nonce auth) (Err ''EIP-7702 authorization nonce does not match current account nonce'')) (
     okE authority))))))))"

definition applyAuthorization ::
  "('l, 'w) evm_env \<Rightarrow> ('w, 'a) vm_keepers \<Rightarrow> reader \<Rightarrow> SetCodeAuthorization \<Rightarrow> ('l, unit) sdb" where
  "applyAuthorization ev ks rd auth =
     bindE (validateAuthorization ev ks rd auth) (\<lambda>authority.
     thenE (bindE (Exist rd authority) (\<lambda>ex. if ex then AddRefund (CallNewAccountGas - TxAuthTupleGas) else okE ())) (
     thenE (SetNonce rd authority (au_Nonce auth + 1)) (
     if au_Address auth = 0 then thenE (SetCode rd authority None) (okE ())
     else thenE (SetCode rd authority (Some (ev_AddressToDelegation ev (au_Address auth)))) (okE ()))))"

text \<open>The errors of invalid authorizations are ignored, their changes to the access list stay; a panic is not an error.\<close>

fun applyAuthorizations ::
  "('l, 'w) evm_env \<Rightarrow> ('w, 'a) vm_keepers \<Rightarrow> reader \<Rightarrow> SetCodeAuthorization list \<Rightarrow> ('l, unit) sdb" where
  "applyAuthorizations ev ks rd [] = okE ()"
| "applyAuthorizations ev ks rd (auth # auths) = (\<lambda>s.
     case applyAuthorization ev ks rd auth s of
       (Inl (Panic p), t) \<Rightarrow> (Inl (Panic p), t)
     | (_, t) \<Rightarrow> applyAuthorizations ev ks rd auths t)"

section \<open>Applying a message\<close>

definition RefundQuotient :: uint64 where "RefundQuotient = 2"
definition RefundQuotientEIP3529 :: uint64 where "RefundQuotientEIP3529 = 5"

text \<open>\<^verbatim>\<open>Int.Uint64\<close> of the SDK panics out of range.\<close>

definition int_Uint64 :: "int \<Rightarrow> uint64 result" where
  "int_Uint64 n = (if 0 \<le> n \<and> n < 2 ^ 64 then Inr (word_of_int n) else Inl (Panic ''Uint64() out of bounds''))"

definition gas_checks :: "('l, 'w) evm_env \<Rightarrow> core_message \<Rightarrow> uint64 result" where
  "gas_checks ev msg =
     (case GetEthIntrinsicGas ev msg (msg_To msg = None) of
        Inl e \<Rightarrow> Inl (Wrap ''intrinsic gas failed'' e)
      | Inr intrinsicGas \<Rightarrow>
          thenR (require (\<not> msg_GasLimit msg < intrinsicGas) (Err ''apply message: intrinsic gas too low'')) (
          thenR (if ev_IsPrague ev
                 then bindR (ev_FloorDataGas ev (msg_Data msg)) (\<lambda>floorDataGas.
                      require (\<not> msg_GasLimit msg < floorDataGas) (Err ''insufficient gas for floor data gas cost''))
                 else Inr ())
            (Inr (msg_GasLimit msg - intrinsicGas))))"

definition run_create :: "('l, 'w) evm_env \<Rightarrow> reader \<Rightarrow> core_message \<Rightarrow> EVMConfig \<Rightarrow> uint64 \<Rightarrow> uint256 \<Rightarrow> ('l, evm_result) sdb" where
  "run_create ev rd msg cfg leftoverGas value =
     thenE (SetNonce rd (msg_From msg) (msg_Nonce msg)) (
     bindE (ev_Create ev msg cfg (msg_From msg) (msg_Data msg) leftoverGas value) (\<lambda>er.
     bindE (GetNonce rd (msg_From msg)) (\<lambda>nonce.
     thenE (if nonce = msg_Nonce msg then SetNonce rd (msg_From msg) (msg_Nonce msg + 1) else okE ())
       (okE er))))"

definition run_call ::
  "('l, 'w) evm_env \<Rightarrow> ('w, 'a) vm_keepers \<Rightarrow> reader \<Rightarrow> core_message \<Rightarrow> EVMConfig \<Rightarrow> address \<Rightarrow> uint64 \<Rightarrow> uint256 \<Rightarrow> ('l, evm_result) sdb" where
  "run_call ev ks rd msg cfg to leftoverGas value =
     thenE (applyAuthorizations ev ks rd (msg_SetCodeAuthorizations msg)) (
     bindE (GetCode rd to) (\<lambda>code.
     thenE (case vm_ParseDelegation ks (case code of None \<Rightarrow> [] | Some b \<Rightarrow> b) of
              Some addr \<Rightarrow> AddAddressToAccessList addr | None \<Rightarrow> okE ())
       (ev_Call ev msg cfg (msg_From msg) to (msg_Data msg) leftoverGas value)))"

definition refundQuotient :: "('l, 'w) evm_env \<Rightarrow> bool \<Rightarrow> uint64" where
  "refundQuotient ev internal =
     (if internal then 1 else if r_IsLondon (ev_gas_rules ev) then RefundQuotientEIP3529 else RefundQuotient)"

text \<open>The gas charged: at least the share of the gas limit that the fee market asks for, except for internal calls.\<close>

definition gas_charge :: "('l, 'w) evm_env \<Rightarrow> core_message \<Rightarrow> EVMConfig \<Rightarrow> bool \<Rightarrow> uint64 \<Rightarrow> uint64 \<Rightarrow> uint64 result" where
  "gas_charge ev msg cfg internal leftoverGas temporaryGasUsed =
     (let D = fm_dec (ev_feemarket ev);
          multiplier = (case MinGasMultiplier (cfg_FeeMarketParams cfg) of None \<Rightarrow> 0 | Some d \<Rightarrow> d)
      in bindR (DMul D (LegacyNewDec (uint (msg_GasLimit msg))) multiplier) (\<lambda>minimumGasUsed.
         thenR (require (0 \<le> DTruncateInt D minimumGasUsed \<and> DTruncateInt D minimumGasUsed < 2 ^ 64)
           (Err ''minimumGasUsed is not a uint64: gas computation overflow/underflow'')) (
         thenR (require (\<not> msg_GasLimit msg < leftoverGas) (Err ''message gas limit < leftover gas: gas computation overflow/underflow'')) (
         let gasUsed = LegacyNewDec (sint temporaryGasUsed) in
         int_Uint64 (DTruncateInt D (if internal then gasUsed else max gasUsed minimumGasUsed))))))"

definition ApplyMessageWithConfig ::
  "('l, 'w) evm_env \<Rightarrow> ('w, 'a) vm_keepers \<Rightarrow> reader \<Rightarrow> core_message \<Rightarrow> bool \<Rightarrow> bool \<Rightarrow> EVMConfig \<Rightarrow> hash \<Rightarrow> bool \<Rightarrow>
   ('l, 'w, MsgEthereumTxResponse) evm_op" where
  "ApplyMessageWithConfig ev ks rd msg commit callFromPrecompile cfg txHash internal =
     bindE (liftE (gas_checks ev msg)) (\<lambda>startGas.
     thenE (if callFromPrecompile then okE ()
            else onDB (Prepare (ev_rules ev) (msg_From msg) 0 (msg_To msg) (ev_ActivePrecompiles ev) (msg_AccessList msg))) (
     bindE (liftE (Uint256FromBigInt (msg_Value msg))) (\<lambda>convertedValue.
     bindE (onDB (case msg_To msg of
              None \<Rightarrow> run_create ev rd msg cfg startGas convertedValue
            | Some to \<Rightarrow> run_call ev ks rd msg cfg to startGas convertedValue)) (\<lambda>er.
     thenE (requireE (\<not> msg_GasLimit msg < er_gas er) (Err ''apply message: gas computation overflow/underflow'')) (
     let maxUsedGas = msg_GasLimit msg - er_gas er in
     bindE (readE (\<lambda>s. GasToRefund (GetRefund (fst s)) maxUsedGas (refundQuotient ev internal))) (\<lambda>refund.
     let leftoverGas = er_gas er + refund; temporaryGasUsed = maxUsedGas - refund;
         vmError = (case er_err er of None \<Rightarrow> [] | Some e \<Rightarrow> e) in
     thenE (if ev_IsAmsterdam ev then onDB (EmitLogsForBurnAccounts (ev_burnLog ev)) else okE ()) (
     thenE (if commit
            then if callFromPrecompile then wrapE ''failed to flush stateDB to cacheCtx'' (onDB (FlushToCacheCtx (ev_flush ev)))
                 else wrapE ''failed to commit stateDB'' (\<lambda>s. onCtx (Commit (ev_cache ev) (ev_sync ev) (keeper_writer ks) (fst s)) s)
            else okE ()) (
     bindE (liftE (gas_charge ev msg cfg internal leftoverGas temporaryGasUsed)) (\<lambda>gasUsed.
     getsE (\<lambda>s. \<lparr>res_GasUsed = gasUsed, res_MaxUsedGas = maxUsedGas, res_VmError = vmError,
       res_Ret = (if vmError = ''execution reverted'' then er_ReturnData er else er_ret er),
       res_Logs = logs (fst s), res_Hash = ev_HashHex ev txHash\<rparr>))))))))))"

text \<open>A message of a module runs on the state database it is given, with the empty transaction hash.\<close>

definition ApplyMessage ::
  "('l, 'w) evm_env \<Rightarrow> ('w, 'a) vm_keepers \<Rightarrow> tx_context \<Rightarrow> reader \<Rightarrow> core_message \<Rightarrow> bool \<Rightarrow> bool \<Rightarrow> bool \<Rightarrow>
   ('l, 'w, MsgEthereumTxResponse) evm_op" where
  "ApplyMessage ev ks tc rd msg commit callFromPrecompile internal =
     bindE (wrapE ''failed to load evm config'' (onCtx (mkEVMConfig ev ks tc (tc_ProposerAddress tc)))) (\<lambda>cfg.
     ApplyMessageWithConfig ev ks rd msg commit callFromPrecompile cfg 0 internal)"

section \<open>Transactions\<close>

text \<open>The gas meter is shared by a context and the cached contexts made from it.\<close>

record 'w tx_state =
  vt_ctx :: "'w vm_ctx"
  vt_meter :: gas_meter

definition onVm :: "('w, 'r) vm_op \<Rightarrow> ('w tx_state, 'r) handler" where
  "onVm m s = (case m (vt_ctx s) of (r, c) \<Rightarrow> (r, s\<lparr>vt_ctx := c\<rparr>))"

definition onMeter :: "(gas_meter, 'r) handler \<Rightarrow> ('w tx_state, 'r) handler" where
  "onMeter m s = (case m (vt_meter s) of (r, g) \<Rightarrow> (r, s\<lparr>vt_meter := g\<rparr>))"

lemma onVm_ok [handler_simps]:
  "onVm m s = (r, t) \<longleftrightarrow> (\<exists>c. m (vt_ctx s) = (r, c) \<and> t = s\<lparr>vt_ctx := c\<rparr>)"
  by (auto simp: onVm_def split: prod.splits)

lemma onMeter_ok [handler_simps]:
  "onMeter m s = (r, t) \<longleftrightarrow> (\<exists>g. m (vt_meter s) = (r, g) \<and> t = s\<lparr>vt_meter := g\<rparr>)"
  by (auto simp: onMeter_def split: prod.splits)

text \<open>A cached context starts with no events; writing it back appends them.\<close>

definition CacheContext :: "'w vm_ctx \<Rightarrow> 'w vm_ctx" where
  "CacheContext c = c\<lparr>vc_events := []\<rparr>"

definition commitFn :: "'w vm_ctx \<Rightarrow> 'w vm_ctx \<Rightarrow> 'w vm_ctx" where
  "commitFn tmp c = tmp\<lparr>vc_events := vc_events c @ vc_events tmp\<rparr>"

definition logsBloom :: "('l, 'w) evm_env \<Rightarrow> Log list \<Rightarrow> nat" where
  "logsBloom ev ls =
     fold (\<lambda>l bin. fold (\<lambda>b. ev_BloomAdd ev (HashBytes b)) (log_Topics l) (ev_BloomAdd ev (AddrBytes (log_Address l)) bin)) ls 0"

definition calculateCumulativeGasFromEthResponse :: "gas_meter \<Rightarrow> MsgEthereumTxResponse \<Rightarrow> uint64" where
  "calculateCumulativeGasFromEthResponse meter res =
     (let cumulativeGasUsed = res_GasUsed res + gm_consumed meter in
      if cumulativeGasUsed > gm_limit meter then gm_limit meter else cumulativeGasUsed)"

text \<open>
  After the message: without hooks a successful execution is committed and a failed one dropped; with
  hooks they run on the result, or on a fresh context if the execution failed, and their error drops
  everything.
\<close>

definition finish_tx ::
  "('l, 'w) evm_env \<Rightarrow> Transaction \<Rightarrow> core_message \<Rightarrow> Receipt \<Rightarrow> MsgEthereumTxResponse \<Rightarrow> 'w vm_ctx \<Rightarrow>
   ('w vm_ctx, MsgEthereumTxResponse) handler" where
  "finish_tx ev tx msg receipt res tmp c =
     (case ev_Sender ev tx of
        Inl e \<Rightarrow> (Inl (Wrap ''failed to extract sender address from ethereum transaction'' e), c)
      | Inr signerAddr \<Rightarrow>
          (let tmp' = (if res_Failed res then CacheContext c else tmp) in
           case ev_hooks ev of
             None \<Rightarrow> (Inr res, if res_Failed res then c else commitFn tmp' c)
           | Some hook \<Rightarrow> (case hook signerAddr msg receipt tmp' of
                 ((Inl (Panic p), _), _) \<Rightarrow> (Inl (Panic p), c)
               | ((Inl (Err e), _), _) \<Rightarrow>
                   (Inr (res\<lparr>res_VmError := ''failed to execute post transaction processing: '' @ e, res_Logs := []\<rparr>), c)
               | ((Inr _, rc), tmp'') \<Rightarrow>
                   (Inr (res\<lparr>res_Logs := (if res_Failed res then [] else rc_Logs rc)\<rparr>), commitFn tmp'' c))))"

definition with_bloom :: "('l, 'w) evm_env \<Rightarrow> tx_context \<Rightarrow> MsgEthereumTxResponse \<Rightarrow> 'w vm_ctx \<Rightarrow> 'w vm_ctx" where
  "with_bloom ev tc res tmp =
     (if res_Logs res \<noteq> [] then snd (SetTxBloom (tc_TxIndex tc) (tc_MsgIndex tc) (logsBloom ev (res_Logs res)) tmp) else tmp)"

definition tx_receipt :: "('l, 'w) evm_env \<Rightarrow> Transaction \<Rightarrow> core_message \<Rightarrow> MsgEthereumTxResponse \<Rightarrow> gas_meter \<Rightarrow> Receipt" where
  "tx_receipt ev tx msg res meter =
     \<lparr>rc_Type = tx_Type tx, rc_CumulativeGasUsed = calculateCumulativeGasFromEthResponse meter res, rc_Logs = res_Logs res,
      rc_TxHash = tx_Hash tx,
      rc_ContractAddress = (if msg_To msg = None then ev_CreateAddress ev (msg_From msg) (msg_Nonce msg) else 0),
      rc_GasUsed = res_GasUsed res, rc_Success = (\<not> res_Failed res)\<rparr>"

text \<open>The leftover gas is refunded, the gas used is added to that of the earlier messages, and the meter shows the sum.\<close>

definition settle_gas ::
  "('w, 'a) vm_keepers \<Rightarrow> tx_context \<Rightarrow> core_message \<Rightarrow> MsgEthereumTxResponse \<Rightarrow> ('w tx_state, MsgEthereumTxResponse) handler" where
  "settle_gas ks tc msg res =
     (let remainingGas = (if msg_GasLimit msg > res_GasUsed res then msg_GasLimit msg - res_GasUsed res else 0) in
      thenE (wrapE ''failed to refund leftover gas to sender''
        (onVm (RefundGas ks (msg_From msg) (msg_GasPrice msg) remainingGas (EvmDenom ks)))) (
      bindE (wrapE ''failed to add transient gas used'' (onVm (AddTransientGasUsed (tc_TxIndex tc) (res_GasUsed res)))) (\<lambda>totalGasUsed.
      thenE (onMeter (ResetGasMeterAndConsumeGas totalGasUsed)) (okE res))))"

definition ApplyTransaction ::
  "('l, 'w) evm_env \<Rightarrow> ('w, 'a) vm_keepers \<Rightarrow> tx_context \<Rightarrow> Transaction \<Rightarrow> ('w tx_state, MsgEthereumTxResponse) handler" where
  "ApplyTransaction ev ks tc tx =
     bindE (wrapE ''failed to load evm config'' (onVm (mkEVMConfig ev ks tc (tc_ProposerAddress tc)))) (\<lambda>cfg.
     bindE (wrapE ''failed to return ethereum transaction as core message'' (liftE (ev_TransactionToMessage ev tx (cfg_BaseFee cfg)))) (\<lambda>msg.
     bindE (getsE (\<lambda>s. CacheContext (vt_ctx s))) (\<lambda>tmp.
     case ApplyMessageWithConfig ev ks (keeper_reader ks tmp) msg True False cfg (tx_Hash tx) False (NewStateDB (tc_TxIndex tc) 0, tmp) of
       (Inl (Panic p), _) \<Rightarrow> failE (Panic p)
     | (Inl e, _) \<Rightarrow>
         thenE (bindE (getsE (\<lambda>s. gm_limit (vt_meter s))) (\<lambda>limit. onMeter (ResetGasMeterAndConsumeGas limit)))
           (failE (Wrap ''failed to apply ethereum core message'' e))
     | (Inr res, _, tmp1) \<Rightarrow>
         bindE (getsE (\<lambda>s. tx_receipt ev tx msg res (vt_meter s))) (\<lambda>receipt.
         bindE (onVm (finish_tx ev tx msg receipt res (with_bloom ev tc res tmp1))) (settle_gas ks tc msg)))))"

section \<open>Messages of the module server and of other modules\<close>

definition HexAddress :: "bytes \<Rightarrow> string result" where
  "HexAddress a = (if length a > 20 then Inl (Panic ''index out of range'')
     else Inr (''0x'' @ hex_encode a @ replicate (40 - 2 * length a) (CHR 0x00)))"

definition ethereum_tx_event :: "('l, 'w) evm_env \<Rightarrow> tx_context \<Rightarrow> Transaction \<Rightarrow> MsgEthereumTxResponse \<Rightarrow> event" where
  "ethereum_tx_event ev tc tx response =
     (''ethereum_tx'',
      [(''amount'', int_dec (tx_Value tx)), (''ethereumTxHash'', res_Hash response),
       (''txGasUsed'', nat_dec (unat (res_GasUsed response)))] @
      (if length (tc_TxBytes tc) > 0 then [(''txHash'', hex_encode (ev_CmtTxHash ev (tc_TxBytes tc)))] else []) @
      (case tx_To tx of None \<Rightarrow> [] | Some to \<Rightarrow> [(''recipient'', ev_AddrHex ev to)]) @
      (if res_Failed response then [(''ethereumTxFailed'', res_VmError response)] else []))"

definition EthereumTx ::
  "('l, 'w) evm_env \<Rightarrow> ('w, 'a) vm_keepers \<Rightarrow> tx_context \<Rightarrow> EthMsg \<Rightarrow> ('w tx_state, MsgEthereumTxResponse) handler" where
  "EthereumTx ev ks tc msg =
     (let tx = em_Raw msg in
      bindE (wrapE ''failed to apply transaction'' (ApplyTransaction ev ks tc tx)) (\<lambda>response.
      bindE (liftE (HexAddress (em_From msg))) (\<lambda>sender.
      thenE (onVm (modifyE (\<lambda>c. c\<lparr>vc_events := vc_events c @ [ethereum_tx_event ev tc tx response,
          (''message'', [(''module'', ''evm''), (''sender'', sender), (''txType'', nat_dec (tx_Type tx))])]\<rparr>)))
        (okE response))))"

definition DefaultGasCap :: uint64 where "DefaultGasCap = 25000000"

definition call_gas_limit :: "int option \<Rightarrow> uint64" where
  "call_gas_limit gasCap = (case gasCap of
       None \<Rightarrow> DefaultGasCap
     | Some cap \<Rightarrow> if cap > 0 \<and> cap < 2 ^ 64 \<and> (word_of_int cap :: uint64) < DefaultGasCap then word_of_int cap else DefaultGasCap)"

definition onFst :: "('s, 'r) handler \<Rightarrow> ('s \<times> 'm, 'r) handler" where
  "onFst h s = (case h (fst s) of (r, t) \<Rightarrow> (r, (t, snd s)))"

definition onSnd :: "('m, 'r) handler \<Rightarrow> ('s \<times> 'm, 'r) handler" where
  "onSnd h s = (case h (snd s) of (r, t) \<Rightarrow> (r, (fst s, t)))"

definition CallEVMWithData ::
  "('l, 'w) evm_env \<Rightarrow> ('w, 'a) vm_keepers \<Rightarrow> tx_context \<Rightarrow> reader \<Rightarrow> address \<Rightarrow> address option \<Rightarrow> bytes \<Rightarrow> bool \<Rightarrow> bool \<Rightarrow> int option \<Rightarrow>
   (('l StateDB \<times> 'w vm_ctx) \<times> gas_meter, MsgEthereumTxResponse) handler" where
  "CallEVMWithData ev ks tc rd from contract data commit callFromPrecompile gasCap =
     bindE (readE (\<lambda>s. case ak_GetAccount ks (AddrBytes from) (vc_world (snd (fst s))) of
         None \<Rightarrow> Inl (Err ''account does not exist: unknown address'') | Some acct \<Rightarrow> Inr (ak_GetSequence ks acct))) (\<lambda>nonce.
     let msg = \<lparr>msg_From = from, msg_To = contract, msg_Nonce = nonce, msg_Value = 0, msg_GasLimit = call_gas_limit gasCap,
         msg_GasPrice = 0, msg_Data = data, msg_AccessList = [], msg_SetCodeAuthorizations = []\<rparr> in
     bindE (onFst (ApplyMessage ev ks tc rd msg commit callFromPrecompile True)) (\<lambda>res.
     if res_Failed res
     then thenE (bindE (getsE (\<lambda>s. gm_limit (snd s))) (\<lambda>limit. onSnd (ResetGasMeterAndConsumeGas limit)))
            (failE (Err (res_VmError res @ '': evm transaction execution failed'')))
     else thenE (onSnd (MeterConsumeGas (res_GasUsed res))) (okE res)))"

end
