(* ===== verification/Vm_Execution.thy ===== *)
theory Vm_Execution
  imports Vm_Transition Vm_Commit_Properties
begin

text \<open>
  The execution of a message as a run of the state database: what the keeper does around the EVM
  (nonces, delegations, access list) and, by hypothesis, what the EVM does are sequences of the
  operations of the state database. So its invariants hold when the message is committed.
\<close>

text \<open>
  The EVM reaches the state only through the operations of the state database, in any order. With
  no context to cache, no precompile that writes to other modules is called.
\<close>

definition evm_interface :: "('l, 'w) evm_env \<Rightarrow> reader \<Rightarrow> bool" where
  "evm_interface ev rd \<longleftrightarrow>
     (\<forall>msg cfg a d g v s er t. ev_Create ev msg cfg a d g v s = (Inr er, t) \<longrightarrow>
        (\<exists>ops. run (free_step rd (ev_cache ev) None) s ops t)) \<and>
     (\<forall>msg cfg a b d g v s er t. ev_Call ev msg cfg a b d g v s = (Inr er, t) \<longrightarrow>
        (\<exists>ops. run (free_step rd (ev_cache ev) None) s ops t))"

text \<open>A handler that, unless it panics, leaves a state reached by operations of the state database.\<close>

definition runs :: "reader \<Rightarrow> 'l cache_wrap \<Rightarrow> ('l, 'x) sdb \<Rightarrow> bool" where
  "runs rd cw m \<longleftrightarrow> (\<forall>s r t. m s = (r, t) \<longrightarrow> (\<forall>p. r \<noteq> Inl (Panic p)) \<longrightarrow> (\<exists>ops. run (free_step rd cw None) s ops t))"

named_theorems runs_intros \<open>handlers that are runs of the state database\<close>

lemma runs_bind [runs_intros]:
  assumes "runs rd cw m" "\<And>x. runs rd cw (f x)"
  shows "runs rd cw (bindE m f)"
  unfolding runs_def
proof (intro allI impI)
  fix s r t assume b: "bindE m f s = (r, t)" "\<forall>p. r \<noteq> Inl (Panic p)"
  obtain q u where q: "m s = (q, u)" by (cases "m s")
  show "\<exists>ops. run (free_step rd cw None) s ops t"
  proof (cases q)
    case (Inl e)
    then show ?thesis using assms(1) b q by (auto simp: bindE_def runs_def)
  next
    case (Inr x)
    then have "f x u = (r, t)" using b q by (simp add: bindE_def)
    then obtain ops2 where two: "run (free_step rd cw None) u ops2 t" using assms(2) b(2) unfolding runs_def by blast
    obtain ops1 where "run (free_step rd cw None) s ops1 u" using assms(1) q Inr unfolding runs_def by blast
    from run_append [OF this two] show ?thesis by blast
  qed
qed

lemma runs_then [runs_intros]: "runs rd cw m \<Longrightarrow> runs rd cw n \<Longrightarrow> runs rd cw (thenE m n)"
  unfolding thenE_def by (rule runs_bind)

lemma runs_pure [runs_intros]: "runs rd cw (okE x)" "runs rd cw (failE e)" "runs rd cw (liftE r)" "runs rd cw (requireE b e)"
  by (auto simp: runs_def requireE_def intro: run_Nil)

lemma runs_wrap [runs_intros]: "runs rd cw m \<Longrightarrow> runs rd cw (wrapE d m)"
  unfolding runs_def wrapE_def by (auto split: prod.splits sum.splits) (metis Wrap.simps(2) err.exhaust sum.inject(1))

lemma runs_if [runs_intros]: "(b \<Longrightarrow> runs rd cw m) \<Longrightarrow> (\<not> b \<Longrightarrow> runs rd cw n) \<Longrightarrow> runs rd cw (if b then m else n)"
  by simp

lemma runs_option: "runs rd cw m \<Longrightarrow> (\<And>x. runs rd cw (f x)) \<Longrightarrow> runs rd cw (case v of None \<Rightarrow> m | Some x \<Rightarrow> f x)"
  by (cases v) simp_all

lemma runs_op:
  assumes "\<And>s. \<exists>x t. m s = (Inr x, t) \<and> exec_op rd cw None op s = (Inr (), t)"
  shows "runs rd cw m"
  unfolding runs_def
proof (intro allI impI)
  fix s r t assume m: "m s = (r, t)"
  obtain x u where "m s = (Inr x, u)" "exec_op rd cw None op s = (Inr (), u)"
    using assms(1) [of s] by (elim exE conjE)
  then have "free_step rd cw None op s t" using m by (simp add: free_step_def)
  from run_single [of "free_step rd cw None", OF this] show "\<exists>ops. run (free_step rd cw None) s ops t" by (rule exI)
qed


lemma runs_queries [runs_intros]:
  "runs rd cw (GetCode rd a)" "runs rd cw (GetNonce rd a)" "runs rd cw (Exist rd a)"
proof -
  show "runs rd cw (GetCode rd a)"
    by (rule runs_op [where op = "OpGetCode a"]) (auto simp: quiet_def thenE_def bindE_def GetCode_def readObject_def getStateObject_def
        setStateObject_def Let_def split: option.splits prod.splits)
  show "runs rd cw (GetNonce rd a)"
    by (rule runs_op [where op = "OpGetNonce a"]) (auto simp: quiet_def thenE_def bindE_def GetNonce_def readObject_def getStateObject_def
        setStateObject_def Let_def split: option.splits prod.splits)
  show "runs rd cw (Exist rd a)"
    by (rule runs_op [where op = "OpExist a"]) (auto simp: quiet_def thenE_def bindE_def Exist_def getStateObject_def
        setStateObject_def Let_def split: option.splits prod.splits)
qed

lemma runs_setters [runs_intros]:
  "runs rd cw (SetNonce rd a n)" "runs rd cw (SetCode rd a code)" "runs rd cw (AddRefund g)" "runs rd cw (AddAddressToAccessList a)"
proof -
  show "runs rd cw (SetNonce rd a n)"
    by (rule runs_op [where op = "OpSetNonce a n"]) (auto simp: thenE_def bindE_def SetNonce_def so_SetNonce_def getOrNewStateObject_def createObject_def
        journalE_def getStateObject_def setStateObject_def Let_def split: option.splits prod.splits)
  show "runs rd cw (SetCode rd a code)"
    by (rule runs_op [where op = "OpSetCode a code"]) (auto simp: quiet_def thenE_def bindE_def SetCode_def so_SetCode_def getOrNewStateObject_def createObject_def
        journalE_def getStateObject_def setStateObject_def Let_def split: option.splits prod.splits)
  show "runs rd cw (AddRefund g)"
    by (rule runs_op [where op = "OpAddRefund g"]) (auto simp: thenE_def bindE_def AddRefund_def journalE_def getsE_def)
  show "runs rd cw (AddAddressToAccessList a)"
    by (rule runs_op [where op = "OpAddAddress a"]) (auto simp: AddAddressToAccessList_def journalE_def split: prod.splits)
qed

lemma runs_authorizations: "runs rd cw (applyAuthorizations ev ks rd auths)"
proof (induction auths)
  case Nil
  show ?case unfolding applyAuthorizations.simps by (rule runs_pure)
next
  case (Cons auth auths)
  have one: "runs rd cw (applyAuthorization ev ks rd auth)"
    unfolding applyAuthorization_def validateAuthorization_def Let_def by (intro runs_intros)
  show ?case
    unfolding runs_def
  proof (intro allI impI)
    fix s r t assume *: "applyAuthorizations ev ks rd (auth # auths) s = (r, t)" "\<forall>p. r \<noteq> Inl (Panic p)"
    obtain q u where q: "applyAuthorization ev ks rd auth s = (q, u)" by (cases "applyAuthorization ev ks rd auth s")
    have np: "\<forall>p. q \<noteq> Inl (Panic p)" using * q by (auto split: sum.splits err.splits)
    then have "applyAuthorizations ev ks rd auths u = (r, t)" using *(1) q by (auto split: sum.splits err.splits)
    then obtain ops2 where two: "run (free_step rd cw None) u ops2 t" using Cons *(2) unfolding runs_def by blast
    obtain ops1 where "run (free_step rd cw None) s ops1 u" using one q np unfolding runs_def by blast
    from run_append [OF this two] show "\<exists>ops. run (free_step rd cw None) s ops t" by blast
  qed
qed


lemma runs_evm:
  assumes "evm_interface ev rd"
  shows "ev_Create ev msg cfg a d g v s = (Inr er, t) \<Longrightarrow> \<exists>ops. run (free_step rd (ev_cache ev) None) s ops t"
    "ev_Call ev msg cfg a b d g v s = (Inr er, t) \<Longrightarrow> \<exists>ops. run (free_step rd (ev_cache ev) None) s ops t"
  using assms unfolding evm_interface_def by metis+

abbreviation execution ::
  "('l, 'w) evm_env \<Rightarrow> ('w, 'a) vm_keepers \<Rightarrow> reader \<Rightarrow> core_message \<Rightarrow> EVMConfig \<Rightarrow> uint64 \<Rightarrow> uint256 \<Rightarrow> ('l, evm_result) sdb" where
  "execution ev ks rd msg cfg gas v \<equiv> (case msg_To msg of
     None \<Rightarrow> run_create ev rd msg cfg gas v | Some to \<Rightarrow> run_call ev ks rd msg cfg to gas v)"

lemma execution_run:
  assumes "evm_interface ev rd" "execution ev ks rd msg cfg gas v s = (Inr er, t)"
  shows "\<exists>ops. run (free_step rd (ev_cache ev) None) s ops t"
proof -
  let ?R = "\<lambda>s t. \<exists>ops. run (free_step rd (ev_cache ev) None) s ops t"
  have trans: "?R a b \<Longrightarrow> ?R b c \<Longrightarrow> ?R a c" for a b c using run_append by metis
  have ok: "?R a b" if "runs rd (ev_cache ev) m" "m a = (Inr x, b)" for m a x b using that unfolding runs_def by blast
  show ?thesis
  proof (cases "msg_To msg")
    case None
    then obtain s1 s2 s3 n where st: "SetNonce rd (msg_From msg) (msg_Nonce msg) s = (Inr (), s1)"
      "ev_Create ev msg cfg (msg_From msg) (msg_Data msg) gas v s1 = (Inr er, s2)" "GetNonce rd (msg_From msg) s2 = (Inr n, s3)"
      "(if n = msg_Nonce msg then SetNonce rd (msg_From msg) (msg_Nonce msg + 1) else okE ()) s3 = (Inr (), t)"
      using assms(2) by (auto simp: run_create_def handler_simps)
    show ?thesis
      by (rule trans [OF trans [OF trans [OF ok [OF runs_setters(1) st(1)] runs_evm(1) [OF assms(1) st(2)]] ok [OF runs_queries(2) st(3)]]
          ok [OF runs_if [OF runs_setters(1) runs_pure(1)] st(4)]])
  next
    case (Some to)
    then obtain s1 s2 s3 code where st: "applyAuthorizations ev ks rd (msg_SetCodeAuthorizations msg) s = (Inr (), s1)"
      "GetCode rd to s1 = (Inr code, s2)"
      "(case vm_ParseDelegation ks (case code of None \<Rightarrow> [] | Some b \<Rightarrow> b) of
              Some addr \<Rightarrow> AddAddressToAccessList addr | None \<Rightarrow> okE ()) s2 = (Inr (), s3)"
      "ev_Call ev msg cfg (msg_From msg) to (msg_Data msg) gas v s3 = (Inr er, t)"
      using assms(2) by (auto simp: run_call_def handler_simps)
    show ?thesis
      by (rule trans [OF trans [OF trans [OF ok [OF runs_authorizations st(1)] ok [OF runs_queries(1) st(2)]]
          ok [OF runs_option [OF runs_pure(1) runs_setters(4)] st(3)]] runs_evm(2) [OF assms(1) st(4)]])
  qed
qed

section \<open>The prepared state database\<close>

lemma prepare_list_wf: "al_wf al \<Longrightarrow> al_wf (prepare_list lst al)"
proof (induction lst al rule: prepare_list.induct)
  case (2 a keys rest al)
  have "al_wf (fold (\<lambda>k al. snd (AddSlot a k al)) keys b)" if "al_wf b" for b
    using that by (induction keys arbitrary: b) (simp_all add: AddSlot_wf)
  then show ?case using 2 AddAddress_wf by simp
qed simp

lemma prepare_access_wf: "al_wf (prepare_access rls sender coinbase dst precompiles lst)"
proof -
  have "al_wf (fold (\<lambda>a al. snd (AddAddress a al)) as b)" if "al_wf b" for as b
    using that by (induction as arbitrary: b) (simp_all add: AddAddress_wf)
  then show ?thesis
    unfolding prepare_access_def Let_def by (auto intro!: prepare_list_wf AddAddress_wf newAccessList_wf split: option.split)
qed

lemma Prepare_fresh:
  assumes "fresh rd cc s" "Prepare rls sender coinbase dst precompiles lst s = (Inr (), t)"
  shows "fresh rd cc t"
proof -
  obtain al where t: "t = s\<lparr>accList := al, st_transient := newTransientStorage\<rparr>" and al: "al_wf (accList s) \<Longrightarrow> al_wf al"
  proof (cases "IsEIP2929 rls")
    case True
    show ?thesis
      by (rule that [of "prepare_access rls sender coinbase dst precompiles lst"])
        (use assms(2) True prepare_access_wf in \<open>auto simp: Prepare_def handler_simps\<close>)
  next
    case False
    show ?thesis
      by (rule that [of "accList s"]) (use assms(2) False in \<open>auto simp: Prepare_def handler_simps\<close>)
  qed
  have s: "stateObjects s = Map.empty" "jrnl s = newJournal" "cacheCtx s = None" "sdb_ok rd cc s"
    using assms(1) by (simp_all add: fresh_def)
  have wf: "world_wf (world_of rd cc s)" using s(4) by (simp add: sdb_ok_def sdb_pre_def)
  then have "world_wf (world_of rd cc t)" using al by (simp add: t world_wf_def world_of_def)
  then show ?thesis
    using s by (simp add: fresh_def t sdb_ok_def sdb_pre_def newJournal_def addressed_def revisions_ok_def)
qed

section \<open>Messages as runs\<close>

text \<open>The stages of a message that was applied and committed.\<close>

definition message_stages where
  "message_stages ev ks rd msg cfg internal s0 c0 res s1 c1 gas v sp s er rf \<longleftrightarrow>
    gas_checks ev msg = Inr gas \<and> Uint256FromBigInt (msg_Value msg) = Inr v \<and>
    Prepare (ev_rules ev) (msg_From msg) 0 (msg_To msg) (ev_ActivePrecompiles ev) (msg_AccessList msg) s0 = (Inr (), sp) \<and>
    execution ev ks rd msg cfg gas v sp = (Inr er, s) \<and> \<not> msg_GasLimit msg < er_gas er \<and>
    GasToRefund (GetRefund s) (msg_GasLimit msg - er_gas er) (refundQuotient ev internal) = Inr rf \<and>
    (if ev_IsAmsterdam ev then EmitLogsForBurnAccounts (ev_burnLog ev) else okE ()) s = (Inr (), s1) \<and>
    Commit (ev_cache ev) (ev_sync ev) (keeper_writer ks) s1 c0 = (Inr (), c1) \<and>
    gas_charge ev msg cfg internal (er_gas er + rf) (msg_GasLimit msg - er_gas er - rf) = Inr (res_GasUsed res) \<and>
    res_MaxUsedGas res = msg_GasLimit msg - er_gas er \<and> res_VmError res = (case er_err er of None \<Rightarrow> [] | Some e \<Rightarrow> e) \<and>
    res_Logs res = logs s1"

lemma ApplyMessage_ok:
  assumes "ApplyMessageWithConfig ev ks rd msg True False cfg h internal (s0, c0) = (Inr res, (s1, c1))"
  shows "\<exists>gas v sp s er rf. message_stages ev ks rd msg cfg internal s0 c0 res s1 c1 gas v sp s er rf"
  using assms unfolding ApplyMessageWithConfig_def Let_def message_stages_def
  by (auto simp: handler_simps split: if_splits)

lemma emit_logs_run:
  "emit_logs f bs s = (Inr (), t) \<Longrightarrow> \<exists>ops. run (free_step rd cw None) s ops t"
proof (induction bs arbitrary: s)
  case Nil
  then show ?case by (auto intro: run_Nil)
next
  case (Cons b bs)
  obtain a n where b: "b = (a, n)" by (cases b)
  obtain u where u: "AddLog (f a n) s = (Inr (), u)" "emit_logs f bs u = (Inr (), t)"
    using Cons.prems by (auto simp: b thenE_ok)
  have "free_step rd cw None (OpAddLog (f a n)) s u" using u(1) by (simp add: free_step_def)
  moreover obtain ops where "run (free_step rd cw None) u ops t" using Cons.IH [OF u(2)] by blast
  ultimately have "run (free_step rd cw None) s (OpAddLog (f a n) # ops) t" by (rule run_Cons)
  then show ?case by blast
qed

text \<open>
  The commit of a message's state database is the commit of a run of the prepared database, with no
  cached context.
\<close>

lemma message_run:
  assumes evm: "evm_interface ev rd" and ok: "codes_ok rd"
    and st: "message_stages ev ks rd msg cfg internal (NewStateDB n m) c0 res s1 c1 gas v sp s er rf"
  shows "fresh rd None sp" "\<exists>ops. run (free_step rd (ev_cache ev) None) sp ops s1" "cacheCtx s1 = None"
    "commitWithCtx (keeper_writer ks) s1 c0 = (Inr (), c1)"
proof -
  have new: "fresh rd None (NewStateDB n m)" by (rule fresh_New) (simp add: ctx_ok_def)
  show sp: "fresh rd None sp"
    using st Prepare_fresh [OF new] unfolding message_stages_def by blast
  have "execution ev ks rd msg cfg gas v sp = (Inr er, s)" using st unfolding message_stages_def by blast
  then obtain ops1 where ops1: "run (free_step rd (ev_cache ev) None) sp ops1 s" using execution_run [OF evm] by blast
  have "\<exists>ops. run (free_step rd (ev_cache ev) None) s ops s1"
  proof (cases "ev_IsAmsterdam ev")
    case True
    then have "emit_logs (ev_burnLog ev) (burnt_accounts s) s = (Inr (), s1)"
      using st by (simp add: message_stages_def EmitLogsForBurnAccounts_def)
    then show ?thesis by (rule emit_logs_run)
  next
    case False
    then have "s1 = s" using st by (simp add: message_stages_def)
    then show ?thesis by (auto intro: run_Nil)
  qed
  then show run: "\<exists>ops. run (free_step rd (ev_cache ev) None) sp ops s1" using run_append [OF ops1] by blast
  then obtain ops where "run (free_step rd (ev_cache ev) None) sp ops s1" by blast
  from free_facts(3) [OF ok sp this] show none: "cacheCtx s1 = None" by simp
  show "commitWithCtx (keeper_writer ks) s1 c0 = (Inr (), c1)"
    using st none by (simp add: message_stages_def Commit_def)
qed

end
