(* ===== verification/Vm_Example.thy ===== *)
theory Vm_Example
  imports Vm_Execution
begin

text \<open>
  A concrete EVM and chain for the examples: every call raises the nonce of the called account and
  uses 5000 gas; it reverts when it is given data. A creation does nothing.
\<close>

definition ex_params :: Feemarket.Params where
  "ex_params = \<lparr>NoBaseFee = False, BaseFeeChangeDenominator = 8, ElasticityMultiplier = 2, BaseFee = Some (10 * dec_unit),
     EnableHeight = 0, MinGasPrice = Some 0, MinGasMultiplier = Some (dec_unit div 2)\<rparr>"

definition ex_feemarket :: feemarket_env where
  "ex_feemarket = \<lparr>fm_dec = int_dec_ops, MarshalParams = (\<lambda>p. Inr []), UnmarshalParams = (\<lambda>b. Inr ex_params),
     Uint64ToBigEndian = (\<lambda>n. []), BigEndianToUint64 = (\<lambda>b. 0), DecString = (\<lambda>d. []),
     fm_ValidateAuthority = (\<lambda>a b. Inr ()), fm_AccAddressFromBech32 = (\<lambda>a. Inr a),
     DefaultBaseFeeChangeDenominator = 8, DefaultElasticityMultiplier = 2\<rparr>"

definition ex_rules :: Ante_Evm.rules where
  "ex_rules = \<lparr>r_IsLondon = True, r_IsHomestead = True, r_IsIstanbul = True, r_IsShanghai = True\<rparr>"

definition ex_call :: "reader \<Rightarrow> address \<Rightarrow> bytes \<Rightarrow> uint64 \<Rightarrow> ('l, evm_result) sdb" where
  "ex_call rd to data gas =
     (if data = [] then thenE (SetNonce rd to 1)
        (okE \<lparr>er_ret = [], er_gas = gas - 5000, er_err = None, er_ReturnData = []\<rparr>)
      else okE \<lparr>er_ret = [], er_gas = gas - 5000, er_err = Some ''execution reverted'', er_ReturnData = data\<rparr>)"

type_synonym ex_layer = "bytes \<rightharpoonup> bytes option"

definition ex_env :: "reader \<Rightarrow> (Transaction \<Rightarrow> bytes) \<Rightarrow> (ex_layer, demo_world) evm_env" where
  "ex_env rd data = \<lparr>ev_feemarket = ex_feemarket,
     ev_Create = (\<lambda>msg cfg a d g v. okE \<lparr>er_ret = [], er_gas = g, er_err = None, er_ReturnData = []\<rparr>),
     ev_Call = (\<lambda>msg cfg a b d g v. ex_call rd b d g),
     ev_ActivePrecompiles = [], ev_IntrinsicGas = (\<lambda>d al as b r. Inr 21000), ev_FloorDataGas = (\<lambda>d. Inr 0),
     ev_rules = \<lparr>IsEIP2929 = False, IsEIP4762 = False, IsShanghai = True\<rparr>, ev_gas_rules = ex_rules,
     ev_IsPrague = True, ev_IsAmsterdam = False, ev_ChainID = 7,
     ev_Authority = (\<lambda>au. Inr (au_Address au)), ev_AddressToDelegation = AddrBytes,
     ev_burnLog = (\<lambda>a v. \<lparr>log_Address = a, log_Topics = [], log_Data = [], log_TxIndex = 0, log_Index = 0\<rparr>),
     ev_BloomAdd = (\<lambda>b n. n), ev_CreateAddress = (\<lambda>a n. a),
     ev_TransactionToMessage = (\<lambda>tx base. Inr \<lparr>msg_From = 42, msg_To = tx_To tx, msg_Nonce = tx_Nonce tx, msg_Value = tx_Value tx,
        msg_GasLimit = tx_Gas tx, msg_GasPrice = (case base of None \<Rightarrow> tx_GasPrice tx | Some b \<Rightarrow> min (tx_GasTipCap tx) (tx_GasFeeCap tx - b) + b),
        msg_Data = data tx, msg_AccessList = [], msg_SetCodeAuthorizations = []\<rparr>),
     ev_Sender = (\<lambda>tx. Inr 42), ev_HashHex = HashBytes, ev_AddrHex = AddrBytes, ev_CmtTxHash = (\<lambda>b. []),
     ev_flush = \<lparr>KSetAccount = (\<lambda>a x. okE ()), KDeleteState = (\<lambda>a k s. s), KSetState = (\<lambda>a k v s. s), KDeleteCode = (\<lambda>h s. s),
        KSetCode = (\<lambda>h c s. s), KDeleteAccount = (\<lambda>a. okE ())\<rparr>,
     ev_cache = map_cache, ev_sync = (\<lambda>m evs c. c), ev_GetValidatorByConsAddr = (\<lambda>b w. Inr b), ev_ValAddressFromBech32 = Inr,
     ev_feemarket_store = (\<lambda>w. [ParamsKey \<mapsto> []]), ev_hooks = None\<rparr>"

lemma ex_evm_interface: "evm_interface (ex_env rd data) rd"
proof -
  have "runs rd map_cache (ex_call rd b d g)" for b d g
    unfolding ex_call_def by (intro runs_intros)
  then show ?thesis
    by (auto simp: evm_interface_def ex_env_def runs_def okE_def intro: run_Nil)
qed

definition ex_tx :: Transaction where
  "ex_tx = \<lparr>tx_To = Some 1, tx_Gas = 100000, tx_Nonce = 3, tx_Type = 2, tx_GasPrice = 15, tx_GasFeeCap = 15, tx_GasTipCap = 2,
     tx_Value = 0, tx_Cost = 1500000, tx_Hash = 0\<rparr>"

definition ex_tc :: tx_context where
  "ex_tc = \<lparr>tc_TxIndex = 0, tc_MsgIndex = 0, tc_ProposerAddress = [], tc_TxBytes = []\<rparr>"

text \<open>The sender has an account and has paid; the fee collector has an account.\<close>

definition ex_world :: "int \<Rightarrow> demo_world" where
  "ex_world n = ([AddrBytes 42 \<mapsto> 4, AddrBytes 9 \<mapsto> 0],
     \<lambda>a d. if a = AddrBytes 42 then 5000000 - n else if a = AddrBytes 9 then n else 0)"

definition ex_ctx :: "demo_world vm_ctx" where
  "ex_ctx = \<lparr>vc_store = Map.empty, vc_world = ex_world 1200000, vc_objects = Map.empty, vc_events = []\<rparr>"

abbreviation ex_rd :: reader where "ex_rd \<equiv> keeper_reader demo_keepers ex_ctx"

definition ex_state :: "demo_world tx_state" where
  "ex_state = \<lparr>vt_ctx = ex_ctx, vt_meter = NewInfiniteGasMeterWithLimit 100000\<rparr>"

definition ex_cfg :: EVMConfig where
  "ex_cfg = \<lparr>cfg_FeeMarketParams = ex_params, cfg_CoinBase = 0, cfg_BaseFee = Some 10\<rparr>"

lemma ex_config: "mkEVMConfig (ex_env rd data) demo_keepers ex_tc [] c = (Inr ex_cfg, c)"
  by (simp add: mkEVMConfig_def ex_env_def ex_feemarket_def WGetParams_def GetParams_def GetCoinbaseAddress_def GetProposerAddress_def
      ex_tc_def KGetBaseFee_def ex_rules_def WGetBaseFee_def GetBaseFee_def ex_params_def ex_cfg_def
      ConvertAmountTo18DecimalsLegacy_def coin_factor_def GetEVMCoinDecimals_def getCoinInfo_def of_option_def ConversionFactor_def
      Decimals_Validate_def EighteenDecimals_def the_dec_def
      int_dec_ops_def dec_result_def dec_fits_def dec_unit_def go_div_def bindR_def thenR_def require_def bindE_def thenE_def
      wrapE_def okE_def readE_def liftE_def Let_def)

definition ex_msg :: "bytes \<Rightarrow> core_message" where
  "ex_msg data = \<lparr>msg_From = 42, msg_To = Some 1, msg_Nonce = 3, msg_Value = 0, msg_GasLimit = 100000, msg_GasPrice = 12,
     msg_Data = data, msg_AccessList = [], msg_SetCodeAuthorizations = []\<rparr>"

definition ex_res :: "bytes \<Rightarrow> MsgEthereumTxResponse" where
  "ex_res data = \<lparr>res_GasUsed = 50000, res_MaxUsedGas = 26000, res_VmError = (if data = [] then [] else ''execution reverted''),
     res_Ret = data, res_Logs = [], res_Hash = HashBytes 0\<rparr>"

lemma ex_message: "ev_TransactionToMessage (ex_env rd (\<lambda>tx. data)) ex_tx (Some 10) = Inr (ex_msg data)"
  by (simp add: ex_env_def ex_tx_def ex_msg_def)

lemma ex_gas: "gas_checks (ex_env rd f) (ex_msg data) = Inr 79000"
  "gas_charge (ex_env rd f) (ex_msg data) ex_cfg False 74000 26000 = Inr 50000"
  by (simp_all add: gas_checks_def GetEthIntrinsicGas_def ex_env_def ex_msg_def thenR_def bindR_def require_def
      gas_charge_def ex_feemarket_def ex_cfg_def ex_params_def int_dec_ops_def dec_result_def dec_fits_def dec_unit_def go_div_def
      LegacyNewDec_def int_Uint64_def Let_def)

lemma ex_prepare: "Prepare (ev_rules (ex_env rd f)) a b c ps al (NewStateDB 0 0) = (Inr (), NewStateDB 0 0)"
  by (simp add: Prepare_def ex_env_def thenE_def bindE_def okE_def requireE_def modifyE_def NewStateDB_def)

lemmas ex_db_eval = SetNonce_def GetCode_def readObject_def getOrNewStateObject_def getStateObject_def createObject_def so_SetNonce_def so_Code_def sdb_eval
  NewStateDB_def newObject_def newJournal_def setNonce_def append_entry_def EmptyCodeHash_def IsEmptyCodeHash_def

lemma ex_absent: "KeeperGetAccount demo_keepers ex_ctx 1 = None"
  by (simp add: KeeperGetAccount_def ex_ctx_def ex_world_def)

definition ex_sdb :: "bytes \<Rightarrow> ex_layer StateDB" where
  "ex_sdb data = (if data = [] then snd (SetNonce ex_rd 1 1 (NewStateDB 0 0)) else NewStateDB 0 0)"

lemma ex_run: "run_call (ex_env ex_rd f) demo_keepers ex_rd (ex_msg data) ex_cfg 1 79000 0 (NewStateDB 0 0) =
    (Inr \<lparr>er_ret = [], er_gas = 74000, er_err = (if data = [] then None else Some ''execution reverted''), er_ReturnData = data\<rparr>, ex_sdb data)"
  by (simp add: run_call_def ex_msg_def ex_env_def ex_call_def ex_sdb_def ex_db_eval ex_absent)

lemma ex_sdb_state:
  "cacheCtx (ex_sdb data) = None" "GetRefund (ex_sdb data) = 0" "logs (ex_sdb data) = []"
  "sortedDirties (jrnl (ex_sdb data)) = (if data = [] then [1] else [])"
  "stateObjects (ex_sdb []) = [1 \<mapsto> \<lparr>so_address = 1, so_Nonce = 1, so_Balance = 0, so_CodeHash = 0, so_lockedBalance = None,
     so_code = None, originStorage = Map.empty, dirtyStorage = Map.empty, overrideStorage = None,
     dirtyCode = False, selfDestructed = False, newContract = False\<rparr>]"
  by (simp_all add: ex_sdb_def ex_db_eval ex_absent sortedDirties_def GetRefund_def)

definition ex_after :: "bytes \<Rightarrow> demo_world vm_ctx" where
  "ex_after data = (if data = [] then ex_ctx\<lparr>vc_world := ((fst (ex_world 1200000))(AddrBytes 1 \<mapsto> 1),
     (snd (ex_world 1200000))(AddrBytes 1 := (snd (ex_world 1200000) (AddrBytes 1))(''axit'' := 0)))\<rparr> else ex_ctx)"

lemma ex_commit: "Commit map_cache (\<lambda>m evs c. c) (keeper_writer demo_keepers) (ex_sdb data) ex_ctx = (Inr (), ex_after data)"
  by (simp add: Commit_def ex_sdb_state commitWithCtx_def commit_object_def keeper_writer_def thenE_def bindE_def modifyE_def
      KeeperSetAccount_def so_account_def NewAccount_def ex_ctx_def ex_world_def vmW_def DeleteCodeHash_def vmS_def
      SetAccountBalance_def KSetBalance_def getsE_def SetBalanceWithLocked_def readE_def WSpendableCoin_def EvmDenom_def
      lockedCoin_def WSetBalance_def sdk_int_def liftE_def ConvertEvmCoinDenomToExtendedDenom_def thenR_def bindR_def require_def
      GetEVMCoinDenom_def GetEVMCoinExtendedDenom_def getCoinInfo_def of_option_def requireE_def SortedKeys_def okE_def
      int_ok_def Let_def comp_def ex_after_def kv_delete_def)

lemma ex_apply:
  "ApplyMessageWithConfig (ex_env ex_rd f) demo_keepers ex_rd (ex_msg data) True False ex_cfg 0 False (NewStateDB 0 0, ex_ctx) =
     (Inr (ex_res data), ex_sdb data, ex_after data)"
proof -
  have "refundQuotient (ex_env ex_rd f) False = 5" "msg_To (ex_msg data) = Some 1" "msg_Value (ex_msg data) = 0" "msg_GasLimit (ex_msg data) = 100000"
    "ev_cache (ex_env ex_rd f) = map_cache" "ev_sync (ex_env ex_rd f) = (\<lambda>m evs c. c)" "\<not> ev_IsAmsterdam (ex_env ex_rd f)"
    "ev_HashHex (ex_env ex_rd f) = HashBytes"
    by (simp_all add: refundQuotient_def ex_env_def ex_rules_def RefundQuotientEIP3529_def ex_msg_def)
  then show ?thesis
    by (simp add: ApplyMessageWithConfig_def ex_gas ex_prepare ex_run ex_commit ex_sdb_state GasToRefund_def Uint256FromBigInt_def ex_res_def
        onDB_def onCtx_def wrapE_def bindE_def thenE_def liftE_def readE_def okE_def requireE_def require_def thenR_def bindR_def getsE_def Let_def)
qed

definition ex_refunded :: "bytes \<Rightarrow> demo_world" where
  "ex_refunded data = snd (demo_send (AddrBytes 9) (AddrBytes 42) [(''axit'', 600000)] (vc_world (ex_after data)))"

lemma ex_refund: "RefundGas demo_keepers 42 12 50000 (EvmDenom demo_keepers) (ex_after data) = (Inr (), (ex_after data)\<lparr>vc_world := ex_refunded data\<rparr>)"
  by (simp add: RefundGas_def Let_def bindE_def liftE_def sdk_int_def int_ok_def wrapE_def asE_def vm_refund_send_def vmW_def EvmDenom_def
      WSendCoinsFromModuleToAccount_def ConvertCoinsDenomToExtendedDenom_def ConvertEvmCoinDenomToExtendedDenom_def thenR_def bindR_def
      require_def GetEVMCoinDenom_def GetEVMCoinExtendedDenom_def getCoinInfo_def of_option_def coins_zero_def ex_refunded_def
      demo_send_def ex_after_def ex_ctx_def ex_world_def)

definition ex_final :: "bytes \<Rightarrow> demo_world tx_state" where
  "ex_final data = \<lparr>vt_ctx = (ex_after data)\<lparr>vc_world := ex_refunded data, vc_objects := [ObjectGasUsedKey 0 \<mapsto> ObjGas 50000]\<rparr>,
     vt_meter = (NewInfiniteGasMeterWithLimit 100000)\<lparr>gm_consumed := 50000\<rparr>\<rparr>"

lemma ex_transaction:
  "ApplyTransaction (ex_env ex_rd (\<lambda>tx. data)) demo_keepers ex_tc ex_tx ex_state = (Inr (ex_res data), ex_final data)"
proof -
  have cache: "CacheContext ex_ctx = ex_ctx" by (simp add: CacheContext_def ex_ctx_def)
  have after: "commitFn (ex_after data) ex_ctx = ex_after data" "vc_objects (ex_after data) = Map.empty" "data \<noteq> [] \<Longrightarrow> ex_after data = ex_ctx"
    by (simp_all add: commitFn_def ex_after_def ex_ctx_def)
  have finish: "finish_tx (ex_env ex_rd (\<lambda>tx. data)) ex_tx (ex_msg data) rc (ex_res data) (ex_after data) ex_ctx = (Inr (ex_res data), ex_after data)" for rc
    using after by (simp add: finish_tx_def ex_env_def ex_res_def res_Failed_def Let_def)
  have "settle_gas demo_keepers ex_tc (ex_msg data) (ex_res data) \<lparr>vt_ctx = ex_after data, vt_meter = NewInfiniteGasMeterWithLimit 100000\<rparr> =
      (Inr (ex_res data), ex_final data)"
    by (simp add: settle_gas_def ex_msg_def ex_res_def thenE_def bindE_def wrapE_def onVm_def ex_refund ex_final_def AddTransientGasUsed_def
        GetTransientGasUsed_def SetTransientGasUsed_def after readE_def modifyE_def okE_def onMeter_def ex_tc_def Let_def ResetGasMeter_effect)
  moreover have "tc_ProposerAddress ex_tc = []" "tc_TxIndex ex_tc = 0" "tx_Hash ex_tx = 0" "cfg_BaseFee ex_cfg = Some 10"
    "with_bloom (ex_env ex_rd (\<lambda>tx. data)) ex_tc (ex_res data) c = c" for c
    by (simp_all add: ex_tc_def ex_tx_def ex_cfg_def with_bloom_def ex_res_def)
  ultimately show ?thesis
    by (simp add: ApplyTransaction_def ex_state_def bindE_def wrapE_def onVm_def ex_config ex_message ex_apply liftE_def getsE_def cache finish)
qed

end
