(* ===== verification/Vm_Transition_Properties.thy ===== *)
theory Vm_Transition_Properties
  imports Vm_Example
begin

text \<open>
  What the state transition guarantees: bounds of the gas charged, and what a failed transaction
  leaves.
\<close>

section \<open>Gas charged for a message\<close>

definition minimum_gas :: "EVMConfig \<Rightarrow> core_message \<Rightarrow> int" where
  "minimum_gas cfg msg =
     (case MinGasMultiplier (cfg_FeeMarketParams cfg) of None \<Rightarrow> 0 | Some m \<Rightarrow> uint (msg_GasLimit msg) * m div dec_unit)"

text \<open>The multiplier of valid fee market parameters is between zero and one.\<close>

definition multiplier_ok :: "EVMConfig \<Rightarrow> bool" where
  "multiplier_ok cfg \<longleftrightarrow> (\<forall>m. MinGasMultiplier (cfg_FeeMarketParams cfg) = Some m \<longrightarrow> 0 \<le> m \<and> m \<le> dec_unit)"

lemma truncate_max:
  assumes "dec_laws D" "0 \<le> n" "0 \<le> d"
  shows "DTruncateInt D (max (LegacyNewDec n) d) = max n (d div dec_unit)"
proof -
  have "n * dec_unit div dec_unit = n" by simp
  then have "max (n * dec_unit) d div dec_unit = max n (d div dec_unit)"
    using zdiv_mono1 [OF _ dec_unit_pos(1)] by (smt (verit))
  then show ?thesis
    using assms(2,3) by (simp add: dec_laws_ops [OF assms(1)] go_div_nonneg LegacyNewDec_def max_def)
qed

lemma gas_charge_exact:
  assumes laws: "dec_laws (fm_dec (ev_feemarket ev))" and ok: "multiplier_ok cfg" and used: "uint used < 2 ^ 63"
    and g: "gas_charge ev msg cfg False left used = Inr g"
  shows "uint g = max (uint used) (minimum_gas cfg msg)" "minimum_gas cfg msg \<le> uint (msg_GasLimit msg)"
proof -
  define m where "m = (case MinGasMultiplier (cfg_FeeMarketParams cfg) of None \<Rightarrow> 0 | Some d \<Rightarrow> d)"
  define d where "d = uint (msg_GasLimit msg) * m"
  have m: "0 \<le> m" "m \<le> dec_unit" using ok by (auto simp: multiplier_ok_def m_def less_imp_le split: option.splits)
  have min: "minimum_gas cfg msg = d div dec_unit" by (simp add: minimum_gas_def d_def m_def split: option.split)
  have "- (2 ^ 63) \<le> uint used" using uint_nonnegative [of used] by (rule order_trans [rotated]) simp
  then have sint: "sint used = uint used" using used signed_take_bit_int_eq_self [of 63 "uint used"] by (simp add: sint_uint)
  have d: "0 \<le> d" using m by (simp add: d_def)
  have "int_Uint64 (max (uint used) (d div dec_unit)) = Inr g"
    using g truncate_max [OF laws uint_nonnegative [of used] d]
    by (auto simp: gas_charge_def Let_def handler_simps dec_mul_whole [OF laws] m_def [symmetric] d_def [symmetric] sint)
  then show "uint g = max (uint used) (minimum_gas cfg msg)"
    by (auto simp: int_Uint64_def min uint_word_of_int_eq take_bit_int_eq_self_iff split: if_splits)
  have "d div dec_unit \<le> uint (msg_GasLimit msg) * dec_unit div dec_unit"
    unfolding d_def using m(2) by (intro zdiv_mono1 mult_left_mono) simp_all
  then show "minimum_gas cfg msg \<le> uint (msg_GasLimit msg)" by (simp add: min)
qed

text \<open>
  The gas charged for a message of a transaction is the larger of the gas used less the refund and the
  share of the limit that the fee market asks for; it is at most the limit, and the refund takes off at
  most a fifth of the gas used (a half before London).
\<close>

lemma message_gas_facts:
  fixes ev :: "('l, 'w) evm_env"
  assumes "dec_laws (fm_dec (ev_feemarket ev))" "multiplier_ok cfg" "uint (msg_GasLimit msg) < 2 ^ 63"
    and "ApplyMessageWithConfig ev ks rd msg True False cfg h False (s0, c0) = (Inr res, (s1, c1))"
  shows "\<exists>refund. uint (res_GasUsed res) = max (uint (res_MaxUsedGas res) - refund) (minimum_gas cfg msg) \<and>
    0 \<le> refund \<and> refund * (if r_IsLondon (ev_gas_rules ev) then 5 else 2) \<le> uint (res_MaxUsedGas res) \<and>
    res_GasUsed res \<le> msg_GasLimit msg \<and> res_MaxUsedGas res \<le> msg_GasLimit msg"
proof -
  obtain gas v sp s er refund where st: "message_stages ev ks rd msg cfg False s0 c0 res s1 c1 gas v sp s er refund"
    using ApplyMessage_ok [OF assms(4)] by blast
  then have er: "er_gas er \<le> msg_GasLimit msg"
    and refund: "GasToRefund (GetRefund s) (msg_GasLimit msg - er_gas er) (refundQuotient ev False) = Inr refund"
    and charge: "gas_charge ev msg cfg False (er_gas er + refund) (msg_GasLimit msg - er_gas er - refund) = Inr (res_GasUsed res)"
    and used: "res_MaxUsedGas res = msg_GasLimit msg - er_gas er"
    unfolding message_stages_def not_less by blast+
  let ?used = "msg_GasLimit msg - er_gas er"
  note b = GasToRefund_bound [OF refund]
  have u: "uint ?used = uint (msg_GasLimit msg) - uint (er_gas er)"
    using er uint_minus_simple_alt [of "er_gas er" "msg_GasLimit msg"] by simp
  have r: "uint (?used - refund) = uint ?used - uint refund"
    using b(2) uint_minus_simple_alt [of refund ?used] by simp
  have "uint (?used - refund) < 2 ^ 63" using assms(3) r u uint_nonnegative [of refund] uint_nonnegative [of "er_gas er"] by linarith
  note g = gas_charge_exact [OF assms(1,2) this charge]
  have "uint refund * (if r_IsLondon (ev_gas_rules ev) then 5 else 2) \<le> uint ?used"
    using b(3) by (simp add: refundQuotient_def RefundQuotientEIP3529_def RefundQuotient_def split: if_splits)
  moreover have "uint (res_GasUsed res) \<le> uint (msg_GasLimit msg)"
    using g r u uint_nonnegative [of refund] uint_nonnegative [of "er_gas er"] by linarith
  ultimately show ?thesis
    using g(1) r used u uint_nonnegative [of "er_gas er"] by (intro exI [of _ "uint refund"]) (simp add: word_le_def)
qed

section \<open>Successful transactions\<close>












end
