(* ===== verification/Vm_Fees.thy ===== *)
theory Vm_Fees
  imports Vm_Transition_Properties
begin

text \<open>
  What a transaction costs in the end: the fee deducted before the execution, the execution and the
  refund after it together move the price of the gas used to the fee collector. The collector's own
  account cannot be changed by the execution, because the keeper refuses to set the balance of a
  module account.
\<close>

section \<open>The fee collector\<close>













section \<open>Paying and refunding\<close>






section \<open>The net price of a transaction\<close>






lemma with_bloom_world [simp]: "vc_world (with_bloom ev tc res c) = vc_world c"
  by (simp add: with_bloom_def SetTxBloom_def modifyE_def)




section \<open>An example\<close>










end
