(* ===== verification/Spec2Isabelle.thy ===== *)
theory Spec2Isabelle
  imports Bridge_Properties StateDB_Properties Admission_Properties Feemarket_Properties Incentives_Properties Gas_Search
    Ante_Properties Ante_Evm_Properties Vm_Commit_Properties Vm_Fees
begin

text \<open>
  A verification development of the pos-chain repository: a Cosmos SDK chain with an EVM, a bridge to
  Cronos, an admission policy for validators and a treasury that funds their rewards. File names
  below are relative to \<^verbatim>\<open>src/\<close>.

  \<^bold>\<open>The parts and how they interact.\<close> A transaction enters through the ante handler
  (\<^verbatim>\<open>evmd/app.go\<close> composes \<^verbatim>\<open>x/validatoradmission/ante.go\<close> with \<^verbatim>\<open>ante/\<close>): an
  Ethereum transaction meets the mono decorator of \<^verbatim>\<open>ante/evm\<close>, a Cosmos transaction the decorators
  of \<^verbatim>\<open>ante/cosmos\<close>. Both read the base fee that \<^verbatim>\<open>x/feemarket\<close> recomputes in every block.
  Accepted messages reach the message servers of the modules: \<^verbatim>\<open>x/bridge\<close> mints and burns the native
  coin against attestations, \<^verbatim>\<open>x/validatoradmission\<close> keeps the list of approved validators,
  \<^verbatim>\<open>x/validatorincentives\<close> releases the treasury to the fee collector at the beginning of every
  block, and the state transition of \<^verbatim>\<open>x/vm/keeper\<close> runs the EVM over the state database of
  \<^verbatim>\<open>x/vm/statedb\<close>, which keeps the effects of precompiled contracts in the nested cache stores of
  \<^verbatim>\<open>x/vm/store\<close>; it commits the database through the keeper and refunds the leftover gas. Gas
  estimation
  (\<^verbatim>\<open>x/vm/keeper/grpc_query.go\<close>) searches the least gas limit with which a message executes.

  \<^bold>\<open>Conventions.\<close> A function of the code that may fail is a function into \<open>err + 'a\<close>, with the
  constructor \<open>Err\<close> for a returned error and \<open>Panic\<close> for a panic. A method that writes to a store is
  a function from the state to a result and the state it leaves, also when it fails: the writes before
  an error stay visible, as in the code, and discarding them is the transaction's business. The early
  returns of the source are the \<open>requireE\<close> and \<open>bindE\<close> of the model, in the order of the source.
  Machine integers are words (\<open>uint64\<close>, \<open>uint256\<close>), \<^verbatim>\<open>big.Int\<close> is \<open>int\<close>, the checked
  integers of the SDK pass through \<open>sdk_int\<close>, which panics outside 256 bits. A module's store is a map
  from byte strings to byte strings with the key prefixes of the code. Code outside the repository (the
  Cosmos SDK, go-ethereum, hash functions, protobuf and Amino codecs) is a record of functions given as
  an argument (\<open>bridge_env\<close>, \<open>admission_env\<close>, \<open>eth_env\<close>, \<open>eth_keepers\<close>, \<open>dec_ops\<close> and so on). What the
  properties need of it is an explicit hypothesis, and each such property is applied to a concrete
  instance in its witness.

  \<^bold>\<open>Theories.\<close>
  \<^item> \<open>Prelude\<close>, \<open>Go_Values\<close>, \<open>Store_Iteration\<close>, \<open>Demo_Codec\<close>: handlers, stores, the parts of
    the Go standard library the modules use (decimal and big-endian conversions, string functions,
    binary search), iteration over a key prefix. The interfaces shared by several components are the
    locales \<open>invariant_system\<close> (an invariant of a step relation), \<open>once_only\<close> (a replay guard; it gives
    the former by a \<open>sublocale\<close>), \<open>kv_cell\<close> (an encoded value under a key) and \<open>snapshotter\<close> (a stack of
    checkpoints). Each is interpreted on the definitions of the components below.
  \<^item> \<open>Bridge_Types\<close> (\<^verbatim>\<open>x/bridge/types\<close>), \<open>Bridge_Keeper\<close> (\<^verbatim>\<open>x/bridge/keeper\<close>): attestations,
    control actions, their validation, identifiers and signatures; the keeper with replay markers, route
    state, limits, settlement; the six messages and genesis. \<open>Bridge_Facts\<close> has what each operation does
    when it succeeds and the bridge as a step relation, \<open>Bridge_Properties\<close> the properties of its runs:
    an attestation settles once, needs two distinct configured signers, mints within the caps; the
    native supply moves exactly with the outstanding amount; daily limits; the guardian can only pause;
    a paused route moves nothing; control actions need a quorum; identifiers determine attestations;
    what genesis keeps and what it forgets. \<open>Bridge_Demo\<close> is the instance of the witnesses.
  \<^item> \<open>Access_List\<close>, \<open>StateDB\<close> (\<^verbatim>\<open>x/vm/statedb\<close>), \<open>Snapshot_Store\<close> (\<^verbatim>\<open>x/vm/store\<close>): state
    objects, the journal with its thirteen entries, snapshots, reverts, precompile calls, commit; the
    stack of cached stores. \<open>StateDB_Spec\<close> is the abstract state an observer of the database sees and
    the undo of each journal entry on it, with the refinement of \<open>Revert\<close>; \<open>StateDB_Runs\<close> shows that
    every operation leaves a journal suffix that undoes it; \<open>StateDB_Properties\<close> concludes that along
    any run reverting to a live snapshot restores what was observable when it was taken (accounts are
    created only where none exist and self-destructed once), and has the refinement of the access list
    to sets, the arithmetic of balances, and the revert of a second self-destruct, which revives the
    account.
  \<^item> \<open>Admission\<close> (\<^verbatim>\<open>x/validatoradmission\<close>) and \<open>Admission_Properties\<close>: messages, store,
    queries, ante handler and genesis; capacity along every run, the lasting effect of a revocation, the
    ante handler as a declarative policy.
  \<^item> \<open>Dec\<close>, \<open>Evm_Denom\<close> (\<^verbatim>\<open>x/vm/types/denom.go\<close> and its configuration), \<open>Feemarket\<close>
    (\<^verbatim>\<open>x/feemarket\<close>), \<open>Feemarket_Properties\<close>: the decimals of the SDK as a parameter with its laws,
    the base fee computation, block handlers, parameters, genesis and wrappers; the formula is that of
    EIP-1559, the begin-block handler succeeds on valid parameters and keeps them valid, and the
    end-block handler fails exactly without a gas meter or outside the range of \<^verbatim>\<open>int64\<close>.
  \<^item> \<open>Incentives\<close> (\<^verbatim>\<open>x/validatorincentives\<close>), \<open>Incentives_Facts\<close>,
    \<open>Incentives_Properties\<close>: the release policy, periods, the begin-block handler, parameter updates,
    migration, genesis; the handler never fails in a good state and keeps it good, treasury and lifetime
    total account for each other along every run, a block releases exactly its share, a period's
    provision is within the configured rate.
  \<^item> \<open>Ante_Cosmos\<close> (\<^verbatim>\<open>ante/ante.go\<close>, \<^verbatim>\<open>ante/cosmos.go\<close>, \<^verbatim>\<open>ante/cosmos\<close>,
    \<^verbatim>\<open>ante/evm/fee_checker.go\<close>), \<open>Ante_Properties\<close>: routing, message filters, the authz limiter,
    minimum gas price, the dynamic fee; what passes the limiter, the composition with the admission
    handler, bounds of the fee.
  \<^item> \<open>Ante_Evm\<close> (\<^verbatim>\<open>ante/evm\<close>), \<open>Ante_Evm_Properties\<close>: the mono decorator with all its steps; a
    nonce of a sender is accepted once along every run, and what acceptance has established.
  \<^item> \<open>Gas_Search\<close>: gas estimation; it returns for caps below \<open>2 ^ 63\<close>, and when the result is the least
    limit.
  \<^item> \<open>Vm_Store\<close> (\<^verbatim>\<open>x/vm/keeper/statedb.go\<close>, \<^verbatim>\<open>keeper.go\<close>, \<^verbatim>\<open>x/vm/wrappers/bank.go\<close>), \<open>Vm_Gas\<close>
    (\<^verbatim>\<open>gas.go\<close>, \<^verbatim>\<open>fees.go\<close>, \<^verbatim>\<open>x/vm/types/gasmeter.go\<close>), \<open>Vm_Transition\<close>
    (\<^verbatim>\<open>state_transition.go\<close>, \<^verbatim>\<open>config.go\<close>, \<^verbatim>\<open>call_evm.go\<close>, \<^verbatim>\<open>msg_server.go\<close>): the EVM keeper.
    It implements the interface of the state database over the module store and the account and bank
    keepers; the state transition applies a message with an EVM that is a parameter. \<open>StateDB_Shape\<close> has
    what every run of the database keeps of its objects, \<open>Vm_Commit\<close> the effect of each keeper operation
    on each account, \<open>Vm_Commit_Properties\<close> that a successful commit persists exactly what the run left
    (zero slots included, as 32 zero bytes). \<open>Vm_Execution\<close> shows a message as a run of the database
    followed by the commit, \<open>Vm_Transition_Properties\<close> the bounds of the gas charged and that a failed
    transaction only pays, \<open>Vm_Fees\<close> that the fee collector receives exactly the gas used times the
    effective price. \<open>Vm_Demo\<close> and \<open>Vm_Example\<close> are the instances of the witnesses.

  \<^bold>\<open>Termination and bounds.\<close> All loops of the modelled code are structural recursions but two. The
  binary search of gas estimation is a \<open>partial_function\<close> into \<open>option\<close>, because it can run forever: it
  returns for every cap below \<open>2 ^ 63\<close>, and a theorem shows it diverging above. The binary search of the
  standard library over revisions is total and computed directly. No definition uses fuel.

  \<^bold>\<open>Not modelled.\<close>
  \<^item> The EVM interpreter is go-ethereum and outside the repository. Of the state transition around it,
    tracers, state overrides of queries and the module parameters that configure the EVM are left out.
    The properties of whole transactions are about executions that call no precompile writing to other
    modules; the state database itself is modelled with such calls.
  \<^item> Parameters, genesis and preinstalled contracts of \<^verbatim>\<open>x/vm\<close>, the ERC-20 module, the precompiled
    contracts and the mempool.
  \<^item> Gas of store access: it depends on the gas configuration of the SDK and only the out-of-gas abort
    could observe it. Logging, telemetry and tracing write no state.
  \<^item> JSON-RPC, server, command line, wallets and EIP-712 encoding are input and output around the node.
  \<^item> Generated protobuf code appears as records with the fields the handlers use; its codecs are
    parameters with a round-trip hypothesis where a property needs one.
\<close>

end
